(* ===== verification/Go_Prelude.thy ===== *)
theory Go_Prelude
  imports Main "HOL-Library.Sublist" "HOL-Library.Word"
begin

text \<open>
  The part of Go and of its standard library that the code of urunc uses on pure values:
  errors as values (\<open>errors\<close>, \<open>fmt.Errorf\<close>), byte strings (\<open>strings\<close>), decimal and
  hexadecimal numbers (\<open>strconv\<close>), UTF-8 (\<open>unicode/utf8\<close>). A Go string is a sequence of
  bytes, which is what \<^typ>\<open>string\<close> (a list of 8-bit characters) is. Every function that can
  return an error returns a value of type \<open>err + 'a\<close>, with \<open>Inl\<close> for the error.
\<close>

named_theorems go_simps \<open>unfolding rules of the sequencing combinators\<close>
named_theorems acts_intros \<open>introduction rules for the calls and results of a program in one world\<close>
named_theorems only_intros \<open>introduction rules for the calls a program may perform\<close>

section \<open>Errors\<close>

text \<open>The error numbers that the code distinguishes, and one constructor for all the others.\<close>

datatype errno = ENOENT | EEXIST | EBUSY | EINVAL | ESRCH | EPERM | EPROTO | EOF | EOther nat

text \<open>
  The sentinel errors of the packages, operating system errors, and the three ways the code
  builds an error around a message: \<open>Errorf\<close> (a format and its arguments), \<open>ErrorfW\<close> (the
  same with a wrapped error, the \<open>%w\<close> verb) and \<open>ErrorfV\<close> (an error that is only printed
  into the message, the \<open>%v\<close> verb). \<open>Joined\<close> is \<open>errors.Join\<close> of two errors. \<open>OutOfFuel\<close> is
  no error of the code: it marks a run of a loop that has not ended within the fuel given.
\<close>

datatype err =
    ErrQueueProxy | ErrNotExistingNS | ErrNotUnikernel | ErrNotSupportedUnikernel
  | ErrUndefinedVersion | ErrVersionParsing | ErrVMMNotInstalled | ErrHyperlightNoInitrd
  | ErrMountpoint | ErrNotRegularFile | ErrVAccelDisabled | ErrNoContainerIface
  | ErrEmptyContainerID | ErrInvalidID
  | Errno errno
  | Errorf string "string list"
  | ErrorfW string "string list" err
  | ErrorfV string "string list" err
  | Joined err err
  | OutOfFuel

text \<open>\<open>errors.Is\<close>: the error itself, or one it wraps or joins.\<close>

fun errors_Is :: "err \<Rightarrow> err \<Rightarrow> bool" where
  "errors_Is (ErrorfW f as e) target = (ErrorfW f as e = target \<or> errors_Is e target)"
| "errors_Is (Joined a b) target = (Joined a b = target \<or> errors_Is a target \<or> errors_Is b target)"
| "errors_Is e target = (e = target)"

text \<open>\<open>errors.Join\<close> of two possibly absent errors.\<close>

fun errors_Join :: "err option \<Rightarrow> err option \<Rightarrow> err option" where
  "errors_Join None b = b"
| "errors_Join a None = a"
| "errors_Join (Some a) (Some b) = Some (Joined a b)"

lemma errors_Join_None [simp]: "errors_Join a b = None \<longleftrightarrow> a = None \<and> b = None"
  by (cases a; cases b) auto

section \<open>Results\<close>

text \<open>Sequencing on results: the early return on an error, and an \<open>if\<close> that returns one.\<close>

definition bindE :: "err + 'a \<Rightarrow> ('a \<Rightarrow> err + 'b) \<Rightarrow> err + 'b" where
  "bindE r f = (case r of Inl e \<Rightarrow> Inl e | Inr x \<Rightarrow> f x)"

definition failIf :: "bool \<Rightarrow> err \<Rightarrow> err + unit" where
  "failIf b e = (if b then Inl e else Inr ())"

definition mapErr :: "(err \<Rightarrow> err) \<Rightarrow> err + 'a \<Rightarrow> err + 'a" where
  "mapErr f r = (case r of Inl e \<Rightarrow> Inl (f e) | Inr x \<Rightarrow> Inr x)"

lemma bindE_simps [simp, go_simps]:
  "bindE (Inl e) f = Inl e"
  "bindE (Inr x) f = f x"
  by (simp_all add: bindE_def)

lemma bindE_Inr_iff: "bindE r f = Inr y \<longleftrightarrow> (\<exists>x. r = Inr x \<and> f x = Inr y)"
  by (cases r) auto

lemma bindE_Inl_iff: "bindE r f = Inl e \<longleftrightarrow> r = Inl e \<or> (\<exists>x. r = Inr x \<and> f x = Inl e)"
  by (cases r) auto

lemma failIf_Inr_iff [simp]: "failIf b e = Inr u \<longleftrightarrow> \<not> b"
  by (simp add: failIf_def)

lemma failIf_Inl_iff [simp]: "failIf b e = Inl e' \<longleftrightarrow> b \<and> e' = e"
  by (auto simp: failIf_def)

lemma bindE_failIf [go_simps]: "bindE (failIf b e) f = (if b then Inl e else f ())"
  by (simp add: failIf_def)

lemma mapErr_simps [simp, go_simps]:
  "mapErr f (Inl e) = Inl (f e)"
  "mapErr f (Inr x) = Inr x"
  by (simp_all add: mapErr_def)

lemma mapErr_Inr_iff [simp]: "mapErr f r = Inr x \<longleftrightarrow> r = Inr x"
  by (cases r) auto

section \<open>Bytes and characters\<close>

definition byte :: "char \<Rightarrow> nat" where
  "byte c = of_char c"

lemma byte_bound [simp]: "byte c < 256"
  by (simp add: byte_def)

lemma byte_inj [simp]: "byte c = byte d \<longleftrightarrow> c = d"
  by (simp add: byte_def)

lemma byte_char_of [simp]: "n < 256 \<Longrightarrow> byte (char_of n) = n"
  by (simp add: byte_def)

definition isDigit :: "char \<Rightarrow> bool" where
  "isDigit c = (48 \<le> byte c \<and> byte c \<le> 57)"

definition isUpper :: "char \<Rightarrow> bool" where
  "isUpper c = (65 \<le> byte c \<and> byte c \<le> 90)"

definition isLower :: "char \<Rightarrow> bool" where
  "isLower c = (97 \<le> byte c \<and> byte c \<le> 122)"

definition isAlnum :: "char \<Rightarrow> bool" where
  "isAlnum c = (isDigit c \<or> isUpper c \<or> isLower c)"

definition NL :: char where
  "NL = CHR 0x0A"

definition TAB :: char where
  "TAB = CHR 0x09"

section \<open>Package strings\<close>

definition HasPrefix :: "string \<Rightarrow> string \<Rightarrow> bool" where
  "HasPrefix s p = (take (length p) s = p)"

definition HasSuffix :: "string \<Rightarrow> string \<Rightarrow> bool" where
  "HasSuffix s p = (length p \<le> length s \<and> drop (length s - length p) s = p)"

definition TrimPrefix :: "string \<Rightarrow> string \<Rightarrow> string" where
  "TrimPrefix s p = (if HasPrefix s p then drop (length p) s else s)"

definition TrimSuffix :: "string \<Rightarrow> string \<Rightarrow> string" where
  "TrimSuffix s p = (if HasSuffix s p then take (length s - length p) s else s)"

text \<open>\<open>strings.Contains\<close>: does the second string occur in the first?\<close>

fun Contains :: "string \<Rightarrow> string \<Rightarrow> bool" where
  "Contains [] p = (p = [])"
| "Contains (c # s) p = (HasPrefix (c # s) p \<or> Contains s p)"

text \<open>\<open>strings.Split\<close> with a separator of one byte, and \<open>strings.Join\<close>.\<close>

fun Split :: "char \<Rightarrow> string \<Rightarrow> string list" where
  "Split d [] = [[]]"
| "Split d (c # s) =
     (if c = d then [] # Split d s
      else (case Split d s of [] \<Rightarrow> [[c]] | w # ws \<Rightarrow> (c # w) # ws))"

fun Join :: "string list \<Rightarrow> string \<Rightarrow> string" where
  "Join [] sep = []"
| "Join [w] sep = w"
| "Join (w # v # ws) sep = w @ sep @ Join (v # ws) sep"

text \<open>\<open>strings.Cut\<close> at the first occurrence of a separator of one byte.\<close>

fun Cut :: "char \<Rightarrow> string \<Rightarrow> string \<times> string \<times> bool" where
  "Cut d [] = ([], [], False)"
| "Cut d (c # s) =
     (if c = d then ([], s, True)
      else (case Cut d s of (a, b, f) \<Rightarrow> (c # a, b, f)))"

lemma HasPrefix_iff: "HasPrefix s p \<longleftrightarrow> (\<exists>t. s = p @ t)"
  unfolding HasPrefix_def by (metis append_take_drop_id append_eq_conv_conj)

lemma HasPrefix_append [simp]: "HasPrefix (p @ t) p"
  by (auto simp: HasPrefix_iff)

lemma TrimPrefix_append [simp]: "TrimPrefix (p @ t) p = t"
  by (simp add: TrimPrefix_def)

lemma HasSuffix_append [simp]: "HasSuffix (t @ p) p"
  by (simp add: HasSuffix_def)

lemma TrimSuffix_append [simp]: "TrimSuffix (t @ p) p = t"
  by (simp add: TrimSuffix_def)

lemma Contains_iff: "Contains s p \<longleftrightarrow> (\<exists>a b. s = a @ p @ b)"
proof (induction s)
  case Nil
  show ?case by auto
next
  case (Cons c s)
  have "(\<exists>a b. c # s = a @ p @ b) \<longleftrightarrow> (\<exists>b. c # s = p @ b) \<or> (\<exists>a b. s = a @ p @ b)"
    by (metis append_Cons append_Nil list.inject neq_Nil_conv)
  then show ?case
    by (simp only: Contains.simps HasPrefix_iff Cons.IH)
qed

lemma Contains_single: "Contains s [c] \<longleftrightarrow> c \<in> set s"
  by (induction s) (auto simp: HasPrefix_def)

lemma Split_nonempty [simp]: "Split d s \<noteq> []"
  by (cases s) (auto split: list.splits)

lemma Split_Cons_neq:
  "c \<noteq> d \<Longrightarrow> Split d (c # s) = (c # hd (Split d s)) # tl (Split d s)"
  by (cases "Split d s") auto

lemma Join_Cons: "ws \<noteq> [] \<Longrightarrow> Join (w # ws) sep = w @ sep @ Join ws sep"
  by (cases ws) auto

lemma Join_snoc: "Join (ws @ [w]) d = (if ws = [] then w else Join ws d @ d @ w)"
  by (induction ws) (auto simp: Join_Cons)

lemma Join_Split: "Join (Split d s) [d] = s"
proof (induction s)
  case (Cons c s)
  show ?case
  proof (cases "c = d")
    case True
    then show ?thesis using Cons by (simp add: Join_Cons)
  next
    case False
    obtain w ws where ws: "Split d s = w # ws" by (cases "Split d s") auto
    then show ?thesis using Cons False by (cases ws) auto
  qed
qed simp

lemma Split_no_sep: "w \<in> set (Split d s) \<Longrightarrow> d \<notin> set w"
proof (induction s arbitrary: w)
  case (Cons c s)
  then show ?case by (auto split: if_splits list.splits)
qed simp

lemma Split_append_sep: "d \<notin> set w \<Longrightarrow> Split d (w @ d # s) = w # Split d s"
  by (induction w) (auto split: list.splits)

lemma Split_self: "d \<notin> set w \<Longrightarrow> Split d w = [w]"
  by (induction w) auto

lemma Split_Join:
  "ws \<noteq> [] \<Longrightarrow> \<forall>w \<in> set ws. d \<notin> set w \<Longrightarrow> Split d (Join ws [d]) = ws"
proof (induction ws)
  case (Cons w ws)
  then show ?case by (cases ws) (auto simp: Split_self Split_append_sep)
qed simp

lemma set_Split: "w \<in> set (Split d s) \<Longrightarrow> set w \<subseteq> set s"
proof (induction s arbitrary: w)
  case (Cons c s)
  show ?case
  proof (cases "c = d")
    case True
    then show ?thesis using Cons by (cases "w = []") auto
  next
    case False
    obtain v vs where v: "Split d s = v # vs" by (cases "Split d s") auto
    have "set v \<subseteq> set s" using Cons.IH [of v] v by simp
    moreover have "u \<in> set vs \<Longrightarrow> set u \<subseteq> set s" for u
      using Cons.IH [of u] v by simp
    ultimately show ?thesis using Cons.prems v False by auto
  qed
qed simp

lemma Cut_found: "Cut d s = (a, b, True) \<Longrightarrow> s = a @ d # b \<and> d \<notin> set a"
proof (induction s arbitrary: a)
  case (Cons c s)
  then show ?case by (auto split: if_splits prod.splits)
qed simp

lemma Cut_not_found: "Cut d s = (a, b, False) \<Longrightarrow> a = s \<and> b = [] \<and> d \<notin> set s"
proof (induction s arbitrary: a)
  case (Cons c s)
  then show ?case by (auto split: if_splits prod.splits)
qed simp

text \<open>
  White space as \<open>unicode.IsSpace\<close> has it: six ASCII bytes and the UTF-8 encodings of the other
  white space runes. \<open>space_at\<close> is the width in bytes of the white space rune a string starts
  with, 0 when it starts with none.
\<close>

fun space_at :: "nat list \<Rightarrow> nat" where
  "space_at [] = 0"
| "space_at (a # bs) =
     (if a \<in> {9, 10, 11, 12, 13, 32} then 1
      else case bs of
        [] \<Rightarrow> 0
      | b # cs \<Rightarrow>
          (if a = 194 \<and> (b = 133 \<or> b = 160) then 2
           else case cs of
             [] \<Rightarrow> 0
           | c # _ \<Rightarrow>
               (if a = 225 \<and> b = 154 \<and> c = 128 then 3
                else if a = 226 \<and> b = 128 \<and> (128 \<le> c \<and> c \<le> 138 \<or> c \<in> {168, 169, 175}) then 3
                else if a = 226 \<and> b = 129 \<and> c = 159 then 3
                else if a = 227 \<and> b = 128 \<and> c = 128 then 3 else 0)))"

definition leading_space :: "string \<Rightarrow> nat" where
  "leading_space s = space_at (map byte s)"

lemma space_at_le: "space_at bs \<le> length bs"
  by (cases bs) (auto split: list.splits)

lemma leading_space_le: "leading_space s \<le> length s"
  using space_at_le [of "map byte s"] by (simp add: leading_space_def)

function trimLeft :: "string \<Rightarrow> string" where
  "trimLeft s = (if leading_space s = 0 then s else trimLeft (drop (leading_space s) s))"
  by pat_completeness auto
termination
proof (relation "measure length")
  fix s assume n: "leading_space s \<noteq> 0"
  then have "s \<noteq> []" by (auto simp: leading_space_def)
  then show "(drop (leading_space s) s, s) \<in> measure length"
    using n by (cases s) auto
qed simp

declare trimLeft.simps [simp del]

text \<open>White space at the end: a suffix of one, two or three bytes that is a white space rune.\<close>

definition trailing_space :: "string \<Rightarrow> nat" where
  "trailing_space s =
     (if leading_space (drop (length s - 1) s) = 1 \<and> 1 \<le> length s then 1
      else if leading_space (drop (length s - 2) s) = 2 \<and> 2 \<le> length s then 2
      else if leading_space (drop (length s - 3) s) = 3 \<and> 3 \<le> length s then 3 else 0)"

lemma trailing_space_le: "trailing_space s \<le> length s"
  by (simp add: trailing_space_def)

function trimRight :: "string \<Rightarrow> string" where
  "trimRight s =
     (if trailing_space s = 0 then s else trimRight (take (length s - trailing_space s) s))"
  by pat_completeness auto
termination
proof (relation "measure length")
  fix s :: string assume n: "trailing_space s \<noteq> 0"
  then show "(take (length s - trailing_space s) s, s) \<in> measure length"
    using trailing_space_le [of s] by auto
qed simp

declare trimRight.simps [simp del]

definition TrimSpace :: "string \<Rightarrow> string" where
  "TrimSpace s = trimRight (trimLeft s)"

text \<open>\<open>strings.Fields\<close>: the maximal runs of bytes outside white space runes.\<close>

function fields_acc :: "string \<Rightarrow> string \<Rightarrow> string list" where
  "fields_acc w [] = (if w = [] then [] else [w])"
| "fields_acc w (c # s) =
     (if leading_space (c # s) = 0 then fields_acc (w @ [c]) s
      else (if w = [] then [] else [w]) @ fields_acc [] (drop (leading_space (c # s)) (c # s)))"
  by pat_completeness auto
termination
proof (relation "measure (\<lambda>(w, s). length s)", goal_cases)
  case (3 w c s)
  then show ?case by (cases "leading_space (c # s)") auto
qed auto

definition Fields :: "string \<Rightarrow> string list" where
  "Fields s = fields_acc [] s"

end
