(* ===== verification/Go_Strconv.thy ===== *)
theory Go_Strconv
  imports Go_Prelude
begin

text \<open>
  Package \<open>strconv\<close> as the code uses it: decimal and hexadecimal integers, booleans, and the
  binary verb \<open>%08b\<close> of \<open>fmt\<close>. The parsers are partial: \<open>None\<close> stands for the error of the
  Go function (syntax or range). The round trips between printing and parsing are proved here
  once and used by the configuration codec and by the wire formats.
\<close>

section \<open>Decimal numbers\<close>

definition digit_char :: "nat \<Rightarrow> char" where
  "digit_char d = char_of (48 + d)"

fun FormatUint :: "nat \<Rightarrow> string" where
  "FormatUint n =
     (if n < 10 then [digit_char n] else FormatUint (n div 10) @ [digit_char (n mod 10)])"

declare FormatUint.simps [simp del]

definition Itoa :: "int \<Rightarrow> string" where
  "Itoa i = (if i < 0 then CHR ''-'' # FormatUint (nat (- i)) else FormatUint (nat i))"

definition digit_val :: "char \<Rightarrow> nat" where
  "digit_val c = byte c - 48"

definition digits_val :: "string \<Rightarrow> nat" where
  "digits_val s = foldl (\<lambda>a c. a * 10 + digit_val c) 0 s"

definition parse_digits :: "string \<Rightarrow> nat option" where
  "parse_digits s = (if s \<noteq> [] \<and> list_all isDigit s then Some (digits_val s) else None)"

text \<open>\<open>strconv.Atoi\<close>: an optional sign, decimal digits, the range of a 64-bit \<open>int\<close>.\<close>

definition Atoi :: "string \<Rightarrow> int option" where
  "Atoi s =
     (case s of
        [] \<Rightarrow> None
      | c # t \<Rightarrow>
          (if c = CHR ''-'' then
             (case parse_digits t of None \<Rightarrow> None
              | Some n \<Rightarrow> if n \<le> 2 ^ 63 then Some (- int n) else None)
           else
             (case parse_digits (if c = CHR ''+'' then t else s) of None \<Rightarrow> None
              | Some n \<Rightarrow> if n < 2 ^ 63 then Some (int n) else None)))"

lemma digit_char_0 [simp]: "digit_char 0 = CHR ''0''"
  by code_simp

lemma digit_char_1 [simp]: "digit_char (Suc 0) = CHR ''1''"
  by code_simp

lemma byte_digit_char [simp]: "d < 10 \<Longrightarrow> byte (digit_char d) = 48 + d"
  by (simp add: digit_char_def)

lemma isDigit_digit_char [simp]: "d < 10 \<Longrightarrow> isDigit (digit_char d)"
  by (simp add: isDigit_def)

lemma digit_val_digit_char [simp]: "d < 10 \<Longrightarrow> digit_val (digit_char d) = d"
  by (simp add: digit_val_def)

lemma FormatUint_nonempty [simp]: "FormatUint n \<noteq> []"
  by (subst FormatUint.simps) simp

lemma FormatUint_digits [simp]: "list_all isDigit (FormatUint n)"
proof (induction n rule: FormatUint.induct)
  case (1 n)
  then show ?case by (subst FormatUint.simps) auto
qed

lemma digits_val_snoc: "digits_val (s @ [c]) = digits_val s * 10 + digit_val c"
  by (simp add: digits_val_def)

lemma digits_val_FormatUint [simp]: "digits_val (FormatUint n) = n"
proof (induction n rule: FormatUint.induct)
  case (1 n)
  then show ?case
    by (subst FormatUint.simps) (auto simp: digits_val_snoc, simp add: digits_val_def)
qed

lemma parse_digits_FormatUint [simp]: "parse_digits (FormatUint n) = Some n"
  by (simp add: parse_digits_def)

lemma FormatUint_inj: "FormatUint m = FormatUint n \<longleftrightarrow> m = n"
  by (metis digits_val_FormatUint)

lemma set_FormatUint: "c \<in> set (FormatUint n) \<Longrightarrow> isDigit c"
  using FormatUint_digits [of n] by (simp add: list_all_iff)

lemma isDigit_not_sign: "isDigit c \<Longrightarrow> c \<noteq> CHR ''-'' \<and> c \<noteq> CHR ''+'' \<and> c \<noteq> CHR ''.''"
  by (auto simp: isDigit_def byte_def)

lemma FormatUint_Cons: "FormatUint n = c # t \<Longrightarrow> isDigit c"
  using set_FormatUint [of c n] by simp

lemma FormatUint_zero: "FormatUint n = CHR ''0'' # t \<Longrightarrow> n = 0"
proof (induction n arbitrary: t rule: FormatUint.induct)
  case (1 n)
  show ?case
  proof (cases "n < 10")
    case True
    then have "digit_char n = CHR ''0''" using "1.prems" by (simp add: FormatUint.simps [of n])
    then have "digit_val (digit_char n) = 0" by (simp add: digit_val_def byte_def)
    then show ?thesis using True by simp
  next
    case False
    then have "\<exists>u. FormatUint (n div 10) = CHR ''0'' # u"
      using "1.prems" FormatUint.simps [of n] FormatUint_nonempty [of "n div 10"]
      by (cases "FormatUint (n div 10)") auto
    then have "n div 10 = 0" using "1.IH" [OF False] by blast
    then show ?thesis using False by simp
  qed
qed

lemma Atoi_FormatUint: "n < 2 ^ 63 \<Longrightarrow> Atoi (FormatUint n) = Some (int n)"
proof -
  assume n: "n < 2 ^ 63"
  obtain c t where ct: "FormatUint n = c # t" by (cases "FormatUint n") auto
  have "c \<noteq> CHR ''-''" "c \<noteq> CHR ''+''"
    using isDigit_not_sign [OF FormatUint_Cons [OF ct]] by auto
  then show ?thesis using n ct parse_digits_FormatUint [of n] by (simp add: Atoi_def)
qed

lemma Atoi_Itoa: "- (2 ^ 63) \<le> i \<Longrightarrow> i < 2 ^ 63 \<Longrightarrow> Atoi (Itoa i) = Some i"
proof (cases "i < 0")
  case True
  assume "- (2 ^ 63) \<le> i"
  then have "nat (- i) \<le> 2 ^ 63" by (simp add: nat_le_iff)
  then show ?thesis using True by (simp add: Itoa_def Atoi_def)
next
  case False
  assume "i < 2 ^ 63"
  then have "nat i < 2 ^ 63" using False by (simp add: nat_less_iff)
  then show ?thesis using False Atoi_FormatUint [of "nat i"] by (simp add: Itoa_def)
qed

lemma Atoi_range: "Atoi s = Some i \<Longrightarrow> - (2 ^ 63) \<le> i \<and> i < 2 ^ 63"
  by (auto simp: Atoi_def split: list.splits option.splits if_splits)

section \<open>Hexadecimal and binary numbers\<close>

definition isHex :: "char \<Rightarrow> bool" where
  "isHex c = (isDigit c \<or> 97 \<le> byte c \<and> byte c \<le> 102 \<or> 65 \<le> byte c \<and> byte c \<le> 70)"

definition hex_val :: "char \<Rightarrow> nat" where
  "hex_val c =
     (if isDigit c then byte c - 48 else if 97 \<le> byte c then byte c - 87 else byte c - 55)"

text \<open>\<open>strconv.ParseUint(s, 16, 32)\<close>: hexadecimal digits and no sign, below \<open>2 ^ 32\<close>.\<close>

definition ParseUint16_32 :: "string \<Rightarrow> nat option" where
  "ParseUint16_32 s =
     (if s \<noteq> [] \<and> list_all isHex s
      then (let n = foldl (\<lambda>a c. a * 16 + hex_val c) 0 s in if n < 2 ^ 32 then Some n else None)
      else None)"

text \<open>\<open>fmt.Sprintf("%08b", n)\<close>: the binary digits of \<open>n\<close>, padded with zeros to eight.\<close>

fun bin_digits :: "nat \<Rightarrow> string" where
  "bin_digits n =
     (if n < 2 then [digit_char n] else bin_digits (n div 2) @ [digit_char (n mod 2)])"

declare bin_digits.simps [simp del]

definition Sprintf_08b :: "nat \<Rightarrow> string" where
  "Sprintf_08b n = replicate (8 - length (bin_digits n)) (CHR ''0'') @ bin_digits n"

lemma bin_digits_chars: "set (bin_digits n) \<subseteq> {CHR ''0'', CHR ''1''}"
proof (induction n rule: bin_digits.induct)
  case (1 n)
  have "d < 2 \<Longrightarrow> digit_char d \<in> {CHR ''0'', CHR ''1''}" for d
    by (auto simp: less_2_cases_iff)
  with "1" show ?case by (subst bin_digits.simps) auto
qed

lemma count_bin_digits_le: "n < 2 ^ k \<Longrightarrow> count_list (bin_digits n) (CHR ''1'') \<le> max k 1"
proof (induction n arbitrary: k rule: bin_digits.induct)
  case (1 n)
  show ?case
  proof (cases "n < 2")
    case True
    then show ?thesis by (subst bin_digits.simps) auto
  next
    case False
    then have k: "k \<noteq> 0" "k \<noteq> 1" using "1.prems" by (auto intro: ccontr)
    then obtain j where j: "k = Suc (Suc j)" by (metis One_nat_def not0_implies_Suc)
    have "n div 2 < 2 ^ Suc j" using "1.prems" j by auto
    then have "count_list (bin_digits (n div 2)) (CHR ''1'') \<le> Suc j"
      using "1.IH" [of "Suc j"] False by simp
    then show ?thesis using False j by (subst bin_digits.simps) auto
  qed
qed

lemma count_Sprintf_08b: "count_list (Sprintf_08b n) (CHR ''1'') = count_list (bin_digits n) (CHR ''1'')"
proof -
  have "count_list (replicate k (CHR ''0'')) (CHR ''1'') = 0" for k
    by (induction k) auto
  then show ?thesis by (simp add: Sprintf_08b_def)
qed

section \<open>Booleans\<close>

definition FormatBool :: "bool \<Rightarrow> string" where
  "FormatBool b = (if b then ''true'' else ''false'')"

definition ParseBool :: "string \<Rightarrow> bool option" where
  "ParseBool s =
     (if s \<in> {''1'', ''t'', ''T'', ''TRUE'', ''true'', ''True''} then Some True
      else if s \<in> {''0'', ''f'', ''F'', ''FALSE'', ''false'', ''False''} then Some False
      else None)"

lemma ParseBool_FormatBool [simp]: "ParseBool (FormatBool b) = Some b"
  by (simp add: ParseBool_def FormatBool_def)

lemma ParseBool_Nil [simp]: "ParseBool [] = None"
  by (simp add: ParseBool_def)

end
