(* ===== verification/Go_Env.thy ===== *)
theory Go_Env
  imports Go_Prelude
begin

text \<open>
  Effects. Everything the code asks of the world outside \<open>src/\<close> (the kernel, the file system,
  the clock, a third-party package that reads them) is a \<open>call\<close>, and the world is a parameter of
  the model: a function \<open>\<omega>\<close> from the calls made so far and the new call to a reply. Any
  deterministic world is such a function, and a theorem for every \<open>\<omega>\<close> holds for every course
  the world can take. A program takes the world and the calls made so far and gives its
  result (an error or a value) and the calls made when it has finished, in order.
\<close>

type_synonym ('c, 'r) world = "'c list \<Rightarrow> 'c \<Rightarrow> 'r"

type_synonym ('c, 'r, 'a) M = "('c, 'r) world \<Rightarrow> 'c list \<Rightarrow> (err + 'a) \<times> 'c list"

section \<open>Combinators\<close>

definition retM :: "'a \<Rightarrow> ('c, 'r, 'a) M" where
  "retM x = (\<lambda>\<omega> t. (Inr x, t))"

definition failM :: "err \<Rightarrow> ('c, 'r, 'a) M" where
  "failM e = (\<lambda>\<omega> t. (Inl e, t))"

definition bindM :: "('c, 'r, 'a) M \<Rightarrow> ('a \<Rightarrow> ('c, 'r, 'b) M) \<Rightarrow> ('c, 'r, 'b) M" where
  "bindM m f = (\<lambda>\<omega> t. case m \<omega> t of (Inl e, t') \<Rightarrow> (Inl e, t') | (Inr x, t') \<Rightarrow> f x \<omega> t')"

text \<open>A pure result as a program, a failing program as a value, an error rewritten.\<close>

definition liftM :: "err + 'a \<Rightarrow> ('c, 'r, 'a) M" where
  "liftM r = (\<lambda>\<omega> t. (r, t))"

definition tryM :: "('c, 'r, 'a) M \<Rightarrow> ('c, 'r, err + 'a) M" where
  "tryM m = (\<lambda>\<omega> t. case m \<omega> t of (r, t') \<Rightarrow> (Inr r, t'))"

definition mapErrM :: "(err \<Rightarrow> err) \<Rightarrow> ('c, 'r, 'a) M \<Rightarrow> ('c, 'r, 'a) M" where
  "mapErrM f m = (\<lambda>\<omega> t. case m \<omega> t of (r, t') \<Rightarrow> (mapErr f r, t'))"

text \<open>One call: its reply, and the call recorded.\<close>

definition sysM :: "'c \<Rightarrow> ('c, 'r, 'r) M" where
  "sysM c = (\<lambda>\<omega> t. (Inr (\<omega> t c), t @ [c]))"

text \<open>A program run for each element of a list, stopping at the first error.\<close>

fun forM :: "'x list \<Rightarrow> ('x \<Rightarrow> ('c, 'r, unit) M) \<Rightarrow> ('c, 'r, unit) M" where
  "forM [] f = retM ()"
| "forM (x # xs) f = bindM (f x) (\<lambda>_. forM xs f)"

text \<open>The same with the results collected.\<close>

fun mapM :: "('x \<Rightarrow> ('c, 'r, 'y) M) \<Rightarrow> 'x list \<Rightarrow> ('c, 'r, 'y list) M" where
  "mapM f [] = retM []"
| "mapM f (x # xs) = bindM (f x) (\<lambda>y. bindM (mapM f xs) (\<lambda>ys. retM (y # ys)))"

definition wrapM :: "string \<Rightarrow> string list \<Rightarrow> ('c, 'r, 'a) M \<Rightarrow> ('c, 'r, 'a) M" where
  "wrapM fmt as m = mapErrM (ErrorfW fmt as) m"

definition runM :: "('c, 'r, 'a) M \<Rightarrow> ('c, 'r) world \<Rightarrow> (err + 'a) \<times> 'c list" where
  "runM m \<omega> = m \<omega> []"

lemmas M_defs = retM_def failM_def bindM_def liftM_def tryM_def mapErrM_def sysM_def wrapM_def

lemma retM_run [simp]: "retM x \<omega> t = (Inr x, t)"
  by (simp add: retM_def)

lemma failM_run [simp]: "failM e \<omega> t = (Inl e, t)"
  by (simp add: failM_def)

lemma liftM_run [simp]: "liftM r \<omega> t = (r, t)"
  by (simp add: liftM_def)

lemma sysM_run [simp]: "sysM c \<omega> t = (Inr (\<omega> t c), t @ [c])"
  by (simp add: sysM_def)

lemma bindM_run:
  "bindM m f \<omega> t = (case m \<omega> t of (Inl e, t') \<Rightarrow> (Inl e, t') | (Inr x, t') \<Rightarrow> f x \<omega> t')"
  by (simp add: bindM_def)

lemma tryM_run [simp]: "tryM m \<omega> t = (Inr (fst (m \<omega> t)), snd (m \<omega> t))"
  by (simp add: tryM_def split: prod.splits)

lemma mapErrM_run [simp]: "mapErrM f m \<omega> t = (mapErr f (fst (m \<omega> t)), snd (m \<omega> t))"
  by (simp add: mapErrM_def split: prod.splits)

lemma wrapM_run [simp]:
  "wrapM fmt as m \<omega> t = (mapErr (ErrorfW fmt as) (fst (m \<omega> t)), snd (m \<omega> t))"
  by (simp add: wrapM_def)

text \<open>The monad laws, and what it means that a sequence succeeds.\<close>

lemma bindM_retM [simp]: "bindM (retM x) f = f x"
  by (simp add: fun_eq_iff bindM_run)

lemma bindM_failM [simp]: "bindM (failM e) f = failM e"
  by (simp add: fun_eq_iff bindM_run)

lemma bindM_liftM [simp]:
  "bindM (liftM (Inl e)) f = failM e" "bindM (liftM (Inr x)) f = f x"
  by (simp_all add: fun_eq_iff bindM_run)

lemma bindM_retM_right [simp]: "bindM m retM = m"
  by (auto simp: fun_eq_iff bindM_run split: prod.splits sum.splits)

lemma bindM_assoc: "bindM (bindM m f) g = bindM m (\<lambda>x. bindM (f x) g)"
  by (auto simp: fun_eq_iff bindM_run split: prod.splits sum.splits)

lemma bindM_sysM: "bindM (sysM c) f \<omega> t = f (\<omega> t c) \<omega> (t @ [c])"
  by (simp add: bindM_run)

lemma bindM_Inr_iff:
  "bindM m f \<omega> t = (Inr y, t'') \<longleftrightarrow> (\<exists>x t'. m \<omega> t = (Inr x, t') \<and> f x \<omega> t' = (Inr y, t''))"
  by (auto simp: bindM_run split: prod.splits sum.splits)

lemma bindM_Inl_iff:
  "bindM m f \<omega> t = (Inl e, t'') \<longleftrightarrow>
    m \<omega> t = (Inl e, t'') \<or> (\<exists>x t'. m \<omega> t = (Inr x, t') \<and> f x \<omega> t' = (Inl e, t''))"
  by (auto simp: bindM_run split: prod.splits sum.splits)

section \<open>Which calls a program may perform\<close>

text \<open>
  \<open>only P m\<close>: whatever the world does, the calls \<open>m\<close> adds to the history all satisfy \<open>P\<close>
  (and it never rewrites the history).
\<close>

definition only :: "('c \<Rightarrow> bool) \<Rightarrow> ('c, 'r, 'a) M \<Rightarrow> bool" where
  "only P m \<longleftrightarrow> (\<forall>\<omega> t. \<exists>cs. snd (m \<omega> t) = t @ cs \<and> list_all P cs)"

lemma onlyD: "only P m \<Longrightarrow> \<exists>cs. snd (m \<omega> t) = t @ cs \<and> list_all P cs"
  by (simp add: only_def)

lemma only_run: "only P m \<Longrightarrow> c \<in> set (snd (runM m \<omega>)) \<Longrightarrow> P c"
  using onlyD [of P m \<omega> "[]"] by (auto simp: runM_def list_all_iff)

lemma only_retM [only_intros]: "only P (retM x)"
  by (simp add: only_def)

lemma only_failM [only_intros]: "only P (failM e)"
  by (simp add: only_def)

lemma only_liftM [only_intros]: "only P (liftM r)"
  by (simp add: only_def)

lemma only_sysM [only_intros]: "P c \<Longrightarrow> only P (sysM c)"
  by (simp add: only_def)

lemma only_tryM [only_intros]: "only P m \<Longrightarrow> only P (tryM m)"
  by (simp add: only_def)

lemma only_mapErrM [only_intros]: "only P m \<Longrightarrow> only P (mapErrM f m)"
  by (simp add: only_def)

lemma only_wrapM [only_intros]: "only P m \<Longrightarrow> only P (wrapM fmt as m)"
  by (simp add: only_def)

lemma only_bindM [only_intros]:
  assumes m: "only P m" and f: "\<And>x. only P (f x)"
  shows "only P (bindM m f)"
  unfolding only_def
proof (intro allI)
  fix \<omega> t
  obtain r t' where rt: "m \<omega> t = (r, t')" by (cases "m \<omega> t") auto
  obtain cs where cs: "t' = t @ cs" "list_all P cs"
    using onlyD [OF m, of \<omega> t] rt by auto
  show "\<exists>cs. snd (bindM m f \<omega> t) = t @ cs \<and> list_all P cs"
  proof (cases r)
    case (Inl e)
    then show ?thesis using rt cs by (simp add: bindM_run)
  next
    case (Inr x)
    obtain ds where "snd (f x \<omega> t') = t' @ ds" "list_all P ds"
      using onlyD [OF f] by blast
    then show ?thesis using rt cs Inr by (intro exI [of _ "cs @ ds"]) (simp add: bindM_run)
  qed
qed

lemma only_if [only_intros]: "(b \<Longrightarrow> only P m) \<Longrightarrow> (\<not> b \<Longrightarrow> only P n) \<Longrightarrow> only P (if b then m else n)"
  by simp

lemma only_case_option [only_intros]:
  "(x = None \<Longrightarrow> only P m) \<Longrightarrow> (\<And>y. x = Some y \<Longrightarrow> only P (f y)) \<Longrightarrow>
    only P (case x of None \<Rightarrow> m | Some y \<Rightarrow> f y)"
  by (cases x) auto

lemma only_case_sum [only_intros]:
  "(\<And>a. x = Inl a \<Longrightarrow> only P (f a)) \<Longrightarrow> (\<And>b. x = Inr b \<Longrightarrow> only P (g b)) \<Longrightarrow>
    only P (case x of Inl a \<Rightarrow> f a | Inr b \<Rightarrow> g b)"
  by (cases x) auto

lemma only_case_prod [only_intros]:
  "(\<And>a b. x = (a, b) \<Longrightarrow> only P (f a b)) \<Longrightarrow> only P (case x of (a, b) \<Rightarrow> f a b)"
  by (cases x) auto

lemma only_forM [only_intros]:
  "(\<And>x. x \<in> set xs \<Longrightarrow> only P (f x)) \<Longrightarrow> only P (forM xs f)"
  by (induction xs) (auto intro!: only_intros)

lemma only_mapM [only_intros]:
  "(\<And>x. x \<in> set xs \<Longrightarrow> only P (f x)) \<Longrightarrow> only P (mapM f xs)"
  by (induction xs) (auto intro!: only_intros)

lemma only_mono: "only P m \<Longrightarrow> (\<And>c. P c \<Longrightarrow> Q c) \<Longrightarrow> only Q m"
  unfolding only_def by (metis list.pred_mono_strong)

lemma only_any: "only P m \<Longrightarrow> only (\<lambda>_. True) m"
  by (rule only_mono) simp_all

lemma only_append: "only P m \<Longrightarrow> m \<omega> t = (r, t') \<Longrightarrow> \<exists>cs. t' = t @ cs \<and> list_all P cs"
  using onlyD [of P m \<omega> t] by simp

lemma only_result: "only P m \<Longrightarrow> \<exists>r ds. m \<omega> t = (r, t @ ds) \<and> list_all P ds"
  using onlyD [of P m \<omega> t] by (cases "m \<omega> t") auto

text \<open>A program that makes no call at all.\<close>

lemma only_False: "only (\<lambda>_. False) m \<longleftrightarrow> (\<forall>\<omega> t. snd (m \<omega> t) = t)"
proof -
  have "list_all (\<lambda>_. False) cs \<longleftrightarrow> cs = []" for cs :: "'a list"
    by (cases cs) auto
  then show ?thesis by (simp add: only_def)
qed

section \<open>Calls and results in one world\<close>

text \<open>
  \<open>acts \<omega> P m Q\<close>: in the world \<open>\<omega>\<close>, from any history, the calls that \<open>m\<close> adds satisfy \<open>P\<close>, and
  a value it returns satisfies \<open>Q\<close>. This is what a proof about a program needs when the calls
  depend on earlier replies.
\<close>

definition acts :: "('c, 'r) world \<Rightarrow> ('c \<Rightarrow> bool) \<Rightarrow> ('c, 'r, 'a) M \<Rightarrow> ('a \<Rightarrow> bool) \<Rightarrow> bool" where
  "acts \<omega> P m Q \<longleftrightarrow>
     (\<forall>t. (\<exists>cs. snd (m \<omega> t) = t @ cs \<and> list_all P cs) \<and> (\<forall>x. fst (m \<omega> t) = Inr x \<longrightarrow> Q x))"

lemma actsD:
  "acts \<omega> P m Q \<Longrightarrow> \<exists>cs. snd (m \<omega> t) = t @ cs \<and> list_all P cs"
  "acts \<omega> P m Q \<Longrightarrow> fst (m \<omega> t) = Inr x \<Longrightarrow> Q x"
  by (auto simp: acts_def)

lemma acts_run: "acts \<omega> P m Q \<Longrightarrow> c \<in> set (snd (runM m \<omega>)) \<Longrightarrow> P c"
  using actsD(1) [of \<omega> P m Q "[]"] by (auto simp: runM_def list_all_iff)

lemma acts_only: "only P m \<Longrightarrow> acts \<omega> P m (\<lambda>_. True)"
  by (simp add: acts_def only_def)

lemma acts_retM [acts_intros]: "Q x \<Longrightarrow> acts \<omega> P (retM x) Q"
  by (simp add: acts_def)

lemma acts_failM [acts_intros]: "acts \<omega> P (failM e) Q"
  by (simp add: acts_def)

lemma acts_liftM [acts_intros]: "(\<And>x. r = Inr x \<Longrightarrow> Q x) \<Longrightarrow> acts \<omega> P (liftM r) Q"
  by (simp add: acts_def)

lemma acts_mapErrM [acts_intros]: "acts \<omega> P m Q \<Longrightarrow> acts \<omega> P (mapErrM f m) Q"
  by (simp add: acts_def)

lemma acts_wrapM [acts_intros]: "acts \<omega> P m Q \<Longrightarrow> acts \<omega> P (wrapM fmt as m) Q"
  by (simp add: acts_def)

lemma acts_tryM [acts_intros]: "acts \<omega> P m Q \<Longrightarrow> acts \<omega> P (tryM m) (\<lambda>r. \<forall>x. r = Inr x \<longrightarrow> Q x)"
  by (simp add: acts_def)

lemma acts_bindM:
  assumes m: "acts \<omega> P m R" and f: "\<And>x. R x \<Longrightarrow> acts \<omega> P (f x) Q"
  shows "acts \<omega> P (bindM m f) Q"
  unfolding acts_def
proof (intro allI)
  fix t
  obtain r t' where rt: "m \<omega> t = (r, t')" by (cases "m \<omega> t") auto
  obtain cs where cs: "t' = t @ cs" "list_all P cs" using actsD(1) [OF m, of t] rt by auto
  show "(\<exists>cs. snd (bindM m f \<omega> t) = t @ cs \<and> list_all P cs) \<and> (\<forall>x. fst (bindM m f \<omega> t) = Inr x \<longrightarrow> Q x)"
  proof (cases r)
    case (Inl e)
    then show ?thesis using rt cs by (simp add: bindM_run)
  next
    case (Inr x)
    then have "R x" using actsD(2) [OF m, of t] rt by simp
    note fx = f [OF this]
    obtain ds where "snd (f x \<omega> t') = t' @ ds" "list_all P ds" using actsD(1) [OF fx] by blast
    then show ?thesis using rt cs Inr actsD(2) [OF fx, of t'] by (auto simp: bindM_run)
  qed
qed

lemma acts_mono: "acts \<omega> P m Q \<Longrightarrow> (\<And>x. Q x \<Longrightarrow> Q' x) \<Longrightarrow> acts \<omega> P m Q'"
  by (simp add: acts_def)

lemma acts_forM [acts_intros]:
  "(\<And>x. x \<in> set xs \<Longrightarrow> acts \<omega> P (f x) (\<lambda>_. True)) \<Longrightarrow> acts \<omega> P (forM xs f) (\<lambda>_. True)"
proof (induction xs)
  case (Cons x xs)
  then have "acts \<omega> P (f x) (\<lambda>_. True)" "acts \<omega> P (forM xs f) (\<lambda>_. True)" by simp_all
  then show ?case by (auto intro: acts_bindM)
qed (auto intro: acts_intros)

section \<open>What lies in front of a call\<close>

text \<open>
  \<open>behind \<omega> t C R m\<close>: when \<open>m\<close>, run in the world \<open>\<omega>\<close> from the history \<open>t\<close> on, makes a call of the kind
  \<open>C\<close>, the history in front of the call and the call satisfy \<open>R\<close>.
\<close>

definition behind ::
  "('c, 'r) world \<Rightarrow> 'c list \<Rightarrow> ('c \<Rightarrow> bool) \<Rightarrow> ('c list \<Rightarrow> 'c \<Rightarrow> bool) \<Rightarrow> ('c, 'r, 'a) M \<Rightarrow> bool" where
  "behind \<omega> t C R m \<longleftrightarrow>
     (\<exists>ds. snd (m \<omega> t) = t @ ds \<and> (\<forall>pre c post. ds = pre @ c # post \<longrightarrow> C c \<longrightarrow> R (t @ pre) c))"

lemma behind_run: "behind \<omega> [] C R m \<Longrightarrow> snd (runM m \<omega>) = pre @ c # post \<Longrightarrow> C c \<Longrightarrow> R pre c"
  unfolding behind_def runM_def by simp

lemma behind_only: "only (\<lambda>c. \<not> C c) m \<Longrightarrow> behind \<omega> t C R m"
  unfolding behind_def by (fastforce dest: onlyD simp: list_all_iff)

lemma behind_mono: "behind \<omega> t C R m \<Longrightarrow> (\<And>ds c. R (t @ ds) c \<Longrightarrow> R' (t @ ds) c) \<Longrightarrow> behind \<omega> t C R' m"
  unfolding behind_def by blast

lemma behind_case_prod: "(\<And>a b. p = (a, b) \<Longrightarrow> behind \<omega> t C R (f a b)) \<Longrightarrow> behind \<omega> t C R (case p of (a, b) \<Rightarrow> f a b)"
  by (cases p) simp

lemma behind_if: "(b \<Longrightarrow> behind \<omega> t C R m) \<Longrightarrow> (\<not> b \<Longrightarrow> behind \<omega> t C R n) \<Longrightarrow> behind \<omega> t C R (if b then m else n)"
  by simp

lemma behind_sysM: "(C c \<Longrightarrow> R t c) \<Longrightarrow> behind \<omega> t C R (sysM c)"
  unfolding behind_def by (auto simp: sysM_def Cons_eq_append_conv)

lemma behind_tryM: "behind \<omega> t C R m \<Longrightarrow> behind \<omega> t C R (tryM m)"
  by (simp add: behind_def)

lemma behind_wrapM: "behind \<omega> t C R m \<Longrightarrow> behind \<omega> t C R (wrapM fmt as m)"
  by (simp add: behind_def)

lemma behind_bindM:
  assumes m: "behind \<omega> t C R m" and f: "\<And>x ds. m \<omega> t = (Inr x, t @ ds) \<Longrightarrow> behind \<omega> (t @ ds) C R (f x)"
  shows "behind \<omega> t C R (bindM m f)"
proof -
  obtain ds where ds: "snd (m \<omega> t) = t @ ds" "\<And>pre c post. ds = pre @ c # post \<Longrightarrow> C c \<Longrightarrow> R (t @ pre) c"
    using m unfolding behind_def by blast
  obtain r where r: "m \<omega> t = (r, t @ ds)" using ds(1) by (cases "m \<omega> t") auto
  show ?thesis
  proof (cases r)
    case (Inl e)
    then show ?thesis using r ds(2) unfolding behind_def by (intro exI [of _ ds]) (simp add: bindM_run)
  next
    case (Inr x)
    obtain es where es: "snd (f x \<omega> (t @ ds)) = (t @ ds) @ es"
      "\<And>pre c post. es = pre @ c # post \<Longrightarrow> C c \<Longrightarrow> R ((t @ ds) @ pre) c"
      using f [OF r [unfolded Inr]] unfolding behind_def by blast
    have "R (t @ pre) c" if eq: "ds @ es = pre @ c # post" and C: "C c" for pre c post
    proof -
      from eq consider q where "ds = pre @ c # q" | p where "pre = ds @ p" "es = p @ c # post"
        by (auto simp: append_eq_append_conv2 append_eq_Cons_conv)
      then show ?thesis by cases (use ds(2) es(2) C in auto)
    qed
    then show ?thesis using r Inr es(1) unfolding behind_def by (intro exI [of _ "ds @ es"]) (simp add: bindM_run)
  qed
qed

lemma behind_skip:
  "only (\<lambda>c. \<not> C c) m \<Longrightarrow> (\<And>x ds. m \<omega> t = (Inr x, t @ ds) \<Longrightarrow> behind \<omega> (t @ ds) C R (f x)) \<Longrightarrow>
     behind \<omega> t C R (bindM m f)"
  by (rule behind_bindM [OF behind_only])

end
