(* ===== verification/Host.thy ===== *)
theory Host
  imports Go_Env Go_Strconv
begin

text \<open>
  The calls urunc makes to the world outside \<open>src/\<close>, grouped by what they act on, and the replies
  it gets. A call carries the arguments the code passes. A constructor is named after the system
  call, the function of the Go standard library or the function of the third-party package it
  stands for. A reply of the wrong shape counts as an error, so a theorem for every world covers
  every failure of every call.
\<close>

section \<open>Calls\<close>

text \<open>Files, directories and paths (\<open>os\<close>, \<open>unix\<close>, \<open>filepath-securejoin\<close>).\<close>

datatype fs_call =
    Stat string | Lstat string | Statfs string | ReadFile string
  | WriteFile string string nat | Create string | OpenExcl string | WriteString string string
  | MkdirAll string nat | Remove string | RemoveAll string | Rename string string
  | Chmod string nat | Chown string nat nat | Mknod string nat nat
  | Symlink string string | Readlink string | OpenCreate string nat
  | SecureJoin string string | CopyData string string
  | OpenRead string | OpenWrite string | FStat string | ReadAll string | CloseFile string

text \<open>Mounts and block devices (\<open>unix\<close>, \<open>mountinfo\<close>, \<open>containerd/mount\<close>, \<open>userns\<close>).\<close>

datatype mnt_call =
    Mount string string string nat string | Unmount string nat | GetMounts | Mounted string
  | CdMount string string string "string list" | LoopStat string | LoopSetFlags string nat
  | RunningInUserNS

text \<open>Processes, users, time (\<open>syscall\<close>, \<open>unix\<close>, \<open>os/exec\<close>, \<open>time\<close>).\<close>

datatype proc_call =
    Kill int int | Now | Sleep nat | LookPath string | Exec string "string list" "string list"
  | StartProc "string list" | RunCmd "string list"
  | RunHook string "string list" "string list" string "int option"
  | Setgroups "nat list" | Setgid nat | Setuid nat
  | Chdir string | Chroot string | PivotRoot string string | Environ
  | Getwd | Getenv string | Geteuid | Stdout string

text \<open>Sockets, the ready pipe and the init socket (\<open>net\<close>, \<open>os\<close>, \<open>syscall\<close>).\<close>

datatype ipc_call =
    Dial string | Listen string | Accept | ConnWrite string | ConnRead nat | ConnClose
  | ListenerClose string | FifoOpen string | FifoRead | FifoClose | Mkfifo string nat
  | FdWrite nat "nat list" | FdClose nat | FdCloexec nat

text \<open>
  Network interfaces and traffic rules (\<open>net\<close>, \<open>vishvananda/netlink\<close>, \<open>jackpal/gateway\<close>) and the
  network namespace of the thread (\<open>unix\<close>). A link is known by its name and index; its attributes
  can be missing.
\<close>

record link =
  lk_Name :: string
  lk_Index :: int
  lk_Loopback :: bool
  lk_MTU :: int
  lk_MAC :: string

datatype net_call =
    Interfaces | InterfaceByName string | IfAddrs string | DiscoverGateway
  | NewHandle | HandleClose | LinkList | AddrList link | RouteList link
  | TapAdd string | TapSetOwner string int | TapSetGroup string int | TapFdClose string
  | LinkSetMTU link int | LinkSetUp link | LinkSetDown link | LinkDel link
  | IngressAdd int | RedirectAdd int int | ParseAddr string | AddrReplace link string
  | QdiscList link | QdiscDel "nat \<times> int" | FilterList link | FilterDel string
  | OpenNs string | Setns string | CloseNs string

text \<open>
  The libcontainer package of runc: the configuration of a container (whether it has seccomp rules,
  its device rules, the kinds of hooks it runs, and all that urunc does not touch), the process
  started in it, and the sets of capabilities.
\<close>

record OciCaps =
  Cap_Bounding :: "string list"
  Cap_Effective :: "string list"
  Cap_Permitted :: "string list"
  Cap_Inheritable :: "string list"
  Cap_Ambient :: "string list"

record lib_config =
  lc_Seccomp :: bool
  lc_DeviceRules :: "(char \<times> bool) list"
  lc_Hooks :: "string list"
  lc_Other :: string

record lib_process =
  lp_Args :: "string list"
  lp_Env :: "string list"
  lp_Cwd :: string
  lp_Init :: bool
  lp_Caps :: "OciCaps option"
  lp_LogLevel :: string
  lp_ExtraFiles :: "string list"
  lp_Terminal :: bool

text \<open>
  Besides libcontainer, the child process that create starts behind a socket pair and a log pipe,
  and the console. A file made from a descriptor number is known by that number.
\<close>

datatype lib_call =
    LibLoad string string | LibDestroy | LibExec
  | LibCreate string string lib_config | LibStart lib_process | LibState | LibKillInit | LibWaitInit
  | SockPair string | PipeNew | StartReexec "string list" "string list" bool | PtyName | PtyClose
  | ConsoleDial string | ConsoleSend string | ConsoleFile | ConsoleClose
  | ParentClose | ChildClose | LogClose | InitCopy "nat list" | InitWrite string
  | FileRead int nat | NewFileClose int
  | NsenterPids | WaitPid int | WaitReexec | ReexecWait | WaitLogs

text \<open>An open initrd and the reader and writer of the \<open>cpio\<close> package on it.\<close>

record cpio_hdr =
  ch_Name :: string
  ch_Inode :: int
  ch_Mode :: nat
  ch_Uid :: nat
  ch_Guid :: nat
  ch_Links :: nat
  ch_ModTime :: "(int \<times> int) option"
  ch_Size :: nat

datatype ird_call =
    OpenAppend string nat | OpenRdwr string | FileClose string
  | Truncate nat | SeekStart nat | SeekCur | ReadAt nat nat
  | CpioNext | CopyDiscard | CpioHeader cpio_hdr | CpioData string | CpioClose

datatype call =
    Fs fs_call | Mnt mnt_call | Proc proc_call | Ipc ipc_call | Ird ird_call | Net net_call | Lib lib_call

section \<open>Replies\<close>

text \<open>What \<open>stat\<close> reports: the mode with the type of the file in its upper bits, owner, device
  numbers, size, and the time of the last change.\<close>

datatype file_type = Regular | Directory | CharDev | BlockDev | Sock | SymlinkT | FifoT | OtherType

record stat_info =
  st_mode :: nat
  st_uid :: nat
  st_gid :: nat
  st_major :: nat
  st_minor :: nat
  st_size :: nat
  st_mtime :: "int \<times> int"

definition S_IFREG :: nat where
  "S_IFREG = 32768"

definition st_type :: "stat_info \<Rightarrow> file_type" where
  "st_type s =
     (let t = st_mode s div 4096 mod 16
      in if t = 8 then Regular else if t = 4 then Directory else if t = 2 then CharDev
         else if t = 6 then BlockDev else if t = 12 then Sock else if t = 10 then SymlinkT
         else if t = 1 then FifoT else OtherType)"

definition st_perm :: "stat_info \<Rightarrow> nat" where
  "st_perm s = st_mode s mod 512"

text \<open>An entry of \<open>/proc/thread-self/mountinfo\<close> as \<open>moby/sys/mountinfo\<close> gives it.\<close>

record mount_entry =
  mi_Mountpoint :: string
  mi_Source :: string
  mi_FSType :: string
  mi_Options :: string

datatype reply =
    ROk | RErr err | RStr string | RInt int | RBool bool | RStrs "string list"
  | RStat stat_info | RStatfs nat int | RMounts "mount_entry list" | RHdr cpio_hdr | RRead string "err option"
  | RLinks "link option list" | RLink link nat | RAddrs "(nat list \<times> nat list) option list"
  | RRoutes "string option list" | RQdiscs "(nat \<times> int) list" | RPids int int
  | RRun string string "err option" bool

type_synonym host = "(call, reply) world"

type_synonym 'a prog = "(call, reply, 'a) M"

section \<open>Calls by the shape of their reply\<close>

definition badReply :: err where
  "badReply = Errno EPROTO"

definition callU :: "call \<Rightarrow> unit prog" where
  "callU c = bindM (sysM c) (\<lambda>r. case r of ROk \<Rightarrow> retM () | RErr e \<Rightarrow> failM e | _ \<Rightarrow> failM badReply)"

definition callS :: "call \<Rightarrow> string prog" where
  "callS c = bindM (sysM c) (\<lambda>r. case r of RStr s \<Rightarrow> retM s | RErr e \<Rightarrow> failM e | _ \<Rightarrow> failM badReply)"

definition callI :: "call \<Rightarrow> int prog" where
  "callI c = bindM (sysM c) (\<lambda>r. case r of RInt i \<Rightarrow> retM i | RErr e \<Rightarrow> failM e | _ \<Rightarrow> failM badReply)"

definition callB :: "call \<Rightarrow> bool prog" where
  "callB c = bindM (sysM c) (\<lambda>r. case r of RBool b \<Rightarrow> retM b | RErr e \<Rightarrow> failM e | _ \<Rightarrow> failM badReply)"

definition callStat :: "call \<Rightarrow> stat_info prog" where
  "callStat c =
     bindM (sysM c) (\<lambda>r. case r of RStat s \<Rightarrow> retM s | RErr e \<Rightarrow> failM e | _ \<Rightarrow> failM badReply)"

definition callMounts :: "call \<Rightarrow> mount_entry list prog" where
  "callMounts c =
     bindM (sysM c) (\<lambda>r. case r of RMounts m \<Rightarrow> retM m | RErr e \<Rightarrow> failM e | _ \<Rightarrow> failM badReply)"

definition callStrs :: "call \<Rightarrow> string list prog" where
  "callStrs c =
     bindM (sysM c) (\<lambda>r. case r of RStrs m \<Rightarrow> retM m | RErr e \<Rightarrow> failM e | _ \<Rightarrow> failM badReply)"

definition callHdr :: "call \<Rightarrow> cpio_hdr prog" where
  "callHdr c =
     bindM (sysM c) (\<lambda>r. case r of RHdr m \<Rightarrow> retM m | RErr e \<Rightarrow> failM e | _ \<Rightarrow> failM badReply)"

text \<open>A read that gives the bytes it got together with the error that cut it short.\<close>

definition callRead :: "call \<Rightarrow> (string \<times> err option) prog" where
  "callRead c =
     bindM (sysM c) (\<lambda>r. case r of RRead s e \<Rightarrow> retM (s, e) | RErr e \<Rightarrow> retM ([], Some e)
                       | _ \<Rightarrow> retM ([], Some badReply))"

text \<open>
  A command that was run to its end: what it wrote to its standard output and error, the error of
  the run, and whether that is the exit status of the command.
\<close>

definition callRun :: "call \<Rightarrow> (string \<times> string \<times> (err option \<times> bool)) prog" where
  "callRun c =
     bindM (sysM c) (\<lambda>r. case r of RRun so se e x \<Rightarrow> retM (so, se, (e, x))
       | RErr e \<Rightarrow> retM ([], [], (Some e, False)) | _ \<Rightarrow> retM ([], [], (Some badReply, False)))"

text \<open>The clock, which cannot fail.\<close>

definition callNow :: "int prog" where
  "callNow = bindM (sysM (Proc Now)) (\<lambda>r. case r of RInt i \<Rightarrow> retM i | _ \<Rightarrow> retM 0)"

text \<open>Flags of a mounted file system and its magic number; a question that cannot fail.\<close>

definition callStatfs :: "call \<Rightarrow> (nat \<times> int) prog" where
  "callStatfs c =
     bindM (sysM c) (\<lambda>r. case r of RStatfs f m \<Rightarrow> retM (f, m) | RErr e \<Rightarrow> failM e | _ \<Rightarrow> failM badReply)"

definition callFlag :: "call \<Rightarrow> bool prog" where
  "callFlag c = bindM (sysM c) (\<lambda>r. case r of RBool b \<Rightarrow> retM b | _ \<Rightarrow> retM False)"

definition callLinks :: "call \<Rightarrow> link option list prog" where
  "callLinks c =
     bindM (sysM c) (\<lambda>r. case r of RLinks l \<Rightarrow> retM l | RErr e \<Rightarrow> failM e | _ \<Rightarrow> failM badReply)"

definition callLink :: "call \<Rightarrow> (link \<times> nat) prog" where
  "callLink c =
     bindM (sysM c) (\<lambda>r. case r of RLink l n \<Rightarrow> retM (l, n) | RErr e \<Rightarrow> failM e | _ \<Rightarrow> failM badReply)"

definition callAddrs :: "call \<Rightarrow> (nat list \<times> nat list) option list prog" where
  "callAddrs c =
     bindM (sysM c) (\<lambda>r. case r of RAddrs l \<Rightarrow> retM l | RErr e \<Rightarrow> failM e | _ \<Rightarrow> failM badReply)"

definition callRoutes :: "call \<Rightarrow> string option list prog" where
  "callRoutes c =
     bindM (sysM c) (\<lambda>r. case r of RRoutes l \<Rightarrow> retM l | RErr e \<Rightarrow> failM e | _ \<Rightarrow> failM badReply)"

definition callQdiscs :: "call \<Rightarrow> (nat \<times> int) list prog" where
  "callQdiscs c =
     bindM (sysM c) (\<lambda>r. case r of RQdiscs l \<Rightarrow> retM l | RErr e \<Rightarrow> failM e | _ \<Rightarrow> failM badReply)"

definition callPids :: "call \<Rightarrow> (int \<times> int) prog" where
  "callPids c =
     bindM (sysM c) (\<lambda>r. case r of RPids a b \<Rightarrow> retM (a, b) | RErr e \<Rightarrow> failM e | _ \<Rightarrow> failM badReply)"

lemmas call_defs =
  callNow_def
  callHdr_def callRead_def callU_def callS_def callI_def callB_def callStat_def callMounts_def callStrs_def

lemma callU_run:
  "callU c \<omega> t = (case \<omega> t c of ROk \<Rightarrow> Inr () | RErr e \<Rightarrow> Inl e | _ \<Rightarrow> Inl badReply, t @ [c])"
  by (simp add: callU_def bindM_sysM split: reply.splits)

lemma callS_run:
  "callS c \<omega> t = (case \<omega> t c of RStr s \<Rightarrow> Inr s | RErr e \<Rightarrow> Inl e | _ \<Rightarrow> Inl badReply, t @ [c])"
  by (simp add: callS_def bindM_sysM split: reply.splits)

lemma callI_run:
  "callI c \<omega> t = (case \<omega> t c of RInt s \<Rightarrow> Inr s | RErr e \<Rightarrow> Inl e | _ \<Rightarrow> Inl badReply, t @ [c])"
  by (simp add: callI_def bindM_sysM split: reply.splits)

lemma callB_run:
  "callB c \<omega> t = (case \<omega> t c of RBool s \<Rightarrow> Inr s | RErr e \<Rightarrow> Inl e | _ \<Rightarrow> Inl badReply, t @ [c])"
  by (simp add: callB_def bindM_sysM split: reply.splits)

lemma callStat_run:
  "callStat c \<omega> t = (case \<omega> t c of RStat s \<Rightarrow> Inr s | RErr e \<Rightarrow> Inl e | _ \<Rightarrow> Inl badReply, t @ [c])"
  by (simp add: callStat_def bindM_sysM split: reply.splits)

lemma callMounts_run:
  "callMounts c \<omega> t =
    (case \<omega> t c of RMounts s \<Rightarrow> Inr s | RErr e \<Rightarrow> Inl e | _ \<Rightarrow> Inl badReply, t @ [c])"
  by (simp add: callMounts_def bindM_sysM split: reply.splits)

lemma callStrs_run:
  "callStrs c \<omega> t =
    (case \<omega> t c of RStrs s \<Rightarrow> Inr s | RErr e \<Rightarrow> Inl e | _ \<Rightarrow> Inl badReply, t @ [c])"
  by (simp add: callStrs_def bindM_sysM split: reply.splits)

lemma callHdr_run:
  "callHdr c \<omega> t =
    (case \<omega> t c of RHdr s \<Rightarrow> Inr s | RErr e \<Rightarrow> Inl e | _ \<Rightarrow> Inl badReply, t @ [c])"
  by (simp add: callHdr_def bindM_sysM split: reply.splits)

lemma callRead_run:
  "callRead c \<omega> t =
    (Inr (case \<omega> t c of RRead s e \<Rightarrow> (s, e) | RErr e \<Rightarrow> ([], Some e) | _ \<Rightarrow> ([], Some badReply)), t @ [c])"
  by (simp add: callRead_def bindM_sysM split: reply.splits)

lemma callRun_run:
  "callRun c \<omega> t =
    (Inr (case \<omega> t c of RRun so se e x \<Rightarrow> (so, se, (e, x)) | RErr e \<Rightarrow> ([], [], (Some e, False))
      | _ \<Rightarrow> ([], [], (Some badReply, False))), t @ [c])"
  by (simp add: callRun_def bindM_sysM split: reply.splits)

lemma callNow_run:
  "callNow \<omega> t = (Inr (case \<omega> t (Proc Now) of RInt i \<Rightarrow> i | _ \<Rightarrow> 0), t @ [Proc Now])"
  by (simp add: callNow_def bindM_sysM split: reply.splits)

lemma callStatfs_run:
  "callStatfs c \<omega> t =
    (case \<omega> t c of RStatfs f m \<Rightarrow> Inr (f, m) | RErr e \<Rightarrow> Inl e | _ \<Rightarrow> Inl badReply, t @ [c])"
  by (simp add: callStatfs_def bindM_sysM split: reply.splits)

lemma callFlag_run:
  "callFlag c \<omega> t = (Inr (case \<omega> t c of RBool b \<Rightarrow> b | _ \<Rightarrow> False), t @ [c])"
  by (simp add: callFlag_def bindM_sysM split: reply.splits)

lemma callLinks_run:
  "callLinks c \<omega> t =
    (case \<omega> t c of RLinks l \<Rightarrow> Inr l | RErr e \<Rightarrow> Inl e | _ \<Rightarrow> Inl badReply, t @ [c])"
  by (simp add: callLinks_def bindM_sysM split: reply.splits)

lemma callLink_run:
  "callLink c \<omega> t =
    (case \<omega> t c of RLink l n \<Rightarrow> Inr (l, n) | RErr e \<Rightarrow> Inl e | _ \<Rightarrow> Inl badReply, t @ [c])"
  by (simp add: callLink_def bindM_sysM split: reply.splits)

lemma callAddrs_run:
  "callAddrs c \<omega> t =
    (case \<omega> t c of RAddrs l \<Rightarrow> Inr l | RErr e \<Rightarrow> Inl e | _ \<Rightarrow> Inl badReply, t @ [c])"
  by (simp add: callAddrs_def bindM_sysM split: reply.splits)

lemma callRoutes_run:
  "callRoutes c \<omega> t =
    (case \<omega> t c of RRoutes l \<Rightarrow> Inr l | RErr e \<Rightarrow> Inl e | _ \<Rightarrow> Inl badReply, t @ [c])"
  by (simp add: callRoutes_def bindM_sysM split: reply.splits)

lemma callQdiscs_run:
  "callQdiscs c \<omega> t =
    (case \<omega> t c of RQdiscs l \<Rightarrow> Inr l | RErr e \<Rightarrow> Inl e | _ \<Rightarrow> Inl badReply, t @ [c])"
  by (simp add: callQdiscs_def bindM_sysM split: reply.splits)

lemma callPids_run:
  "callPids c \<omega> t =
    (case \<omega> t c of RPids a b \<Rightarrow> Inr (a, b) | RErr e \<Rightarrow> Inl e | _ \<Rightarrow> Inl badReply, t @ [c])"
  by (simp add: callPids_def bindM_sysM split: reply.splits)

lemma only_callNow [only_intros]: "P (Proc Now) \<Longrightarrow> only P callNow"
  by (auto simp: only_def callNow_run)

lemmas call_runs =
  callRun_run callLinks_run callLink_run callAddrs_run callRoutes_run callQdiscs_run callPids_run
  callStatfs_run callFlag_run callNow_run callHdr_run callRead_run callU_run callS_run callI_run callB_run callStat_run callMounts_run callStrs_run

text \<open>What follows a call, by the reply of the world.\<close>

lemma bind_callU:
  "bindM (callU c) f \<omega> t =
    (case \<omega> t c of ROk \<Rightarrow> f () \<omega> (t @ [c]) | RErr e \<Rightarrow> (Inl e, t @ [c]) | _ \<Rightarrow> (Inl badReply, t @ [c]))"
  by (simp add: bindM_run callU_run split: reply.splits)

lemma bind_callS:
  "bindM (callS c) f \<omega> t =
    (case \<omega> t c of RStr s \<Rightarrow> f s \<omega> (t @ [c]) | RErr e \<Rightarrow> (Inl e, t @ [c]) | _ \<Rightarrow> (Inl badReply, t @ [c]))"
  by (simp add: bindM_run callS_run split: reply.splits)

lemma only_case_reply:
  "(\<And>e. only P (failM e)) \<Longrightarrow> only P (case r of ROk \<Rightarrow> retM () | RErr e \<Rightarrow> failM e | _ \<Rightarrow> failM badReply)"
  by (cases r) (auto intro: only_intros)

lemma only_calls [only_intros]:
  assumes "P c"
  shows "only P (callU c)" "only P (callS c)" "only P (callI c)" "only P (callB c)"
    "only P (callStat c)" "only P (callMounts c)" "only P (callStrs c)"
    "only P (callHdr c)" "only P (callRead c)"
    "only P (callStatfs c)" "only P (callFlag c)"
    "only P (callLinks c)" "only P (callLink c)" "only P (callAddrs c)" "only P (callRoutes c)"
    "only P (callQdiscs c)" "only P (callPids c)" "only P (callRun c)"
  using assms by (auto simp: only_def call_runs)

text \<open>A program that can only fail with an error it reports, whatever the outcome of a \<open>defer\<close>d call.\<close>

definition ignoreM :: "unit prog \<Rightarrow> unit prog" where
  "ignoreM m = bindM (tryM m) (\<lambda>_. retM ())"

text \<open>\<open>defer\<close>: the cleanup runs on every way out of the body, and its result is dropped.\<close>

definition deferM :: "unit prog \<Rightarrow> 'a prog \<Rightarrow> 'a prog" where
  "deferM cleanup body =
     bindM (tryM body) (\<lambda>r. bindM (ignoreM cleanup) (\<lambda>_. liftM r))"

lemma only_ignoreM [only_intros]: "only P m \<Longrightarrow> only P (ignoreM m)"
  unfolding ignoreM_def by (intro only_intros)

lemma only_deferM [only_intros]: "only P c \<Longrightarrow> only P m \<Longrightarrow> only P (deferM c m)"
  unfolding deferM_def by (intro only_intros)

lemma ignoreM_run [simp]: "ignoreM m \<omega> t = (Inr (), snd (m \<omega> t))"
  by (simp add: ignoreM_def bindM_run)

lemma deferM_run:
  "deferM c m \<omega> t = (fst (m \<omega> t), snd (c \<omega> (snd (m \<omega> t))))"
  by (simp add: deferM_def bindM_run)

text \<open>\<open>os.IsNotExist\<close> on the error of a call, and \<open>errors.Is(err, os.ErrNotExist)\<close>.\<close>

definition os_IsNotExist :: "err \<Rightarrow> bool" where
  "os_IsNotExist e = (e = Errno ENOENT)"

definition is_ErrNotExist :: "err \<Rightarrow> bool" where
  "is_ErrNotExist e = errors_Is e (Errno ENOENT)"

end
