(* ===== verification/Urunc_Types.thy ===== *)
theory Urunc_Types
  imports Go_Prelude
begin

text \<open>
  The data that the parts of urunc hand to one another: \<open>pkg/unikontainers/types/types.go\<close> and
  \<open>internal/constants\<close>. A field keeps the name it has in Go behind a prefix for its struct. A
  \<open>uint64\<close> or \<open>uint\<close> is a 64-bit word, a \<open>uint32\<close> a 32-bit word, an \<open>int\<close> an \<open>int\<close> (the
  values that reach one are bounded where they are parsed).
\<close>

section \<open>Structs\<close>

record NetDevParams =
  Net_IP :: string
  Net_Mask :: string
  Net_Gateway :: string
  Net_MAC :: string
  Net_TapDev :: string
  Net_MTU :: int
  Net_DNSServer :: string

record BlockDevParams =
  Blk_Source :: string
  Blk_MountPoint :: string
  Blk_FsType :: string
  Blk_ID :: string
  Blk_HostMountPoint :: string
  Blk_LoopAutoclear :: bool
  Blk_MountOptions :: string
  Blk_IsExplicit :: bool

record SharedfsParams =
  Sfs_Type :: string
  Sfs_Path :: string

record RootfsParams =
  Rfs_Type :: string
  Rfs_Path :: string
  Rfs_MountedPath :: string
  Rfs_MonRootfs :: string

record ProcessConfig =
  Proc_UID :: "32 word"
  Proc_GID :: "32 word"
  Proc_WorkDir :: string

record UnikernelParams =
  Uk_CmdLine :: "string list"
  Uk_EnvVars :: "string list"
  Uk_Monitor :: string
  Uk_Version :: string
  Uk_InitrdPath :: string
  Uk_NetDevName :: string
  Uk_BlkDevName :: string
  Uk_Net :: NetDevParams
  Uk_Block :: "BlockDevParams list"
  Uk_Rootfs :: RootfsParams
  Uk_ProcConf :: ProcessConfig

record ExecArgs =
  Ex_ContainerID :: string
  Ex_Environment :: "string list"
  Ex_Command :: string
  Ex_Seccomp :: bool
  Ex_MemSizeB :: "64 word"
  Ex_ResolvConf :: bool
  Ex_Ports :: string
  Ex_VCPUs :: "64 word"
  Ex_UnikernelPath :: string
  Ex_InitrdPath :: string
  Ex_SnapshotPath :: string
  Ex_VAccelType :: string
  Ex_VSockDevPath :: string
  Ex_VSockDevID :: int
  Ex_SocketPath :: string
  Ex_Net :: NetDevParams
  Ex_Sharedfs :: SharedfsParams

record MonitorCliArgs =
  Cli_ExtraInitrd :: string
  Cli_OtherArgs :: "string list"

record MonitorBlockArgs =
  Mb_ID :: string
  Mb_Path :: string
  Mb_ExactArgs :: "string list"

record ExtraBinConfig =
  Xb_Path :: string
  Xb_Options :: string

record MonitorConfig =
  Mon_DefaultMemoryMB :: "64 word"
  Mon_DefaultVCPUs :: "64 word"
  Mon_BinaryPath :: string
  Mon_DataPath :: string
  Mon_Vhost :: bool
  Mon_SocketPath :: string

text \<open>A mount of the OCI runtime specification (\<open>specs.Mount\<close>).\<close>

record OciMount =
  M_Destination :: string
  M_Type :: string
  M_Source :: string
  M_Options :: "string list"

text \<open>A device of the OCI runtime specification (\<open>specs.LinuxDevice\<close>); \<open>None\<close> is a nil pointer.\<close>

record LinuxDevice =
  Dev_Path :: string
  Dev_Type :: string
  Dev_Major :: int
  Dev_Minor :: int
  Dev_FileMode :: "nat option"
  Dev_UID :: "32 word option"
  Dev_GID :: "32 word option"

section \<open>Zero values and constants\<close>

text \<open>Go initialises a struct with the zero value of each field.\<close>

definition zeroNet :: NetDevParams where
  "zeroNet = \<lparr>Net_IP = [], Net_Mask = [], Net_Gateway = [], Net_MAC = [], Net_TapDev = [],
     Net_MTU = 0, Net_DNSServer = []\<rparr>"

definition zeroBlock :: BlockDevParams where
  "zeroBlock = \<lparr>Blk_Source = [], Blk_MountPoint = [], Blk_FsType = [], Blk_ID = [],
     Blk_HostMountPoint = [], Blk_LoopAutoclear = False, Blk_MountOptions = [], Blk_IsExplicit = False\<rparr>"

definition zeroSharedfs :: SharedfsParams where
  "zeroSharedfs = \<lparr>Sfs_Type = [], Sfs_Path = []\<rparr>"

definition zeroRootfs :: RootfsParams where
  "zeroRootfs = \<lparr>Rfs_Type = [], Rfs_Path = [], Rfs_MountedPath = [], Rfs_MonRootfs = []\<rparr>"

definition zeroProc :: ProcessConfig where
  "zeroProc = \<lparr>Proc_UID = 0, Proc_GID = 0, Proc_WorkDir = []\<rparr>"

definition zeroParams :: UnikernelParams where
  "zeroParams = \<lparr>Uk_CmdLine = [], Uk_EnvVars = [], Uk_Monitor = [], Uk_Version = [],
     Uk_InitrdPath = [], Uk_NetDevName = [], Uk_BlkDevName = [], Uk_Net = zeroNet, Uk_Block = [],
     Uk_Rootfs = zeroRootfs, Uk_ProcConf = zeroProc\<rparr>"

definition zeroExecArgs :: ExecArgs where
  "zeroExecArgs = \<lparr>Ex_ContainerID = [], Ex_Environment = [], Ex_Command = [], Ex_Seccomp = False,
     Ex_MemSizeB = 0, Ex_ResolvConf = False, Ex_Ports = [], Ex_VCPUs = 0, Ex_UnikernelPath = [],
     Ex_InitrdPath = [], Ex_SnapshotPath = [], Ex_VAccelType = [], Ex_VSockDevPath = [],
     Ex_VSockDevID = 0, Ex_SocketPath = [], Ex_Net = zeroNet, Ex_Sharedfs = zeroSharedfs\<rparr>"

definition zeroCliArgs :: MonitorCliArgs where
  "zeroCliArgs = \<lparr>Cli_ExtraInitrd = [], Cli_OtherArgs = []\<rparr>"

definition zeroMonitorConfig :: MonitorConfig where
  "zeroMonitorConfig = \<lparr>Mon_DefaultMemoryMB = 0, Mon_DefaultVCPUs = 0, Mon_BinaryPath = [],
     Mon_DataPath = [], Mon_Vhost = False, Mon_SocketPath = []\<rparr>"

lemmas zero_defs = zeroNet_def zeroBlock_def zeroSharedfs_def zeroRootfs_def zeroProc_def
  zeroParams_def zeroExecArgs_def zeroCliArgs_def zeroMonitorConfig_def

definition ResolvConfPath :: string where
  "ResolvConfPath = ''/etc/resolv.conf''"

definition TimestampTargetFile :: string where
  "TimestampTargetFile = ''/tmp/urunc.zlog''"

definition ContainerRootfsMountPath :: string where
  "ContainerRootfsMountPath = ''/cntrRootfs''"

definition MonitorRootfsDirName :: string where
  "MonitorRootfsDirName = ''monRootfs''"

definition VAccelMountPath :: string where
  "VAccelMountPath = ''/vaccel''"

definition StaticNetworkTapIP :: string where
  "StaticNetworkTapIP = ''172.16.1.1''"

definition StaticNetworkUnikernelIP :: string where
  "StaticNetworkUnikernelIP = ''172.16.1.2''"

definition DynamicNetworkTapIP :: string where
  "DynamicNetworkTapIP = ''172.16.X.2''"

definition QueueProxyRedirectIP :: string where
  "QueueProxyRedirectIP = ''172.16.1.2''"

end
