(* ===== verification/Guest_Utils.thy ===== *)
theory Guest_Utils
  imports Go_Strconv Host Urunc_Types
begin

text \<open>
  Helpers of the guests, \<open>pkg/unikontainers/unikernels/utils.go\<close>: the prefix length of a subnet
  mask, and a file written in the rootfs of the monitor. \<open>runtime.GOARCH\<close>, which the compiler
  fixes, is an argument of the functions that depend on it.
\<close>

type_synonym goarch = string

definition octet_bits :: "string \<Rightarrow> err + int" where
  "octet_bits part =
     (case Atoi part of
        None \<Rightarrow> Inl (Errorf ''invalid subnet mask value: %s'' [part])
      | Some v \<Rightarrow>
          (if v < 0 \<or> v > 255 then Inl (Errorf ''invalid subnet mask value: %s'' [part])
           else Inr (int (count_list (Sprintf_08b (nat v)) (CHR ''1'')))))"

fun mask_loop :: "string list \<Rightarrow> int \<Rightarrow> err + int" where
  "mask_loop [] cidr = Inr cidr"
| "mask_loop (part # parts) cidr =
     bindE (octet_bits part) (\<lambda>n. mask_loop parts (cidr + n))"

definition subnetMaskToCIDR :: "string \<Rightarrow> err + int" where
  "subnetMaskToCIDR subnetMask =
     (let maskParts = Split (CHR ''.'') subnetMask
      in if length maskParts \<noteq> 4 then Inl (Errorf ''invalid subnet mask format'' [])
         else mask_loop maskParts 0)"

definition createFile :: "string \<Rightarrow> string \<Rightarrow> unit prog" where
  "createFile path content =
     bindM (wrapM ''failed to create file: %w'' [] (callU (Fs (Create path))))
       (\<lambda>_. wrapM ''failed to write content: %w'' [] (callU (Fs (WriteString path content))))"

section \<open>Prefix lengths\<close>

lemma octet_bits_bound: "octet_bits p = Inr n \<Longrightarrow> 0 \<le> n \<and> n \<le> 8"
proof -
  assume r: "octet_bits p = Inr n"
  then obtain v where "Atoi p = Some v" by (auto simp: octet_bits_def split: option.splits)
  with r have v: "0 \<le> v" "v \<le> 255" and n: "n = int (count_list (Sprintf_08b (nat v)) (CHR ''1''))"
    by (auto simp: octet_bits_def split: if_splits)
  have "nat v < 2 ^ 8" using v by simp
  then show ?thesis using count_bin_digits_le [of "nat v" 8] n by (simp add: count_Sprintf_08b)
qed

lemma mask_loop_bound:
  "mask_loop ps c = Inr n \<Longrightarrow> c \<le> n \<and> n \<le> c + 8 * int (length ps)"
proof (induction ps arbitrary: c)
  case (Cons p ps)
  from Cons.prems obtain k where k: "octet_bits p = Inr k" "mask_loop ps (c + k) = Inr n"
    by (auto simp: bindE_Inr_iff)
  show ?case using Cons.IH [OF k(2)] octet_bits_bound [OF k(1)] by simp
qed simp

text \<open>The octets of the mask of a prefix length, and the mask in dotted notation.\<close>

definition mask_octet :: "nat \<Rightarrow> nat \<Rightarrow> nat" where
  "mask_octet p k = 256 - 2 ^ (8 - min 8 (p - 8 * k))"

definition prefix_mask :: "nat \<Rightarrow> string" where
  "prefix_mask p = Join (map (\<lambda>k. FormatUint (mask_octet p k)) [0, 1, 2, 3]) ''.''"

lemma ones_octet:
  "j \<le> 8 \<Longrightarrow> count_list (Sprintf_08b (256 - 2 ^ (8 - j))) (CHR ''1'') = j"
proof -
  assume "j \<le> 8"
  then consider "j = 0" | "j = 1" | "j = 2" | "j = 3" | "j = 4" | "j = 5" | "j = 6" | "j = 7" | "j = 8"
    by linarith
  then show ?thesis by cases (simp_all add: count_Sprintf_08b bin_digits.simps)
qed

lemma octet_bits_mask_octet:
  "octet_bits (FormatUint (mask_octet p k)) = Inr (int (min 8 (p - 8 * k)))"
proof -
  have "Atoi (FormatUint (mask_octet p k)) = Some (int (mask_octet p k))"
    by (rule Atoi_FormatUint) (simp add: mask_octet_def)
  moreover have "mask_octet p k \<le> 255"
    unfolding mask_octet_def by (rule diff_le_mono2 [of 1 _ 256, simplified]) simp
  moreover have "count_list (Sprintf_08b (mask_octet p k)) (CHR ''1'') = min 8 (p - 8 * k)"
    unfolding mask_octet_def by (rule ones_octet) simp
  ultimately show ?thesis by (simp add: octet_bits_def)
qed

lemma Split_prefix_mask:
  "Split (CHR ''.'') (prefix_mask p) = map (\<lambda>k. FormatUint (mask_octet p k)) [0, 1, 2, 3]"
  unfolding prefix_mask_def by (rule Split_Join) (use isDigit_not_sign set_FormatUint in fastforce)+

lemma subnetMaskToCIDR_prefix_mask:
  "p \<le> 32 \<Longrightarrow> subnetMaskToCIDR (prefix_mask p) = Inr (int p)"
proof -
  assume p: "p \<le> 32"
  have "mask_loop (map (\<lambda>k. FormatUint (mask_octet p k)) [0, 1, 2, 3]) 0 =
      Inr (int (min 8 p) + int (min 8 (p - 8)) + int (min 8 (p - 16)) + int (min 8 (p - 24)))"
    by (simp add: octet_bits_mask_octet)
  moreover have "int (min 8 p) + int (min 8 (p - 8)) + int (min 8 (p - 16)) + int (min 8 (p - 24)) = int p"
    using p by linarith
  ultimately show ?thesis by (simp only: subnetMaskToCIDR_def Split_prefix_mask Let_def) simp
qed

lemma only_createFile [only_intros]:
  "P (Fs (Create path)) \<Longrightarrow> P (Fs (WriteString path content)) \<Longrightarrow> only P (createFile path content)"
  unfolding createFile_def by (intro only_intros)

end
