(* ===== verification/Guest_Hermit.thy ===== *)
theory Guest_Hermit
  imports Guest_Utils
begin

text \<open>The Hermit guest, \<open>pkg/unikontainers/unikernels/hermit_rs.go\<close>.\<close>

record HermitNet =
  HermitNet_Address :: string
  HermitNet_Mask :: int
  HermitNet_Gateway :: string

record Hermit =
  Hermit_Command :: string
  Hermit_Monitor :: string
  Hermit_Net :: HermitNet

definition newHermit :: Hermit where
  "newHermit = \<lparr>Hermit_Command = [], Hermit_Monitor = [],
     Hermit_Net = \<lparr>HermitNet_Address = [], HermitNet_Mask = 0, HermitNet_Gateway = []\<rparr>\<rparr>"

definition Hermit_CommandString :: "Hermit \<Rightarrow> err + string" where
  "Hermit_CommandString h =
     (let args = (if HermitNet_Address (Hermit_Net h) \<noteq> []
                  then [''ip='' @ HermitNet_Address (Hermit_Net h) @ ''/'' @ Itoa (HermitNet_Mask (Hermit_Net h))]
                  else []);
          args = (if HermitNet_Gateway (Hermit_Net h) \<noteq> []
                  then args @ [''gateway='' @ HermitNet_Gateway (Hermit_Net h)] else args);
          appArgs = TrimSpace (Hermit_Command h);
          args = (if args \<noteq> [] \<and> appArgs \<noteq> [] then args @ [''--''] else args);
          args = (if appArgs \<noteq> [] then args @ [appArgs] else args)
      in Inr (Join args '' ''))"

definition Hermit_SupportsBlock :: "Hermit \<Rightarrow> bool" where
  "Hermit_SupportsBlock h = False"

definition Hermit_SupportsFS :: "Hermit \<Rightarrow> string \<Rightarrow> bool" where
  "Hermit_SupportsFS h fsType = (fsType = ''initrd'')"

definition Hermit_MonitorNetCli :: "goarch \<Rightarrow> Hermit \<Rightarrow> string \<Rightarrow> string \<Rightarrow> string list" where
  "Hermit_MonitorNetCli arch h ifName mac =
     (if Hermit_Monitor h = ''qemu'' then
        (let deviceArgs = (if arch = ''arm64'' then ''virtio-net-device,netdev=net0''
                           else ''virtio-net-pci,netdev=net0,disable-legacy=on'');
             deviceArgs = (if mac \<noteq> [] then deviceArgs @ '',mac='' @ mac else deviceArgs)
         in [''-netdev'', ''tap,id=net0,ifname='' @ ifName @ '',script=no,downscript=no'',
             ''-device'', deviceArgs])
      else [])"

definition Hermit_MonitorBlockCli :: "Hermit \<Rightarrow> MonitorBlockArgs list" where
  "Hermit_MonitorBlockCli h = []"

definition Hermit_MonitorSharedfsCli :: "Hermit \<Rightarrow> string \<Rightarrow> string \<Rightarrow> string list" where
  "Hermit_MonitorSharedfsCli h fsType path = []"

definition Hermit_MonitorCli :: "Hermit \<Rightarrow> MonitorCliArgs" where
  "Hermit_MonitorCli h = zeroCliArgs\<lparr>Cli_OtherArgs := [''-no-reboot'']\<rparr>"

text \<open>\<open>Init\<close> fills the receiver in; it returns the error, if any, and the receiver as it is left.\<close>

definition Hermit_Init :: "UnikernelParams \<Rightarrow> Hermit \<Rightarrow> err option \<times> Hermit" where
  "Hermit_Init data h =
     (let rest = (\<lambda>h. (None, h\<lparr>Hermit_Command := Join (Uk_CmdLine data) '' '',
                               Hermit_Monitor := Uk_Monitor data\<rparr>))
      in if Net_Mask (Uk_Net data) \<noteq> [] then
           (case subnetMaskToCIDR (Net_Mask (Uk_Net data)) of
              Inl e \<Rightarrow> (Some e, h)
            | Inr cidr \<Rightarrow>
                rest (h\<lparr>Hermit_Net := \<lparr>HermitNet_Address = Net_IP (Uk_Net data),
                                       HermitNet_Mask = cidr,
                                       HermitNet_Gateway = Net_Gateway (Uk_Net data)\<rparr>\<rparr>))
         else rest h)"

end
