(* ===== verification/Guest_Mewz.thy ===== *)
theory Guest_Mewz
  imports Guest_Utils
begin

text \<open>The Mewz guest, \<open>pkg/unikontainers/unikernels/mewz.go\<close>.\<close>

record MewzNet =
  MewzNet_Address :: string
  MewzNet_Mask :: int
  MewzNet_Gateway :: string

record Mewz =
  Mewz_Command :: string
  Mewz_Monitor :: string
  Mewz_Net :: MewzNet

definition newMewz :: Mewz where
  "newMewz = \<lparr>Mewz_Command = [], Mewz_Monitor = [],
     Mewz_Net = \<lparr>MewzNet_Address = [], MewzNet_Mask = 0, MewzNet_Gateway = []\<rparr>\<rparr>"

definition Mewz_CommandString :: "Mewz \<Rightarrow> err + string" where
  "Mewz_CommandString m =
     (if MewzNet_Address (Mewz_Net m) \<noteq> [] then
        Inr (''ip='' @ MewzNet_Address (Mewz_Net m) @ ''/'' @ Itoa (MewzNet_Mask (Mewz_Net m)) @
             '' gateway='' @ MewzNet_Gateway (Mewz_Net m))
      else Inr [])"

definition Mewz_SupportsBlock :: "Mewz \<Rightarrow> bool" where
  "Mewz_SupportsBlock m = False"

definition Mewz_SupportsFS :: "Mewz \<Rightarrow> string \<Rightarrow> bool" where
  "Mewz_SupportsFS m fsType = False"

definition Mewz_MonitorNetCli :: "Mewz \<Rightarrow> string \<Rightarrow> string \<Rightarrow> string list" where
  "Mewz_MonitorNetCli m ifName mac =
     (if Mewz_Monitor m = ''qemu'' then
        [''-device'', ''virtio-net-pci,netdev=net0,disable-legacy=on,disable-modern=off,mac='' @ mac,
         ''-netdev'', ''tap,script=no,downscript=no,id=net0,ifname='' @ ifName]
      else [])"

definition Mewz_MonitorBlockCli :: "Mewz \<Rightarrow> MonitorBlockArgs list" where
  "Mewz_MonitorBlockCli m = []"

definition Mewz_MonitorSharedfsCli :: "Mewz \<Rightarrow> string \<Rightarrow> string \<Rightarrow> string list" where
  "Mewz_MonitorSharedfsCli m fsType path = []"

definition Mewz_MonitorCli :: "Mewz \<Rightarrow> MonitorCliArgs" where
  "Mewz_MonitorCli m =
     (if Mewz_Monitor m = ''qemu'' then
        zeroCliArgs\<lparr>Cli_OtherArgs :=
          [''-no-reboot'', ''-device'', ''isa-debug-exit,iobase=0x501,iosize=2'']\<rparr>
      else zeroCliArgs)"

definition Mewz_Init :: "UnikernelParams \<Rightarrow> Mewz \<Rightarrow> err option \<times> Mewz" where
  "Mewz_Init data m =
     (case (if Net_Mask (Uk_Net data) \<noteq> [] then subnetMaskToCIDR (Net_Mask (Uk_Net data)) else Inr 24) of
        Inl e \<Rightarrow> (Some e, m)
      | Inr cidr \<Rightarrow>
          (None, m\<lparr>Mewz_Command := Join (Uk_CmdLine data) '' '',
                   Mewz_Monitor := Uk_Monitor data,
                   Mewz_Net := \<lparr>MewzNet_Address = Net_IP (Uk_Net data), MewzNet_Mask = cidr,
                               MewzNet_Gateway = Net_Gateway (Uk_Net data)\<rparr>\<rparr>))"

end
