(* ===== verification/Guest_Mirage.thy ===== *)
theory Guest_Mirage
  imports Guest_Utils
begin

text \<open>The MirageOS guest, \<open>pkg/unikontainers/unikernels/mirage.go\<close>.\<close>

record MirageNet =
  MirageNet_Address :: string
  MirageNet_Gateway :: string

record MirageBlock =
  MirageBlock_ID :: string
  MirageBlock_HostPath :: string

record Mirage =
  Mirage_Command :: string
  Mirage_Monitor :: string
  Mirage_Net :: MirageNet
  Mirage_Block :: "MirageBlock list"
  Mirage_netDevName :: string
  Mirage_blkDevName :: string

definition newMirage :: Mirage where
  "newMirage = \<lparr>Mirage_Command = [], Mirage_Monitor = [],
     Mirage_Net = \<lparr>MirageNet_Address = [], MirageNet_Gateway = []\<rparr>, Mirage_Block = [],
     Mirage_netDevName = [], Mirage_blkDevName = []\<rparr>"

definition Mirage_CommandString :: "Mirage \<Rightarrow> err + string" where
  "Mirage_CommandString m =
     Inr (MirageNet_Address (Mirage_Net m) @ '' '' @ MirageNet_Gateway (Mirage_Net m) @ '' '' @
          Mirage_Command m)"

definition Mirage_SupportsBlock :: "Mirage \<Rightarrow> bool" where
  "Mirage_SupportsBlock m = True"

definition Mirage_SupportsFS :: "Mirage \<Rightarrow> string \<Rightarrow> bool" where
  "Mirage_SupportsFS m fsType = False"

definition Mirage_MonitorNetCli :: "Mirage \<Rightarrow> string \<Rightarrow> string \<Rightarrow> string list" where
  "Mirage_MonitorNetCli m ifName mac =
     (if Mirage_Monitor m = ''hvt'' \<or> Mirage_Monitor m = ''spt'' then
        [''--net:'' @ Mirage_netDevName m @ ''='' @ ifName,
         ''--net-mac:'' @ Mirage_netDevName m @ ''='' @ mac]
      else [])"

definition Mirage_MonitorBlockCli :: "Mirage \<Rightarrow> MonitorBlockArgs list" where
  "Mirage_MonitorBlockCli m =
     (case Mirage_Block m of
        [] \<Rightarrow> []
      | b # _ \<Rightarrow>
          (if Mirage_Monitor m = ''hvt'' \<or> Mirage_Monitor m = ''spt'' then
             [\<lparr>Mb_ID = Mirage_blkDevName m, Mb_Path = MirageBlock_HostPath b, Mb_ExactArgs = []\<rparr>]
           else []))"

definition Mirage_MonitorSharedfsCli :: "Mirage \<Rightarrow> string \<Rightarrow> string \<Rightarrow> string list" where
  "Mirage_MonitorSharedfsCli m fsType path = []"

definition Mirage_MonitorCli :: "Mirage \<Rightarrow> MonitorCliArgs" where
  "Mirage_MonitorCli m = zeroCliArgs"

definition Mirage_netOptions :: "string \<Rightarrow> NetDevParams \<Rightarrow> int \<Rightarrow> MirageNet" where
  "Mirage_netOptions netDevName net cidr =
     (if netDevName \<noteq> [] \<and> netDevName \<noteq> ''service'' then
        \<lparr>MirageNet_Address = ''--'' @ netDevName @ ''-ipv4='' @ Net_IP net @ ''/'' @ Itoa cidr,
         MirageNet_Gateway = ''--'' @ netDevName @ ''-ipv4-gateway='' @ Net_Gateway net\<rparr>
      else
        \<lparr>MirageNet_Address = ''--ipv4='' @ Net_IP net @ ''/'' @ Itoa cidr,
         MirageNet_Gateway = ''--ipv4-gateway='' @ Net_Gateway net\<rparr>)"

definition Mirage_Init :: "UnikernelParams \<Rightarrow> Mirage \<Rightarrow> err option \<times> Mirage" where
  "Mirage_Init data m =
     (let rest = (\<lambda>m. (None,
            m\<lparr>Mirage_Block := map (\<lambda>b. \<lparr>MirageBlock_ID = Blk_ID b, MirageBlock_HostPath = Blk_Source b\<rparr>)
                                (Uk_Block data),
              Mirage_Command := Join (Uk_CmdLine data) '' '',
              Mirage_Monitor := Uk_Monitor data,
              Mirage_netDevName := (if Uk_NetDevName data \<noteq> [] then Uk_NetDevName data else ''service''),
              Mirage_blkDevName := (if Uk_BlkDevName data \<noteq> [] then Uk_BlkDevName data else ''storage'')\<rparr>))
      in if Net_Mask (Uk_Net data) \<noteq> [] then
           (case subnetMaskToCIDR (Net_Mask (Uk_Net data)) of
              Inl e \<Rightarrow> (Some e, m)
            | Inr cidr \<Rightarrow>
                rest (m\<lparr>Mirage_Net := Mirage_netOptions (Uk_NetDevName data) (Uk_Net data) cidr\<rparr>))
         else rest m)"

end
