(* ===== verification/Go_Json.thy ===== *)
theory Go_Json
  imports Go_Prelude Go_Strconv
begin

text \<open>
  The output of \<open>encoding/json\<close>: values, the escaping of strings (control characters, quotes, the
  characters HTML gives a meaning to, the two line separators, bytes that are no UTF-8) and the
  compact rendering of objects in the order of their fields.
\<close>

section \<open>UTF-8\<close>

text \<open>The length of the rune a byte list starts with, 0 when the bytes encode none.\<close>

definition cont :: "nat \<Rightarrow> bool" where
  "cont b = (128 \<le> b \<and> b \<le> 191)"

fun rune_len :: "nat list \<Rightarrow> nat" where
  "rune_len [] = 0"
| "rune_len (a # bs) =
     (if a < 128 then 1
      else case bs of
        [] \<Rightarrow> 0
      | b # cs \<Rightarrow>
          (if 194 \<le> a \<and> a \<le> 223 then (if cont b then 2 else 0)
           else case cs of
             [] \<Rightarrow> 0
           | c # ds \<Rightarrow>
               (if 224 \<le> a \<and> a \<le> 239 then
                  (if cont b \<and> cont c \<and> (a = 224 \<longrightarrow> 160 \<le> b) \<and> (a = 237 \<longrightarrow> b \<le> 159) then 3 else 0)
                else case ds of
                  [] \<Rightarrow> 0
                | d # _ \<Rightarrow>
                    (if 240 \<le> a \<and> a \<le> 244 \<and> cont b \<and> cont c \<and> cont d \<and>
                        (a = 240 \<longrightarrow> 144 \<le> b) \<and> (a = 244 \<longrightarrow> b \<le> 143)
                     then 4 else 0))))"

lemma rune_len_le: "rune_len bs \<le> length bs"
  by (cases bs) (auto split: list.splits)

section \<open>Strings\<close>

definition hex_digit :: "nat \<Rightarrow> char" where
  "hex_digit d = (if d < 10 then char_of (48 + d) else char_of (87 + d))"

definition QUOTE :: char where
  "QUOTE = CHR 0x22"

definition BSLASH :: char where
  "BSLASH = CHR 0x5C"

text \<open>The characters below 128 that are written as they are.\<close>

definition html_safe :: "char \<Rightarrow> bool" where
  "html_safe c =
     (32 \<le> byte c \<and> byte c < 128 \<and> c \<noteq> QUOTE \<and> c \<noteq> BSLASH \<and>
      c \<noteq> CHR ''<'' \<and> c \<noteq> CHR ''>'' \<and> c \<noteq> CHR ''&'')"

definition escape_ascii :: "char \<Rightarrow> string" where
  "escape_ascii c =
     (if html_safe c then [c]
      else if c = QUOTE \<or> c = BSLASH then [BSLASH, c]
      else if byte c = 8 then [BSLASH, CHR ''b'']
      else if byte c = 12 then [BSLASH, CHR ''f'']
      else if byte c = 10 then [BSLASH, CHR ''n'']
      else if byte c = 13 then [BSLASH, CHR ''r'']
      else if byte c = 9 then [BSLASH, CHR ''t'']
      else [BSLASH] @ ''u00'' @ [hex_digit (byte c div 16), hex_digit (byte c mod 16)])"

function escape :: "string \<Rightarrow> string" where
  "escape [] = []"
| "escape (c # s) =
     (if byte c < 128 then escape_ascii c @ escape s
      else if rune_len (map byte (c # s)) = 0 then BSLASH # ''ufffd'' @ escape s
      else if map byte (take 3 (c # s)) = [226, 128, 168] then BSLASH # ''u2028'' @ escape (drop 2 s)
      else if map byte (take 3 (c # s)) = [226, 128, 169] then BSLASH # ''u2029'' @ escape (drop 2 s)
      else take (rune_len (map byte (c # s))) (c # s)
           @ escape (drop (rune_len (map byte (c # s)) - 1) s))"
  by pat_completeness auto
termination
  by (relation "measure length") auto

definition quoted :: "string \<Rightarrow> string" where
  "quoted s = QUOTE # escape s @ [QUOTE]"

section \<open>Values\<close>

datatype json =
    JStr string | JNum int | JBool bool | JArr "json list" | JObj "(string \<times> json) list"

fun marshal :: "json \<Rightarrow> string"
  and marshal_list :: "json list \<Rightarrow> string list"
  and marshal_fields :: "(string \<times> json) list \<Rightarrow> string list" where
  "marshal (JStr s) = quoted s"
| "marshal (JNum i) = Itoa i"
| "marshal (JBool b) = FormatBool b"
| "marshal (JArr js) = ''['' @ Join (marshal_list js) '','' @ '']''"
| "marshal (JObj fs) = ''{'' @ Join (marshal_fields fs) '','' @ ''}''"
| "marshal_list [] = []"
| "marshal_list (j # js) = marshal j # marshal_list js"
| "marshal_fields [] = []"
| "marshal_fields ((k, j) # fs) = (quoted k @ '':'' @ marshal j) # marshal_fields fs"

lemma marshal_list_map [simp]: "marshal_list js = map marshal js"
  by (induction js) auto

lemma marshal_fields_map [simp]:
  "marshal_fields fs = map (\<lambda>(k, j). quoted k @ '':'' @ marshal j) fs"
  by (induction fs) auto

lemma Join_append:
  "xs \<noteq> [] \<Longrightarrow> ys \<noteq> [] \<Longrightarrow> Join (xs @ ys) s = Join xs s @ s @ Join ys s"
proof (induction xs)
  case (Cons x xs)
  then show ?case by (cases xs) (auto simp: Join_Cons)
qed simp

section \<open>What a marshalled string contains\<close>

text \<open>
  An escaped string holds no control character and no quote but behind a backslash: a reader of
  the output cannot leave the string before its closing quote. \<open>scan_string\<close> is that reader: it
  steps over a backslash and the byte behind it and gives what follows the first quote it meets.
\<close>

fun scan_string :: "string \<Rightarrow> string option" where
  "scan_string [] = None"
| "scan_string (c # s) =
     (if c = QUOTE then Some s
      else if c = BSLASH then (case s of [] \<Rightarrow> None | d # t \<Rightarrow> scan_string t)
      else if byte c < 32 then None
      else scan_string s)"

lemma byte_consts:
  "byte QUOTE = 34" "byte BSLASH = 92"
  by (simp_all add: QUOTE_def BSLASH_def byte_def)

lemma scan_plain:
  "\<forall>c \<in> set p. c \<noteq> QUOTE \<and> c \<noteq> BSLASH \<and> 32 \<le> byte c \<Longrightarrow> scan_string (p @ s) = scan_string s"
  by (induction p) auto

lemma scan_high: "\<forall>c \<in> set p. 128 \<le> byte c \<Longrightarrow> scan_string (p @ s) = scan_string s"
  by (rule scan_plain) (auto simp: byte_consts)

lemma hex_digit_plain:
  "d < 16 \<Longrightarrow> hex_digit d \<noteq> QUOTE \<and> hex_digit d \<noteq> BSLASH \<and> 32 \<le> byte (hex_digit d)"
proof -
  assume d: "d < 16"
  then have "48 \<le> byte (hex_digit d) \<and> byte (hex_digit d) < 110 \<and> byte (hex_digit d) \<noteq> 92"
    by (auto simp: hex_digit_def)
  then show ?thesis by (auto simp: byte_consts)
qed

lemma html_safe_plain: "html_safe c \<Longrightarrow> c \<noteq> QUOTE \<and> c \<noteq> BSLASH \<and> \<not> byte c < 32"
  by (simp add: html_safe_def)

lemma letters_plain:
  "c \<in> set ''u0fd2898'' \<Longrightarrow> c \<noteq> QUOTE \<and> c \<noteq> BSLASH \<and> \<not> byte c < 32"
  by (auto simp: QUOTE_def BSLASH_def byte_def)

lemma scan_skip: "c \<noteq> QUOTE \<and> c \<noteq> BSLASH \<and> \<not> byte c < 32 \<Longrightarrow> scan_string (c # s) = scan_string s"
  by simp

lemma scan_bslash [simp]: "scan_string (BSLASH # d # s) = scan_string s"
  by (simp add: QUOTE_def BSLASH_def)

lemma scan_escape_ascii: "byte c < 128 \<Longrightarrow> scan_string (escape_ascii c @ s) = scan_string s"
proof (cases "html_safe c")
  case True
  then show ?thesis using html_safe_plain [OF True] by (simp add: escape_ascii_def)
next
  case False
  assume "byte c < 128"
  then have h: "byte c div 16 < 16" "byte c mod 16 < 16" by auto
  have z: "CHR ''0'' \<noteq> QUOTE \<and> CHR ''0'' \<noteq> BSLASH \<and> \<not> byte (CHR ''0'') < 32"
    by (rule letters_plain) simp
  from False show ?thesis
    using hex_digit_plain [OF h(1)] hex_digit_plain [OF h(2)] z
    by (simp add: escape_ascii_def del: scan_string.simps add: scan_skip)
qed

lemma rune_len_high:
  "128 \<le> a \<Longrightarrow> \<forall>b \<in> set (take (rune_len (a # bs)) (a # bs)). 128 \<le> b"
  by (auto simp: cont_def split: list.splits if_splits)

lemma take_rune_bytes:
  assumes "\<not> byte c < 128"
  shows "\<forall>d \<in> set (take (rune_len (map byte (c # s))) (c # s)). 128 \<le> byte d"
proof -
  let ?n = "rune_len (map byte (c # s))"
  have "\<forall>b \<in> set (take ?n (map byte (c # s))). 128 \<le> b"
    using rune_len_high [of "byte c" "map byte s"] assms by simp
  then have "\<forall>b \<in> byte ` set (take ?n (c # s)). 128 \<le> b"
    unfolding take_map set_map .
  then show ?thesis by blast
qed

lemma scan_u: "c \<in> set ''u0fd2898'' \<Longrightarrow> scan_string (c # s) = scan_string s"
  by (rule scan_skip) (rule letters_plain)

lemma scan_escape: "scan_string (escape s @ t) = scan_string t"
proof (induction s rule: escape.induct)
  case (2 c s)
  consider "byte c < 128" | "\<not> byte c < 128" "rune_len (map byte (c # s)) = 0"
    | "\<not> byte c < 128" "rune_len (map byte (c # s)) \<noteq> 0" by blast
  then show ?case
  proof cases
    case 1
    then show ?thesis using "2.IH"(1) by (simp add: scan_escape_ascii)
  next
    case 2
    then show ?thesis using "2.IH"(2) by (simp del: scan_string.simps rune_len.simps add: scan_u)
  next
    case 3
    note IH = "2.IH"(3-5) [OF 3]
    show ?thesis
      using 3 IH scan_high [OF take_rune_bytes [OF 3(1), of s]]
      by (simp del: scan_string.simps rune_len.simps take_Suc_Cons add: scan_u)
  qed
qed simp

lemma scan_quoted: "quoted s @ t = QUOTE # r \<Longrightarrow> scan_string r = Some t"
  using scan_escape [of s "QUOTE # t"] by (auto simp: quoted_def)

end
