(* ===== verification/Guest_Rumprun.thy ===== *)
theory Guest_Rumprun
  imports Guest_Utils Go_Json
begin

text \<open>
  The Rumprun guest, \<open>pkg/unikontainers/unikernels/rumprun.go\<close>. Rumprun reads an object whose
  \<open>env\<close> key is repeated, which \<open>json.Marshal\<close> cannot print, so the code splices the pieces.
\<close>

record RumprunCmd =
  RumprunCmd_CmdLine :: string

record RumprunEnv =
  RumprunEnv_Env :: string

record RumprunNet =
  RumprunNet_Interface :: string
  RumprunNet_Cloner :: string
  RumprunNet_Type :: string
  RumprunNet_Method :: string
  RumprunNet_Address :: string
  RumprunNet_Mask :: string
  RumprunNet_Gateway :: string

record RumprunBlk =
  RumprunBlk_HostPath :: string
  RumprunBlk_Source :: string
  RumprunBlk_Path :: string
  RumprunBlk_FsType :: string
  RumprunBlk_Mountpoint :: string

record Rumprun =
  Rumprun_Command :: string
  Rumprun_Monitor :: string
  Rumprun_Envs :: "string list"
  Rumprun_Net :: RumprunNet
  Rumprun_Blk :: RumprunBlk

definition SubnetMask125 :: string where
  "SubnetMask125 = ''128.0.0.0''"

definition newRumprun :: Rumprun where
  "newRumprun = \<lparr>Rumprun_Command = [], Rumprun_Monitor = [], Rumprun_Envs = [],
     Rumprun_Net = \<lparr>RumprunNet_Interface = [], RumprunNet_Cloner = [], RumprunNet_Type = [],
       RumprunNet_Method = [], RumprunNet_Address = [], RumprunNet_Mask = [], RumprunNet_Gateway = []\<rparr>,
     Rumprun_Blk = \<lparr>RumprunBlk_HostPath = [], RumprunBlk_Source = [], RumprunBlk_Path = [],
       RumprunBlk_FsType = [], RumprunBlk_Mountpoint = []\<rparr>\<rparr>"

text \<open>The values that \<open>json.Marshal\<close> is applied to, by the tags of the structs.\<close>

definition json_RumprunCmd :: "RumprunCmd \<Rightarrow> json" where
  "json_RumprunCmd c = JObj [(''cmdline'', JStr (RumprunCmd_CmdLine c))]"

definition json_RumprunEnv :: "RumprunEnv \<Rightarrow> json" where
  "json_RumprunEnv e = JObj [(''env'', JStr (RumprunEnv_Env e))]"

definition json_RumprunNet :: "RumprunNet \<Rightarrow> json" where
  "json_RumprunNet n = JObj
     [(''if'', JStr (RumprunNet_Interface n)), (''cloner'', JStr (RumprunNet_Cloner n)),
      (''type'', JStr (RumprunNet_Type n)), (''method'', JStr (RumprunNet_Method n)),
      (''addr'', JStr (RumprunNet_Address n)), (''mask'', JStr (RumprunNet_Mask n)),
      (''gw'', JStr (RumprunNet_Gateway n))]"

definition json_RumprunBlk :: "RumprunBlk \<Rightarrow> json" where
  "json_RumprunBlk b = JObj
     [(''source'', JStr (RumprunBlk_Source b)), (''path'', JStr (RumprunBlk_Path b)),
      (''fstype'', JStr (RumprunBlk_FsType b)), (''mountpoint'', JStr (RumprunBlk_Mountpoint b))]"

text \<open>The loop over the environment: a comma in front of every piece but the first.\<close>

fun rumprun_envs :: "nat \<Rightarrow> string list \<Rightarrow> string \<Rightarrow> string" where
  "rumprun_envs i [] acc = acc"
| "rumprun_envs i (e # es) acc =
     (let acc = (if i \<noteq> 0 then acc @ '','' else acc);
          one = marshal (json_RumprunEnv \<lparr>RumprunEnv_Env = e\<rparr>);
          one = TrimSuffix (TrimPrefix one ''{'') ''}''
      in rumprun_envs (i + 1) es (acc @ one))"

definition Rumprun_CommandString :: "Rumprun \<Rightarrow> err + string" where
  "Rumprun_CommandString r =
     (let cmdJSONString = marshal (json_RumprunCmd \<lparr>RumprunCmd_CmdLine = Rumprun_Command r\<rparr>);
          envJSONString = rumprun_envs 0 (Rumprun_Envs r) [];
          netJSONString = (if RumprunNet_Address (Rumprun_Net r) \<noteq> []
                           then [QUOTE] @ ''net'' @ [QUOTE] @ '':'' @ marshal (json_RumprunNet (Rumprun_Net r))
                           else []);
          blkJSONString = (if RumprunBlk_Source (Rumprun_Blk r) \<noteq> []
                           then [QUOTE] @ ''blk'' @ [QUOTE] @ '':'' @ marshal (json_RumprunBlk (Rumprun_Blk r))
                           else []);
          final = TrimSuffix cmdJSONString ''}'';
          final = (if envJSONString \<noteq> [] then final @ '','' @ envJSONString else final);
          final = (if netJSONString \<noteq> [] then final @ '','' @ netJSONString else final);
          final = (if blkJSONString \<noteq> [] then final @ '','' @ blkJSONString else final)
      in Inr (final @ ''}''))"

definition Rumprun_SupportsBlock :: "Rumprun \<Rightarrow> bool" where
  "Rumprun_SupportsBlock r = True"

definition Rumprun_SupportsFS :: "Rumprun \<Rightarrow> string \<Rightarrow> bool" where
  "Rumprun_SupportsFS r fsType = (fsType = ''ext2'')"

definition Rumprun_MonitorNetCli :: "Rumprun \<Rightarrow> string \<Rightarrow> string \<Rightarrow> string list" where
  "Rumprun_MonitorNetCli r ifName mac =
     (if Rumprun_Monitor r = ''hvt'' \<or> Rumprun_Monitor r = ''spt''
      then [''--net:tap='' @ ifName, ''--net-mac:tap='' @ mac] else [])"

definition Rumprun_MonitorBlockCli :: "Rumprun \<Rightarrow> MonitorBlockArgs list" where
  "Rumprun_MonitorBlockCli r =
     (if Rumprun_Monitor r = ''hvt'' \<or> Rumprun_Monitor r = ''spt''
      then [\<lparr>Mb_ID = ''rootfs'', Mb_Path = RumprunBlk_HostPath (Rumprun_Blk r), Mb_ExactArgs = []\<rparr>]
      else [])"

definition Rumprun_MonitorSharedfsCli :: "Rumprun \<Rightarrow> string \<Rightarrow> string \<Rightarrow> string list" where
  "Rumprun_MonitorSharedfsCli r fsType path = []"

definition Rumprun_MonitorCli :: "Rumprun \<Rightarrow> MonitorCliArgs" where
  "Rumprun_MonitorCli r = zeroCliArgs"

definition Rumprun_initNet :: "NetDevParams \<Rightarrow> RumprunNet \<Rightarrow> err + RumprunNet" where
  "Rumprun_initNet net rn =
     (if Net_Mask net \<noteq> [] then
        bindE (subnetMaskToCIDR SubnetMask125) (\<lambda>cidr.
          Inr \<lparr>RumprunNet_Interface = ''ukvmif0'', RumprunNet_Cloner = ''True'',
               RumprunNet_Type = ''inet'', RumprunNet_Method = ''static'',
               RumprunNet_Address = Net_IP net, RumprunNet_Mask = Itoa cidr,
               RumprunNet_Gateway = Net_Gateway net\<rparr>)
      else Inr (rn\<lparr>RumprunNet_Address := []\<rparr>))"

definition Rumprun_initBlk :: "BlockDevParams list \<Rightarrow> RumprunBlk \<Rightarrow> RumprunBlk" where
  "Rumprun_initBlk bs rb =
     (case bs of
        b # _ \<Rightarrow> \<lparr>RumprunBlk_HostPath = Blk_Source b, RumprunBlk_Source = ''etfs'',
                 RumprunBlk_Path = ''/dev/ld0a'', RumprunBlk_FsType = ''blk'',
                 RumprunBlk_Mountpoint = Blk_MountPoint b\<rparr>
      | [] \<Rightarrow> rb\<lparr>RumprunBlk_Source := []\<rparr>)"

definition Rumprun_Init :: "UnikernelParams \<Rightarrow> Rumprun \<Rightarrow> err option \<times> Rumprun" where
  "Rumprun_Init data r =
     (case Rumprun_initNet (Uk_Net data) (Rumprun_Net r) of
        Inl e \<Rightarrow> (Some e, r)
      | Inr rn \<Rightarrow>
          (None, r\<lparr>Rumprun_Net := rn,
                   Rumprun_Blk := Rumprun_initBlk (Uk_Block data) (Rumprun_Blk r),
                   Rumprun_Command := Join (Uk_CmdLine data) '' '',
                   Rumprun_Monitor := Uk_Monitor data,
                   Rumprun_Envs := Uk_EnvVars data\<rparr>))"

section \<open>The splice is the marshalled object\<close>

text \<open>The object Rumprun is meant to read: one key per variable, the network and the disk if any.\<close>

definition Rumprun_object :: "Rumprun \<Rightarrow> json" where
  "Rumprun_object r = JObj
     ([(''cmdline'', JStr (Rumprun_Command r))]
      @ map (\<lambda>e. (''env'', JStr e)) (Rumprun_Envs r)
      @ (if RumprunNet_Address (Rumprun_Net r) \<noteq> [] then [(''net'', json_RumprunNet (Rumprun_Net r))] else [])
      @ (if RumprunBlk_Source (Rumprun_Blk r) \<noteq> [] then [(''blk'', json_RumprunBlk (Rumprun_Blk r))] else []))"

definition env_piece :: "string \<Rightarrow> string" where
  "env_piece e = quoted ''env'' @ '':'' @ quoted e"

lemma trim_braces: "TrimSuffix (TrimPrefix (''{'' @ s @ ''}'') ''{'') ''}'' = s"
  by (simp only: TrimPrefix_append TrimSuffix_append)

lemma trim_env:
  "TrimSuffix (TrimPrefix (marshal (json_RumprunEnv \<lparr>RumprunEnv_Env = e\<rparr>)) ''{'') ''}'' = env_piece e"
  using trim_braces [of "env_piece e"] by (simp add: json_RumprunEnv_def env_piece_def)

lemma rumprun_envs_acc:
  "rumprun_envs i es acc =
    acc @ (if es = [] then [] else (if i \<noteq> 0 then '','' else []) @ Join (map env_piece es) '','')"
proof (induction es arbitrary: i acc)
  case (Cons e es)
  show ?case
    unfolding rumprun_envs.simps Let_def trim_env Cons.IH
    by (cases es) auto
qed simp

lemma quoted_plain_keys:
  "quoted ''net'' = [QUOTE] @ ''net'' @ [QUOTE]" "quoted ''blk'' = [QUOTE] @ ''blk'' @ [QUOTE]"
  by code_simp+

lemma env_piece_nonempty [simp]: "env_piece e \<noteq> []"
  by (simp add: env_piece_def quoted_def)

lemma Join_env_nonempty: "es \<noteq> [] \<Longrightarrow> Join (map env_piece es) s \<noteq> []"
  by (cases es; cases "tl es") auto

lemma map_env_piece:
  "map (\<lambda>(k, j). quoted k @ '':'' @ marshal j) (map (\<lambda>e. (''env'', JStr e)) es) = map env_piece es"
  by (simp add: env_piece_def)

text \<open>One step of the splice: a piece that is there is appended behind a comma.\<close>

lemma splice_step:
  "xs \<noteq> [] \<Longrightarrow> Join (xs @ ys) '','' = (if ys = [] then Join xs '','' else Join xs '','' @ '','' @ Join ys '','')"
  by (simp add: Join_append)

text \<open>
  C29: the command line of a Rumprun guest, which the code puts together by trimming braces off
  marshalled pieces, is exactly the marshalled form of one object: the command, then one
  \<open>env\<close> key for each variable in order, then the network and the disk when there is one.
\<close>

theorem rumprun_command_is_marshalled_object:
  "Rumprun_CommandString r = Inr (marshal (Rumprun_object r))"
proof -
  define P where "P = quoted ''cmdline'' @ '':'' @ quoted (Rumprun_Command r)"
  define E where "E = map env_piece (Rumprun_Envs r)"
  define N where "N = (if RumprunNet_Address (Rumprun_Net r) \<noteq> []
    then [quoted ''net'' @ '':'' @ marshal (json_RumprunNet (Rumprun_Net r))] else [])"
  define B where "B = (if RumprunBlk_Source (Rumprun_Blk r) \<noteq> []
    then [quoted ''blk'' @ '':'' @ marshal (json_RumprunBlk (Rumprun_Blk r))] else [])"
  have cmd: "TrimSuffix (marshal (json_RumprunCmd \<lparr>RumprunCmd_CmdLine = Rumprun_Command r\<rparr>)) ''}'' = ''{'' @ P"
    using TrimSuffix_append [of "''{'' @ P" "''}''"] by (simp add: json_RumprunCmd_def P_def)
  have env: "rumprun_envs 0 (Rumprun_Envs r) [] = Join E '',''"
    by (auto simp: rumprun_envs_acc E_def)
  have obj: "marshal (Rumprun_object r) = ''{'' @ Join ([P] @ E @ N @ B) '','' @ ''}''"
    by (simp add: Rumprun_object_def P_def E_def N_def B_def env_piece_def [abs_def] comp_def)
  have join: "Join ([P] @ E @ N @ B) '','' =
      P @ (if E = [] then [] else '','' @ Join E '','') @ (if N = [] then [] else '','' @ hd N)
        @ (if B = [] then [] else '','' @ hd B)"
    using splice_step [of "[P] @ E @ N" B] splice_step [of "[P] @ E" N] splice_step [of "[P]" E]
    by (simp add: N_def B_def)
  have E0: "Join E '','' = [] \<longleftrightarrow> E = []"
    using Join_env_nonempty by (auto simp: E_def)
  show ?thesis
    unfolding Rumprun_CommandString_def Let_def cmd env obj join E0
    by (simp add: N_def B_def quoted_plain_keys)
qed

end
