(* ===== verification/Guest_Unikraft.thy ===== *)
theory Guest_Unikraft
  imports Guest_Utils
begin

text \<open>
  The Unikraft guest, \<open>pkg/unikontainers/unikernels/unikraft.go\<close>. Versions are compared by the
  third-party package \<open>hashicorp/go-version\<close>, which is a parameter: \<open>newVersion\<close> parses a string
  or gives an error, and \<open>ge\<close> is \<open>GreaterThanOrEqual\<close>.
\<close>

definition UnikraftCompatVersion :: string where
  "UnikraftCompatVersion = ''0.16.1''"

definition defaultDNSServer :: string where
  "defaultDNSServer = ''8.8.8.8''"

definition hyperlightMonitor :: string where
  "hyperlightMonitor = ''hyperlight-unikraft''"

record 'v versions =
  newVersion :: "string \<Rightarrow> err + 'v"
  GreaterThanOrEqual :: "'v \<Rightarrow> 'v \<Rightarrow> bool"

record UnikraftNet =
  UnikraftNet_Address :: string
  UnikraftNet_Mask :: string
  UnikraftNet_Gateway :: string

record UnikraftVFS =
  UnikraftVFS_RootFS :: string

record Unikraft =
  Unikraft_AppName :: string
  Unikraft_Monitor :: string
  Unikraft_Command :: string
  Unikraft_Env :: "string list"
  Unikraft_Net :: UnikraftNet
  Unikraft_VFS :: UnikraftVFS
  Unikraft_Version :: string

definition newUnikraft :: Unikraft where
  "newUnikraft = \<lparr>Unikraft_AppName = [], Unikraft_Monitor = [], Unikraft_Command = [],
     Unikraft_Env = [],
     Unikraft_Net = \<lparr>UnikraftNet_Address = [], UnikraftNet_Mask = [], UnikraftNet_Gateway = []\<rparr>,
     Unikraft_VFS = \<lparr>UnikraftVFS_RootFS = []\<rparr>, Unikraft_Version = []\<rparr>"

definition Unikraft_CommandString :: "goarch \<Rightarrow> Unikraft \<Rightarrow> err + string" where
  "Unikraft_CommandString arch u =
     (let consoleStr = (if arch = ''arm64'' then ''console=ttyS0'' else []);
          envVarString = (if Unikraft_Env u \<noteq> []
                          then ''env.vars=[ '' @ Join (Unikraft_Env u) '' '' @ '' ]'' else [])
      in Inr (Join [Unikraft_AppName u, consoleStr, envVarString,
                    UnikraftNet_Address (Unikraft_Net u), UnikraftNet_Gateway (Unikraft_Net u),
                    UnikraftNet_Mask (Unikraft_Net u), UnikraftVFS_RootFS (Unikraft_VFS u),
                    ''--'', Unikraft_Command u] '' ''))"

definition Unikraft_SupportsBlock :: "Unikraft \<Rightarrow> bool" where
  "Unikraft_SupportsBlock u = False"

definition Unikraft_SupportsFS :: "Unikraft \<Rightarrow> string \<Rightarrow> bool" where
  "Unikraft_SupportsFS u fsType = (fsType = ''9pfs'')"

definition Unikraft_MonitorNetCli :: "Unikraft \<Rightarrow> string \<Rightarrow> string \<Rightarrow> string list" where
  "Unikraft_MonitorNetCli u ifName mac = []"

definition Unikraft_MonitorBlockCli :: "Unikraft \<Rightarrow> MonitorBlockArgs list" where
  "Unikraft_MonitorBlockCli u = []"

definition Unikraft_MonitorSharedfsCli :: "Unikraft \<Rightarrow> string \<Rightarrow> string \<Rightarrow> string list" where
  "Unikraft_MonitorSharedfsCli u fsType path =
     (if Unikraft_Monitor u \<noteq> ''qemu'' \<or> fsType \<noteq> ''9pfs'' then []
      else [''-fsdev'', ''local,id=rootfs9p,security_model=none,multidevs=remap,path='' @ path,
            ''-device'', ''virtio-9p-pci,fsdev=rootfs9p,mount_tag=fs0''])"

definition Unikraft_MonitorCli :: "Unikraft \<Rightarrow> MonitorCliArgs" where
  "Unikraft_MonitorCli u =
     (if Unikraft_Monitor u \<noteq> hyperlightMonitor then zeroCliArgs
      else zeroCliArgs\<lparr>Cli_OtherArgs :=
        (if Unikraft_Command u \<noteq> [] then [''--guest-exec='' @ Unikraft_Command u] else [])
        @ map (\<lambda>e. ''--env='' @ e) (Unikraft_Env u)\<rparr>)"

definition setCompatArgs :: "string \<Rightarrow> NetDevParams \<Rightarrow> Unikraft \<Rightarrow> Unikraft" where
  "setCompatArgs rootFsType net u =
     u\<lparr>Unikraft_Net := \<lparr>UnikraftNet_Address = ''netdev.ipv4_addr='' @ Net_IP net,
                       UnikraftNet_Mask = ''netdev.ipv4_subnet_mask='' @ Net_Mask net,
                       UnikraftNet_Gateway = ''netdev.ipv4_gw_addr='' @ Net_Gateway net\<rparr>,
       Unikraft_VFS := \<lparr>UnikraftVFS_RootFS =
         (if rootFsType = ''initrd'' then ''vfs.rootfs='' @ ''initrd'' else [])\<rparr>\<rparr>"

definition setCurrentArgs :: "string \<Rightarrow> NetDevParams \<Rightarrow> string \<Rightarrow> Unikraft \<Rightarrow> Unikraft" where
  "setCurrentArgs rootFsType net dns u =
     u\<lparr>Unikraft_Net := (Unikraft_Net u)\<lparr>UnikraftNet_Address :=
         ''netdev.ip='' @ Net_IP net @ ''/24:'' @ Net_Gateway net @ '':'' @ dns\<rparr>,
       Unikraft_VFS := \<lparr>UnikraftVFS_RootFS =
         (if rootFsType = ''initrd'' then ''vfs.fstab=[ '' @ [CHR 0x22] @ ''initrd0:/:extract:::'' @ [CHR 0x22] @ '' ]''
          else if rootFsType = ''9pfs'' then ''vfs.fstab=[ '' @ [CHR 0x22] @ ''fs0:/:9pfs:::'' @ [CHR 0x22] @ '' ]''
          else [])\<rparr>\<rparr>"

definition configureUnikraftArgs ::
    "'v versions \<Rightarrow> string \<Rightarrow> NetDevParams \<Rightarrow> Unikraft \<Rightarrow> err option \<times> Unikraft" where
  "configureUnikraftArgs V rootFsType net u =
     (let dns = (if Net_DNSServer net = [] then defaultDNSServer else Net_DNSServer net)
      in if Unikraft_Version u = [] then (Some ErrUndefinedVersion, setCurrentArgs rootFsType net dns u)
         else (case newVersion V (Unikraft_Version u) of
           Inl _ \<Rightarrow> (Some ErrVersionParsing, setCurrentArgs rootFsType net dns u)
         | Inr unikernelVersion \<Rightarrow>
             (case newVersion V UnikraftCompatVersion of
                Inl e \<Rightarrow> (Some (ErrorfW ''failed to parse default version: %w'' [] e), u)
              | Inr targetVersion \<Rightarrow>
                  if GreaterThanOrEqual V unikernelVersion targetVersion
                  then (None, setCurrentArgs rootFsType net dns u)
                  else (None, (setCompatArgs rootFsType net u)\<lparr>Unikraft_Env := []\<rparr>))))"

definition Unikraft_Init ::
    "'v versions \<Rightarrow> UnikernelParams \<Rightarrow> Unikraft \<Rightarrow> err option \<times> Unikraft" where
  "Unikraft_Init V data u =
     configureUnikraftArgs V (Rfs_Type (Uk_Rootfs data)) (Uk_Net data)
       (u\<lparr>Unikraft_Env := Uk_EnvVars data,
          Unikraft_Version := Uk_Version data,
          Unikraft_AppName := ''Unikraft'',
          Unikraft_Monitor := Uk_Monitor data,
          Unikraft_Command := Join (Uk_CmdLine data) '' ''\<rparr>)"

end
