(* ===== verification/Go_Net.thy ===== *)
theory Go_Net
  imports Go_Strconv
begin

text \<open>
  Package \<open>net\<close> as the code uses it: \<open>ParseIP\<close> (the rules of \<open>net/netip\<close> for IPv4 and IPv6
  without a zone), \<open>IP.To4\<close>, \<open>IP.Mask\<close> and \<open>IP.Equal\<close>. An address is the list of its bytes, 16 of
  them from \<open>ParseIP\<close>, and \<open>[]\<close> is the nil address.
\<close>

unbundle bit_operations_syntax

definition v4_field :: "string \<Rightarrow> nat option" where
  "v4_field p =
     (if p = [] \<or> \<not> list_all isDigit p \<or> (length p > 1 \<and> hd p = CHR ''0'') then None
      else if digits_val p > 255 then None else Some (digits_val p))"

definition parseIPv4Fields :: "string \<Rightarrow> nat list option" where
  "parseIPv4Fields s =
     (case map v4_field (Split (CHR ''.'') s) of
        [Some a, Some b, Some c, Some d] \<Rightarrow> Some [a, b, c, d]
      | _ \<Rightarrow> None)"

definition v6_group :: "string \<Rightarrow> nat" where
  "v6_group ds = foldl (\<lambda>a c. a * 16 + hex_val c) 0 ds"

text \<open>
  The loop over the groups of an IPv6 address: the bytes so far, where the ellipsis stands,
  the text left.
\<close>

function v6_loop :: "nat list \<Rightarrow> nat option \<Rightarrow> string \<Rightarrow> (nat list \<times> nat option \<times> string) option" where
  "v6_loop ip ell s =
     (if length ip \<ge> 16 then Some (ip, ell, s)
      else
        let ds = takeWhile isHex s; rest = drop (length ds) s
        in if length ds > 4 \<or> ds = [] then None
           else if rest \<noteq> [] \<and> hd rest = CHR ''.'' then
             (if ell = None \<and> length ip \<noteq> 12 then None
              else if length ip + 4 > 16 then None
              else case parseIPv4Fields s of None \<Rightarrow> None | Some v4 \<Rightarrow> Some (ip @ v4, ell, []))
           else
             let ip' = ip @ [v6_group ds div 256, v6_group ds mod 256]
             in if rest = [] then Some (ip', ell, [])
                else if hd rest \<noteq> CHR '':'' \<or> length rest = 1 then None
                else if hd (tl rest) = CHR '':'' then
                  (if ell \<noteq> None then None
                   else if tl (tl rest) = [] then Some (ip', Some (length ip'), [])
                   else v6_loop ip' (Some (length ip')) (tl (tl rest)))
                else v6_loop ip' ell (tl rest))"
  by pat_completeness auto
termination
proof (relation "measure (\<lambda>(ip, ell, s). length s)", goal_cases)
  case (2 ip ell s ds rest ip')
  then show ?case by (cases s) (auto split: if_splits)
next
  case (3 ip ell s ds rest ip')
  then show ?case by (cases s) (auto split: if_splits)
qed simp

declare v6_loop.simps [simp del]

definition parseIPv6 :: "string \<Rightarrow> nat list option" where
  "parseIPv6 s =
     (let lead = (take 2 s = ''::'');
          s' = (if lead then drop 2 s else s)
      in if lead \<and> s' = [] then Some (replicate 16 0)
         else case v6_loop [] (if lead then Some 0 else None) s' of
                None \<Rightarrow> None
              | Some (ip, ell, rest) \<Rightarrow>
                  (if rest \<noteq> [] then None
                   else if length ip < 16 then
                     (case ell of None \<Rightarrow> None
                      | Some e \<Rightarrow> Some (take e ip @ replicate (16 - length ip) 0 @ drop e ip))
                   else if ell \<noteq> None then None else Some ip))"

definition v4InV6Prefix :: "nat list" where
  "v4InV6Prefix = [0, 0, 0, 0, 0, 0, 0, 0, 0, 0, 255, 255]"

definition ParseIP :: "string \<Rightarrow> nat list" where
  "ParseIP s =
     (case dropWhile (\<lambda>c. c \<noteq> CHR ''.'' \<and> c \<noteq> CHR '':'' \<and> c \<noteq> CHR ''%'') s of
        [] \<Rightarrow> []
      | c # _ \<Rightarrow>
          (if c = CHR ''.'' then
             (case parseIPv4Fields s of None \<Rightarrow> [] | Some v \<Rightarrow> v4InV6Prefix @ v)
           else if c = CHR '':'' \<and> CHR ''%'' \<notin> set s then
             (case parseIPv6 s of None \<Rightarrow> [] | Some v \<Rightarrow> v)
           else []))"

definition To4 :: "nat list \<Rightarrow> nat list" where
  "To4 ip =
     (if length ip = 4 then ip
      else if length ip = 16 \<and> take 12 ip = v4InV6Prefix then drop 12 ip else [])"

definition IP_Mask :: "nat list \<Rightarrow> nat list \<Rightarrow> nat list" where
  "IP_Mask ip m =
     (let m' = (if length m = 16 \<and> length ip = 4 \<and> list_all (\<lambda>b. b = 255) (take 12 m) then drop 12 m else m);
          ip' = (if length m' = 4 \<and> length ip = 16 \<and> take 12 ip = v4InV6Prefix then drop 12 ip else ip)
      in if length ip' \<noteq> length m' then [] else map2 (AND) ip' m')"

definition IP_Equal :: "nat list \<Rightarrow> nat list \<Rightarrow> bool" where
  "IP_Equal ip x =
     (if length ip = length x then ip = x
      else if length ip = 4 \<and> length x = 16 then take 12 x = v4InV6Prefix \<and> ip = drop 12 x
      else if length ip = 16 \<and> length x = 4 then take 12 ip = v4InV6Prefix \<and> drop 12 ip = x
      else False)"

section \<open>Dotted addresses\<close>

definition dotted :: "nat list \<Rightarrow> string" where
  "dotted v = Join (map FormatUint v) ''.''"

lemma v4_field_FormatUint: "n \<le> 255 \<Longrightarrow> v4_field (FormatUint n) = Some n"
proof -
  assume n: "n \<le> 255"
  have "\<not> (length (FormatUint n) > 1 \<and> hd (FormatUint n) = CHR ''0'')"
  proof
    assume a: "length (FormatUint n) > 1 \<and> hd (FormatUint n) = CHR ''0''"
    then obtain t where t: "FormatUint n = CHR ''0'' # t" by (cases "FormatUint n") auto
    then have "n = 0" by (rule FormatUint_zero)
    then show False using a by (simp add: FormatUint.simps)
  qed
  then show ?thesis using n by (simp add: v4_field_def)
qed

lemma FormatUint_no_dot: "CHR ''.'' \<notin> set (FormatUint n)"
  using set_FormatUint isDigit_not_sign by blast

lemma Split_dotted: "v \<noteq> [] \<Longrightarrow> Split (CHR ''.'') (dotted v) = map FormatUint v"
  unfolding dotted_def by (rule Split_Join) (auto simp: FormatUint_no_dot)

lemma list_4: "length v = 4 \<Longrightarrow> \<exists>a b c d. v = [a, b, c, d]"
  by (auto simp: eval_nat_numeral length_Suc_conv)

lemma parseIPv4Fields_dotted:
  "length v = 4 \<Longrightarrow> \<forall>n \<in> set v. n \<le> 255 \<Longrightarrow> parseIPv4Fields (dotted v) = Some v"
proof -
  assume l: "length v = 4" and b: "\<forall>n \<in> set v. n \<le> 255"
  then have "Split (CHR ''.'') (dotted v) = map FormatUint v" by (intro Split_dotted) auto
  then show ?thesis using list_4 [OF l] b by (auto simp: parseIPv4Fields_def v4_field_FormatUint)
qed

lemma dropWhile_dotted:
  "length v = 4 \<Longrightarrow>
    \<exists>t. dropWhile (\<lambda>c. c \<noteq> CHR ''.'' \<and> c \<noteq> CHR '':'' \<and> c \<noteq> CHR ''%'') (dotted v) = CHR ''.'' # t"
proof -
  assume "length v = 4"
  then obtain a w where v: "v = a # w" "w \<noteq> []" using list_4 [of v] by blast
  have "c \<in> set (FormatUint a) \<Longrightarrow> c \<noteq> CHR ''.'' \<and> c \<noteq> CHR '':'' \<and> c \<noteq> CHR ''%''" for c
    using set_FormatUint [of c a] by (auto simp: isDigit_def byte_def)
  then show ?thesis using v by (simp add: dotted_def Join_Cons dropWhile_append2)
qed

lemma ParseIP_dotted:
  "length v = 4 \<Longrightarrow> \<forall>n \<in> set v. n \<le> 255 \<Longrightarrow> ParseIP (dotted v) = v4InV6Prefix @ v"
  using dropWhile_dotted [of v] parseIPv4Fields_dotted [of v] by (auto simp: ParseIP_def)

lemma To4_v4: "length v = 4 \<Longrightarrow> To4 (v4InV6Prefix @ v) = v"
  by (simp add: To4_def v4InV6Prefix_def)

lemma IP_Mask_v4:
  "length v = 4 \<Longrightarrow> length m = 4 \<Longrightarrow> IP_Mask (v4InV6Prefix @ v) m = map2 (AND) v m"
  by (simp add: IP_Mask_def v4InV6Prefix_def)

end
