(* ===== verification/Go_Path.thy ===== *)
theory Go_Path
  imports Go_Prelude
begin

text \<open>
  Package \<open>path/filepath\<close> (on Linux, where \<open>path\<close> agrees with it) as the code uses it:
  \<open>Clean\<close>, \<open>Join\<close>, \<open>Dir\<close>, \<open>Base\<close>, \<open>IsAbs\<close> and \<open>Rel\<close> of an absolute path to the root or to
  a base it lies under. A path is cleaned by working on the list of its components with a stack,
  which is the rule of the package's documentation.
\<close>

definition sep :: char where
  "sep = CHR ''/''"

definition IsAbs :: "string \<Rightarrow> bool" where
  "IsAbs p = (p \<noteq> [] \<and> hd p = sep)"

text \<open>One component after the ones in front of it; \<open>rooted\<close> says whether the path is absolute.\<close>

fun clean_step :: "bool \<Rightarrow> string list \<Rightarrow> string \<Rightarrow> string list" where
  "clean_step rooted st c =
     (if c = [] \<or> c = ''.'' then st
      else if c = ''..'' then
        (if st \<noteq> [] \<and> last st \<noteq> ''..'' then butlast st
         else if rooted then st else st @ [''..''])
      else st @ [c])"

definition clean_comps :: "bool \<Rightarrow> string list \<Rightarrow> string list" where
  "clean_comps rooted cs = foldl (clean_step rooted) [] cs"

definition unsplit :: "bool \<Rightarrow> string list \<Rightarrow> string" where
  "unsplit rooted cs =
     (if rooted then sep # Join cs [sep] else if cs = [] then ''.'' else Join cs [sep])"

definition Clean :: "string \<Rightarrow> string" where
  "Clean p = (if p = [] then ''.'' else unsplit (IsAbs p) (clean_comps (IsAbs p) (Split sep p)))"

text \<open>\<open>filepath.Join\<close>: the non-empty elements joined with a slash and cleaned.\<close>

definition filepath_Join :: "string list \<Rightarrow> string" where
  "filepath_Join es =
     (let ne = filter (\<lambda>e. e \<noteq> []) es in if ne = [] then [] else Clean (Join ne [sep]))"

text \<open>\<open>filepath.Dir\<close>: all but the last component, cleaned.\<close>

definition filepath_Dir :: "string \<Rightarrow> string" where
  "filepath_Dir p = Clean (rev (dropWhile (\<lambda>c. c \<noteq> sep) (rev p)))"

text \<open>\<open>filepath.Base\<close>: the last component, after trailing slashes are removed.\<close>

definition filepath_Base :: "string \<Rightarrow> string" where
  "filepath_Base p =
     (if p = [] then ''.''
      else let q = rev (dropWhile (\<lambda>c. c = sep) (rev p));
               b = rev (takeWhile (\<lambda>c. c \<noteq> sep) (rev q))
           in if b = [] then [sep] else b)"

text \<open>The components of a path, empty ones left out.\<close>

definition comps :: "string \<Rightarrow> string list" where
  "comps p = filter (\<lambda>c. c \<noteq> []) (Split sep p)"

section \<open>Cleaned component lists\<close>

text \<open>
  A list of components is in normal form when none is empty or \<open>.\<close>, and every \<open>..\<close> stands
  in front of all other components; a rooted list has no \<open>..\<close> at all.
\<close>

definition plain_comp :: "string \<Rightarrow> bool" where
  "plain_comp c = (c \<noteq> [] \<and> c \<noteq> ''.'' \<and> c \<noteq> ''..'')"

fun normal_rel :: "string list \<Rightarrow> bool" where
  "normal_rel [] = True"
| "normal_rel (c # cs) =
     (if c = ''..'' then normal_rel cs else plain_comp c \<and> list_all plain_comp cs)"

definition normal_comps :: "bool \<Rightarrow> string list \<Rightarrow> bool" where
  "normal_comps rooted cs = (if rooted then list_all plain_comp cs else normal_rel cs)"

lemma plain_comp_simps [simp]: "\<not> plain_comp []" "\<not> plain_comp ''.''" "\<not> plain_comp ''..''"
  by (simp_all add: plain_comp_def)

lemma list_all_butlast: "list_all P xs \<Longrightarrow> list_all P (butlast xs)"
  by (auto simp: list_all_iff dest: in_set_butlastD)

lemma list_all_last: "list_all P xs \<Longrightarrow> xs \<noteq> [] \<Longrightarrow> P (last xs)"
  by (simp add: list_all_iff)

lemma normal_rel_plain: "list_all plain_comp cs \<Longrightarrow> normal_rel cs"
  by (cases cs) auto

lemma normal_rel_snoc: "normal_rel cs \<Longrightarrow> plain_comp c \<Longrightarrow> normal_rel (cs @ [c])"
  by (induction cs) auto

lemma normal_rel_snoc_dd:
  "normal_rel cs \<Longrightarrow> cs = [] \<or> last cs = ''..'' \<Longrightarrow> normal_rel (cs @ [''..''])"
proof (induction cs)
  case (Cons c cs)
  have "c \<noteq> ''..'' \<Longrightarrow> plain_comp (last (c # cs))"
    using Cons.prems(1) list_all_last [of plain_comp cs] by auto
  then have "c = ''..''" using Cons.prems(2) by auto
  then show ?case using Cons by (cases "cs = []") auto
qed simp

lemma normal_rel_butlast: "normal_rel cs \<Longrightarrow> normal_rel (butlast cs)"
  by (induction cs) (auto simp: list_all_butlast)

lemma clean_step_cases:
  "clean_step r st c = st
   \<or> st \<noteq> [] \<and> clean_step r st c = butlast st
   \<or> \<not> r \<and> (st = [] \<or> last st = ''..'') \<and> clean_step r st c = st @ [''..'']
   \<or> plain_comp c \<and> clean_step r st c = st @ [c]"
  by (simp add: plain_comp_def)

lemma clean_step_normal: "normal_comps r st \<Longrightarrow> normal_comps r (clean_step r st c)"
  using clean_step_cases [of r st c]
  by (elim disjE conjE)
    (simp_all add: normal_comps_def list_all_butlast normal_rel_snoc normal_rel_snoc_dd
      normal_rel_butlast del: clean_step.simps split: if_splits)

lemma foldl_clean_normal: "normal_comps r st \<Longrightarrow> normal_comps r (foldl (clean_step r) st cs)"
proof (induction cs arbitrary: st)
  case (Cons c cs)
  then show ?case by (simp only: foldl_Cons) (intro Cons.IH clean_step_normal)
qed simp

lemma clean_comps_normal: "normal_comps r (clean_comps r cs)"
  unfolding clean_comps_def by (rule foldl_clean_normal) (simp add: normal_comps_def)

lemma set_clean_step: "set (clean_step r st c) \<subseteq> set st \<union> {c}"
  by (auto dest: in_set_butlastD)

declare clean_step.simps [simp del]

lemma set_foldl_clean: "set (foldl (clean_step r) st cs) \<subseteq> set st \<union> set cs"
proof (induction cs arbitrary: st)
  case (Cons c cs)
  show ?case using Cons [of "clean_step r st c"] set_clean_step [of r st c] by auto
qed simp

lemma set_clean_comps: "set (clean_comps r cs) \<subseteq> set cs"
  unfolding clean_comps_def using set_foldl_clean [of r "[]" cs] by simp

text \<open>A normal list of components is a fixed point of the cleaning stack.\<close>

lemma clean_step_plain: "plain_comp c \<Longrightarrow> clean_step r st c = st @ [c]"
  by (simp add: clean_step.simps plain_comp_def)

lemma clean_step_dd: "list_all (\<lambda>d. d = ''..'') st \<Longrightarrow> clean_step False st ''..'' = st @ [''..'']"
  using list_all_last [of "\<lambda>d. d = ''..''" st] by (auto simp: clean_step.simps)

lemma clean_step_empty [simp]: "clean_step r st [] = st" "clean_step r st ''.'' = st"
  by (simp_all add: clean_step.simps)

lemma foldl_clean_plain: "list_all plain_comp cs \<Longrightarrow> foldl (clean_step r) st cs = st @ cs"
  by (induction cs arbitrary: st) (simp_all add: clean_step_plain)

lemma foldl_clean_rel:
  "normal_rel cs \<Longrightarrow> list_all (\<lambda>d. d = ''..'') st \<Longrightarrow> foldl (clean_step False) st cs = st @ cs"
proof (induction cs arbitrary: st)
  case (Cons c cs)
  show ?case
  proof (cases "c = ''..''")
    case True
    then show ?thesis using Cons by (simp add: clean_step_dd)
  next
    case False
    then show ?thesis using Cons.prems(1) foldl_clean_plain [of "c # cs"] by simp
  qed
qed simp

lemma clean_comps_fixed: "normal_comps r cs \<Longrightarrow> clean_comps r cs = cs"
  by (cases r)
    (simp_all add: clean_comps_def normal_comps_def foldl_clean_plain [of cs True "[]", simplified]
      foldl_clean_rel [of cs "[]", simplified])

section \<open>Cleaned paths\<close>

lemma normal_rel_set: "normal_rel cs \<Longrightarrow> c \<in> set cs \<Longrightarrow> c \<noteq> [] \<and> c \<noteq> ''.''"
  by (induction cs) (auto simp: list_all_iff plain_comp_def split: if_splits)

lemma normal_comps_set: "normal_comps r cs \<Longrightarrow> c \<in> set cs \<Longrightarrow> c \<noteq> [] \<and> c \<noteq> ''.''"
  by (cases r) (auto simp: normal_comps_def list_all_iff plain_comp_def dest: normal_rel_set)

lemma clean_comps_no_sep: "c \<in> set (clean_comps r (Split sep p)) \<Longrightarrow> sep \<notin> set c"
  using set_clean_comps [of r "Split sep p"] Split_no_sep by blast

lemma Split_rooted: "Split sep (sep # p) = [] # Split sep p"
  by simp

lemma IsAbs_Cons [simp]: "IsAbs (c # p) = (c = sep)"
  by (simp add: IsAbs_def)

lemma unsplit_nonempty [simp]: "normal_comps r cs \<Longrightarrow> unsplit r cs \<noteq> []"
proof -
  assume n: "normal_comps r cs"
  have "cs \<noteq> [] \<Longrightarrow> Join cs [sep] \<noteq> []"
    using normal_comps_set [OF n] by (cases cs rule: list.exhaust; cases "tl cs") (auto simp: Join_Cons)
  then show ?thesis by (simp add: unsplit_def)
qed

lemma IsAbs_unsplit:
  "normal_comps r cs \<Longrightarrow> \<forall>c \<in> set cs. sep \<notin> set c \<Longrightarrow> IsAbs (unsplit r cs) = r"
proof (cases r)
  case False
  assume n: "normal_comps r cs" and ns: "\<forall>c \<in> set cs. sep \<notin> set c"
  show ?thesis
  proof (cases cs)
    case (Cons c ds)
    then obtain x xs where c: "c = x # xs"
      using normal_comps_set [OF n, of c] by (cases c) auto
    then have "x \<noteq> sep" using ns Cons by auto
    then show ?thesis using False Cons c by (cases ds) (auto simp: unsplit_def)
  qed (simp add: unsplit_def False sep_def)
qed (simp add: unsplit_def)

lemma clean_comps_Split_unsplit:
  "normal_comps r cs \<Longrightarrow> \<forall>c \<in> set cs. sep \<notin> set c \<Longrightarrow>
    clean_comps r (Split sep (unsplit r cs)) = cs"
proof -
  assume n: "normal_comps r cs" and ns: "\<forall>c \<in> set cs. sep \<notin> set c"
  have dot: "clean_comps b [''.''] = []" for b
    by (simp add: clean_comps_def)
  have cons: "clean_comps b ([] # xs) = clean_comps b xs" for b xs
    by (simp add: clean_comps_def)
  show ?thesis
  proof (cases "cs = []")
    case True
    then show ?thesis
      by (cases r) (auto simp: unsplit_def cons clean_comps_def sep_def)
  next
    case False
    then have "Split sep (Join cs [sep]) = cs" using ns by (intro Split_Join) auto
    then show ?thesis using n False
      by (cases r) (simp_all add: unsplit_def cons clean_comps_fixed)
  qed
qed

text \<open>\<open>Clean\<close> is idempotent, and its result has the shape the documentation promises.\<close>

lemma Clean_unsplit:
  "normal_comps r cs \<Longrightarrow> \<forall>c \<in> set cs. sep \<notin> set c \<Longrightarrow> Clean (unsplit r cs) = unsplit r cs"
  by (simp add: Clean_def IsAbs_unsplit clean_comps_Split_unsplit)

lemma Clean_idem: "Clean (Clean p) = Clean p"
proof (cases "p = []")
  case True
  then show ?thesis by (simp add: Clean_def clean_comps_def unsplit_def sep_def)
next
  case False
  then show ?thesis
    by (simp add: Clean_def [of p] Clean_unsplit clean_comps_normal clean_comps_no_sep)
qed

lemma Clean_nonempty [simp]: "Clean p \<noteq> []"
  by (simp add: Clean_def clean_comps_normal)

lemma IsAbs_Clean [simp]: "IsAbs (Clean p) = IsAbs p"
proof (cases "p = []")
  case True
  then show ?thesis by (simp add: Clean_def IsAbs_def sep_def)
next
  case False
  then show ?thesis
    by (simp add: Clean_def IsAbs_unsplit clean_comps_normal clean_comps_no_sep)
qed

text \<open>
  The component list of a clean path: every component but those of the leading \<open>..\<close> run is
  a real name.
\<close>

lemma Clean_fixed_comps:
  assumes "Clean p = p" and "p \<noteq> ''.''"
  shows "normal_comps (IsAbs p) (comps p)"
proof -
  have ne: "p \<noteq> []" using assms(1) Clean_nonempty by metis
  define cs where "cs = clean_comps (IsAbs p) (Split sep p)"
  have n: "normal_comps (IsAbs p) cs" by (simp add: cs_def clean_comps_normal)
  have ns: "\<forall>c \<in> set cs. sep \<notin> set c" by (auto simp: cs_def clean_comps_no_sep)
  have p: "p = unsplit (IsAbs p) cs" using assms(1) ne by (simp add: Clean_def cs_def)
  have nonempty: "filter (\<lambda>c. c \<noteq> []) cs = cs"
    using normal_comps_set [OF n] by (simp add: filter_id_conv)
  have "comps p = cs"
  proof (cases "cs = []")
    case True
    then show ?thesis using p assms(2) by (cases "IsAbs p") (auto simp: unsplit_def comps_def)
  next
    case False
    then have "Split sep (Join cs [sep]) = cs" using ns by (intro Split_Join) auto
    moreover have "p = (if IsAbs p then sep # Join cs [sep] else Join cs [sep])"
      using p unfolding unsplit_def if_not_P [OF False] .
    ultimately have "Split sep p = (if IsAbs p then [] # cs else cs)"
      by (metis Split_rooted)
    then show ?thesis using nonempty by (simp add: comps_def)
  qed
  then show ?thesis using n by simp
qed

end
