(* ===== verification/Initrd.thy ===== *)
theory Initrd
  imports Go_Path Host Urunc_Types
begin

text \<open>
  Adding files to the initrd of a guest, \<open>pkg/unikontainers/initrd/initrd.go\<close>. The reader and the
  writer of the \<open>cpio\<close> package and the file they work on are calls: reading the next header,
  writing a header, writing data. The inode allocator, the paths inside the archive and the check
  of the trailer are definitions.
\<close>

section \<open>Inodes\<close>

definition maxNewcInode :: int where
  "maxNewcInode = 2 ^ 32 - 1"

definition newcHeaderSize :: nat where
  "newcHeaderSize = 110"

definition trailerName :: string where
  "trailerName = ''TRAILER!!!''"

record inodeAllocator =
  ia_used :: "int set"
  ia_next :: int

definition newInodeAllocator :: inodeAllocator where
  "newInodeAllocator = \<lparr>ia_used = {}, ia_next = 1\<rparr>"

definition reserve :: "inodeAllocator \<Rightarrow> int \<Rightarrow> inodeAllocator" where
  "reserve a inode = a\<lparr>ia_used := insert inode (ia_used a)\<rparr>"

function allocate :: "inodeAllocator \<Rightarrow> (err + int) \<times> inodeAllocator" where
  "allocate a =
     (if ia_next a \<le> maxNewcInode then
        (let inode = ia_next a; a' = a\<lparr>ia_next := ia_next a + 1\<rparr>
         in if inode \<in> ia_used a then allocate a'
            else (Inr inode, a'\<lparr>ia_used := insert inode (ia_used a')\<rparr>))
      else (Inl (Errorf ''newc inode space exhausted'' []), a))"
  by pat_completeness auto
termination
  by (relation "measure (\<lambda>a. nat (maxNewcInode + 1 - ia_next a))") auto

declare allocate.simps [simp del]

section \<open>Paths in the archive\<close>

definition archiveLookupPath :: "string \<Rightarrow> string" where
  "archiveLookupPath name = TrimPrefix (Clean name) ''/''"

definition archivePath :: "string \<Rightarrow> err + string" where
  "archivePath destination =
     (if \<not> IsAbs destination
      then Inl (Errorf ''initrd mount destination %q is not absolute'' [destination])
      else Inr (''./'' @ archiveLookupPath destination))"

section \<open>Records\<close>

text \<open>
  \<open>addInitrdRecord\<close> takes of the file's \<open>stat\<close> the mode, the owner, the time and the size.
\<close>

definition addInitrdRecord :: "string \<Rightarrow> stat_info \<Rightarrow> string \<Rightarrow> int \<Rightarrow> unit prog" where
  "addInitrdRecord content fileInfo name inode =
     (let hdr = \<lparr>ch_Name = name, ch_Inode = inode, ch_Mode = st_mode fileInfo,
                 ch_Uid = st_uid fileInfo, ch_Guid = st_gid fileInfo, ch_Links = 0,
                 ch_ModTime = Some (st_mtime fileInfo), ch_Size = st_size fileInfo\<rparr>
      in bindM (wrapM ''could not write header in initrd: %w'' [] (callU (Ird (CpioHeader hdr))))
           (\<lambda>_. wrapM ''could not write contents in initrd: %w'' [] (callU (Ird (CpioData content)))))"

definition copyFileToInitrdWithInode :: "string \<Rightarrow> string \<Rightarrow> int \<Rightarrow> unit prog" where
  "copyFileToInitrdWithInode srcFile destFile inode =
     bindM (wrapM ''could not stat file %s: %w'' [srcFile] (callStat (Fs (Stat srcFile)))) (\<lambda>fi.
       if st_type fi = Regular then
         bindM (wrapM ''could not read file %s: %w'' [srcFile] (callS (Fs (ReadFile srcFile)))) (\<lambda>content.
           wrapM ''could not add record for %s: %w'' [srcFile]
             (addInitrdRecord content fi destFile inode))
       else retM ())"

definition CopyFileToInitrd :: "string \<Rightarrow> string \<Rightarrow> unit prog" where
  "CopyFileToInitrd srcFile destFile = copyFileToInitrdWithInode srcFile destFile 0"

definition CopyFileMountsToInitrd :: "string \<Rightarrow> OciMount list \<Rightarrow> unit prog" where
  "CopyFileMountsToInitrd oldInitrd mounts =
     bindM (wrapM ''could not open %s: %w'' [oldInitrd] (callU (Ird (OpenAppend oldInitrd 420)))) (\<lambda>_.
       deferM (callU (Ird (FileClose oldInitrd)))
         (bindM (forM mounts (\<lambda>m.
             wrapM ''could not add file %s to initrd: %w'' [M_Source m]
               (CopyFileToInitrd (M_Source m) (M_Destination m)))) (\<lambda>_.
           wrapM ''could not close initrd: %w'' [] (callU (Ird CpioClose)))))"

definition AddFileToInitrd :: "string \<Rightarrow> string \<Rightarrow> string \<Rightarrow> unit prog" where
  "AddFileToInitrd oldInitrd data name =
     bindM (wrapM ''could not open %s: %w'' [oldInitrd] (callU (Ird (OpenAppend oldInitrd 420)))) (\<lambda>_.
       deferM (callU (Ird (FileClose oldInitrd)))
         (bindM callNow (\<lambda>now.
           let fileInfo = \<lparr>st_mode = S_IFREG + 256, st_uid = 0, st_gid = 0, st_major = 0, st_minor = 0,
                           st_size = length data, st_mtime = (now, 0)\<rparr>
           in bindM (wrapM ''could not add file %s to initrd: %w'' [name]
                       (addInitrdRecord data fileInfo name 0)) (\<lambda>_.
                wrapM ''could not close initrd: %w'' [] (callU (Ird CpioClose))))))"

section \<open>Merging before the trailer\<close>

definition regularFileBindMounts :: "OciMount list \<Rightarrow> OciMount list prog" where
  "regularFileBindMounts mounts =
     bindM (mapM (\<lambda>m.
         bindM (wrapM ''could not stat file %s: %w'' [M_Source m] (callStat (Fs (Stat (M_Source m)))))
           (\<lambda>info. retM (if st_type info = Regular then [m] else []))) mounts)
       (\<lambda>ms. retM (concat ms))"

definition align4 :: "nat \<Rightarrow> nat" where
  "align4 offset = (offset + 3) div 4 * 4"

definition slice :: "nat \<Rightarrow> nat \<Rightarrow> string \<Rightarrow> string" where
  "slice a b s = take (b - a) (drop a s)"

text \<open>The checks on the bytes of the header, in the order of the code.\<close>

definition checkTrailerHeader :: "string \<Rightarrow> nat \<Rightarrow> err + unit" where
  "checkTrailerHeader header offset =
     (let magic = slice 0 6 header
      in if magic \<noteq> ''070701'' \<and> magic \<noteq> ''070702'' then
           Inl (Errorf ''invalid newc trailer at offset %d: unsupported magic %q'' [FormatUint offset, magic])
         else (case ParseUint16_32 (slice 54 62 header) of
           None \<Rightarrow> Inl (ErrorfW ''invalid newc trailer at offset %d: invalid file size: %w''
                        [FormatUint offset] (Errno EINVAL))
         | Some sz \<Rightarrow>
             if sz \<noteq> 0 then
               Inl (Errorf ''invalid newc trailer at offset %d: file size is %d, not zero''
                      [FormatUint offset, FormatUint sz])
             else (case ParseUint16_32 (slice 94 102 header) of
               None \<Rightarrow> Inl (ErrorfW ''invalid newc trailer at offset %d: invalid name size: %w''
                            [FormatUint offset] (Errno EINVAL))
             | Some nameSize \<Rightarrow>
                 if nameSize \<noteq> length trailerName + 1 then
                   Inl (Errorf ''invalid newc trailer at offset %d: name size is %d, not %d''
                          [FormatUint offset, FormatUint nameSize, FormatUint (length trailerName + 1)])
                 else Inr ())))"

definition NUL :: char where
  "NUL = CHR 0x00"

text \<open>A buffer of the given length, zero where the read gave nothing.\<close>

definition fill :: "nat \<Rightarrow> string \<Rightarrow> string" where
  "fill n s = take n (s @ replicate n NUL)"

definition validateTrailerAt :: "nat \<Rightarrow> unit prog" where
  "validateTrailerAt offset =
     bindM (callRead (Ird (ReadAt offset newcHeaderSize))) (\<lambda>(got, e).
       case e of
         Some er \<Rightarrow>
           (if errors_Is er (Errno EOF) \<and> got = [] then
              failM (Errorf ''missing newc trailer at offset %d: reached physical EOF'' [FormatUint offset])
            else failM (ErrorfW ''could not read newc trailer header at offset %d: %w'' [FormatUint offset] er))
       | None \<Rightarrow>
           bindM (liftM (checkTrailerHeader (fill newcHeaderSize got) offset)) (\<lambda>_.
             let expectedName = trailerName @ [NUL]
             in bindM (callRead (Ird (ReadAt (offset + newcHeaderSize) (length expectedName)))) (\<lambda>(name, e).
                  case e of
                    Some er \<Rightarrow>
                      failM (ErrorfW ''could not read newc trailer name at offset %d: %w'' [FormatUint offset] er)
                  | None \<Rightarrow>
                      if fill (length expectedName) name \<noteq> expectedName then
                        failM (Errorf ''invalid newc trailer at offset %d: name is not %q''
                                 [FormatUint offset, trailerName])
                      else retM ())))"

text \<open>
  The loop over the records. It ends when the reader reports an error or the end; \<open>fuel\<close> bounds
  the number of records read.
\<close>

fun inspect_loop ::
    "nat \<Rightarrow> nat \<Rightarrow> string set \<Rightarrow> inodeAllocator \<Rightarrow> (nat \<times> string set \<times> inodeAllocator) prog" where
  "inspect_loop 0 trailerOffset names inodes = failM OutOfFuel"
| "inspect_loop (Suc fuel) trailerOffset names inodes =
     bindM (tryM (callHdr (Ird CpioNext))) (\<lambda>r.
       case r of
         Inl e \<Rightarrow>
           (if errors_Is e (Errno EOF) then
              bindM (validateTrailerAt trailerOffset) (\<lambda>_. retM (trailerOffset, names, inodes))
            else failM (ErrorfW ''could not read newc record at offset %d: %w'' [FormatUint trailerOffset] e))
       | Inr hdr \<Rightarrow>
           bindM (callU (Ird CopyDiscard)) (\<lambda>_.
             bindM (callI (Ird SeekCur)) (\<lambda>offset.
               inspect_loop fuel (align4 (nat offset))
                 (insert (archiveLookupPath (ch_Name hdr)) names)
                 (reserve inodes (ch_Inode hdr)))))"

definition inspectInitrd :: "nat \<Rightarrow> (nat \<times> string set \<times> inodeAllocator) prog" where
  "inspectInitrd fuel =
     bindM (callU (Ird (SeekStart 0))) (\<lambda>_. inspect_loop fuel 0 {} newInodeAllocator)"

type_synonym archive = "string set \<times> inodeAllocator"

definition dirHeader :: "string \<Rightarrow> int \<Rightarrow> cpio_hdr" where
  "dirHeader name inode = \<lparr>ch_Name = name, ch_Inode = inode, ch_Mode = 16384 + 493, ch_Uid = 0,
     ch_Guid = 0, ch_Links = 2, ch_ModTime = None, ch_Size = 0\<rparr>"

fun parents_loop :: "string \<Rightarrow> string list \<Rightarrow> archive \<Rightarrow> archive prog" where
  "parents_loop parentName [] ar = retM ar"
| "parents_loop parentName (component # cs) (names, inodes) =
     (if component = [] \<or> component = ''.'' then parents_loop parentName cs (names, inodes)
      else
        let parentName = filepath_Join [parentName, component]
        in if parentName \<in> names then parents_loop parentName cs (names, inodes)
           else
             let archiveName = ''./'' @ parentName
             in case allocate inodes of
                  (Inl e, _) \<Rightarrow> failM (ErrorfW ''could not allocate inode for directory %s: %w'' [archiveName] e)
                | (Inr inode, inodes') \<Rightarrow>
                    bindM (wrapM ''could not add directory %s to initrd: %w'' [archiveName]
                             (callU (Ird (CpioHeader (dirHeader archiveName inode))))) (\<lambda>_.
                      parents_loop parentName cs (insert parentName names, inodes')))"

definition addMissingParents :: "string \<Rightarrow> archive \<Rightarrow> archive prog" where
  "addMissingParents lookupName ar =
     parents_loop [] (Split sep (filepath_Dir lookupName)) ar"

fun merge_loop :: "OciMount list \<Rightarrow> archive \<Rightarrow> archive prog" where
  "merge_loop [] ar = retM ar"
| "merge_loop (m # ms) ar =
     bindM (liftM (archivePath (M_Destination m))) (\<lambda>archiveName.
       let lookupName = archiveLookupPath archiveName
       in bindM (addMissingParents lookupName ar) (\<lambda>(names, inodes).
            case allocate inodes of
              (Inl e, _) \<Rightarrow> failM (ErrorfW ''could not allocate inode for file %s: %w'' [archiveName] e)
            | (Inr inode, inodes') \<Rightarrow>
                bindM (wrapM ''could not add file %s to initrd: %w'' [M_Source m]
                         (copyFileToInitrdWithInode (M_Source m) archiveName inode)) (\<lambda>_.
                  merge_loop ms (insert lookupName names, inodes'))))"

definition closeJoin :: "string \<Rightarrow> 'a prog \<Rightarrow> 'a prog" where
  "closeJoin path body =
     bindM (tryM body) (\<lambda>r.
       bindM (tryM (wrapM ''could not close %s: %w'' [path] (callU (Ird (FileClose path))))) (\<lambda>c.
         case (r, c) of
           (Inr x, Inr _) \<Rightarrow> retM x
         | (Inr x, Inl ce) \<Rightarrow> failM ce
         | (Inl e, Inr _) \<Rightarrow> failM e
         | (Inl e, Inl ce) \<Rightarrow> failM (Joined e ce)))"

text \<open>The steps behind the truncation, and the steps on the open archive.\<close>

definition rewriteTail :: "string \<Rightarrow> OciMount list \<Rightarrow> nat \<Rightarrow> archive \<Rightarrow> unit prog" where
  "rewriteTail oldInitrd fileMounts trailerOffset ar =
     bindM (wrapM ''could not seek in %s: %w'' [oldInitrd] (callU (Ird (SeekStart trailerOffset)))) (\<lambda>_.
     bindM (merge_loop fileMounts ar) (\<lambda>_.
       wrapM ''could not close initrd writer: %w'' [] (callU (Ird CpioClose))))"

definition rewriteArchive :: "nat \<Rightarrow> string \<Rightarrow> OciMount list \<Rightarrow> unit prog" where
  "rewriteArchive fuel oldInitrd fileMounts =
     bindM (wrapM ''could not parse %s: %w'' [oldInitrd] (inspectInitrd fuel))
       (\<lambda>(trailerOffset, names, inodes).
         bindM (wrapM ''could not truncate %s: %w'' [oldInitrd] (callU (Ird (Truncate trailerOffset)))) (\<lambda>_.
           rewriteTail oldInitrd fileMounts trailerOffset (names, inodes)))"

definition MergeFileMountsIntoInitrd :: "nat \<Rightarrow> string \<Rightarrow> OciMount list \<Rightarrow> unit prog" where
  "MergeFileMountsIntoInitrd fuel oldInitrd mounts =
     bindM (regularFileBindMounts mounts) (\<lambda>fileMounts.
       if fileMounts = [] then retM ()
       else
         bindM (wrapM ''could not open %s: %w'' [oldInitrd] (callU (Ird (OpenRdwr oldInitrd)))) (\<lambda>_.
           closeJoin oldInitrd (rewriteArchive fuel oldInitrd fileMounts)))"

end
