(* ===== verification/Guest_Linux.thy ===== *)
theory Guest_Linux
  imports Guest_Utils Go_Net Initrd
begin

text \<open>
  The Linux guest, \<open>pkg/unikontainers/unikernels/linux.go\<close>: the kernel command line, the block
  devices of each monitor, and the configuration file of the \<open>urunit\<close> init process.
\<close>

definition urunitConfPath :: string where
  "urunitConfPath = ''/urunit.conf''"

definition retainInitrdPath :: string where
  "retainInitrdPath = ''/sys/firmware/initrd''"

definition envStartMarker :: string where "envStartMarker = ''UES''"
definition envEndMarker :: string where "envEndMarker = ''UEE''"
definition lpcStartMarker :: string where "lpcStartMarker = ''UCS''"
definition lpcEndMarker :: string where "lpcEndMarker = ''UCE''"
definition blkStartMarker :: string where "blkStartMarker = ''UBS''"
definition blkEndMarker :: string where "blkEndMarker = ''UBE''"

record LinuxNet =
  LinuxNet_Address :: string
  LinuxNet_Gateway :: string
  LinuxNet_Mask :: string

record Linux =
  Linux_App :: string
  Linux_Command :: string
  Linux_Monitor :: string
  Linux_Env :: "string list"
  Linux_Net :: LinuxNet
  Linux_Blk :: "BlockDevParams list"
  Linux_RootFsType :: string
  Linux_InitrdConf :: bool
  Linux_ProcConfig :: ProcessConfig

definition newLinux :: Linux where
  "newLinux = \<lparr>Linux_App = [], Linux_Command = [], Linux_Monitor = [], Linux_Env = [],
     Linux_Net = \<lparr>LinuxNet_Address = [], LinuxNet_Gateway = [], LinuxNet_Mask = []\<rparr>,
     Linux_Blk = [], Linux_RootFsType = [], Linux_InitrdConf = False, Linux_ProcConfig = zeroProc\<rparr>"

definition IsIPInSubnet :: "LinuxNet \<Rightarrow> bool" where
  "IsIPInSubnet ln =
     (let ip = ParseIP (LinuxNet_Address ln);
          gw = ParseIP (LinuxNet_Gateway ln);
          m = To4 (ParseIP (LinuxNet_Mask ln));
          subnet = IP_Mask gw m
      in IP_Equal (IP_Mask ip m) subnet)"

definition Linux_rootParams :: "string \<Rightarrow> string" where
  "Linux_rootParams fs =
     (if fs = ''block'' then '' root=/dev/vda rw''
      else if fs = ''initrd'' then '' root=/dev/ram0 rw''
      else if fs = ''9pfs'' then
        '' root=fs0 rw rootfstype=9p rootflags='' @
        ''trans=virtio,version=9p2000.L,msize=5000000,cache=mmap,posixacl''
      else if fs = ''virtiofs'' then '' root=fs0 rw rootfstype=virtiofs''
      else [])"

definition Linux_CommandString :: "goarch \<Rightarrow> Linux \<Rightarrow> err + string" where
  "Linux_CommandString arch l =
     (let bootParams = ''panic=-1'';
          consoleStr = (if arch = ''arm64'' \<and> Linux_Monitor l = ''qemu'' then ''console=ttyAMA0''
                        else ''console=ttyS0'');
          bootParams = bootParams @ '' '' @ consoleStr;
          rdinit = (if Linux_RootFsType l = ''initrd'' then ''rd'' else []);
          bootParams = bootParams @ Linux_rootParams (Linux_RootFsType l);
          net = Linux_Net l;
          bootParams = (if LinuxNet_Address net \<noteq> [] then
             bootParams @ '' ip='' @ LinuxNet_Address net @ ''::'' @ LinuxNet_Gateway net @ '':'' @
               LinuxNet_Mask net @ '':urunc:eth0:off''
             else bootParams);
          bootParams = (if \<not> Linux_InitrdConf l then
             bootParams @ concat (map (\<lambda>e. '' '' @ e) (Linux_Env l))
             else if Linux_RootFsType l = ''initrd'' then
               bootParams @ '' URUNIT_CONFIG='' @ urunitConfPath
             else bootParams @ '' retain_initrd URUNIT_CONFIG='' @ retainInitrdPath);
          bootParams = (if \<not> IsIPInSubnet net then bootParams @ '' URUNIT_DEFROUTE=1'' else bootParams);
          bootParams = (if Linux_App l \<noteq> [] then
             bootParams @ '' '' @ rdinit @ ''init='' @ Linux_App l @ '' -- '' @ Linux_Command l
             else bootParams)
      in Inr bootParams)"

definition Linux_SupportsBlock :: "Linux \<Rightarrow> bool" where
  "Linux_SupportsBlock l = True"

definition Linux_SupportsFS :: "Linux \<Rightarrow> string \<Rightarrow> bool" where
  "Linux_SupportsFS l fsType = (fsType \<in> {''ext2'', ''ext3'', ''ext4'', ''9pfs'', ''virtiofs''})"

definition Linux_MonitorNetCli :: "Linux \<Rightarrow> string \<Rightarrow> string \<Rightarrow> string list" where
  "Linux_MonitorNetCli l ifName mac = []"

definition Linux_MonitorBlockCli :: "Linux \<Rightarrow> MonitorBlockArgs list" where
  "Linux_MonitorBlockCli l =
     (if Linux_Blk l = [] then []
      else if Linux_Monitor l = ''qemu'' then
        map (\<lambda>b. \<lparr>Mb_ID = [], Mb_Path = [],
                  Mb_ExactArgs = [''-device'', ''virtio-blk-pci,serial='' @ Blk_ID b @ '',drive='' @ Blk_ID b,
                                  ''-drive'', ''format=raw,if=none,id='' @ Blk_ID b @ '',file='' @ Blk_Source b]\<rparr>)
          (Linux_Blk l)
      else if Linux_Monitor l = ''firecracker'' then
        map (\<lambda>b. \<lparr>Mb_ID = ''FC'' @ Blk_ID b, Mb_Path = Blk_Source b, Mb_ExactArgs = []\<rparr>) (Linux_Blk l)
      else if Linux_Monitor l = ''cloud-hypervisor'' then
        map (\<lambda>b. \<lparr>Mb_ID = Blk_ID b, Mb_Path = Blk_Source b, Mb_ExactArgs = []\<rparr>) (Linux_Blk l)
      else [])"

definition Linux_MonitorSharedfsCli :: "Linux \<Rightarrow> string \<Rightarrow> string \<Rightarrow> string list" where
  "Linux_MonitorSharedfsCli l fsType path =
     (if Linux_Monitor l \<noteq> ''qemu'' \<or> fsType \<noteq> ''9pfs'' then []
      else [''-fsdev'', ''local,id=rootfs9p,security_model=none,multidevs=remap,path='' @ path,
            ''-device'', ''virtio-9p-pci,fsdev=rootfs9p,mount_tag=fs0''])"

definition Linux_MonitorCli :: "Linux \<Rightarrow> MonitorCliArgs" where
  "Linux_MonitorCli l =
     (let extra = (if Linux_InitrdConf l \<and> Linux_RootFsType l \<noteq> ''initrd'' then urunitConfPath else [])
      in if Linux_Monitor l = ''qemu'' then
           \<lparr>Cli_ExtraInitrd = extra, Cli_OtherArgs = [''-no-reboot'', ''-nodefaults'']\<rparr>
         else if Linux_Monitor l = ''firecracker'' \<or> Linux_Monitor l = ''cloud-hypervisor'' then
           \<lparr>Cli_ExtraInitrd = extra, Cli_OtherArgs = []\<rparr>
         else zeroCliArgs)"

text \<open>Arguments of several words are quoted for \<open>urunit\<close>.\<close>

definition normalizeArg :: "string \<Rightarrow> string" where
  "normalizeArg arg =
     (let a = TrimSpace arg in if Contains a '' '' then [CHR 0x27] @ a @ [CHR 0x27] else a)"

definition parseCmdLine :: "string list \<Rightarrow> Linux \<Rightarrow> err + Linux" where
  "parseCmdLine cmdLine l =
     (case map normalizeArg cmdLine of
        [] \<Rightarrow> Inl (Errorf ''no init was specified'' [])
      | app # rest \<Rightarrow>
          Inr (l\<lparr>Linux_App := app,
                 Linux_Command := (if rest \<noteq> [] then Join rest '' '' else [])\<rparr>))"

definition configureNetwork :: "NetDevParams \<Rightarrow> Linux \<Rightarrow> Linux" where
  "configureNetwork net l =
     l\<lparr>Linux_Net := \<lparr>LinuxNet_Address = Net_IP net, LinuxNet_Gateway = Net_Gateway net,
                     LinuxNet_Mask = Net_Mask net\<rparr>\<rparr>"

text \<open>A line of the configuration, and the sections of it.\<close>

definition line :: "string \<Rightarrow> string" where
  "line s = s @ [NL]"

definition urunit_blocks :: "string \<Rightarrow> BlockDevParams list \<Rightarrow> string" where
  "urunit_blocks monitor bs =
     concat (map (\<lambda>b. if Blk_ID b = ''rootfs'' then []
        else line (''ID:'' @ (if monitor = ''firecracker'' then ''FC'' else []) @ Blk_ID b) @
             line (''MP:'' @ Blk_MountPoint b)) bs)"

definition Linux_buildUrunitConfig :: "Linux \<Rightarrow> string" where
  "Linux_buildUrunitConfig l =
     line envStartMarker @
     (if Linux_Env l \<noteq> [] then line (Join (Linux_Env l) [NL]) else []) @
     line envEndMarker @
     line lpcStartMarker @
     line (''UID:'' @ FormatUint (unat (Proc_UID (Linux_ProcConfig l)))) @
     line (''GID:'' @ FormatUint (unat (Proc_GID (Linux_ProcConfig l)))) @
     line (''WD:'' @ Proc_WorkDir (Linux_ProcConfig l)) @
     line lpcEndMarker @
     line blkStartMarker @
     urunit_blocks (Linux_Monitor l) (Linux_Blk l) @
     line blkEndMarker"

definition Linux_setupUrunitConfig :: "RootfsParams \<Rightarrow> Linux \<Rightarrow> unit prog" where
  "Linux_setupUrunitConfig rfs l =
     wrapM ''failed to setup urunit config: %w'' []
       (if Linux_RootFsType l = ''initrd'' then
          bindM (callS (Fs (SecureJoin ContainerRootfsMountPath (Rfs_Path rfs)))) (\<lambda>initrdToUpdate.
            AddFileToInitrd initrdToUpdate (Linux_buildUrunitConfig l) urunitConfPath)
        else createFile urunitConfPath (Linux_buildUrunitConfig l))"

text \<open>\<open>Init\<close> with its effects: the error, if any, and the receiver as it is left.\<close>

definition Linux_Init :: "UnikernelParams \<Rightarrow> Linux \<Rightarrow> (err option \<times> Linux) prog" where
  "Linux_Init data l =
     (case parseCmdLine (Uk_CmdLine data) l of
        Inl e \<Rightarrow> retM (Some e, l)
      | Inr l1 \<Rightarrow>
          (let l2 = (configureNetwork (Uk_Net data) l1)\<lparr>
                 Linux_Blk := Uk_Block data,
                 Linux_RootFsType := Rfs_Type (Uk_Rootfs data),
                 Linux_Env := Uk_EnvVars data,
                 Linux_Monitor := Uk_Monitor data,
                 Linux_ProcConfig := Uk_ProcConf data,
                 Linux_InitrdConf := Contains (Linux_App l1) ''urunit''\<rparr>
           in if Linux_InitrdConf l2 then
                bindM (tryM (Linux_setupUrunitConfig (Uk_Rootfs data) l2)) (\<lambda>r.
                  case r of Inl e \<Rightarrow> retM (Some e, l2) | Inr _ \<Rightarrow> retM (None, l2))
              else retM (None, l2)))"

end
