(* ===== verification/Guest_FreeBSD.thy ===== *)
theory Guest_FreeBSD
  imports Guest_Linux
begin

text \<open>
  The FreeBSD guest, \<open>pkg/unikontainers/unikernels/freebsd.go\<close>: the boot arguments, the devices
  of the QEMU microvm and of Firecracker, and the \<open>urunit\<close> configuration, padded to whole
  sectors because the guest reads it from a raw block device.
\<close>

definition netStartMarker :: string where "netStartMarker = ''UNS''"
definition netEndMarker :: string where "netEndMarker = ''UNE''"
definition paddingMarker :: string where "paddingMarker = ''PAD''"
definition freebsdRootBlock :: string where "freebsdRootBlock = ''/dev/vtbd0''"
definition blockSectorSize :: nat where "blockSectorSize = 512"
definition freeBSDufs :: string where "freeBSDufs = ''ufs''"
definition freeBSDext2fs :: string where "freeBSDext2fs = ''ext2fs''"
definition p9MountTag :: string where "p9MountTag = ''fs0''"

record FreeBSDNet =
  FreeBSDNet_Address :: string
  FreeBSDNet_Gateway :: string
  FreeBSDNet_Mask :: string

record FreeBSD =
  FreeBSD_Command :: "string list"
  FreeBSD_InitPath :: string
  FreeBSD_WithUrunit :: bool
  FreeBSD_Monitor :: string
  FreeBSD_Env :: "string list"
  FreeBSD_RootFsType :: string
  FreeBSD_BlockFsType :: string
  FreeBSD_Net :: FreeBSDNet
  FreeBSD_Block :: "BlockDevParams list"
  FreeBSD_ProcConfig :: ProcessConfig

definition newFreeBSD :: FreeBSD where
  "newFreeBSD = \<lparr>FreeBSD_Command = [], FreeBSD_InitPath = [], FreeBSD_WithUrunit = False,
     FreeBSD_Monitor = [], FreeBSD_Env = [], FreeBSD_RootFsType = [], FreeBSD_BlockFsType = [],
     FreeBSD_Net = \<lparr>FreeBSDNet_Address = [], FreeBSDNet_Gateway = [], FreeBSDNet_Mask = []\<rparr>,
     FreeBSD_Block = [], FreeBSD_ProcConfig = zeroProc\<rparr>"

definition FreeBSD_params :: "FreeBSD \<Rightarrow> string list" where
  "FreeBSD_params f =
     (let params = (if FreeBSD_RootFsType f = ''9pfs'' then [''vfs.root.mountfrom=p9fs:'' @ p9MountTag]
                    else [''vfs.root.mountfrom='' @ FreeBSD_BlockFsType f @ '':'' @ freebsdRootBlock]);
          params = (if FreeBSD_InitPath f \<noteq> [] then params @ [''init_path='' @ FreeBSD_InitPath f] else params);
          n = FreeBSD_Net f
      in if FreeBSD_WithUrunit f then
           params @ [''URUNIT_CONFIG=/dev/vtbd'' @ Itoa (int (length (FreeBSD_Block f)))] @
           (if FreeBSDNet_Address n \<noteq> [] \<and>
               \<not> IsIPInSubnet \<lparr>LinuxNet_Address = FreeBSDNet_Address n,
                              LinuxNet_Gateway = FreeBSDNet_Gateway n, LinuxNet_Mask = FreeBSDNet_Mask n\<rparr>
            then [''URUNIT_DEFROUTE=1''] else [])
         else params)"

definition FreeBSD_CommandString :: "FreeBSD \<Rightarrow> err + string" where
  "FreeBSD_CommandString f = Inr (Join (FreeBSD_params f) '' '')"

definition FreeBSD_SupportsBlock :: "FreeBSD \<Rightarrow> bool" where
  "FreeBSD_SupportsBlock f = True"

definition FreeBSD_SupportsFS :: "FreeBSD \<Rightarrow> string \<Rightarrow> bool" where
  "FreeBSD_SupportsFS f fsType = (fsType = ''ext2'' \<or> fsType = ''9pfs'')"

definition FreeBSD_MonitorNetCli :: "FreeBSD \<Rightarrow> string \<Rightarrow> string \<Rightarrow> string list" where
  "FreeBSD_MonitorNetCli f ifName mac =
     (if FreeBSD_Monitor f = ''qemu'' then
        [''-netdev'', ''tap,id=net0,script=no,downscript=no,ifname='' @ ifName,
         ''-device'', ''virtio-net-device,netdev=net0,mac='' @ mac]
      else [])"

definition qemuMMIOBlock :: "string \<Rightarrow> string \<Rightarrow> string list" where
  "qemuMMIOBlock i path =
     [''-device'', ''virtio-blk-device,serial='' @ i @ '',drive='' @ i,
      ''-drive'', ''format=raw,if=none,id='' @ i @ '',file='' @ path]"

definition FreeBSD_MonitorBlockCli :: "FreeBSD \<Rightarrow> MonitorBlockArgs list" where
  "FreeBSD_MonitorBlockCli f =
     (let blockArgsCap = length (FreeBSD_Block f) + (if FreeBSD_WithUrunit f then 1 else 0)
      in if blockArgsCap = 0 then []
         else if FreeBSD_Monitor f = ''qemu'' then
           map (\<lambda>b. \<lparr>Mb_ID = [], Mb_Path = [], Mb_ExactArgs = qemuMMIOBlock (Blk_ID b) (Blk_Source b)\<rparr>)
             (FreeBSD_Block f) @
           (if FreeBSD_WithUrunit f
            then [\<lparr>Mb_ID = [], Mb_Path = [], Mb_ExactArgs = qemuMMIOBlock ''urunit'' urunitConfPath\<rparr>] else [])
         else if FreeBSD_Monitor f = ''firecracker'' then
           map (\<lambda>b. \<lparr>Mb_ID = ''FC'' @ Blk_ID b, Mb_Path = Blk_Source b, Mb_ExactArgs = []\<rparr>)
             (FreeBSD_Block f) @
           (if FreeBSD_WithUrunit f
            then [\<lparr>Mb_ID = ''FC_URUNIT_CONFIG'', Mb_Path = urunitConfPath, Mb_ExactArgs = []\<rparr>] else [])
         else [])"

definition FreeBSD_MonitorSharedfsCli :: "FreeBSD \<Rightarrow> string \<Rightarrow> string \<Rightarrow> string list" where
  "FreeBSD_MonitorSharedfsCli f fsType path =
     (if FreeBSD_Monitor f \<noteq> ''qemu'' \<or> fsType \<noteq> ''9pfs'' then []
      else [''-fsdev'', ''local,id=rootfs9p,security_model=none,multidevs=remap,path='' @ path,
            ''-device'', ''virtio-9p-device,fsdev=rootfs9p,mount_tag='' @ p9MountTag])"

definition FreeBSD_MonitorCli :: "FreeBSD \<Rightarrow> MonitorCliArgs" where
  "FreeBSD_MonitorCli f =
     (if FreeBSD_Monitor f = ''qemu'' then
        zeroCliArgs\<lparr>Cli_OtherArgs :=
          [''-M'', ''microvm,acpi=on,pic=on,pit=on,rtc=on'', ''-nodefaults'', ''-no-reboot'']\<rparr>
      else zeroCliArgs)"

definition usesUrunit :: "string list \<Rightarrow> bool" where
  "usesUrunit cmdLine = (case cmdLine of [] \<Rightarrow> False | c # _ \<Rightarrow> filepath_Base c = ''urunit'')"

text \<open>The configuration up to the padding, the number of newlines that pad it, and the whole.\<close>

definition FreeBSD_configBody :: "FreeBSD \<Rightarrow> string" where
  "FreeBSD_configBody f =
     line envStartMarker @
     (if FreeBSD_Env f \<noteq> [] then line (Join (FreeBSD_Env f) [NL]) else []) @
     line envEndMarker @
     line lpcStartMarker @
     line (''UID:'' @ FormatUint (unat (Proc_UID (FreeBSD_ProcConfig f)))) @
     line (''GID:'' @ FormatUint (unat (Proc_GID (FreeBSD_ProcConfig f)))) @
     line (''WD:'' @ Proc_WorkDir (FreeBSD_ProcConfig f)) @
     line (''ARC:'' @ FormatUint (length (FreeBSD_Command f))) @
     concat (map (\<lambda>c. line (''ARV:'' @ c)) (FreeBSD_Command f)) @
     line lpcEndMarker @
     line blkStartMarker @
     urunit_blocks (FreeBSD_Monitor f) (FreeBSD_Block f) @
     line blkEndMarker @
     line netStartMarker @
     line (''IP:'' @ FreeBSDNet_Address (FreeBSD_Net f)) @
     line (''GW:'' @ FreeBSDNet_Gateway (FreeBSD_Net f)) @
     line (''MSK:'' @ FreeBSDNet_Mask (FreeBSD_Net f)) @
     line netEndMarker @
     line paddingMarker"

text \<open>\<open>for sb.Len()%blockSectorSize != 0\<close>: one newline more at each turn.\<close>

function pad_loop :: "string \<Rightarrow> string" where
  "pad_loop sb = (if length sb mod blockSectorSize \<noteq> 0 then pad_loop (sb @ [NL]) else sb)"
  by pat_completeness auto
termination
proof (relation "measure (\<lambda>sb. (blockSectorSize - length sb mod blockSectorSize) mod blockSectorSize)", goal_cases)
  case (2 sb)
  then have "length sb mod 512 \<noteq> 0" by (simp add: blockSectorSize_def)
  then have "(512 - Suc (length sb) mod 512) mod 512 < (512 - length sb mod 512) mod 512"
    using mod_less_divisor [of 512 "length sb"] by (auto simp: mod_Suc)
  then show ?case by (simp add: blockSectorSize_def)
qed simp

declare pad_loop.simps [simp del]

definition FreeBSD_buildUrunitConfig :: "FreeBSD \<Rightarrow> string" where
  "FreeBSD_buildUrunitConfig f = pad_loop (FreeBSD_configBody f)"

definition FreeBSD_setupUrunitConfig :: "FreeBSD \<Rightarrow> unit prog" where
  "FreeBSD_setupUrunitConfig f =
     wrapM ''failed to setup urunit config: %w'' [] (createFile urunitConfPath (FreeBSD_buildUrunitConfig f))"

definition FreeBSD_fill :: "UnikernelParams \<Rightarrow> FreeBSD \<Rightarrow> FreeBSD" where
  "FreeBSD_fill data f =
     (let f = (if Net_Mask (Uk_Net data) \<noteq> [] then
                 f\<lparr>FreeBSD_Net := \<lparr>FreeBSDNet_Address = Net_IP (Uk_Net data),
                                  FreeBSDNet_Gateway = Net_Gateway (Uk_Net data),
                                  FreeBSDNet_Mask = Net_Mask (Uk_Net data)\<rparr>\<rparr> else f);
          f = f\<lparr>FreeBSD_Block := Uk_Block data, FreeBSD_Env := Uk_EnvVars data,
                FreeBSD_WithUrunit := usesUrunit (Uk_CmdLine data)\<rparr>;
          f = (case Uk_CmdLine data of
                 [] \<Rightarrow> f
               | c # cs \<Rightarrow> f\<lparr>FreeBSD_InitPath := c, FreeBSD_Command := cs\<rparr>)
      in f\<lparr>FreeBSD_Monitor := Uk_Monitor data, FreeBSD_ProcConfig := Uk_ProcConf data,
           FreeBSD_RootFsType := Rfs_Type (Uk_Rootfs data)\<rparr>)"

definition FreeBSD_Init :: "UnikernelParams \<Rightarrow> FreeBSD \<Rightarrow> (err option \<times> FreeBSD) prog" where
  "FreeBSD_Init data f0 =
     (let f = FreeBSD_fill data f0;
          provision = (\<lambda>f. if FreeBSD_WithUrunit f then
                         bindM (tryM (FreeBSD_setupUrunitConfig f)) (\<lambda>r.
                           case r of Inl e \<Rightarrow> retM (Some e, f) | Inr _ \<Rightarrow> retM (None, f))
                       else retM (None, f))
      in if FreeBSD_RootFsType f = ''block'' then
           provision (f\<lparr>FreeBSD_BlockFsType :=
             (if Rfs_MountedPath (Uk_Rootfs data) \<noteq> [] then freeBSDext2fs else freeBSDufs)\<rparr>)
         else if FreeBSD_RootFsType f = ''9pfs'' then provision f
         else retM (Some (Errorf ''freebsd: unsupported rootfs type %q: only block and 9pfs are supported''
                     [FreeBSD_RootFsType f]), f))"

section \<open>Padding\<close>

lemma pad_loop_spec:
  "\<exists>n. pad_loop sb = sb @ replicate n NL \<and> n < blockSectorSize \<and> (length sb + n) mod blockSectorSize = 0"
proof (induction sb rule: pad_loop.induct)
  case (1 sb)
  show ?case
  proof (cases "length sb mod blockSectorSize = 0")
    case True
    then have "pad_loop sb = sb" by (subst pad_loop.simps) simp
    then show ?thesis using True by (intro exI [of _ 0]) (simp add: blockSectorSize_def)
  next
    case False
    then obtain n where n: "pad_loop (sb @ [NL]) = (sb @ [NL]) @ replicate n NL" "n < 512"
        "(length sb + 1 + n) mod 512 = 0"
      using "1.IH" by (auto simp: blockSectorSize_def)
    have "n \<noteq> 511"
    proof
      assume "n = 511"
      then show False using n(3) False by (simp add: blockSectorSize_def)
    qed
    moreover have "pad_loop sb = sb @ replicate (Suc n) NL"
      using False n(1) by (subst pad_loop.simps) simp
    ultimately show ?thesis using n(2,3)
      by (intro exI [of _ "Suc n"]) (simp add: blockSectorSize_def)
  qed
qed

end
