(* ===== verification/Guests.thy ===== *)
theory Guests
  imports Guest_Hermit Guest_Mewz Guest_Mirage Guest_Rumprun Guest_Unikraft Guest_FreeBSD
begin

text \<open>
  The guests behind one interface: \<open>types.Unikernel\<close> and \<open>unikernels.New\<close>. A value of the
  interface type is one of the seven guests; a method call is a case distinction. The
  architecture and the version library are arguments where a guest depends on them.
\<close>

datatype Unikernel =
    URumprun Rumprun | UUnikraft Unikraft | UMirage Mirage | UMewz Mewz | ULinux Linux
  | UHermit Hermit | UFreeBSD FreeBSD

definition RumprunUnikernel :: string where "RumprunUnikernel = ''rumprun''"
definition UnikraftUnikernel :: string where "UnikraftUnikernel = ''unikraft''"
definition MirageUnikernel :: string where "MirageUnikernel = ''mirage''"
definition MewzUnikernel :: string where "MewzUnikernel = ''mewz''"
definition LinuxUnikernel :: string where "LinuxUnikernel = ''linux''"
definition HermitUnikernel :: string where "HermitUnikernel = ''hermit''"
definition FreeBSDUnikernel :: string where "FreeBSDUnikernel = ''freebsd''"

lemmas guest_names = RumprunUnikernel_def UnikraftUnikernel_def MirageUnikernel_def
  MewzUnikernel_def LinuxUnikernel_def HermitUnikernel_def FreeBSDUnikernel_def

definition New_unikernel :: "string \<Rightarrow> err + Unikernel" where
  "New_unikernel unikernelType =
     (if unikernelType = RumprunUnikernel then Inr (URumprun newRumprun)
      else if unikernelType = UnikraftUnikernel then Inr (UUnikraft newUnikraft)
      else if unikernelType = MirageUnikernel then Inr (UMirage newMirage)
      else if unikernelType = MewzUnikernel then Inr (UMewz newMewz)
      else if unikernelType = LinuxUnikernel then Inr (ULinux newLinux)
      else if unikernelType = HermitUnikernel then Inr (UHermit newHermit)
      else if unikernelType = FreeBSDUnikernel then Inr (UFreeBSD newFreeBSD)
      else Inl ErrNotSupportedUnikernel)"

fun uk_CommandString :: "goarch \<Rightarrow> Unikernel \<Rightarrow> err + string" where
  "uk_CommandString arch (URumprun r) = Rumprun_CommandString r"
| "uk_CommandString arch (UUnikraft u) = Unikraft_CommandString arch u"
| "uk_CommandString arch (UMirage m) = Mirage_CommandString m"
| "uk_CommandString arch (UMewz m) = Mewz_CommandString m"
| "uk_CommandString arch (ULinux l) = Linux_CommandString arch l"
| "uk_CommandString arch (UHermit h) = Hermit_CommandString h"
| "uk_CommandString arch (UFreeBSD f) = FreeBSD_CommandString f"

fun uk_SupportsBlock :: "Unikernel \<Rightarrow> bool" where
  "uk_SupportsBlock (URumprun r) = Rumprun_SupportsBlock r"
| "uk_SupportsBlock (UUnikraft u) = Unikraft_SupportsBlock u"
| "uk_SupportsBlock (UMirage m) = Mirage_SupportsBlock m"
| "uk_SupportsBlock (UMewz m) = Mewz_SupportsBlock m"
| "uk_SupportsBlock (ULinux l) = Linux_SupportsBlock l"
| "uk_SupportsBlock (UHermit h) = Hermit_SupportsBlock h"
| "uk_SupportsBlock (UFreeBSD f) = FreeBSD_SupportsBlock f"

fun uk_SupportsFS :: "Unikernel \<Rightarrow> string \<Rightarrow> bool" where
  "uk_SupportsFS (URumprun r) t = Rumprun_SupportsFS r t"
| "uk_SupportsFS (UUnikraft u) t = Unikraft_SupportsFS u t"
| "uk_SupportsFS (UMirage m) t = Mirage_SupportsFS m t"
| "uk_SupportsFS (UMewz m) t = Mewz_SupportsFS m t"
| "uk_SupportsFS (ULinux l) t = Linux_SupportsFS l t"
| "uk_SupportsFS (UHermit h) t = Hermit_SupportsFS h t"
| "uk_SupportsFS (UFreeBSD f) t = FreeBSD_SupportsFS f t"

fun uk_MonitorNetCli :: "goarch \<Rightarrow> Unikernel \<Rightarrow> string \<Rightarrow> string \<Rightarrow> string list" where
  "uk_MonitorNetCli arch (URumprun r) i m = Rumprun_MonitorNetCli r i m"
| "uk_MonitorNetCli arch (UUnikraft u) i m = Unikraft_MonitorNetCli u i m"
| "uk_MonitorNetCli arch (UMirage g) i m = Mirage_MonitorNetCli g i m"
| "uk_MonitorNetCli arch (UMewz g) i m = Mewz_MonitorNetCli g i m"
| "uk_MonitorNetCli arch (ULinux l) i m = Linux_MonitorNetCli l i m"
| "uk_MonitorNetCli arch (UHermit h) i m = Hermit_MonitorNetCli arch h i m"
| "uk_MonitorNetCli arch (UFreeBSD f) i m = FreeBSD_MonitorNetCli f i m"

fun uk_MonitorBlockCli :: "Unikernel \<Rightarrow> MonitorBlockArgs list" where
  "uk_MonitorBlockCli (URumprun r) = Rumprun_MonitorBlockCli r"
| "uk_MonitorBlockCli (UUnikraft u) = Unikraft_MonitorBlockCli u"
| "uk_MonitorBlockCli (UMirage m) = Mirage_MonitorBlockCli m"
| "uk_MonitorBlockCli (UMewz m) = Mewz_MonitorBlockCli m"
| "uk_MonitorBlockCli (ULinux l) = Linux_MonitorBlockCli l"
| "uk_MonitorBlockCli (UHermit h) = Hermit_MonitorBlockCli h"
| "uk_MonitorBlockCli (UFreeBSD f) = FreeBSD_MonitorBlockCli f"

fun uk_MonitorSharedfsCli :: "Unikernel \<Rightarrow> string \<Rightarrow> string \<Rightarrow> string list" where
  "uk_MonitorSharedfsCli (URumprun r) t p = Rumprun_MonitorSharedfsCli r t p"
| "uk_MonitorSharedfsCli (UUnikraft u) t p = Unikraft_MonitorSharedfsCli u t p"
| "uk_MonitorSharedfsCli (UMirage m) t p = Mirage_MonitorSharedfsCli m t p"
| "uk_MonitorSharedfsCli (UMewz m) t p = Mewz_MonitorSharedfsCli m t p"
| "uk_MonitorSharedfsCli (ULinux l) t p = Linux_MonitorSharedfsCli l t p"
| "uk_MonitorSharedfsCli (UHermit h) t p = Hermit_MonitorSharedfsCli h t p"
| "uk_MonitorSharedfsCli (UFreeBSD f) t p = FreeBSD_MonitorSharedfsCli f t p"

fun uk_MonitorCli :: "Unikernel \<Rightarrow> MonitorCliArgs" where
  "uk_MonitorCli (URumprun r) = Rumprun_MonitorCli r"
| "uk_MonitorCli (UUnikraft u) = Unikraft_MonitorCli u"
| "uk_MonitorCli (UMirage m) = Mirage_MonitorCli m"
| "uk_MonitorCli (UMewz m) = Mewz_MonitorCli m"
| "uk_MonitorCli (ULinux l) = Linux_MonitorCli l"
| "uk_MonitorCli (UHermit h) = Hermit_MonitorCli h"
| "uk_MonitorCli (UFreeBSD f) = FreeBSD_MonitorCli f"

fun uk_Init :: "'v versions \<Rightarrow> UnikernelParams \<Rightarrow> Unikernel \<Rightarrow> (err option \<times> Unikernel) prog" where
  "uk_Init V d (URumprun r) = retM (map_prod id URumprun (Rumprun_Init d r))"
| "uk_Init V d (UUnikraft u) = retM (map_prod id UUnikraft (Unikraft_Init V d u))"
| "uk_Init V d (UMirage m) = retM (map_prod id UMirage (Mirage_Init d m))"
| "uk_Init V d (UMewz m) = retM (map_prod id UMewz (Mewz_Init d m))"
| "uk_Init V d (ULinux l) = bindM (Linux_Init d l) (\<lambda>r. retM (map_prod id ULinux r))"
| "uk_Init V d (UHermit h) = retM (map_prod id UHermit (Hermit_Init d h))"
| "uk_Init V d (UFreeBSD f) = bindM (FreeBSD_Init d f) (\<lambda>r. retM (map_prod id UFreeBSD r))"

lemmas guest_cli_defs =
  Rumprun_MonitorNetCli_def Unikraft_MonitorNetCli_def Mirage_MonitorNetCli_def
  Mewz_MonitorNetCli_def Linux_MonitorNetCli_def Hermit_MonitorNetCli_def FreeBSD_MonitorNetCli_def
  Rumprun_MonitorCli_def Unikraft_MonitorCli_def Mirage_MonitorCli_def
  Mewz_MonitorCli_def Linux_MonitorCli_def Hermit_MonitorCli_def FreeBSD_MonitorCli_def
  Rumprun_MonitorSharedfsCli_def Unikraft_MonitorSharedfsCli_def Mirage_MonitorSharedfsCli_def
  Mewz_MonitorSharedfsCli_def Linux_MonitorSharedfsCli_def Hermit_MonitorSharedfsCli_def
  FreeBSD_MonitorSharedfsCli_def

end
