(* ===== verification/Vmm_Utils.thy ===== *)
theory Vmm_Utils
  imports Go_Strconv Host Urunc_Types
begin

text \<open>
  Helpers of the monitors, \<open>pkg/unikontainers/hypervisors/utils.go\<close> and the default memory of
  \<open>vmm.go\<close>: memory sizes, and the delivery of signals to a monitor process. A \<open>uint64\<close> is a
  64-bit word, a pid is an \<open>int\<close>, \<open>kill(2)\<close> and the clock are calls.
\<close>

definition DefaultMemory :: "64 word" where
  "DefaultMemory = 256"

definition cpuArch :: "string \<Rightarrow> string" where
  "cpuArch arch = (if arch = ''arm64'' then ''aarch64'' else if arch = ''amd64'' then ''x86_64'' else [])"

definition bytesToMiB :: "64 word \<Rightarrow> 64 word" where
  "bytesToMiB bytes = bytes div (1024 * 1024)"

definition bytesToMB :: "64 word \<Rightarrow> 64 word" where
  "bytesToMB bytes = bytes div (1000 * 1000)"

definition BytesToStringMB :: "64 word \<Rightarrow> string" where
  "BytesToStringMB argMem =
     (if argMem \<noteq> 0 then
        (let userMem = bytesToMB argMem;
             userMem = (if userMem = 0 then DefaultMemory else userMem)
         in FormatUint (unat userMem))
      else FormatUint (unat DefaultMemory))"

section \<open>Signals\<close>

definition SIGKILL :: int where "SIGKILL = 9"
definition SIGTERM :: int where "SIGTERM = 15"
definition SIGINT :: int where "SIGINT = 2"

definition invalidPid :: "int \<Rightarrow> err" where
  "invalidPid pid = Errorf ''refusing to signal invalid pid %d'' [Itoa pid]"

definition signalProcess :: "int \<Rightarrow> int \<Rightarrow> unit prog" where
  "signalProcess pid sig =
     (if pid \<le> 0 then failM (invalidPid pid) else callU (Proc (Kill pid sig)))"

definition killTimeout :: int where
  "killTimeout = 2000000000"

definition pollInterval :: nat where
  "pollInterval = 100000000"

text \<open>
  The loop that waits for the process to be gone: signal 0 probes it, the clock (in
  nanoseconds) limits the wait. \<open>fuel\<close> bounds the number of turns.
\<close>

fun kill_loop :: "nat \<Rightarrow> int \<Rightarrow> int \<Rightarrow> unit prog" where
  "kill_loop 0 pid deadline = failM OutOfFuel"
| "kill_loop (Suc fuel) pid deadline =
     bindM (tryM (callU (Proc (Kill pid 0)))) (\<lambda>r.
       case r of
         Inl e \<Rightarrow>
           (if errors_Is e (Errno ESRCH) then retM ()
            else failM (ErrorfW ''error checking if process with pid %d is alive: %w'' [Itoa pid] e))
       | Inr _ \<Rightarrow>
           bindM callNow (\<lambda>now.
             if now > deadline then failM (Errorf ''timeout waiting for pid %d to die'' [Itoa pid])
             else bindM (ignoreM (callU (Proc (Sleep pollInterval)))) (\<lambda>_. kill_loop fuel pid deadline)))"

definition killProcess :: "nat \<Rightarrow> int \<Rightarrow> unit prog" where
  "killProcess fuel pid =
     (if pid \<le> 0 then failM (invalidPid pid)
      else bindM (tryM (callU (Proc (Kill pid SIGKILL)))) (\<lambda>r.
        case r of
          Inl e \<Rightarrow> (if errors_Is e (Errno ESRCH) then retM () else failM e)
        | Inr _ \<Rightarrow> bindM callNow (\<lambda>start. kill_loop fuel pid (start + killTimeout))))"

section \<open>Only the monitor is signalled\<close>

definition kill_target :: "int \<Rightarrow> call \<Rightarrow> bool" where
  "kill_target pid c = (case c of Proc (Kill p s) \<Rightarrow> p = pid \<and> 0 < p | _ \<Rightarrow> True)"

lemma kill_target_simps [simp]:
  "kill_target pid (Proc (Kill p s)) \<longleftrightarrow> p = pid \<and> 0 < p"
  "kill_target pid (Proc Now)" "kill_target pid (Proc (Sleep n))"
  by (simp_all add: kill_target_def)

lemma only_kill_loop: "0 < pid \<Longrightarrow> only (kill_target pid) (kill_loop fuel pid d)"
  by (induction fuel) (auto intro!: only_intros)

lemma only_killProcess: "only (kill_target pid) (killProcess fuel pid)"
  unfolding killProcess_def by (auto intro!: only_intros only_kill_loop)

lemma only_signalProcess: "only (kill_target pid) (signalProcess pid sig)"
  unfolding signalProcess_def by (auto intro!: only_intros)

section \<open>The wait ends\<close>

text \<open>
  A clock that advances by at least \<open>step\<close> nanoseconds from one sleep to the next; the time read
  after the history \<open>t\<close> is \<open>clock \<omega> t\<close>.
\<close>

definition clock :: "host \<Rightarrow> call list \<Rightarrow> int" where
  "clock \<omega> t = (case \<omega> t (Proc Now) of RInt i \<Rightarrow> i | _ \<Rightarrow> 0)"

definition sleeps :: "call list \<Rightarrow> nat" where
  "sleeps t = length (filter (\<lambda>c. c = Proc (Sleep pollInterval)) t)"

definition clock_advances :: "host \<Rightarrow> bool" where
  "clock_advances \<omega> \<longleftrightarrow>
     (\<forall>t u. clock \<omega> (t @ u) \<ge> clock \<omega> t + int pollInterval * int (sleeps u))"

lemma sleeps_simps [simp]:
  "sleeps [] = 0" "sleeps (a @ b) = sleeps a + sleeps b"
  "sleeps [Proc (Sleep pollInterval)] = 1" "sleeps [Proc (Kill p s)] = 0" "sleeps [Proc Now] = 0"
  by (simp_all add: sleeps_def)

lemma bind_tryU:
  "bindM (tryM (callU c)) f \<omega> t =
    f (case \<omega> t c of ROk \<Rightarrow> Inr () | RErr e \<Rightarrow> Inl e | _ \<Rightarrow> Inl badReply) \<omega> (t @ [c])"
  by (simp add: bindM_run callU_run)

lemma bind_callNow: "bindM callNow f \<omega> t = f (clock \<omega> t) \<omega> (t @ [Proc Now])"
  by (simp add: bindM_run callNow_run clock_def)

lemma bind_ignoreU: "bindM (ignoreM (callU c)) f \<omega> t = f () \<omega> (t @ [c])"
  by (simp add: bindM_run callU_run)

text \<open>\<open>n\<close> is the number of sleeps after which the deadline is certainly past.\<close>

lemma kill_loop_returns:
  assumes adv: "clock_advances \<omega>"
    and past: "clock \<omega> t0 + int pollInterval * int n > d"
  shows "k + fuel > n \<Longrightarrow> sleeps u \<ge> k \<Longrightarrow> fst (kill_loop fuel pid d \<omega> (t0 @ u)) \<noteq> Inl OutOfFuel
    \<or> k > n"
proof (induction fuel arbitrary: u k)
  case 0
  then show ?case by simp
next
  case (Suc fuel)
  let ?t = "t0 @ u"
  let ?r = "case \<omega> ?t (Proc (Kill pid 0)) of ROk \<Rightarrow> Inr () | RErr e \<Rightarrow> Inl e | _ \<Rightarrow> Inl badReply"
  let ?now = "clock \<omega> (?t @ [Proc (Kill pid 0)])"
  show ?case
  proof (cases ?r)
    case (Inl e)
    then show ?thesis by (simp add: bind_tryU del: bindM_assoc)
  next
    case (Inr x)
    show ?thesis
    proof (cases "?now > d")
      case True
      then show ?thesis using Inr by (simp add: bind_tryU bind_callNow)
    next
      case False
      have "?now \<ge> clock \<omega> t0 + int pollInterval * int (sleeps (u @ [Proc (Kill pid 0)]))"
        using adv [unfolded clock_advances_def, rule_format, of t0 "u @ [Proc (Kill pid 0)]"] by simp
      then have "int pollInterval * int (sleeps u) < int pollInterval * int n"
        using past False by simp
      then have "sleeps u < n" by (simp add: mult_less_cancel_left_pos pollInterval_def)
      then have "k < n" using Suc.prems(2) by simp
      let ?u = "u @ [Proc (Kill pid 0), Proc Now, Proc (Sleep pollInterval)]"
      have "fst (kill_loop fuel pid d \<omega> (t0 @ ?u)) \<noteq> Inl OutOfFuel \<or> Suc k > n"
        by (rule Suc.IH) (use Suc.prems in \<open>auto simp: sleeps_def\<close>)
      then show ?thesis using Inr False \<open>k < n\<close> by (simp add: bind_tryU bind_callNow bind_ignoreU)
    qed
  qed
qed

lemma killProcess_not_out_of_fuel:
  assumes "clock_advances \<omega>" and "22 \<le> fuel"
    and "\<And>t. \<omega> t (Proc (Kill pid SIGKILL)) \<noteq> RErr OutOfFuel"
  shows "fst (killProcess fuel pid \<omega> t) \<noteq> Inl OutOfFuel"
proof (cases "pid \<le> 0")
  case True
  then show ?thesis by (simp add: killProcess_def invalidPid_def)
next
  case False
  let ?t = "t @ [Proc (Kill pid SIGKILL)]"
  have "clock \<omega> (?t @ [Proc Now]) \<ge> clock \<omega> ?t + int pollInterval * int (sleeps [Proc Now])"
    using assms(1) unfolding clock_advances_def by blast
  then have "clock \<omega> (?t @ [Proc Now]) + int pollInterval * int 21 > clock \<omega> ?t + killTimeout"
    by (simp add: pollInterval_def killTimeout_def)
  from kill_loop_returns [OF assms(1) this, of 0 fuel "[]" pid] assms(2)
  have "fst (kill_loop fuel pid (clock \<omega> ?t + killTimeout) \<omega> (?t @ [Proc Now])) \<noteq> Inl OutOfFuel"
    by simp
  then show ?thesis using False assms(3) [of t]
    by (auto simp: killProcess_def bind_tryU bind_callNow badReply_def split: reply.splits)
qed

end
