(* ===== verification/Vmm_Solo5.thy ===== *)
theory Vmm_Solo5
  imports Guests Vmm_Utils
begin

text \<open>
  The two Solo5 tenders, \<open>hvt.go\<close> and \<open>spt.go\<close> under \<open>pkg/unikontainers/hypervisors\<close>. The
  command line is the tender's options, the separator \<open>--\<close>, the unikernel, and the guest's own
  command line as one argument.
\<close>

definition solo5ArgsSeparator :: string where
  "solo5ArgsSeparator = ''--''"

definition HvtVmm :: string where "HvtVmm = ''hvt''"
definition HvtBinary :: string where "HvtBinary = ''solo5-hvt''"
definition SptVmm :: string where "SptVmm = ''spt''"
definition SptBinary :: string where "SptBinary = ''solo5-spt''"

record HVT =
  hvt_binaryPath :: string
  hvt_binary :: string

record SPT =
  spt_binaryPath :: string
  spt_binary :: string

definition HVT_Signal :: "HVT \<Rightarrow> int \<Rightarrow> int \<Rightarrow> unit prog" where
  "HVT_Signal h pid sig = signalProcess pid sig"

definition HVT_Stop :: "nat \<Rightarrow> HVT \<Rightarrow> int \<Rightarrow> unit prog" where
  "HVT_Stop fuel h pid = killProcess fuel pid"

definition HVT_UsesKVM :: "HVT \<Rightarrow> bool" where "HVT_UsesKVM h = True"
definition HVT_UsesTUNTAP :: "HVT \<Rightarrow> bool" where "HVT_UsesTUNTAP h = True"
definition HVT_SupportsSharedfs :: "HVT \<Rightarrow> string \<Rightarrow> bool" where "HVT_SupportsSharedfs h fs = False"
definition HVT_SupportsControlSocket :: "HVT \<Rightarrow> bool" where "HVT_SupportsControlSocket h = False"
definition HVT_Path :: "HVT \<Rightarrow> string" where "HVT_Path h = hvt_binaryPath h"

definition HVT_Ok :: "HVT \<Rightarrow> unit prog" where
  "HVT_Ok h = bindM (tryM (callS (Proc (LookPath HvtBinary)))) (\<lambda>r.
     case r of Inl _ \<Rightarrow> failM ErrVMMNotInstalled | Inr _ \<Rightarrow> retM ())"

text \<open>The options for the disks: \<open>--block:ID=PATH\<close> for each device that has a path.\<close>

fun solo5_blocks :: "MonitorBlockArgs list \<Rightarrow> string list \<Rightarrow> string list" where
  "solo5_blocks [] exArgs = exArgs"
| "solo5_blocks (b # bs) exArgs =
     solo5_blocks bs
       (if Mb_Path b \<noteq> [] then exArgs @ [''--block:'' @ Mb_ID b @ ''='' @ Mb_Path b] else exArgs)"

definition HVT_BuildExecCmd :: "goarch \<Rightarrow> HVT \<Rightarrow> ExecArgs \<Rightarrow> Unikernel \<Rightarrow> err + string list" where
  "HVT_BuildExecCmd arch h args uk =
     (let hvtMem = BytesToStringMB (Ex_MemSizeB args);
          exArgs = [hvt_binaryPath h, ''--mem='' @ hvtMem];
          net = Ex_Net args;
          exArgs = (if Net_TapDev net \<noteq> [] then exArgs @ uk_MonitorNetCli arch uk (Net_TapDev net) (Net_MAC net)
                    else exArgs);
          exArgs = solo5_blocks (uk_MonitorBlockCli uk) exArgs;
          exArgs = exArgs @ Cli_OtherArgs (uk_MonitorCli uk);
          exArgs = exArgs @ [solo5ArgsSeparator, Ex_UnikernelPath args]
      in Inr (if Ex_Command args \<noteq> [] then exArgs @ [Ex_Command args] else exArgs))"

definition HVT_PreExec :: "HVT \<Rightarrow> ExecArgs \<Rightarrow> unit prog" where
  "HVT_PreExec h args = retM ()"

definition SPT_Signal :: "SPT \<Rightarrow> int \<Rightarrow> int \<Rightarrow> unit prog" where
  "SPT_Signal s pid sig = signalProcess pid sig"

definition SPT_Stop :: "nat \<Rightarrow> SPT \<Rightarrow> int \<Rightarrow> unit prog" where
  "SPT_Stop fuel s pid = killProcess fuel pid"

definition SPT_UsesKVM :: "SPT \<Rightarrow> bool" where "SPT_UsesKVM s = False"
definition SPT_UsesTUNTAP :: "SPT \<Rightarrow> bool" where "SPT_UsesTUNTAP s = True"
definition SPT_SupportsSharedfs :: "SPT \<Rightarrow> string \<Rightarrow> bool" where "SPT_SupportsSharedfs s fs = False"
definition SPT_SupportsControlSocket :: "SPT \<Rightarrow> bool" where "SPT_SupportsControlSocket s = False"
definition SPT_Path :: "SPT \<Rightarrow> string" where "SPT_Path s = spt_binaryPath s"

definition SPT_Ok :: "SPT \<Rightarrow> unit prog" where
  "SPT_Ok s = bindM (tryM (callS (Proc (LookPath SptBinary)))) (\<lambda>r.
     case r of Inl _ \<Rightarrow> failM ErrVMMNotInstalled | Inr _ \<Rightarrow> retM ())"

definition SPT_BuildExecCmd :: "goarch \<Rightarrow> SPT \<Rightarrow> ExecArgs \<Rightarrow> Unikernel \<Rightarrow> err + string list" where
  "SPT_BuildExecCmd arch s args uk =
     (let sptMem = BytesToStringMB (Ex_MemSizeB args);
          exArgs = [spt_binaryPath s, ''--mem='' @ sptMem];
          net = Ex_Net args;
          exArgs = (if Net_TapDev net \<noteq> [] then exArgs @ uk_MonitorNetCli arch uk (Net_TapDev net) (Net_MAC net)
                    else exArgs);
          exArgs = solo5_blocks (uk_MonitorBlockCli uk) exArgs;
          exArgs = exArgs @ Cli_OtherArgs (uk_MonitorCli uk);
          exArgs = exArgs @ [solo5ArgsSeparator, Ex_UnikernelPath args]
      in Inr (if Ex_Command args \<noteq> [] then exArgs @ [Ex_Command args] else exArgs))"

definition SPT_PreExec :: "SPT \<Rightarrow> ExecArgs \<Rightarrow> unit prog" where
  "SPT_PreExec s args = retM ()"

lemma solo5_blocks_acc:
  "solo5_blocks bs exArgs =
    exArgs @ map (\<lambda>b. ''--block:'' @ Mb_ID b @ ''='' @ Mb_Path b) (filter (\<lambda>b. Mb_Path b \<noteq> []) bs)"
  by (induction bs arbitrary: exArgs) auto

text \<open>The options of a tender in front of the separator.\<close>

definition solo5_options :: "goarch \<Rightarrow> ExecArgs \<Rightarrow> Unikernel \<Rightarrow> string list" where
  "solo5_options arch args uk =
     [''--mem='' @ BytesToStringMB (Ex_MemSizeB args)]
     @ (if Net_TapDev (Ex_Net args) \<noteq> []
        then uk_MonitorNetCli arch uk (Net_TapDev (Ex_Net args)) (Net_MAC (Ex_Net args)) else [])
     @ map (\<lambda>b. ''--block:'' @ Mb_ID b @ ''='' @ Mb_Path b) (filter (\<lambda>b. Mb_Path b \<noteq> []) (uk_MonitorBlockCli uk))
     @ Cli_OtherArgs (uk_MonitorCli uk)"

lemma HVT_BuildExecCmd_eq:
  "HVT_BuildExecCmd arch h args uk =
    Inr ([hvt_binaryPath h] @ solo5_options arch args uk @ [''--'', Ex_UnikernelPath args]
         @ (if Ex_Command args \<noteq> [] then [Ex_Command args] else []))"
  by (simp add: Let_def HVT_BuildExecCmd_def solo5_options_def solo5_blocks_acc solo5ArgsSeparator_def)

lemma SPT_BuildExecCmd_eq:
  "SPT_BuildExecCmd arch s args uk =
    Inr ([spt_binaryPath s] @ solo5_options arch args uk @ [''--'', Ex_UnikernelPath args]
         @ (if Ex_Command args \<noteq> [] then [Ex_Command args] else []))"
  by (simp add: Let_def SPT_BuildExecCmd_def solo5_options_def solo5_blocks_acc solo5ArgsSeparator_def)

text \<open>No guest passes the separator of the tenders among its options.\<close>

lemma netcli_no_separator:
  "''--'' \<notin> set (uk_MonitorNetCli arch uk ifName mac)"
  by (cases uk) (auto simp: guest_cli_defs zero_defs Let_def split: if_splits)

lemma moncli_no_separator: "''--'' \<notin> set (Cli_OtherArgs (uk_MonitorCli uk))"
  by (cases uk) (auto simp: guest_cli_defs zero_defs Let_def split: if_splits)

lemma solo5_options_no_separator: "''--'' \<notin> set (solo5_options arch args uk)"
  by (auto simp: solo5_options_def netcli_no_separator moncli_no_separator)

end
