(* ===== verification/Vmm_Qemu.thy ===== *)
theory Vmm_Qemu
  imports Guests Vmm_Utils
begin

text \<open>
  QEMU, \<open>pkg/unikontainers/hypervisors/qemu.go\<close>: the command line, section by section in the
  order of the code.
\<close>

definition QemuVmm :: string where "QemuVmm = ''qemu''"
definition QemuBinary :: string where "QemuBinary = ''qemu-system-''"

record Qemu =
  qemu_binaryPath :: string
  qemu_binary :: string
  qemu_vhost :: bool

definition Qemu_Signal :: "Qemu \<Rightarrow> int \<Rightarrow> int \<Rightarrow> unit prog" where
  "Qemu_Signal q pid sig = signalProcess pid sig"

definition Qemu_Stop :: "nat \<Rightarrow> Qemu \<Rightarrow> int \<Rightarrow> unit prog" where
  "Qemu_Stop fuel q pid = killProcess fuel pid"

definition Qemu_Ok :: "Qemu \<Rightarrow> unit prog" where "Qemu_Ok q = retM ()"
definition Qemu_UsesKVM :: "Qemu \<Rightarrow> bool" where "Qemu_UsesKVM q = True"
definition Qemu_UsesTUNTAP :: "Qemu \<Rightarrow> bool" where "Qemu_UsesTUNTAP q = True"
definition Qemu_SupportsSharedfs :: "Qemu \<Rightarrow> string \<Rightarrow> bool" where "Qemu_SupportsSharedfs q fs = True"
definition Qemu_SupportsControlSocket :: "Qemu \<Rightarrow> bool" where "Qemu_SupportsControlSocket q = True"
definition Qemu_Path :: "Qemu \<Rightarrow> string" where "Qemu_Path q = qemu_binaryPath q"

definition qemu_machine :: "goarch \<Rightarrow> Qemu \<Rightarrow> ExecArgs \<Rightarrow> string list" where
  "qemu_machine arch q args =
     (let qemuMem = BytesToStringMB (Ex_MemSizeB args)
      in [qemu_binaryPath q, ''-m'', qemuMem @ ''M'', ''-L'', ''/usr/share/qemu'', ''-cpu'', ''host'',
          ''-enable-kvm'', ''-display'', ''none'', ''-vga'', ''none'', ''-serial'', ''stdio'',
          ''-monitor'', ''null'']
         @ (if Ex_SocketPath args \<noteq> []
            then [''-qmp'', ''unix:'' @ Ex_SocketPath args @ '',server=on,wait=off''] else [])
         @ (if Ex_VCPUs args > 0 then [''-smp'', FormatUint (unat (Ex_VCPUs args))] else [])
         @ (if Ex_Seccomp args
            then [''--sandbox'', ''on,obsolete=deny,elevateprivileges=deny,spawn=deny,resourcecontrol=deny'']
            else [])
         @ (if arch = ''arm64'' then [''-M'', ''virt''] else [])
         @ [''-kernel'', Ex_UnikernelPath args])"

definition qemu_net :: "goarch \<Rightarrow> Qemu \<Rightarrow> NetDevParams \<Rightarrow> Unikernel \<Rightarrow> string list" where
  "qemu_net arch q net uk =
     (if Net_TapDev net \<noteq> [] then
        (let netcli = uk_MonitorNetCli arch uk (Net_TapDev net) (Net_MAC net)
         in if netcli = [] then
              (let netdevArg = ''tap,id=net0,script=no,downscript=no,ifname='' @ Net_TapDev net;
                   netdevArg = (if qemu_vhost q then netdevArg @ '',vhost=on'' else netdevArg);
                   devType = (if arch = ''arm64'' then ''virtio-net-device'' else ''virtio-net-pci'')
               in [''-netdev'', netdevArg,
                   ''-device'', devType @ '',netdev=net0,host_mtu='' @ Itoa (Net_MTU net) @ '',mac='' @ Net_MAC net])
            else netcli)
      else [''-nic'', ''none''])"

fun qemu_blocks :: "MonitorBlockArgs list \<Rightarrow> string list" where
  "qemu_blocks [] = []"
| "qemu_blocks (b # bs) =
     (if Mb_ID b \<noteq> [] \<and> Mb_Path b \<noteq> [] then
        [''-device'', ''virtio-blk-pci,serial='' @ Mb_ID b @ '',drive='' @ Mb_ID b @ '',scsi=off'',
         ''-drive'', ''format=raw,if=none,id='' @ Mb_ID b @ '',file='' @ Mb_Path b]
      else if Mb_ExactArgs b \<noteq> [] then Mb_ExactArgs b else []) @ qemu_blocks bs"

definition qemu_sharedfs :: "ExecArgs \<Rightarrow> Unikernel \<Rightarrow> string list" where
  "qemu_sharedfs args uk =
     (let fs = Ex_Sharedfs args
      in if Sfs_Type fs = ''9pfs'' then uk_MonitorSharedfsCli uk (Sfs_Type fs) (Sfs_Path fs)
         else if Sfs_Type fs = ''virtiofs'' then
           [''-object'', ''memory-backend-file,id=mem,size='' @ BytesToStringMB (Ex_MemSizeB args) @
                         ''M,mem-path=/tmp,share=on'',
            ''-numa'', ''node,memdev=mem'',
            ''-chardev'', ''socket,id=char0,path=/tmp/vhostqemu'',
            ''-device'', ''vhost-user-fs-pci,queue-size=1024,chardev=char0,tag=fs0'']
         else [])"

definition qemu_tail :: "ExecArgs \<Rightarrow> MonitorCliArgs \<Rightarrow> string list" where
  "qemu_tail args extraMonArgs =
     (if Cli_ExtraInitrd extraMonArgs \<noteq> [] then [''-initrd'', Cli_ExtraInitrd extraMonArgs] else [])
     @ Cli_OtherArgs extraMonArgs
     @ (if Ex_VAccelType args = ''vsock''
        then [''-device'', ''vhost-vsock-pci,id=vhost-vsock-pci0,guest-cid='' @ Itoa (Ex_VSockDevID args)]
        else [])
     @ [''-append'', Ex_Command args]"

definition Qemu_BuildExecCmd :: "goarch \<Rightarrow> Qemu \<Rightarrow> ExecArgs \<Rightarrow> Unikernel \<Rightarrow> err + string list" where
  "Qemu_BuildExecCmd arch q args uk =
     Inr (qemu_machine arch q args
          @ qemu_net arch q (Ex_Net args) uk
          @ qemu_blocks (uk_MonitorBlockCli uk)
          @ (if Ex_InitrdPath args \<noteq> [] then [''-initrd'', Ex_InitrdPath args] else [])
          @ qemu_sharedfs args uk
          @ qemu_tail args (uk_MonitorCli uk))"

definition Qemu_PreExec :: "Qemu \<Rightarrow> ExecArgs \<Rightarrow> unit prog" where
  "Qemu_PreExec q args = retM ()"

end
