(* ===== verification/Vmm_Firecracker.thy ===== *)
theory Vmm_Firecracker
  imports Guests Vmm_Utils Go_Json Go_Path
begin

text \<open>
  Firecracker, \<open>pkg/unikontainers/hypervisors/firecracker.go\<close>. The guest is described by a JSON
  file the code writes while it builds the command line. A field tagged \<open>omitempty\<close> is left out
  when it is an empty string or slice; a struct is never empty, so \<open>vsock\<close> is always there.
\<close>

definition FirecrackerVmm :: string where "FirecrackerVmm = ''firecracker''"
definition FirecrackerBinary :: string where "FirecrackerBinary = ''firecracker''"
definition FCJsonFilename :: string where "FCJsonFilename = ''fc.json''"

record Firecracker =
  fc_binaryPath :: string
  fc_binary :: string

record FirecrackerBootSource =
  FcSrc_ImagePath :: string
  FcSrc_BootArgs :: string
  FcSrc_InitrdPath :: string

record FirecrackerMachine =
  FcMach_VcpuCount :: "64 word"
  FcMach_MemSizeMiB :: "64 word"
  FcMach_Smt :: bool
  FcMach_TrackDirtyPages :: bool

record FirecrackerDrive =
  FcDrive_DriveID :: string
  FcDrive_IsRO :: bool
  FcDrive_IsRootDev :: bool
  FcDrive_HostPath :: string

record FirecrackerNet =
  FcNet_IfaceID :: string
  FcNet_GuestMAC :: string
  FcNet_HostIF :: string

record FirecrackerVSockDev =
  FcVSock_GuestCID :: int
  FcVSock_UDSPath :: string
  FcVSock_VSockID :: string

record FirecrackerConfig =
  FcCfg_Source :: FirecrackerBootSource
  FcCfg_Machine :: FirecrackerMachine
  FcCfg_Drives :: "FirecrackerDrive list"
  FcCfg_NetIfs :: "FirecrackerNet list"
  FcCfg_VSock :: FirecrackerVSockDev

definition omitempty :: "string \<Rightarrow> string \<Rightarrow> (string \<times> json) list" where
  "omitempty k s = (if s = [] then [] else [(k, JStr s)])"

definition json_FcSource :: "FirecrackerBootSource \<Rightarrow> json" where
  "json_FcSource s = JObj ([(''kernel_image_path'', JStr (FcSrc_ImagePath s)),
     (''boot_args'', JStr (FcSrc_BootArgs s))] @ omitempty ''initrd_path'' (FcSrc_InitrdPath s))"

definition json_FcMachine :: "FirecrackerMachine \<Rightarrow> json" where
  "json_FcMachine m = JObj [(''vcpu_count'', JNum (uint (FcMach_VcpuCount m))),
     (''mem_size_mib'', JNum (uint (FcMach_MemSizeMiB m))), (''smt'', JBool (FcMach_Smt m)),
     (''track_dirty_pages'', JBool (FcMach_TrackDirtyPages m))]"

definition json_FcDrive :: "FirecrackerDrive \<Rightarrow> json" where
  "json_FcDrive d = JObj [(''drive_id'', JStr (FcDrive_DriveID d)), (''is_read_only'', JBool (FcDrive_IsRO d)),
     (''is_root_device'', JBool (FcDrive_IsRootDev d)), (''path_on_host'', JStr (FcDrive_HostPath d))]"

definition json_FcNet :: "FirecrackerNet \<Rightarrow> json" where
  "json_FcNet n = JObj ([(''iface_id'', JStr (FcNet_IfaceID n))] @ omitempty ''guest_mac'' (FcNet_GuestMAC n) @
     [(''host_dev_name'', JStr (FcNet_HostIF n))])"

definition json_FcVSock :: "FirecrackerVSockDev \<Rightarrow> json" where
  "json_FcVSock v = JObj [(''guest_cid'', JNum (FcVSock_GuestCID v)), (''uds_path'', JStr (FcVSock_UDSPath v)),
     (''vsock_id'', JStr (FcVSock_VSockID v))]"

definition json_FcConfig :: "FirecrackerConfig \<Rightarrow> json" where
  "json_FcConfig c = JObj ([(''boot-source'', json_FcSource (FcCfg_Source c)),
     (''machine-config'', json_FcMachine (FcCfg_Machine c)),
     (''drives'', JArr (map json_FcDrive (FcCfg_Drives c)))] @
     (if FcCfg_NetIfs c = [] then [] else [(''network-interfaces'', JArr (map json_FcNet (FcCfg_NetIfs c)))]) @
     [(''vsock'', json_FcVSock (FcCfg_VSock c))])"

definition Firecracker_Stop :: "nat \<Rightarrow> Firecracker \<Rightarrow> int \<Rightarrow> unit prog" where
  "Firecracker_Stop fuel fc pid = killProcess fuel pid"

definition Firecracker_Signal :: "nat \<Rightarrow> Firecracker \<Rightarrow> int \<Rightarrow> int \<Rightarrow> unit prog" where
  "Firecracker_Signal fuel fc pid sig =
     (if sig = SIGTERM \<or> sig = SIGINT then Firecracker_Stop fuel fc pid else signalProcess pid sig)"

definition Firecracker_Ok :: "Firecracker \<Rightarrow> unit prog" where "Firecracker_Ok fc = retM ()"
definition Firecracker_UsesKVM :: "Firecracker \<Rightarrow> bool" where "Firecracker_UsesKVM fc = True"
definition Firecracker_UsesTUNTAP :: "Firecracker \<Rightarrow> bool" where "Firecracker_UsesTUNTAP fc = True"
definition Firecracker_SupportsSharedfs :: "Firecracker \<Rightarrow> string \<Rightarrow> bool" where
  "Firecracker_SupportsSharedfs fc fs = False"
definition Firecracker_SupportsControlSocket :: "Firecracker \<Rightarrow> bool" where
  "Firecracker_SupportsControlSocket fc = True"
definition Firecracker_Path :: "Firecracker \<Rightarrow> string" where "Firecracker_Path fc = fc_binaryPath fc"

definition fc_memory :: "64 word \<Rightarrow> 64 word" where
  "fc_memory memSizeB =
     (if memSizeB \<noteq> 0 then
        (let fcMem = bytesToMiB memSizeB in if fcMem = 0 then DefaultMemory else fcMem)
      else DefaultMemory)"

definition fc_config :: "ExecArgs \<Rightarrow> Unikernel \<Rightarrow> FirecrackerConfig" where
  "fc_config args uk =
     (let extraMonArgs = uk_MonitorCli uk;
          initrdPath = (if Ex_InitrdPath args = [] then Cli_ExtraInitrd extraMonArgs else Ex_InitrdPath args);
          machine = \<lparr>FcMach_VcpuCount = Ex_VCPUs args, FcMach_MemSizeMiB = fc_memory (Ex_MemSizeB args),
                     FcMach_Smt = False, FcMach_TrackDirtyPages = False\<rparr>;
          nets = (if Net_TapDev (Ex_Net args) \<noteq> []
                  then [\<lparr>FcNet_IfaceID = ''net1'', FcNet_GuestMAC = Net_MAC (Ex_Net args),
                         FcNet_HostIF = Net_TapDev (Ex_Net args)\<rparr>] else []);
          drives = map (\<lambda>b. \<lparr>FcDrive_DriveID = Mb_ID b, FcDrive_IsRO = False,
                             FcDrive_IsRootDev = (Mb_ID b = ''rootfs''), FcDrive_HostPath = Mb_Path b\<rparr>)
                     (uk_MonitorBlockCli uk);
          source = \<lparr>FcSrc_ImagePath = Ex_UnikernelPath args, FcSrc_BootArgs = Ex_Command args,
                    FcSrc_InitrdPath = initrdPath\<rparr>;
          vsock = (if Ex_VAccelType args = ''vsock''
                   then \<lparr>FcVSock_GuestCID = Ex_VSockDevID args,
                         FcVSock_UDSPath = Ex_VSockDevPath args @ ''/vaccel.sock'', FcVSock_VSockID = ''root''\<rparr>
                   else \<lparr>FcVSock_GuestCID = 0, FcVSock_UDSPath = [], FcVSock_VSockID = []\<rparr>)
      in \<lparr>FcCfg_Source = source, FcCfg_Machine = machine, FcCfg_Drives = drives, FcCfg_NetIfs = nets,
          FcCfg_VSock = vsock\<rparr>)"

definition fc_JSONConfigFile :: string where
  "fc_JSONConfigFile = filepath_Join [''/tmp/'', FCJsonFilename]"

definition fc_args :: "Firecracker \<Rightarrow> ExecArgs \<Rightarrow> string list" where
  "fc_args fc args =
     [Firecracker_Path fc]
     @ (if Ex_SocketPath args \<noteq> [] then [''--api-sock'', Ex_SocketPath args] else [''--no-api''])
     @ [''--config-file'', fc_JSONConfigFile]
     @ (if \<not> Ex_Seccomp args then [''--no-seccomp''] else [])"

definition Firecracker_BuildExecCmd :: "Firecracker \<Rightarrow> ExecArgs \<Rightarrow> Unikernel \<Rightarrow> string list prog" where
  "Firecracker_BuildExecCmd fc args uk =
     bindM (wrapM ''failed to save Firecracker json config: %w'' []
              (callU (Fs (WriteFile fc_JSONConfigFile (marshal (json_FcConfig (fc_config args uk))) 420))))
       (\<lambda>_. retM (fc_args fc args))"

definition Firecracker_PreExec :: "Firecracker \<Rightarrow> ExecArgs \<Rightarrow> unit prog" where
  "Firecracker_PreExec fc args = retM ()"

lemma fc_JSONConfigFile_eq: "fc_JSONConfigFile = ''/tmp/fc.json''"
  by code_simp

end
