(* ===== verification/Vmm_CloudHypervisor.thy ===== *)
theory Vmm_CloudHypervisor
  imports Guests Vmm_Utils
begin

text \<open>Cloud Hypervisor, \<open>pkg/unikontainers/hypervisors/cloud_hypervisor.go\<close>.\<close>

definition CloudHypervisorVmm :: string where "CloudHypervisorVmm = ''cloud-hypervisor''"
definition CloudHypervisorBinary :: string where "CloudHypervisorBinary = ''cloud-hypervisor''"

record CloudHypervisor =
  ch_binaryPath :: string
  ch_binary :: string

definition CloudHypervisor_Signal :: "CloudHypervisor \<Rightarrow> int \<Rightarrow> int \<Rightarrow> unit prog" where
  "CloudHypervisor_Signal ch pid sig = signalProcess pid sig"

definition CloudHypervisor_Stop :: "nat \<Rightarrow> CloudHypervisor \<Rightarrow> int \<Rightarrow> unit prog" where
  "CloudHypervisor_Stop fuel ch pid = killProcess fuel pid"

definition CloudHypervisor_Ok :: "CloudHypervisor \<Rightarrow> unit prog" where
  "CloudHypervisor_Ok ch = retM ()"
definition CloudHypervisor_UsesKVM :: "CloudHypervisor \<Rightarrow> bool" where
  "CloudHypervisor_UsesKVM ch = True"
definition CloudHypervisor_UsesTUNTAP :: "CloudHypervisor \<Rightarrow> bool" where
  "CloudHypervisor_UsesTUNTAP ch = True"
definition CloudHypervisor_SupportsControlSocket :: "CloudHypervisor \<Rightarrow> bool" where
  "CloudHypervisor_SupportsControlSocket ch = True"
definition CloudHypervisor_SupportsSharedfs :: "CloudHypervisor \<Rightarrow> string \<Rightarrow> bool" where
  "CloudHypervisor_SupportsSharedfs ch fsType = (fsType = ''virtio'')"
definition CloudHypervisor_Path :: "CloudHypervisor \<Rightarrow> string" where
  "CloudHypervisor_Path ch = ch_binaryPath ch"

definition ch_machine :: "CloudHypervisor \<Rightarrow> ExecArgs \<Rightarrow> string list" where
  "ch_machine ch args =
     (let chMem = BytesToStringMB (Ex_MemSizeB args)
      in [ch_binaryPath ch]
         @ (if Ex_SocketPath args \<noteq> [] then [''--api-socket'', ''path='' @ Ex_SocketPath args] else [])
         @ (if Sfs_Type (Ex_Sharedfs args) = ''virtiofs''
            then [''--memory'', ''size='' @ chMem @ ''M,shared=on'']
            else [''--memory'', ''size='' @ chMem @ ''M''])
         @ (if Ex_VCPUs args > 0 then [''--cpus'', ''boot='' @ FormatUint (unat (Ex_VCPUs args))] else [])
         @ [''--kernel'', Ex_UnikernelPath args]
         @ [''--console'', ''off'', ''--serial'', ''tty'']
         @ (if Ex_Seccomp args then [''--seccomp'', ''true''] else [''--seccomp'', ''false'']))"

definition ch_net :: "goarch \<Rightarrow> NetDevParams \<Rightarrow> Unikernel \<Rightarrow> string list" where
  "ch_net arch net uk =
     (if Net_TapDev net \<noteq> [] then
        (let netCli = uk_MonitorNetCli arch uk (Net_TapDev net) (Net_MAC net)
         in if netCli = [] then [''--net'', ''tap='' @ Net_TapDev net @ '',mac='' @ Net_MAC net] else netCli)
      else [])"

fun ch_blocks :: "MonitorBlockArgs list \<Rightarrow> string list" where
  "ch_blocks [] = []"
| "ch_blocks (b # bs) =
     (if Mb_ExactArgs b \<noteq> [] then Mb_ExactArgs b
      else if Mb_Path b \<noteq> [] then
        [''--disk'', ''path='' @ Mb_Path b @ (if Mb_ID b \<noteq> [] then '',id='' @ Mb_ID b else [])]
      else []) @ ch_blocks bs"

definition CloudHypervisor_BuildExecCmd ::
    "goarch \<Rightarrow> CloudHypervisor \<Rightarrow> ExecArgs \<Rightarrow> Unikernel \<Rightarrow> err + string list" where
  "CloudHypervisor_BuildExecCmd arch ch args uk =
     (let extraMonArgs = uk_MonitorCli uk
      in Inr (ch_machine ch args
         @ ch_net arch (Ex_Net args) uk
         @ ch_blocks (uk_MonitorBlockCli uk)
         @ (if Ex_InitrdPath args \<noteq> [] then [''--initramfs'', Ex_InitrdPath args] else [])
         @ (if Cli_ExtraInitrd extraMonArgs \<noteq> [] then [''--initramfs'', Cli_ExtraInitrd extraMonArgs] else [])
         @ (if Sfs_Type (Ex_Sharedfs args) = ''virtiofs'' then [''--fs'', ''tag=fs0,socket=/tmp/vhostqemu''] else [])
         @ (if Ex_VAccelType args = ''vsock''
            then [''--vsock'', ''cid='' @ Itoa (Ex_VSockDevID args) @ '',socket='' @ Ex_VSockDevPath args @
                               ''/vaccel.sock''] else [])
         @ Cli_OtherArgs extraMonArgs
         @ [''--cmdline'', Ex_Command args]))"

definition CloudHypervisor_PreExec :: "CloudHypervisor \<Rightarrow> ExecArgs \<Rightarrow> unit prog" where
  "CloudHypervisor_PreExec ch args = retM ()"

end
