(* ===== verification/Vmm_Hyperlight.thy ===== *)
theory Vmm_Hyperlight
  imports Guests Vmm_Utils
begin

text \<open>Hyperlight, \<open>pkg/unikontainers/hypervisors/hyperlight.go\<close>.\<close>

definition HyperlightVmm :: string where "HyperlightVmm = ''hyperlight-unikraft''"
definition HyperlightBinary :: string where "HyperlightBinary = ''hluk''"

record Hyperlight =
  hl_binaryPath :: string
  hl_binary :: string

definition Hyperlight_Stop :: "nat \<Rightarrow> Hyperlight \<Rightarrow> int \<Rightarrow> unit prog" where
  "Hyperlight_Stop fuel h pid = killProcess fuel pid"

definition Hyperlight_Signal :: "Hyperlight \<Rightarrow> int \<Rightarrow> int \<Rightarrow> unit prog" where
  "Hyperlight_Signal h pid sig = signalProcess pid sig"

definition Hyperlight_Ok :: "Hyperlight \<Rightarrow> unit prog" where "Hyperlight_Ok h = retM ()"
definition Hyperlight_UsesKVM :: "Hyperlight \<Rightarrow> bool" where "Hyperlight_UsesKVM h = True"
definition Hyperlight_UsesTUNTAP :: "Hyperlight \<Rightarrow> bool" where "Hyperlight_UsesTUNTAP h = False"
definition Hyperlight_SupportsSharedfs :: "Hyperlight \<Rightarrow> string \<Rightarrow> bool" where
  "Hyperlight_SupportsSharedfs h fs = False"
definition Hyperlight_SupportsControlSocket :: "Hyperlight \<Rightarrow> bool" where
  "Hyperlight_SupportsControlSocket h = False"
definition Hyperlight_Path :: "Hyperlight \<Rightarrow> string" where "Hyperlight_Path h = hl_binaryPath h"

definition portArgs :: "string \<Rightarrow> string list" where
  "portArgs ports =
     (if ports = [] then [''--port=all'']
      else map (\<lambda>port. ''--port='' @ port) (Split (CHR '','') ports))"

definition netArgs :: "ExecArgs \<Rightarrow> string list" where
  "netArgs args =
     (if Net_IP (Ex_Net args) = [] then []
      else [''--net''] @ portArgs (Ex_Ports args)
           @ (if Ex_ResolvConf args then [''--resolv-conf='' @ ResolvConfPath] else []))"

definition Hyperlight_BuildExecCmd :: "Hyperlight \<Rightarrow> ExecArgs \<Rightarrow> Unikernel \<Rightarrow> err + string list" where
  "Hyperlight_BuildExecCmd h args uk =
     (let extraMonArgs = uk_MonitorCli uk
      in if Ex_SnapshotPath args \<noteq> [] then
           Inr ([hl_binaryPath h, ''snapshot'', ''run'', Ex_SnapshotPath args] @ netArgs args
                @ Cli_OtherArgs extraMonArgs)
         else if Ex_InitrdPath args = [] then Inl ErrHyperlightNoInitrd
         else
           (let memMiB = bytesToMiB (Ex_MemSizeB args)
            in Inr ([hl_binaryPath h, ''run'']
                 @ (if Ex_UnikernelPath args \<noteq> [] then [''--kernel'', Ex_UnikernelPath args] else [])
                 @ [''--initrd'', Ex_InitrdPath args]
                 @ (if memMiB > 0 then [''--scratch-mb'', FormatUint (unat memMiB)] else [])
                 @ netArgs args
                 @ Cli_OtherArgs extraMonArgs)))"

definition Hyperlight_PreExec :: "Hyperlight \<Rightarrow> ExecArgs \<Rightarrow> unit prog" where
  "Hyperlight_PreExec h args = retM ()"

end
