(* ===== verification/Vmms.thy ===== *)
theory Vmms
  imports Vmm_Solo5 Vmm_Qemu Vmm_Firecracker Vmm_CloudHypervisor Vmm_Hyperlight
begin

text \<open>
  The monitors behind one interface: \<open>types.VMM\<close>, \<open>vmm.go\<close> and \<open>hedge.go\<close> under
  \<open>pkg/unikontainers/hypervisors\<close>. The configured monitors are a map from names to their
  configuration, in which a missing name reads as the zero value.
\<close>

section \<open>Hedge\<close>

datatype Hedge = Hedge

definition HedgeVmm :: string where "HedgeVmm = ''hedge''"
definition hedgeErr :: err where "hedgeErr = Errorf ''hedge not implemented yet'' []"
definition Hedge_Ok :: "Hedge \<Rightarrow> unit prog" where "Hedge_Ok h = failM hedgeErr"
definition Hedge_Signal :: "Hedge \<Rightarrow> int \<Rightarrow> int \<Rightarrow> unit prog" where "Hedge_Signal h pid sig = failM hedgeErr"
definition Hedge_Stop :: "Hedge \<Rightarrow> int \<Rightarrow> unit prog" where "Hedge_Stop h pid = failM hedgeErr"
definition Hedge_UsesKVM :: "Hedge \<Rightarrow> bool" where "Hedge_UsesKVM h = True"
definition Hedge_UsesTUNTAP :: "Hedge \<Rightarrow> bool" where "Hedge_UsesTUNTAP h = True"
definition Hedge_SupportsSharedfs :: "Hedge \<Rightarrow> string \<Rightarrow> bool" where "Hedge_SupportsSharedfs h fs = False"
definition Hedge_SupportsControlSocket :: "Hedge \<Rightarrow> bool" where "Hedge_SupportsControlSocket h = False"
definition Hedge_Path :: "Hedge \<Rightarrow> string" where "Hedge_Path h = []"
definition Hedge_BuildExecCmd :: "Hedge \<Rightarrow> ExecArgs \<Rightarrow> Unikernel \<Rightarrow> err + string list" where
  "Hedge_BuildExecCmd h args uk = Inl hedgeErr"
definition Hedge_PreExec :: "Hedge \<Rightarrow> ExecArgs \<Rightarrow> unit prog" where "Hedge_PreExec h args = failM hedgeErr"

text \<open>\<open>VMState\<close>; the names that the \<open>hedge_api\<close> package lists are an argument.\<close>

definition Hedge_VMState :: "err + string list \<Rightarrow> Hedge \<Rightarrow> string \<Rightarrow> string" where
  "Hedge_VMState listVMs h name =
     (case listVMs of Inl _ \<Rightarrow> ''error''
      | Inr vms \<Rightarrow> if name \<in> set vms then ''running'' else ''unknown'')"

section \<open>The interface\<close>

datatype VMM =
    VSPT SPT | VHVT HVT | VQemu Qemu | VFirecracker Firecracker | VCloudHypervisor CloudHypervisor
  | VHyperlight Hyperlight | VHedge Hedge

fun vmm_BuildExecCmd :: "goarch \<Rightarrow> VMM \<Rightarrow> ExecArgs \<Rightarrow> Unikernel \<Rightarrow> string list prog" where
  "vmm_BuildExecCmd arch (VSPT s) args uk = liftM (SPT_BuildExecCmd arch s args uk)"
| "vmm_BuildExecCmd arch (VHVT h) args uk = liftM (HVT_BuildExecCmd arch h args uk)"
| "vmm_BuildExecCmd arch (VQemu q) args uk = liftM (Qemu_BuildExecCmd arch q args uk)"
| "vmm_BuildExecCmd arch (VFirecracker f) args uk = Firecracker_BuildExecCmd f args uk"
| "vmm_BuildExecCmd arch (VCloudHypervisor c) args uk = liftM (CloudHypervisor_BuildExecCmd arch c args uk)"
| "vmm_BuildExecCmd arch (VHyperlight h) args uk = liftM (Hyperlight_BuildExecCmd h args uk)"
| "vmm_BuildExecCmd arch (VHedge h) args uk = liftM (Hedge_BuildExecCmd h args uk)"

fun vmm_PreExec :: "VMM \<Rightarrow> ExecArgs \<Rightarrow> unit prog" where
  "vmm_PreExec (VSPT s) args = SPT_PreExec s args"
| "vmm_PreExec (VHVT h) args = HVT_PreExec h args"
| "vmm_PreExec (VQemu q) args = Qemu_PreExec q args"
| "vmm_PreExec (VFirecracker f) args = Firecracker_PreExec f args"
| "vmm_PreExec (VCloudHypervisor c) args = CloudHypervisor_PreExec c args"
| "vmm_PreExec (VHyperlight h) args = Hyperlight_PreExec h args"
| "vmm_PreExec (VHedge h) args = Hedge_PreExec h args"

fun vmm_Stop :: "nat \<Rightarrow> VMM \<Rightarrow> int \<Rightarrow> unit prog" where
  "vmm_Stop fuel (VSPT s) pid = SPT_Stop fuel s pid"
| "vmm_Stop fuel (VHVT h) pid = HVT_Stop fuel h pid"
| "vmm_Stop fuel (VQemu q) pid = Qemu_Stop fuel q pid"
| "vmm_Stop fuel (VFirecracker f) pid = Firecracker_Stop fuel f pid"
| "vmm_Stop fuel (VCloudHypervisor c) pid = CloudHypervisor_Stop fuel c pid"
| "vmm_Stop fuel (VHyperlight h) pid = Hyperlight_Stop fuel h pid"
| "vmm_Stop fuel (VHedge h) pid = Hedge_Stop h pid"

fun vmm_Signal :: "nat \<Rightarrow> VMM \<Rightarrow> int \<Rightarrow> int \<Rightarrow> unit prog" where
  "vmm_Signal fuel (VSPT s) pid sig = SPT_Signal s pid sig"
| "vmm_Signal fuel (VHVT h) pid sig = HVT_Signal h pid sig"
| "vmm_Signal fuel (VQemu q) pid sig = Qemu_Signal q pid sig"
| "vmm_Signal fuel (VFirecracker f) pid sig = Firecracker_Signal fuel f pid sig"
| "vmm_Signal fuel (VCloudHypervisor c) pid sig = CloudHypervisor_Signal c pid sig"
| "vmm_Signal fuel (VHyperlight h) pid sig = Hyperlight_Signal h pid sig"
| "vmm_Signal fuel (VHedge h) pid sig = Hedge_Signal h pid sig"

fun vmm_Ok :: "VMM \<Rightarrow> unit prog" where
  "vmm_Ok (VSPT s) = SPT_Ok s"
| "vmm_Ok (VHVT h) = HVT_Ok h"
| "vmm_Ok (VQemu q) = Qemu_Ok q"
| "vmm_Ok (VFirecracker f) = Firecracker_Ok f"
| "vmm_Ok (VCloudHypervisor c) = CloudHypervisor_Ok c"
| "vmm_Ok (VHyperlight h) = Hyperlight_Ok h"
| "vmm_Ok (VHedge h) = Hedge_Ok h"

fun vmm_Path :: "VMM \<Rightarrow> string" where
  "vmm_Path (VSPT s) = SPT_Path s"
| "vmm_Path (VHVT h) = HVT_Path h"
| "vmm_Path (VQemu q) = Qemu_Path q"
| "vmm_Path (VFirecracker f) = Firecracker_Path f"
| "vmm_Path (VCloudHypervisor c) = CloudHypervisor_Path c"
| "vmm_Path (VHyperlight h) = Hyperlight_Path h"
| "vmm_Path (VHedge h) = Hedge_Path h"

fun vmm_UsesKVM :: "VMM \<Rightarrow> bool" where
  "vmm_UsesKVM (VSPT s) = SPT_UsesKVM s"
| "vmm_UsesKVM (VHVT h) = HVT_UsesKVM h"
| "vmm_UsesKVM (VQemu q) = Qemu_UsesKVM q"
| "vmm_UsesKVM (VFirecracker f) = Firecracker_UsesKVM f"
| "vmm_UsesKVM (VCloudHypervisor c) = CloudHypervisor_UsesKVM c"
| "vmm_UsesKVM (VHyperlight h) = Hyperlight_UsesKVM h"
| "vmm_UsesKVM (VHedge h) = Hedge_UsesKVM h"

fun vmm_UsesTUNTAP :: "VMM \<Rightarrow> bool" where
  "vmm_UsesTUNTAP (VSPT s) = SPT_UsesTUNTAP s"
| "vmm_UsesTUNTAP (VHVT h) = HVT_UsesTUNTAP h"
| "vmm_UsesTUNTAP (VQemu q) = Qemu_UsesTUNTAP q"
| "vmm_UsesTUNTAP (VFirecracker f) = Firecracker_UsesTUNTAP f"
| "vmm_UsesTUNTAP (VCloudHypervisor c) = CloudHypervisor_UsesTUNTAP c"
| "vmm_UsesTUNTAP (VHyperlight h) = Hyperlight_UsesTUNTAP h"
| "vmm_UsesTUNTAP (VHedge h) = Hedge_UsesTUNTAP h"

fun vmm_SupportsSharedfs :: "VMM \<Rightarrow> string \<Rightarrow> bool" where
  "vmm_SupportsSharedfs (VSPT s) fs = SPT_SupportsSharedfs s fs"
| "vmm_SupportsSharedfs (VHVT h) fs = HVT_SupportsSharedfs h fs"
| "vmm_SupportsSharedfs (VQemu q) fs = Qemu_SupportsSharedfs q fs"
| "vmm_SupportsSharedfs (VFirecracker f) fs = Firecracker_SupportsSharedfs f fs"
| "vmm_SupportsSharedfs (VCloudHypervisor c) fs = CloudHypervisor_SupportsSharedfs c fs"
| "vmm_SupportsSharedfs (VHyperlight h) fs = Hyperlight_SupportsSharedfs h fs"
| "vmm_SupportsSharedfs (VHedge h) fs = Hedge_SupportsSharedfs h fs"

fun vmm_SupportsControlSocket :: "VMM \<Rightarrow> bool" where
  "vmm_SupportsControlSocket (VSPT s) = SPT_SupportsControlSocket s"
| "vmm_SupportsControlSocket (VHVT h) = HVT_SupportsControlSocket h"
| "vmm_SupportsControlSocket (VQemu q) = Qemu_SupportsControlSocket q"
| "vmm_SupportsControlSocket (VFirecracker f) = Firecracker_SupportsControlSocket f"
| "vmm_SupportsControlSocket (VCloudHypervisor c) = CloudHypervisor_SupportsControlSocket c"
| "vmm_SupportsControlSocket (VHyperlight h) = Hyperlight_SupportsControlSocket h"
| "vmm_SupportsControlSocket (VHedge h) = Hedge_SupportsControlSocket h"

section \<open>Choosing a monitor\<close>

type_synonym monitors = "string \<Rightarrow> MonitorConfig option"

definition monitorOf :: "monitors \<Rightarrow> string \<Rightarrow> MonitorConfig" where
  "monitorOf ms k = (case ms k of None \<Rightarrow> zeroMonitorConfig | Some c \<Rightarrow> c)"

text \<open>The table of factories: the binary of a type and the monitor built from a path.\<close>

definition vmmFactories :: "string \<Rightarrow> (string \<times> (string \<Rightarrow> string \<Rightarrow> bool \<Rightarrow> VMM)) option" where
  "vmmFactories vmmType =
     (if vmmType = SptVmm then Some (SptBinary, \<lambda>b p v. VSPT \<lparr>spt_binaryPath = p, spt_binary = b\<rparr>)
      else if vmmType = HvtVmm then Some (HvtBinary, \<lambda>b p v. VHVT \<lparr>hvt_binaryPath = p, hvt_binary = b\<rparr>)
      else if vmmType = QemuVmm then
        Some (QemuBinary, \<lambda>b p v. VQemu \<lparr>qemu_binaryPath = p, qemu_binary = b, qemu_vhost = v\<rparr>)
      else if vmmType = FirecrackerVmm then
        Some (FirecrackerBinary, \<lambda>b p v. VFirecracker \<lparr>fc_binaryPath = p, fc_binary = b\<rparr>)
      else if vmmType = CloudHypervisorVmm then
        Some (CloudHypervisorBinary, \<lambda>b p v. VCloudHypervisor \<lparr>ch_binaryPath = p, ch_binary = b\<rparr>)
      else if vmmType = HyperlightVmm then
        Some (HyperlightBinary, \<lambda>b p v. VHyperlight \<lparr>hl_binaryPath = p, hl_binary = b\<rparr>)
      else None)"

definition getVMMPath :: "goarch \<Rightarrow> string \<Rightarrow> string \<Rightarrow> monitors \<Rightarrow> string prog" where
  "getVMMPath arch vmmType binary ms =
     (if Mon_BinaryPath (monitorOf ms vmmType) \<noteq> [] then retM (Mon_BinaryPath (monitorOf ms vmmType))
      else
        let lookupBinary = (if vmmType = QemuVmm then binary @ cpuArch arch else binary)
        in bindM (tryM (callS (Proc (LookPath lookupBinary)))) (\<lambda>r.
             case r of Inl _ \<Rightarrow> failM ErrVMMNotInstalled | Inr p \<Rightarrow> retM p))"

definition NewVMM :: "goarch \<Rightarrow> string \<Rightarrow> monitors \<Rightarrow> VMM prog" where
  "NewVMM arch vmmType ms =
     (if vmmType = HedgeVmm then
        bindM (tryM (Hedge_Ok Hedge)) (\<lambda>r.
          case r of Inl _ \<Rightarrow> failM ErrVMMNotInstalled | Inr _ \<Rightarrow> retM (VHedge Hedge))
      else case vmmFactories vmmType of
        None \<Rightarrow> failM (Errorf (''vmm '' @ [CHR 0x22] @ ''%s'' @ [CHR 0x22] @ '' is not supported'') [vmmType])
      | Some (binary, create) \<Rightarrow>
          bindM (getVMMPath arch vmmType binary ms) (\<lambda>vmmPath.
            retM (create binary vmmPath (Mon_Vhost (monitorOf ms vmmType)))))"

lemmas vmm_names = SptVmm_def HvtVmm_def QemuVmm_def FirecrackerVmm_def CloudHypervisorVmm_def
  HyperlightVmm_def HedgeVmm_def

end
