(* ===== verification/Vaccel_Address.thy ===== *)
theory Vaccel_Address
  imports Go_Strconv
begin

text \<open>
  The addresses of a vAccel agent, \<open>pkg/unikontainers/vaccel.go\<close>: the regular expressions of the
  accepted formats as recognisers, one alternative each, and the port numbers they accept.
\<close>

definition digit_in :: "nat \<Rightarrow> nat \<Rightarrow> char \<Rightarrow> bool" where
  "digit_in lo hi c = (48 + lo \<le> byte c \<and> byte c \<le> 48 + hi)"

fun matches :: "(char \<Rightarrow> bool) list \<Rightarrow> string \<Rightarrow> bool" where
  "matches [] [] = True"
| "matches (p # ps) (c # cs) = (p c \<and> matches ps cs)"
| "matches _ _ = False"

text \<open>The alternatives of \<open>vAccelPortRe\<close>.\<close>

definition port_alternatives :: "(char \<Rightarrow> bool) list list" where
  "port_alternatives =
     (let d = digit_in 0 9 in
     [[digit_in 1 9], [digit_in 1 9, d], [digit_in 1 9, d, d], [digit_in 1 9, d, d, d],
      [digit_in 1 5, d, d, d, d],
      [digit_in 6 6, digit_in 0 4, d, d, d],
      [digit_in 6 6, digit_in 5 5, digit_in 0 4, d, d],
      [digit_in 6 6, digit_in 5 5, digit_in 5 5, digit_in 0 2, d],
      [digit_in 6 6, digit_in 5 5, digit_in 5 5, digit_in 3 3, digit_in 0 5]])"

definition vAccelPort :: "string \<Rightarrow> bool" where
  "vAccelPort s = list_ex (\<lambda>ps. matches ps s) port_alternatives"

definition sock_char :: "char \<Rightarrow> bool" where
  "sock_char c = (isAlnum c \<or> c = CHR ''_'' \<or> c = CHR ''-'')"

definition sock_comp :: "string \<Rightarrow> bool" where
  "sock_comp w = (w \<noteq> [] \<and> list_all sock_char w)"

definition vAccelUnixScheme :: string where
  "vAccelUnixScheme = ''unix://''"

definition vsockScheme :: string where
  "vsockScheme = ''vsock://2:''"

definition sockName :: string where
  "sockName = ''vaccel.sock_''"

text \<open>
  The address of a unix socket: a directory of one component at least, and the name of the
  socket, whose port is the second group of the expression.
\<close>

definition unix_address :: "string \<Rightarrow> string option" where
  "unix_address s =
     (if \<not> HasPrefix s vAccelUnixScheme then None
      else case Split (CHR ''/'') (TrimPrefix s vAccelUnixScheme) of
        [] \<Rightarrow> None
      | first # rest \<Rightarrow>
          (if first = [] \<and> length rest \<ge> 2 \<and> list_all sock_comp (butlast rest) \<and>
              HasPrefix (last rest) sockName \<and> vAccelPort (TrimPrefix (last rest) sockName)
           then Some (TrimPrefix (last rest) sockName) else None))"

definition vsock_address :: "string \<Rightarrow> bool" where
  "vsock_address s = (HasPrefix s vsockScheme \<and> vAccelPort (TrimPrefix s vsockScheme))"

text \<open>\<open>vAccelAddressRe\<close>: the format of a monitor's address, \<open>None\<close> when the monitor has none.\<close>

definition vAccelAddressRe :: "string \<Rightarrow> (string \<Rightarrow> bool) option" where
  "vAccelAddressRe monitor =
     (if monitor = ''qemu'' then Some vsock_address
      else if monitor = ''firecracker'' then Some (\<lambda>s. unix_address s \<noteq> None)
      else None)"

section \<open>The accepted ports\<close>

lemma digit_in_val: "digit_in lo hi c \<Longrightarrow> hi \<le> 9 \<Longrightarrow> isDigit c \<and> lo \<le> digit_val c \<and> digit_val c \<le> hi"
  by (auto simp: digit_in_def isDigit_def digit_val_def)

lemma FormatUint_digits_val:
  "s \<noteq> [] \<Longrightarrow> list_all isDigit s \<Longrightarrow> 1 \<le> digit_val (hd s) \<Longrightarrow> FormatUint (digits_val s) = s"
proof (induction s rule: rev_induct)
  case (snoc c s)
  have c: "digit_char (digit_val c) = c" "digit_val c < 10"
    using snoc.prems by (auto simp: digit_char_def digit_val_def isDigit_def byte_def)
  show ?case
  proof (cases "s = []")
    case True
    then show ?thesis using c by (simp add: digits_val_def FormatUint.simps)
  next
    case False
    then have IH: "FormatUint (digits_val s) = s" using snoc by simp
    have "digits_val s \<noteq> 0"
    proof
      assume z: "digits_val s = 0"
      then have "s = ''0''" using IH by (simp add: FormatUint.simps)
      then have "digit_val (hd (s @ [c])) = 0" by (simp add: digit_val_def byte_def)
      then show False using snoc.prems by simp
    qed
    then show ?thesis
      using c IH FormatUint.simps [of "digits_val s * 10 + digit_val c"]
      by (simp add: digits_val_snoc)
  qed
qed simp

lemma digits_val_Cons5:
  "digits_val [a] = digit_val a"
  "digits_val [a, b] = digit_val a * 10 + digit_val b"
  "digits_val [a, b, c] = (digit_val a * 10 + digit_val b) * 10 + digit_val c"
  "digits_val [a, b, c, d] = ((digit_val a * 10 + digit_val b) * 10 + digit_val c) * 10 + digit_val d"
  "digits_val [a, b, c, d, e] =
     (((digit_val a * 10 + digit_val b) * 10 + digit_val c) * 10 + digit_val d) * 10 + digit_val e"
  by (simp_all add: digits_val_def)

lemma matches_Nil_iff: "matches [] s \<longleftrightarrow> s = []"
  by (cases s) auto

lemma matches_Cons_iff: "matches (p # ps) s \<longleftrightarrow> (\<exists>c cs. s = c # cs \<and> p c \<and> matches ps cs)"
  by (cases s) auto

lemma digit_in_iff: "hi \<le> 9 \<Longrightarrow> digit_in lo hi c \<longleftrightarrow> isDigit c \<and> lo \<le> digit_val c \<and> digit_val c \<le> hi"
  by (auto simp: digit_in_def isDigit_def digit_val_def)

lemma isDigit_val: "isDigit c \<Longrightarrow> digit_val c \<le> 9"
  by (auto simp: isDigit_def digit_val_def)

lemma vAccelPort_bounds:
  "vAccelPort s \<Longrightarrow> s \<noteq> [] \<and> list_all isDigit s \<and> 1 \<le> digit_val (hd s) \<and> digits_val s \<le> 65535"
  unfolding vAccelPort_def port_alternatives_def Let_def
  by (auto simp: matches_Cons_iff matches_Nil_iff digit_in_iff digits_val_Cons5)

lemma digits_val_ge: "s \<noteq> [] \<Longrightarrow> 1 \<le> digit_val (hd s) \<Longrightarrow> 10 ^ (length s - 1) \<le> digits_val s"
proof (induction s rule: rev_induct)
  case (snoc c s)
  show ?case
  proof (cases "s = []")
    case True
    then show ?thesis using snoc.prems by (simp add: digits_val_def)
  next
    case False
    then have "10 ^ (length s - 1) \<le> digits_val s" using snoc by simp
    then have "10 * 10 ^ (length s - 1) \<le> digits_val s * 10 + digit_val c" by linarith
    moreover have "(10::nat) * 10 ^ (length s - 1) = 10 ^ length s" using False by (cases s) auto
    ultimately show ?thesis by (simp add: digits_val_snoc)
  qed
qed simp

lemma port_cases:
  fixes a b c d e :: nat
  assumes "(((a * 10 + b) * 10 + c) * 10 + d) * 10 + e \<le> 65535"
  shows "a \<le> 5 \<or> a = 6 \<and> b \<le> 4 \<or> a = 6 \<and> b = 5 \<and> c \<le> 4 \<or> a = 6 \<and> b = 5 \<and> c = 5 \<and> d \<le> 2
    \<or> a = 6 \<and> b = 5 \<and> c = 5 \<and> d = 3 \<and> e \<le> 5"
proof -
  have v: "10000 * a + 1000 * b + 100 * c + 10 * d + e \<le> 65535" using assms by (simp add: algebra_simps)
  have "a \<le> 5 \<or> a = 6" using v by linarith
  moreover have "a = 6 \<Longrightarrow> b \<le> 4 \<or> b = 5" using v by linarith
  moreover have "a = 6 \<Longrightarrow> b = 5 \<Longrightarrow> c \<le> 4 \<or> c = 5" using v by linarith
  moreover have "a = 6 \<Longrightarrow> b = 5 \<Longrightarrow> c = 5 \<Longrightarrow> d \<le> 2 \<or> d = 3" using v by linarith
  moreover have "a = 6 \<Longrightarrow> b = 5 \<Longrightarrow> c = 5 \<Longrightarrow> d = 3 \<Longrightarrow> e \<le> 5" using v by linarith
  ultimately show ?thesis by blast
qed

lemma vAccelPort_complete:
  assumes "s \<noteq> []" "list_all isDigit s" "1 \<le> digit_val (hd s)" "digits_val s \<le> 65535"
  shows "vAccelPort s"
proof -
  have "10 ^ (length s - 1) \<le> (65535::nat)" using digits_val_ge [OF assms(1,3)] assms(4) by linarith
  then have len: "length s \<le> 5"
  proof -
    have "length s - 1 < 5"
    proof (rule ccontr)
      assume "\<not> length s - 1 < 5"
      then have "(10::nat) ^ 5 \<le> 10 ^ (length s - 1)" by (intro power_increasing) auto
      then show False using \<open>10 ^ (length s - 1) \<le> (65535::nat)\<close> by simp
    qed
    then show ?thesis by simp
  qed
  consider a where "s = [a]" | a b where "s = [a, b]" | a b c where "s = [a, b, c]"
    | a b c d where "s = [a, b, c, d]" | a b c d e where "s = [a, b, c, d, e]"
    using len assms(1) by (auto simp: le_Suc_eq length_Suc_conv numeral_eq_Suc)
  then show ?thesis
  proof cases
    case 5
    with assms have d: "digit_val b \<le> 9" "digit_val c \<le> 9" "digit_val d \<le> 9" "digit_val e \<le> 9" "1 \<le> digit_val a"
      and v: "(((digit_val a * 10 + digit_val b) * 10 + digit_val c) * 10 + digit_val d) * 10 + digit_val e \<le> 65535"
      by (auto simp: digits_val_Cons5 isDigit_val)
    then consider "digit_val a \<le> 5" | "digit_val a = 6" "digit_val b \<le> 4"
      | "digit_val a = 6" "digit_val b = 5" "digit_val c \<le> 4"
      | "digit_val a = 6" "digit_val b = 5" "digit_val c = 5" "digit_val d \<le> 2"
      | "digit_val a = 6" "digit_val b = 5" "digit_val c = 5" "digit_val d = 3" "digit_val e \<le> 5"
      using port_cases [OF v] by metis
    then show ?thesis
      using 5 assms d unfolding vAccelPort_def port_alternatives_def Let_def
      by cases (simp_all add: digit_in_iff)
  qed (use assms in \<open>auto simp: vAccelPort_def port_alternatives_def Let_def digit_in_iff isDigit_val\<close>)
qed

lemma vAccelPort_iff: "vAccelPort s \<longleftrightarrow> (\<exists>n. 1 \<le> n \<and> n \<le> 65535 \<and> s = FormatUint n)"
proof
  assume p: "vAccelPort s"
  note b = vAccelPort_bounds [OF p]
  then have "FormatUint (digits_val s) = s" by (intro FormatUint_digits_val) auto
  moreover have "1 \<le> digits_val s" using digits_val_ge [of s] b one_le_power [of "10::nat"]
    by (meson le_trans one_le_numeral)
  ultimately show "\<exists>n. 1 \<le> n \<and> n \<le> 65535 \<and> s = FormatUint n" using b by metis
next
  assume "\<exists>n. 1 \<le> n \<and> n \<le> 65535 \<and> s = FormatUint n"
  then obtain n where n: "1 \<le> n" "n \<le> 65535" "s = FormatUint n" by blast
  obtain c t where ct: "s = c # t" using n(3) FormatUint_nonempty [of n] by (metis list.exhaust)
  have "isDigit c" using FormatUint_Cons n(3) ct by metis
  moreover have "c \<noteq> CHR ''0''" using FormatUint_zero [of n t] n ct by auto
  then have "byte c \<noteq> 48" using byte_inj [of c "CHR ''0''"] by (simp add: byte_def)
  ultimately have "1 \<le> digit_val c" by (auto simp: digit_val_def isDigit_def)
  then have "1 \<le> digit_val (hd s)" using ct by simp
  then show "vAccelPort s" using n by (intro vAccelPort_complete) simp_all
qed

end
