(* ===== verification/Go_Base64.thy ===== *)
theory Go_Base64
  imports Go_Prelude
begin

text \<open>
  \<open>base64.StdEncoding\<close>: decoding as the code uses it (line breaks skipped, padding required, the
  unused bits of the last digit free), and the encoding that the annotations of an image hold.
\<close>

definition b64_val :: "char \<Rightarrow> nat option" where
  "b64_val c =
     (if isUpper c then Some (byte c - 65)
      else if isLower c then Some (byte c - 71)
      else if isDigit c then Some (byte c + 4)
      else if c = CHR ''+'' then Some 62
      else if c = CHR ''/'' then Some 63
      else None)"

definition PAD :: char where
  "PAD = CHR ''=''"

definition group1 :: "nat \<Rightarrow> nat \<Rightarrow> string" where
  "group1 a b = [char_of ((a * 64 + b) div 16)]"

definition group2 :: "nat \<Rightarrow> nat \<Rightarrow> nat \<Rightarrow> string" where
  "group2 a b c = (let m = (a * 64 + b) * 64 + c in [char_of (m div 1024), char_of (m div 4 mod 256)])"

definition group3 :: "nat \<Rightarrow> nat \<Rightarrow> nat \<Rightarrow> nat \<Rightarrow> string" where
  "group3 a b c d =
     (let n = ((a * 64 + b) * 64 + c) * 64 + d
      in [char_of (n div 65536), char_of (n div 256 mod 256), char_of (n mod 256)])"

fun decode_quads :: "string \<Rightarrow> string option" where
  "decode_quads [] = Some []"
| "decode_quads (a # b # c # d # rest) =
     (case (b64_val a, b64_val b) of
        (Some va, Some vb) \<Rightarrow>
          (if rest = [] \<and> d = PAD then
             (if c = PAD then Some (group1 va vb)
              else case b64_val c of None \<Rightarrow> None | Some vc \<Rightarrow> Some (group2 va vb vc))
           else case (b64_val c, b64_val d) of
                  (Some vc, Some vd) \<Rightarrow> map_option (\<lambda>r. group3 va vb vc vd @ r) (decode_quads rest)
                | _ \<Rightarrow> None)
      | _ \<Rightarrow> None)"
| "decode_quads _ = None"

definition DecodeString :: "string \<Rightarrow> err + string" where
  "DecodeString s =
     (case decode_quads (filter (\<lambda>c. byte c \<noteq> 10 \<and> byte c \<noteq> 13) s) of
        None \<Rightarrow> Inl (Errorf ''illegal base64 data'' []) | Some d \<Rightarrow> Inr d)"

section \<open>Encoding\<close>

definition b64_char :: "nat \<Rightarrow> char" where
  "b64_char n =
     (if n < 26 then char_of (n + 65) else if n < 52 then char_of (n + 71)
      else if n < 62 then char_of (n - 4) else if n = 62 then CHR ''+'' else CHR ''/'')"

fun encode_bytes :: "nat list \<Rightarrow> string" where
  "encode_bytes [] = []"
| "encode_bytes [x] = [b64_char (x div 4), b64_char (x mod 4 * 16), PAD, PAD]"
| "encode_bytes [x, y] =
     [b64_char (x div 4), b64_char (x mod 4 * 16 + y div 16), b64_char (y mod 16 * 4), PAD]"
| "encode_bytes (x # y # z # r) =
     b64_char (x div 4) # b64_char (x mod 4 * 16 + y div 16) # b64_char (y mod 16 * 4 + z div 64)
       # b64_char (z mod 64) # encode_bytes r"

definition EncodeToString :: "string \<Rightarrow> string" where
  "EncodeToString s = encode_bytes (map byte s)"

lemma b64_char_props:
  "n < 64 \<Longrightarrow> b64_val (b64_char n) = Some n \<and> b64_char n \<noteq> PAD \<and> byte (b64_char n) \<noteq> 10 \<and> byte (b64_char n) \<noteq> 13"
proof -
  assume "n < 64"
  then consider "n < 26" | "26 \<le> n \<and> n < 52" | "52 \<le> n \<and> n < 62" | "n = 62" | "n = 63" by linarith
  then show ?thesis
  proof cases
    case 1
    then have "byte (b64_char n) = n + 65" by (simp add: b64_char_def)
    then show ?thesis using 1 by (auto simp: b64_val_def isUpper_def PAD_def byte_def)
  next
    case 2
    then have "byte (b64_char n) = n + 71" by (simp add: b64_char_def)
    then show ?thesis using 2 by (auto simp: b64_val_def isUpper_def isLower_def PAD_def byte_def)
  next
    case 3
    then have "n - 4 < 256" by linarith
    then have "byte (b64_char n) = n - 4" using 3 byte_char_of [of "n - 4"] by (simp add: b64_char_def)
    then show ?thesis using 3 by (auto simp: b64_val_def isUpper_def isLower_def isDigit_def PAD_def byte_def)
  qed (simp_all add: b64_char_def b64_val_def isUpper_def isLower_def isDigit_def PAD_def byte_def)
qed

lemmas b64_char_val [simp] = b64_char_props [THEN conjunct1]
lemmas b64_char_PAD [simp] = b64_char_props [THEN conjunct2, THEN conjunct1]

lemma encode_no_breaks:
  "list_all (\<lambda>b. b < 256) bs \<Longrightarrow> filter (\<lambda>c. byte c \<noteq> 10 \<and> byte c \<noteq> 13) (encode_bytes bs) = encode_bytes bs"
proof (induction bs rule: encode_bytes.induct)
  case (4 x y z r)
  then have "x div 4 < 64" "x mod 4 * 16 + y div 16 < 64" "y mod 16 * 4 + z div 64 < 64" "z mod 64 < 64"
    by auto
  then show ?case using 4 b64_char_props by simp
next
  case (2 x)
  then have "x div 4 < 64" "x mod 4 * 16 < 64" by auto
  then show ?case using b64_char_props by (simp add: PAD_def byte_def)
next
  case (3 x y)
  then have "x div 4 < 64" "x mod 4 * 16 + y div 16 < 64" "y mod 16 * 4 < 64" by auto
  then show ?case using b64_char_props by (simp add: PAD_def byte_def)
qed simp

lemma regroup3:
  "((x div 4 * 64 + (x mod 4 * 16 + y div 16)) * 64 + (y mod 16 * 4 + z div 64)) * 64 + z mod 64
    = x * 65536 + y * 256 + (z::nat)"
proof -
  obtain a b where x: "x div 4 = a" "x mod 4 = b" "x = a * 4 + b" using div_mult_mod_eq [of x 4] by metis
  obtain c d where y: "y div 16 = c" "y mod 16 = d" "y = c * 16 + d" using div_mult_mod_eq [of y 16] by metis
  obtain e f where z: "z div 64 = e" "z mod 64 = f" "z = e * 64 + f" using div_mult_mod_eq [of z 64] by metis
  show ?thesis unfolding x(1,2) y(1,2) z(1,2) unfolding x(3) y(3) z(3) by simp
qed

lemma split_bytes:
  assumes "y < 256" "z < (256::nat)"
  shows "(x * 65536 + y * 256 + z) div 65536 = x" "(x * 65536 + y * 256 + z) div 256 mod 256 = y"
    "(x * 65536 + y * 256 + z) mod 256 = z"
proof -
  have e: "x * 65536 + y * 256 + z = (x * 256 + y) * 256 + z" by simp
  show "(x * 65536 + y * 256 + z) mod 256 = z" unfolding e mod_mult_self3 using assms by simp
  have d: "(x * 65536 + y * 256 + z) div 256 = x * 256 + y" unfolding e using assms by simp
  then show "(x * 65536 + y * 256 + z) div 256 mod 256 = y" using assms by simp
  have "(x * 65536 + y * 256 + z) div 65536 = (x * 65536 + y * 256 + z) div 256 div 256"
    by (simp add: div_mult2_eq [symmetric])
  then show "(x * 65536 + y * 256 + z) div 65536 = x" unfolding d using assms by simp
qed

lemma decode_encode:
  "list_all (\<lambda>b. b < 256) bs \<Longrightarrow> decode_quads (encode_bytes bs) = Some (map char_of bs)"
proof (induction bs rule: encode_bytes.induct)
  case (2 x)
  then have "x div 4 < 64" "x mod 4 * 16 < 64" by auto
  moreover have "(x div 4 * 64 + x mod 4 * 16) div 16 = x" by presburger
  ultimately show ?case by (simp add: group1_def)
next
  case (3 x y)
  then have "x div 4 < 64" "x mod 4 * 16 + y div 16 < 64" "y mod 16 * 4 < 64" "y < 256" by auto
  moreover have "((x div 4 * 64 + (x mod 4 * 16 + y div 16)) * 64 + y mod 16 * 4) = x * 1024 + y * 4"
    using regroup3 [of x y 0] by simp
  ultimately show ?case by (simp add: group2_def Let_def)
next
  case (4 x y z r)
  then have b: "x div 4 < 64" "x mod 4 * 16 + y div 16 < 64" "y mod 16 * 4 + z div 64 < 64" "z mod 64 < 64"
    "y < 256" "z < 256" by auto
  have n: "((x div 4 * 64 + (x mod 4 * 16 + y div 16)) * 64 + (y mod 16 * 4 + z div 64)) * 64 + z mod 64
      = x * 65536 + y * 256 + z" by (rule regroup3)
  have "(x * 65536 + y * 256 + z) div 65536 = x" "(x * 65536 + y * 256 + z) div 256 mod 256 = y"
    "(x * 65536 + y * 256 + z) mod 256 = z"
    using b(5,6) split_bytes [of y z x] by simp_all
  then have "group3 (x div 4) (x mod 4 * 16 + y div 16) (y mod 16 * 4 + z div 64) (z mod 64)
      = map char_of [x, y, z]"
    unfolding group3_def Let_def n by simp
  then show ?case using 4 b by simp
qed simp

lemma DecodeString_EncodeToString: "DecodeString (EncodeToString s) = Inr s"
proof -
  have "list_all (\<lambda>b. b < 256) (map byte s)" by (simp add: list_all_iff)
  moreover have "map char_of (map byte s) = s" by (simp add: byte_def map_idI)
  ultimately show ?thesis
    by (simp add: DecodeString_def EncodeToString_def encode_no_breaks decode_encode)
qed

end
