(* ===== verification/Annotations.thy ===== *)
theory Annotations
  imports Vmms Vaccel_Address Go_Base64
begin

text \<open>
  The unikernel configuration of an image, \<open>pkg/unikontainers/annotations.go\<close>: reading it from
  the annotations of the OCI specification or from \<open>urunc.json\<close>, the check of the mandatory
  fields and the check of the values. Annotations are a map from strings to strings, in which a
  missing key reads as the empty string. The decoder of \<open>encoding/json\<close> is the argument
  \<open>unmarshal\<close>.
\<close>

section \<open>Names\<close>

definition annotUruncPrefix :: string where "annotUruncPrefix = ''com.urunc.unikernel.''"
definition annotType :: string where "annotType = ''com.urunc.unikernel.unikernelType''"
definition annotVersion :: string where "annotVersion = ''com.urunc.unikernel.unikernelVersion''"
definition annotBinary :: string where "annotBinary = ''com.urunc.unikernel.binary''"
definition annotHypervisor :: string where "annotHypervisor = ''com.urunc.unikernel.hypervisor''"
definition annotInitrd :: string where "annotInitrd = ''com.urunc.unikernel.initrd''"
definition annotSnapshot :: string where "annotSnapshot = ''com.urunc.unikernel.snapshot''"
definition annotBlock :: string where "annotBlock = ''com.urunc.unikernel.block''"
definition annotBlockMntPoint :: string where "annotBlockMntPoint = ''com.urunc.unikernel.blkMntPoint''"
definition annotMountRootfs :: string where "annotMountRootfs = ''com.urunc.unikernel.mountRootfs''"
definition annotNetDev :: string where "annotNetDev = ''com.urunc.unikernel.solo5NetDev''"
definition annotBlkDev :: string where "annotBlkDev = ''com.urunc.unikernel.solo5BlkDev''"
definition annotHyperlightPorts :: string where "annotHyperlightPorts = ''com.urunc.unikernel.hyperlightPorts''"
definition annotVAccel :: string where "annotVAccel = ''com.urunc.unikernel.vAccel''"
definition annotRPCAddress :: string where "annotRPCAddress = ''com.urunc.unikernel.RPCAddress''"
definition annotCRICntrName :: string where "annotCRICntrName = ''io.kubernetes.cri.container-name''"
definition criQueueProxyCntr :: string where "criQueueProxyCntr = ''queue-proxy''"
definition criUserCntr :: string where "criUserCntr = ''user-container''"
definition uruncJSONFilename :: string where "uruncJSONFilename = ''urunc.json''"

lemmas annot_names = annotType_def annotVersion_def annotBinary_def annotHypervisor_def annotInitrd_def annotSnapshot_def annotBlock_def annotBlockMntPoint_def annotMountRootfs_def annotNetDev_def annotBlkDev_def annotHyperlightPorts_def annotVAccel_def annotRPCAddress_def

type_synonym annotations = "string \<Rightarrow> string option"

definition get :: "annotations \<Rightarrow> string \<Rightarrow> string" where
  "get m k = (case m k of None \<Rightarrow> [] | Some v \<Rightarrow> v)"

section \<open>The configuration\<close>

record UnikernelConfig =
  Uc_UnikernelType :: string
  Uc_UnikernelVersion :: string
  Uc_UnikernelBinary :: string
  Uc_Hypervisor :: string
  Uc_Initrd :: string
  Uc_Snapshot :: string
  Uc_Block :: string
  Uc_BlkMntPoint :: string
  Uc_MountRootfs :: string
  Uc_NetDev :: string
  Uc_BlkDev :: string
  Uc_HyperlightPorts :: string
  Uc_VAccel :: string
  Uc_RPCAddress :: string

definition supportedGuestMonitorPairs :: "(string \<times> string) list" where
  "supportedGuestMonitorPairs =
     [(HvtVmm, RumprunUnikernel), (HvtVmm, MirageUnikernel), (SptVmm, RumprunUnikernel),
      (SptVmm, MirageUnikernel), (QemuVmm, MewzUnikernel), (QemuVmm, MirageUnikernel),
      (QemuVmm, UnikraftUnikernel), (QemuVmm, LinuxUnikernel), (QemuVmm, HermitUnikernel),
      (QemuVmm, FreeBSDUnikernel), (FirecrackerVmm, LinuxUnikernel), (FirecrackerVmm, UnikraftUnikernel),
      (FirecrackerVmm, FreeBSDUnikernel), (CloudHypervisorVmm, LinuxUnikernel),
      (HyperlightVmm, UnikraftUnikernel)]"

definition missingField :: "string \<Rightarrow> err" where
  "missingField k = Errorf ''unikernel configuration is missing mandatory field: %s'' [k]"

definition validate :: "UnikernelConfig \<Rightarrow> err + unit" where
  "validate c =
     (if Uc_UnikernelType c = [] then Inl (missingField annotType)
      else if Uc_Hypervisor c = [] then Inl (missingField annotHypervisor)
      else if Uc_UnikernelBinary c = [] \<and> Uc_Hypervisor c \<noteq> HyperlightVmm then Inl (missingField annotBinary)
      else Inr ())"

definition getConfigFromSpec :: "annotations \<Rightarrow> UnikernelConfig" where
  "getConfigFromSpec spec =
     \<lparr>Uc_UnikernelType = get spec annotType, Uc_UnikernelVersion = get spec annotVersion, Uc_UnikernelBinary = get spec annotBinary, Uc_Hypervisor = get spec annotHypervisor, Uc_Initrd = get spec annotInitrd, Uc_Snapshot = get spec annotSnapshot, Uc_Block = get spec annotBlock, Uc_BlkMntPoint = get spec annotBlockMntPoint, Uc_MountRootfs = get spec annotMountRootfs, Uc_NetDev = get spec annotNetDev, Uc_BlkDev = get spec annotBlkDev, Uc_HyperlightPorts = get spec annotHyperlightPorts, Uc_VAccel = get spec annotVAccel, Uc_RPCAddress = get spec annotRPCAddress\<rparr>"

text \<open>\<open>Map\<close>: an assignment for each field that is not empty.\<close>

definition put :: "string \<Rightarrow> string \<Rightarrow> annotations \<Rightarrow> annotations" where
  "put k v m = (if v \<noteq> [] then m(k \<mapsto> v) else m)"

definition UnikernelConfig_Map :: "UnikernelConfig \<Rightarrow> annotations" where
  "UnikernelConfig_Map c =
     (let m = Map.empty;
          m = put annotType (Uc_UnikernelType c) m;
          m = put annotVersion (Uc_UnikernelVersion c) m;
          m = put annotHypervisor (Uc_Hypervisor c) m;
          m = put annotBinary (Uc_UnikernelBinary c) m;
          m = put annotInitrd (Uc_Initrd c) m;
          m = put annotSnapshot (Uc_Snapshot c) m;
          m = put annotBlock (Uc_Block c) m;
          m = put annotBlockMntPoint (Uc_BlkMntPoint c) m;
          m = put annotMountRootfs (Uc_MountRootfs c) m;
          m = put annotNetDev (Uc_NetDev c) m;
          m = put annotBlkDev (Uc_BlkDev c) m;
          m = put annotHyperlightPorts (Uc_HyperlightPorts c) m;
          m = put annotVAccel (Uc_VAccel c) m;
          m = put annotRPCAddress (Uc_RPCAddress c) m
      in m)"

definition decodeField :: "string \<Rightarrow> string \<Rightarrow> err + string" where
  "decodeField what s = mapErr (\<lambda>e. ErrorfV (''failed to decode '' @ what @ '': %v'') [] e) (DecodeString s)"

definition decode :: "UnikernelConfig \<Rightarrow> err + UnikernelConfig" where
  "decode c =
     bindE (decodeField ''Hypervisor'' (Uc_Hypervisor c)) (\<lambda>v0.
     bindE (decodeField ''UnikernelType'' (Uc_UnikernelType c)) (\<lambda>v1.
     bindE (decodeField ''UnikernelVersion'' (Uc_UnikernelVersion c)) (\<lambda>v2.
     bindE (decodeField ''UnikernelBinary'' (Uc_UnikernelBinary c)) (\<lambda>v3.
     bindE (decodeField ''Initrd'' (Uc_Initrd c)) (\<lambda>v4.
     bindE (decodeField ''Snapshot'' (Uc_Snapshot c)) (\<lambda>v5.
     bindE (decodeField ''Block'' (Uc_Block c)) (\<lambda>v6.
     bindE (decodeField ''BlockMntPoint'' (Uc_BlkMntPoint c)) (\<lambda>v7.
     bindE (decodeField ''mountRootfs'' (Uc_MountRootfs c)) (\<lambda>v8.
     bindE (decodeField ''netDev'' (Uc_NetDev c)) (\<lambda>v9.
     bindE (decodeField ''blkDev'' (Uc_BlkDev c)) (\<lambda>v10.
     bindE (decodeField ''hyperlightPorts'' (Uc_HyperlightPorts c)) (\<lambda>v11.
     Inr (c\<lparr>Uc_Hypervisor := v0, Uc_UnikernelType := v1, Uc_UnikernelVersion := v2, Uc_UnikernelBinary := v3, Uc_Initrd := v4, Uc_Snapshot := v5, Uc_Block := v6, Uc_BlkMntPoint := v7, Uc_MountRootfs := v8, Uc_NetDev := v9, Uc_BlkDev := v10, Uc_HyperlightPorts := v11\<rparr>)))))))))))))"

section \<open>Values\<close>

definition maxAnnotationValueLen :: nat where
  "maxAnnotationValueLen = 4096"

definition path_char :: "char \<Rightarrow> bool" where
  "path_char c = (isAlnum c \<or> c = CHR ''.'' \<or> c = CHR ''_'' \<or> c = CHR ''/'' \<or> c = CHR ''-'')"

definition allowedPathRe :: "string \<Rightarrow> bool" where
  "allowedPathRe s = (s \<noteq> [] \<and> list_all path_char s)"

definition solo5DevNameRe :: "string \<Rightarrow> bool" where
  "solo5DevNameRe s = (1 \<le> length s \<and> length s \<le> 67 \<and> list_all isAlnum s)"

definition port_digits :: "string \<Rightarrow> bool" where
  "port_digits s = (1 \<le> length s \<and> length s \<le> 5 \<and> list_all isDigit s)"

definition hyperlightPortsRe :: "string \<Rightarrow> bool" where
  "hyperlightPortsRe s =
     list_all (\<lambda>item. case Split (CHR ''-'') item of
                        [a] \<Rightarrow> port_digits a | [a, b] \<Rightarrow> port_digits a \<and> port_digits b | _ \<Rightarrow> False)
       (Split (CHR '','') s)"

definition tooLong :: "string \<Rightarrow> err" where
  "tooLong key = Errorf ''%s value is longer than %d bytes'' [key, FormatUint maxAnnotationValueLen]"

definition validateAnnotationPathClean :: "string \<Rightarrow> string \<Rightarrow> bool \<Rightarrow> err + unit" where
  "validateAnnotationPathClean key val rejectRoot =
     (if val = [] then Inr ()
      else if length val > maxAnnotationValueLen then Inl (tooLong key)
      else if \<not> allowedPathRe val then Inl (Errorf ''%s must match %s, got %q'' [key, ''^[A-Za-z0-9._/-]+$'', val])
      else if HasPrefix val ''..'' then Inl (Errorf ''%s must not start with '..', got %q'' [key, val])
      else if HasPrefix val ''-'' then Inl (Errorf ''%s must not start with '-', got %q'' [key, val])
      else
        let cleaned = Clean val
        in if cleaned \<noteq> val then Inl (Errorf ''%s must be a clean path, got %q'' [key, val])
           else if cleaned = ''.'' then Inl (Errorf ''%s must not be '.', got %q'' [key, val])
           else if cleaned = ''/'' \<and> rejectRoot then Inl (Errorf ''%s must not be '/', got %q'' [key, val])
           else Inr ())"

definition validateSolo5DevName :: "string \<Rightarrow> string \<Rightarrow> err + unit" where
  "validateSolo5DevName key val =
     (if val = [] then Inr ()
      else if \<not> solo5DevNameRe val then Inl (Errorf ''%s must match %s, got %q'' [key, ''^[A-Za-z0-9]{1,67}$'', val])
      else Inr ())"

text \<open>A number the regular expression has limited to digits; an error of \<open>Atoi\<close> reads as 0.\<close>

definition atoi0 :: "string \<Rightarrow> int" where
  "atoi0 s = (case Atoi s of None \<Rightarrow> 0 | Some n \<Rightarrow> n)"

definition port_item :: "string \<Rightarrow> int \<times> int" where
  "port_item item =
     (case Cut (CHR ''-'') item of (lowStr, highStr, isRange) \<Rightarrow>
        (let highStr = (if \<not> isRange then lowStr else highStr) in (atoi0 lowStr, atoi0 highStr)))"

fun ports_loop :: "string list \<Rightarrow> err + unit" where
  "ports_loop [] = Inr ()"
| "ports_loop (item # items) =
     (case port_item item of (low, high) \<Rightarrow>
        (if low < 1 \<or> high > 65535 \<or> low > high
         then Inl (Errorf ''%s must list ports within 1-65535 and ranges from low to high, got %q''
                     [annotHyperlightPorts, item])
         else ports_loop items))"

definition validateHyperlightPorts :: "string \<Rightarrow> string \<Rightarrow> err + unit" where
  "validateHyperlightPorts monitor val =
     (if val = [] then Inr ()
      else if monitor \<noteq> HyperlightVmm then
        Inl (Errorf ''%s is only supported by %s'' [annotHyperlightPorts, HyperlightVmm])
      else if length val > maxAnnotationValueLen then Inl (tooLong annotHyperlightPorts)
      else if \<not> hyperlightPortsRe val then
        Inl (Errorf ''%s must match %s, got %q'' [annotHyperlightPorts, val])
      else ports_loop (Split (CHR '','') val))"

definition validateSnapshot :: "UnikernelConfig \<Rightarrow> err + unit" where
  "validateSnapshot c =
     (if Uc_Snapshot c \<noteq> [] then
        (if Uc_Hypervisor c \<noteq> HyperlightVmm then
           Inl (Errorf ''%s is only supported by %s'' [annotSnapshot, HyperlightVmm])
         else if Uc_UnikernelBinary c \<noteq> [] \<or> Uc_Initrd c \<noteq> [] then
           Inl (Errorf ''%s cannot be combined with %s or %s'' [annotSnapshot, annotBinary, annotInitrd])
         else Inr ())
      else Inr ())"

definition validateVAccelValues :: "UnikernelConfig \<Rightarrow> err + unit" where
  "validateVAccelValues c =
     (if Uc_VAccel c = [] then
        (if Uc_RPCAddress c \<noteq> [] then Inl (Errorf ''%s is set, but %s is not'' [annotRPCAddress, annotVAccel])
         else Inr ())
      else if Uc_VAccel c \<noteq> ''vsock'' then
        Inl (Errorf ''invalid value %q for %s: expected vsock'' [Uc_VAccel c, annotVAccel])
      else if Uc_RPCAddress c = [] then Inl (Errorf ''vAccel is set but %s is missing'' [annotRPCAddress])
      else if length (Uc_RPCAddress c) > maxAnnotationValueLen then Inl (tooLong annotRPCAddress)
      else case vAccelAddressRe (Uc_Hypervisor c) of
             None \<Rightarrow> Inl (Errorf ''%s does not support vAccel'' [Uc_Hypervisor c])
           | Some re \<Rightarrow>
               (if \<not> re (Uc_RPCAddress c) then
                  Inl (Errorf ''invalid value %q for %s: it does not match the expected format for %s''
                         [Uc_RPCAddress c, annotRPCAddress, Uc_Hypervisor c])
                else Inr ()))"

definition validateValues :: "UnikernelConfig \<Rightarrow> err + unit" where
  "validateValues c =
     (let monitor = Uc_Hypervisor c
      in bindE (failIf ((monitor, Uc_UnikernelType c) \<notin> set supportedGuestMonitorPairs)
              (Errorf ''unsupported guest monitor pair %s %s'' [Uc_Hypervisor c, Uc_UnikernelType c])) (\<lambda>_.
         bindE (validateSnapshot c) (\<lambda>_.
         bindE (failIf (length (Uc_UnikernelVersion c) > maxAnnotationValueLen) (tooLong annotVersion)) (\<lambda>_.
         bindE (validateAnnotationPathClean annotBinary (Uc_UnikernelBinary c) True) (\<lambda>_.
         bindE (validateAnnotationPathClean annotInitrd (Uc_Initrd c) True) (\<lambda>_.
         bindE (validateAnnotationPathClean annotSnapshot (Uc_Snapshot c) True) (\<lambda>_.
         bindE (validateAnnotationPathClean annotBlock (Uc_Block c) True) (\<lambda>_.
         bindE (validateAnnotationPathClean annotBlockMntPoint (Uc_BlkMntPoint c) False) (\<lambda>_.
         bindE (failIf (Uc_MountRootfs c \<noteq> [] \<and> ParseBool (Uc_MountRootfs c) = None)
              (ErrorfW ''invalid value %q for %s: expected a boolean: %w''
                 [Uc_MountRootfs c, annotMountRootfs] (Errno EINVAL))) (\<lambda>_.
         bindE (validateSolo5DevName annotNetDev (Uc_NetDev c)) (\<lambda>_.
         bindE (validateSolo5DevName annotBlkDev (Uc_BlkDev c)) (\<lambda>_.
         bindE (validateHyperlightPorts monitor (Uc_HyperlightPorts c)) (\<lambda>_.
           validateVAccelValues c)))))))))))))"

section \<open>Finding the configuration\<close>

definition getConfigFromJSON :: "(string \<Rightarrow> err + UnikernelConfig) \<Rightarrow> string \<Rightarrow> UnikernelConfig prog" where
  "getConfigFromJSON unmarshal jsonFilePath =
     bindM (callU (Fs (OpenRead jsonFilePath))) (\<lambda>_.
       deferM (callU (Fs (CloseFile jsonFilePath)))
         (bindM (callStat (Fs (FStat jsonFilePath))) (\<lambda>fileInfo.
           if st_type fileInfo = Directory then failM (Errorf (uruncJSONFilename @ '' is a directory'') [])
           else bindM (callS (Fs (ReadAll jsonFilePath))) (\<lambda>byteData. liftM (unmarshal byteData)))))"

definition mergeRuntime :: "annotations \<Rightarrow> UnikernelConfig \<Rightarrow> UnikernelConfig" where
  "mergeRuntime spec c =
     (let c = c\<lparr>Uc_VAccel := get spec annotVAccel, Uc_RPCAddress := get spec annotRPCAddress\<rparr>
      in if get spec annotHyperlightPorts \<noteq> [] then c\<lparr>Uc_HyperlightPorts := get spec annotHyperlightPorts\<rparr> else c)"

definition orNotUnikernel :: "'a prog \<Rightarrow> 'a prog" where
  "orNotUnikernel m = mapErrM (\<lambda>_. ErrNotUnikernel) m"

definition GetUnikernelConfig ::
    "(string \<Rightarrow> err + UnikernelConfig) \<Rightarrow> string \<Rightarrow> annotations \<Rightarrow> string \<Rightarrow> UnikernelConfig prog" where
  "GetUnikernelConfig unmarshal bundleDir spec rootPath =
     (let conf = getConfigFromSpec spec
      in case validate conf of
           Inr _ \<Rightarrow> retM conf
         | Inl _ \<Rightarrow>
             (let rootFSDir = (if \<not> IsAbs rootPath then filepath_Join [bundleDir, rootPath] else rootPath)
              in bindM (callS (Fs (SecureJoin rootFSDir uruncJSONFilename))) (\<lambda>jsonFilePath.
                 bindM (orNotUnikernel (getConfigFromJSON unmarshal jsonFilePath)) (\<lambda>jsonConf.
                 bindM (orNotUnikernel (liftM (decode jsonConf))) (\<lambda>jsonConf.
                 bindM (orNotUnikernel (liftM (validate jsonConf))) (\<lambda>_.
                   retM (mergeRuntime spec jsonConf)))))))"

end
