(* ===== verification/Annotations_Props.thy ===== *)
theory Annotations_Props
  imports Annotations
begin

text \<open>
  What the checks of \<open>annotations.go\<close> guarantee: the paths and ports of an accepted
  configuration are harmless on the command line of a monitor, the configuration survives being
  stored as annotations, and an accepted pair names a guest and a monitor the code has.
\<close>

section \<open>Paths\<close>

definition clean_image_path :: "string \<Rightarrow> bool" where
  "clean_image_path p \<longleftrightarrow>
     p = [] \<or> list_all path_char p \<and> hd p \<noteq> CHR ''-'' \<and> ''..'' \<notin> set (comps p) \<and> ''.'' \<notin> set (comps p)
       \<and> Clean p = p \<and> length p \<le> 4096"

lemma comps_relative_hd:
  assumes "p \<noteq> []" "\<not> IsAbs p" "comps p = c # cs"
  shows "HasPrefix p c"
proof -
  obtain w ws where w: "Split sep p = w # ws" by (cases "Split sep p") auto
  have "w \<noteq> []"
  proof
    assume "w = []"
    have "p = Join (w # ws) [sep]" using Join_Split [of sep p] w by simp
    then show False using assms(1,2) \<open>w = []\<close> by (cases ws) (auto simp: IsAbs_def)
  qed
  then have "c = w" using assms(3) w by (simp add: comps_def)
  moreover have "p = Join (w # ws) [sep]" using Join_Split [of sep p] w by simp
  ultimately show ?thesis by (cases ws) (auto simp: HasPrefix_iff)
qed

lemma clean_no_dotdot:
  assumes "Clean p = p" "p \<noteq> ''.''" "\<not> HasPrefix p ''..''"
  shows "''..'' \<notin> set (comps p)"
proof (cases "IsAbs p")
  case True
  then have "list_all plain_comp (comps p)"
    using Clean_fixed_comps [OF assms(1,2)] by (simp add: normal_comps_def)
  then show ?thesis by (auto simp: list_all_iff)
next
  case False
  then have n: "normal_rel (comps p)"
    using Clean_fixed_comps [OF assms(1,2)] by (simp add: normal_comps_def)
  show ?thesis
  proof (cases "comps p")
    case (Cons c cs)
    have "p \<noteq> []" using assms(1) Clean_nonempty by metis
    then have "HasPrefix p c" using comps_relative_hd False Cons by blast
    then have "c \<noteq> ''..''" using assms(3) by auto
    then show ?thesis using n Cons by (auto simp: list_all_iff)
  qed simp
qed

lemma validateAnnotationPathClean_ok:
  assumes "validateAnnotationPathClean k p r = Inr u"
  shows "clean_image_path p"
proof (cases "p = []")
  case False
  with assms have a: "allowedPathRe p" "\<not> HasPrefix p ''..''" "\<not> HasPrefix p ''-''" "Clean p = p" "p \<noteq> ''.''"
      "length p \<le> 4096"
    by (auto simp: validateAnnotationPathClean_def Let_def maxAnnotationValueLen_def split: if_splits)
  have "hd p \<noteq> CHR ''-''" using a(3) False by (cases p) (auto simp: HasPrefix_def)
  moreover have "''.'' \<notin> set (comps p)"
    using normal_comps_set [OF Clean_fixed_comps [OF a(4,5)]] by blast
  ultimately show ?thesis
    using a clean_no_dotdot [OF a(4,5,2)] by (simp add: clean_image_path_def allowedPathRe_def)
qed (simp add: clean_image_path_def)

lemma validateValues_iff:
  "validateValues c = Inr u \<longleftrightarrow>
    (Uc_Hypervisor c, Uc_UnikernelType c) \<in> set supportedGuestMonitorPairs
    \<and> validateSnapshot c = Inr () \<and> length (Uc_UnikernelVersion c) \<le> maxAnnotationValueLen
    \<and> validateAnnotationPathClean annotBinary (Uc_UnikernelBinary c) True = Inr ()
    \<and> validateAnnotationPathClean annotInitrd (Uc_Initrd c) True = Inr ()
    \<and> validateAnnotationPathClean annotSnapshot (Uc_Snapshot c) True = Inr ()
    \<and> validateAnnotationPathClean annotBlock (Uc_Block c) True = Inr ()
    \<and> validateAnnotationPathClean annotBlockMntPoint (Uc_BlkMntPoint c) False = Inr ()
    \<and> (Uc_MountRootfs c \<noteq> [] \<longrightarrow> ParseBool (Uc_MountRootfs c) \<noteq> None)
    \<and> validateSolo5DevName annotNetDev (Uc_NetDev c) = Inr ()
    \<and> validateSolo5DevName annotBlkDev (Uc_BlkDev c) = Inr ()
    \<and> validateHyperlightPorts (Uc_Hypervisor c) (Uc_HyperlightPorts c) = Inr ()
    \<and> validateVAccelValues c = Inr ()"
  unfolding validateValues_def Let_def bindE_Inr_iff failIf_Inr_iff by auto

text \<open>
  C17: an accepted configuration holds only harmless paths. The binary, the initrd, the
  snapshot, the block image and its mount point are each empty or a clean path of at most 4096
  bytes made of letters, digits, dots, underscores, slashes and dashes, which does not start
  with a dash (so a monitor cannot read it as an option) and has no \<open>..\<close> component (so it cannot
  leave the image).
\<close>

theorem accepted_paths_are_safe:
  assumes "validateValues c = Inr u"
  shows "\<forall>p \<in> {Uc_UnikernelBinary c, Uc_Initrd c, Uc_Snapshot c, Uc_Block c, Uc_BlkMntPoint c}.
    clean_image_path p"
  using assms validateAnnotationPathClean_ok unfolding validateValues_iff by blast

definition sampleConfig :: UnikernelConfig where
  "sampleConfig = \<lparr>Uc_UnikernelType = ''linux'', Uc_UnikernelVersion = ''6.1'',
     Uc_UnikernelBinary = ''/boot/vmlinux'', Uc_Hypervisor = ''qemu'', Uc_Initrd = ''/boot/initrd-1.cpio'',
     Uc_Snapshot = [], Uc_Block = ''disk.img'', Uc_BlkMntPoint = ''/'', Uc_MountRootfs = ''true'',
     Uc_NetDev = ''net0'', Uc_BlkDev = [], Uc_HyperlightPorts = [], Uc_VAccel = ''vsock'',
     Uc_RPCAddress = ''vsock://2:2048''\<rparr>"

lemmas char_class_defs =
  path_char_def isAlnum_def isDigit_def isUpper_def isLower_def byte_def sock_char_def digit_in_def

lemmas clean_eval = Clean_def sep_def IsAbs_def clean_comps_def clean_step.simps unsplit_def

lemmas path_eval = validateAnnotationPathClean_def Let_def allowedPathRe_def char_class_defs
  HasPrefix_def maxAnnotationValueLen_def clean_eval

lemmas vaccel_eval = validateVAccelValues_def vAccelAddressRe_def vsock_address_def HasPrefix_def
  vsockScheme_def TrimPrefix_def vAccelPort_def port_alternatives_def Let_def char_class_defs
  maxAnnotationValueLen_def

lemma sample_paths:
  "validateAnnotationPathClean k ''/boot/vmlinux'' True = Inr ()"
  "validateAnnotationPathClean k ''/boot/initrd-1.cpio'' True = Inr ()"
  "validateAnnotationPathClean k ''disk.img'' True = Inr ()"
  "validateAnnotationPathClean k ''/'' False = Inr ()"
  "validateAnnotationPathClean k [] r = Inr ()"
  by (simp_all add: path_eval)

lemma sample_vaccel: "validateVAccelValues sampleConfig = Inr ()"
  by (simp add: vaccel_eval sampleConfig_def)

lemma sampleConfig_valid: "validateValues sampleConfig = Inr ()"
  unfolding validateValues_iff using sample_vaccel
  by (simp add: sampleConfig_def sample_paths supportedGuestMonitorPairs_def vmm_names guest_names
      validateSnapshot_def ParseBool_def validateSolo5DevName_def solo5DevNameRe_def char_class_defs
      validateHyperlightPorts_def maxAnnotationValueLen_def)

theorem accepted_paths_are_safe_witness:
  "clean_image_path ''/boot/vmlinux'' \<and> clean_image_path ''/''"
  using accepted_paths_are_safe [OF sampleConfig_valid] by (simp add: sampleConfig_def)

section \<open>Pairs\<close>

lemma implemented_pair:
  assumes "validateValues c = Inr u"
  shows "(\<exists>uk. New_unikernel (Uc_UnikernelType c) = Inr uk) \<and> vmmFactories (Uc_Hypervisor c) \<noteq> None
    \<and> (Uc_Snapshot c = [] \<or> Uc_Hypervisor c = HyperlightVmm \<and> Uc_UnikernelBinary c = [] \<and> Uc_Initrd c = [])
    \<and> (\<forall>e. fst (NewVMM arch (Uc_Hypervisor c) ms \<omega> t) = Inl e \<longrightarrow> e = ErrVMMNotInstalled)"
proof -
  have p: "(Uc_Hypervisor c, Uc_UnikernelType c) \<in> set supportedGuestMonitorPairs"
    and s: "validateSnapshot c = Inr ()"
    using assms unfolding validateValues_iff by auto
  have "\<exists>uk. New_unikernel (Uc_UnikernelType c) = Inr uk"
    using p by (auto simp: supportedGuestMonitorPairs_def New_unikernel_def)
  moreover have f: "vmmFactories (Uc_Hypervisor c) \<noteq> None" "Uc_Hypervisor c \<noteq> HedgeVmm"
    using p by (auto simp: supportedGuestMonitorPairs_def vmmFactories_def vmm_names)
  moreover have "Uc_Snapshot c = [] \<or>
      Uc_Hypervisor c = HyperlightVmm \<and> Uc_UnikernelBinary c = [] \<and> Uc_Initrd c = []"
    using s by (auto simp: validateSnapshot_def split: if_splits)
  moreover have "e = ErrVMMNotInstalled" if "fst (NewVMM arch (Uc_Hypervisor c) ms \<omega> t) = Inl e" for e
    using that f
    by (auto simp: NewVMM_def getVMMPath_def bindM_run Let_def split: if_splits sum.splits)
  ultimately show ?thesis by blast
qed

text \<open>
  C18: an accepted configuration names a guest that \<open>unikernels.New\<close> can make and a monitor
  that the table of factories holds, so \<open>NewVMM\<close> can only fail on it because the binary is
  not installed. A snapshot is only ever accepted for Hyperlight, alone.
\<close>

theorem accepted_pair_is_implemented:
  assumes "validateValues c = Inr u"
  shows "(\<exists>uk. New_unikernel (Uc_UnikernelType c) = Inr uk) \<and> vmmFactories (Uc_Hypervisor c) \<noteq> None
    \<and> (Uc_Snapshot c = [] \<or> Uc_Hypervisor c = HyperlightVmm \<and> Uc_UnikernelBinary c = [] \<and> Uc_Initrd c = [])
    \<and> (\<forall>e. fst (NewVMM arch (Uc_Hypervisor c) ms \<omega> t) = Inl e \<longrightarrow> e = ErrVMMNotInstalled)"
  using assms by (rule implemented_pair)

theorem accepted_pair_is_implemented_witness:
  "vmmFactories ''qemu'' \<noteq> None \<and> fst (NewVMM ''amd64'' ''qemu'' Map.empty (\<lambda>t c. RErr (Errno ENOENT)) []) = Inl ErrVMMNotInstalled"
  using accepted_pair_is_implemented [OF sampleConfig_valid, of "''amd64''" Map.empty "\<lambda>t c. RErr (Errno ENOENT)" "[]"]
  by (simp add: sampleConfig_def NewVMM_def getVMMPath_def monitorOf_def zero_defs vmm_names vmmFactories_def
      bindM_run callS_run Let_def)

section \<open>Ports\<close>

definition port_range_arg :: "string \<Rightarrow> bool" where
  "port_range_arg a \<longleftrightarrow>
     (\<exists>lo hi. a = ''--port='' @ lo \<and> hi = lo \<and> 1 \<le> atoi0 lo \<and> atoi0 lo \<le> 65535 \<and> port_digits lo
      \<or> a = ''--port='' @ lo @ ''-'' @ hi \<and> 1 \<le> atoi0 lo \<and> atoi0 lo \<le> atoi0 hi \<and> atoi0 hi \<le> 65535
          \<and> port_digits lo \<and> port_digits hi)"

lemma ports_loop_iff:
  "ports_loop items = Inr u \<longleftrightarrow>
    (\<forall>item \<in> set items. case port_item item of (lo, hi) \<Rightarrow> 1 \<le> lo \<and> hi \<le> 65535 \<and> lo \<le> hi)"
  by (induction items) (auto split: prod.splits)

lemma Cut_Split_one: "Split d s = [a] \<Longrightarrow> Cut d s = (a, [], False)"
proof -
  assume s: "Split d s = [a]"
  then have "s = a" "d \<notin> set a" using Join_Split [of d s] Split_no_sep [of a d s] by auto
  then show ?thesis by (induction a arbitrary: s) auto
qed

lemma Cut_Split_two: "Split d s = [a, b] \<Longrightarrow> Cut d s = (a, b, True)"
proof -
  assume s: "Split d s = [a, b]"
  then have e: "s = a @ d # b" and "d \<notin> set a"
    using Join_Split [of d s] Split_no_sep [of a d s] by auto
  from this(2) have "Cut d (a @ d # b) = (a, b, True)" by (induction a) auto
  then show ?thesis using e by simp
qed

lemma port_item_shape:
  assumes "case Split (CHR ''-'') item of [a] \<Rightarrow> port_digits a | [a, b] \<Rightarrow> port_digits a \<and> port_digits b | _ \<Rightarrow> False"
    and "case port_item item of (lo, hi) \<Rightarrow> 1 \<le> lo \<and> hi \<le> 65535 \<and> lo \<le> hi"
  shows "port_range_arg (''--port='' @ item)"
proof -
  from assms(1) consider a where "Split (CHR ''-'') item = [a]" "port_digits a"
    | a b where "Split (CHR ''-'') item = [a, b]" "port_digits a" "port_digits b"
    by (auto split: list.splits)
  then show ?thesis
  proof cases
    case 1
    then have "item = a" using Join_Split [of "CHR ''-''" item] by simp
    then show ?thesis
      using 1 Cut_Split_one [OF 1(1)] assms(2) by (auto simp: port_range_arg_def port_item_def)
  next
    case 2
    then have "item = a @ ''-'' @ b" using Join_Split [of "CHR ''-''" item] by simp
    then show ?thesis
      using 2 Cut_Split_two [OF 2(1)] assms(2) by (auto simp: port_range_arg_def port_item_def)
  qed
qed

text \<open>
  C19: the ports that an accepted configuration lets a Hyperlight guest serve on reach the
  command line as one \<open>--port=\<close> option for each item, and each is a port within 1 to 65535 or
  a range of such ports from low to high; no list stands for every port.
\<close>

theorem accepted_ports_are_ports:
  assumes "validateHyperlightPorts monitor val = Inr u"
  shows "if val = [] then portArgs val = [''--port=all'']
    else monitor = HyperlightVmm \<and> list_all port_range_arg (portArgs val)
      \<and> length (portArgs val) = length (Split (CHR '','') val)"
proof (cases "val = []")
  case False
  with assms have m: "monitor = HyperlightVmm" and re: "hyperlightPortsRe val"
      and l: "ports_loop (Split (CHR '','') val) = Inr u"
    by (auto simp: validateHyperlightPorts_def split: if_splits)
  have "list_all port_range_arg (portArgs val)"
    using False re l port_item_shape
    by (auto simp: portArgs_def hyperlightPortsRe_def list_all_iff ports_loop_iff)
  then show ?thesis using False m by (simp add: portArgs_def)
qed (simp add: portArgs_def)

theorem accepted_ports_are_ports_witness:
  "list_all port_range_arg (portArgs ''80,8000-8080'')"
proof -
  have "Split (CHR '','') ''80,8000-8080'' = [''80'', ''8000-8080'']" by code_simp
  moreover have "port_item ''80'' = (80, 80)" "port_item ''8000-8080'' = (8000, 8080)"
    by (simp_all add: port_item_def atoi0_def Atoi_def parse_digits_def digits_val_def digit_val_def char_class_defs)
  moreover have "hyperlightPortsRe ''80,8000-8080''"
    by (simp add: hyperlightPortsRe_def port_digits_def char_class_defs)
  ultimately have "validateHyperlightPorts HyperlightVmm ''80,8000-8080'' = Inr ()"
    by (simp add: validateHyperlightPorts_def maxAnnotationValueLen_def)
  from accepted_ports_are_ports [OF this] show ?thesis by simp
qed

section \<open>Round trips\<close>

lemma get_put: "get (put k v m) k' = (if k' = k \<and> v \<noteq> [] then v else get m k')"
  by (simp add: get_def put_def)

text \<open>The assignments of \<open>Map\<close> as a list: a key that occurs once reads as the value put.\<close>

definition config_entries :: "UnikernelConfig \<Rightarrow> (string \<times> string) list" where
  "config_entries c =
     [(annotType, Uc_UnikernelType c),
      (annotVersion, Uc_UnikernelVersion c),
      (annotHypervisor, Uc_Hypervisor c),
      (annotBinary, Uc_UnikernelBinary c),
      (annotInitrd, Uc_Initrd c),
      (annotSnapshot, Uc_Snapshot c),
      (annotBlock, Uc_Block c),
      (annotBlockMntPoint, Uc_BlkMntPoint c),
      (annotMountRootfs, Uc_MountRootfs c),
      (annotNetDev, Uc_NetDev c),
      (annotBlkDev, Uc_BlkDev c),
      (annotHyperlightPorts, Uc_HyperlightPorts c),
      (annotVAccel, Uc_VAccel c),
      (annotRPCAddress, Uc_RPCAddress c)]"

lemma UnikernelConfig_Map_fold:
  "UnikernelConfig_Map c = fold (\<lambda>(k, v). put k v) (config_entries c) Map.empty"
  by (simp add: UnikernelConfig_Map_def config_entries_def Let_def)

lemma get_fold_put_other:
  "k \<notin> fst ` set kvs \<Longrightarrow> get (fold (\<lambda>(k, v). put k v) kvs m) k = get m k"
  by (induction kvs arbitrary: m) (auto simp: get_put)

lemma get_fold_put:
  "distinct (map fst kvs) \<Longrightarrow> (k, v) \<in> set kvs \<Longrightarrow> get m k = [] \<Longrightarrow>
    get (fold (\<lambda>(k, v). put k v) kvs m) k = v"
proof (induction kvs arbitrary: m)
  case (Cons kv kvs)
  obtain k' v' where kv: "kv = (k', v')" by (cases kv)
  show ?case
  proof (cases "k' = k")
    case True
    then have "k \<notin> fst ` set kvs" "v' = v" using Cons.prems kv by force+
    then show ?thesis using Cons.prems(3) kv True by (simp add: get_fold_put_other get_put)
  next
    case False
    then show ?thesis using Cons kv by (auto simp: get_put)
  qed
qed simp

lemma distinct_config_entries: "distinct (map fst (config_entries c))"
  unfolding config_entries_def annot_names by simp

lemma get_config_entry: "(k, v) \<in> set (config_entries c) \<Longrightarrow> get (UnikernelConfig_Map c) k = v"
  unfolding UnikernelConfig_Map_fold by (rule get_fold_put [OF distinct_config_entries]) (simp_all add: get_def)

lemma get_Map_fields:
  "get (UnikernelConfig_Map c) annotType = Uc_UnikernelType c"
  "get (UnikernelConfig_Map c) annotVersion = Uc_UnikernelVersion c"
  "get (UnikernelConfig_Map c) annotHypervisor = Uc_Hypervisor c"
  "get (UnikernelConfig_Map c) annotBinary = Uc_UnikernelBinary c"
  "get (UnikernelConfig_Map c) annotInitrd = Uc_Initrd c"
  "get (UnikernelConfig_Map c) annotSnapshot = Uc_Snapshot c"
  "get (UnikernelConfig_Map c) annotBlock = Uc_Block c"
  "get (UnikernelConfig_Map c) annotBlockMntPoint = Uc_BlkMntPoint c"
  "get (UnikernelConfig_Map c) annotMountRootfs = Uc_MountRootfs c"
  "get (UnikernelConfig_Map c) annotNetDev = Uc_NetDev c"
  "get (UnikernelConfig_Map c) annotBlkDev = Uc_BlkDev c"
  "get (UnikernelConfig_Map c) annotHyperlightPorts = Uc_HyperlightPorts c"
  "get (UnikernelConfig_Map c) annotVAccel = Uc_VAccel c"
  "get (UnikernelConfig_Map c) annotRPCAddress = Uc_RPCAddress c"
  by (rule get_config_entry; simp add: config_entries_def)+

text \<open>
  Storing a configuration as annotations (\<open>Map\<close>) and reading it back from the annotations
  of a specification (\<open>getConfigFromSpec\<close>) gives the same configuration, every field included.
\<close>

theorem config_map_roundtrip: "getConfigFromSpec (UnikernelConfig_Map c) = c"
  by (cases c) (simp add: getConfigFromSpec_def get_Map_fields)

text \<open>The values of \<open>urunc.json\<close> are the base64 encodings; the vAccel fields are not part of it.\<close>

definition encodeConfig :: "UnikernelConfig \<Rightarrow> UnikernelConfig" where
  "encodeConfig c = c\<lparr>Uc_UnikernelType := EncodeToString (Uc_UnikernelType c),
     Uc_UnikernelVersion := EncodeToString (Uc_UnikernelVersion c),
     Uc_UnikernelBinary := EncodeToString (Uc_UnikernelBinary c),
     Uc_Hypervisor := EncodeToString (Uc_Hypervisor c), Uc_Initrd := EncodeToString (Uc_Initrd c),
     Uc_Snapshot := EncodeToString (Uc_Snapshot c), Uc_Block := EncodeToString (Uc_Block c),
     Uc_BlkMntPoint := EncodeToString (Uc_BlkMntPoint c), Uc_MountRootfs := EncodeToString (Uc_MountRootfs c),
     Uc_NetDev := EncodeToString (Uc_NetDev c), Uc_BlkDev := EncodeToString (Uc_BlkDev c),
     Uc_HyperlightPorts := EncodeToString (Uc_HyperlightPorts c)\<rparr>"

text \<open>
  Decoding the base64 values of a \<open>urunc.json\<close> gives back the configuration that was encoded,
  whatever bytes its values hold.
\<close>

theorem decode_encoded_config: "decode (encodeConfig c) = Inr c"
  by (cases c) (simp add: decode_def encodeConfig_def decodeField_def DecodeString_EncodeToString)

end
