(* ===== verification/Urunc_Config.thy ===== *)
theory Urunc_Config
  imports Annotations "HOL-Library.Multiset"
begin

text \<open>
  The configuration of urunc, \<open>pkg/unikontainers/urunc_config.go\<close>: defaults, loading, and the
  codec that stores it in the annotations of \<open>state.json\<close>. The TOML decoder is the argument
  \<open>decodeFile\<close>, which decodes a file into a value that holds the defaults. A Go map is a HOL map,
  and a loop over a Go map takes an enumeration of its keys, whose order Go leaves open.
\<close>

definition UruncConfigPath :: string where "UruncConfigPath = ''/etc/urunc/config.toml''"
definition UruncConfigFileEnv :: string where "UruncConfigFileEnv = ''URUNC_CONFIG_FILE''"

definition ResolveUruncConfigPath :: "(string \<Rightarrow> string) \<Rightarrow> string" where
  "ResolveUruncConfigPath getenv =
     (if getenv UruncConfigFileEnv \<noteq> [] then getenv UruncConfigFileEnv else UruncConfigPath)"

record UruncLog =
  Log_Level :: string
  Log_Syslog :: bool

record UruncTimestamps =
  Ts_Enabled :: bool
  Ts_Destination :: string

record UruncRuntime =
  Rt_Libcontainer :: bool
  Rt_VAccel :: bool

record UruncConfig =
  Cfg_Log :: UruncLog
  Cfg_Timestamps :: UruncTimestamps
  Cfg_Runtime :: UruncRuntime
  Cfg_Monitors :: monitors
  Cfg_ExtraBins :: "string \<Rightarrow> ExtraBinConfig option"

record LogMetricsUruncConfig =
  Lm_Log :: UruncLog
  Lm_Timestamps :: UruncTimestamps

definition libcontainerKey :: string where "libcontainerKey = ''urunc_config.runtime.libcontainer''"
definition vaccelKey :: string where "vaccelKey = ''urunc_config.runtime.vAccel''"

section \<open>Defaults\<close>

definition defaultLogConfig :: UruncLog where
  "defaultLogConfig = \<lparr>Log_Level = ''info'', Log_Syslog = False\<rparr>"

definition defaultTimestampsConfig :: UruncTimestamps where
  "defaultTimestampsConfig = \<lparr>Ts_Enabled = False, Ts_Destination = ''/var/log/urunc/timestamps.log''\<rparr>"

definition defaultRuntimeConfig :: UruncRuntime where
  "defaultRuntimeConfig = \<lparr>Rt_Libcontainer = False, Rt_VAccel = False\<rparr>"

definition defaultLogMetricsConfig :: LogMetricsUruncConfig where
  "defaultLogMetricsConfig = \<lparr>Lm_Log = defaultLogConfig, Lm_Timestamps = defaultTimestampsConfig\<rparr>"

definition defaultMonitorMemoryMB :: "64 word" where "defaultMonitorMemoryMB = 256"
definition defaultMonitorVCPUs :: "64 word" where "defaultMonitorVCPUs = 1"

definition defaultMonitor :: MonitorConfig where
  "defaultMonitor = zeroMonitorConfig\<lparr>Mon_DefaultMemoryMB := defaultMonitorMemoryMB,
     Mon_DefaultVCPUs := defaultMonitorVCPUs\<rparr>"

definition defaultMonitorsConfig :: monitors where
  "defaultMonitorsConfig = map_of
     [(''qemu'', defaultMonitor), (''hvt'', defaultMonitor), (''spt'', defaultMonitor),
      (''firecracker'', defaultMonitor), (''cloud-hypervisor'', defaultMonitor),
      (''hyperlight-unikraft'', defaultMonitor)]"

definition defaultVirtiofsd :: ExtraBinConfig where
  "defaultVirtiofsd = \<lparr>Xb_Path = ''/usr/libexec/virtiofsd'', Xb_Options = ''--cache always --sandbox none''\<rparr>"

definition defaultExtraBinConfig :: "string \<Rightarrow> ExtraBinConfig option" where
  "defaultExtraBinConfig = [''virtiofsd'' \<mapsto> defaultVirtiofsd]"

definition defaultUruncConfig :: UruncConfig where
  "defaultUruncConfig = \<lparr>Cfg_Log = defaultLogConfig, Cfg_Timestamps = defaultTimestampsConfig,
     Cfg_Runtime = defaultRuntimeConfig, Cfg_Monitors = defaultMonitorsConfig,
     Cfg_ExtraBins = defaultExtraBinConfig\<rparr>"

section \<open>Loading\<close>

definition ParseLogMetricsConfig ::
    "(string \<Rightarrow> err + LogMetricsUruncConfig) \<Rightarrow> string \<Rightarrow> LogMetricsUruncConfig \<times> err option" where
  "ParseLogMetricsConfig decodeFile path =
     (case decodeFile path of
        Inr initialConf \<Rightarrow> (initialConf, None)
      | Inl e \<Rightarrow> (defaultLogMetricsConfig, Some e))"

definition fixMonitor :: "MonitorConfig \<Rightarrow> MonitorConfig" where
  "fixMonitor mon =
     (let mon = (if Mon_DefaultMemoryMB mon = 0 then mon\<lparr>Mon_DefaultMemoryMB := defaultMonitorMemoryMB\<rparr> else mon)
      in if Mon_DefaultVCPUs mon = 0 then mon\<lparr>Mon_DefaultVCPUs := defaultMonitorVCPUs\<rparr> else mon)"

definition fixMonitors :: "string list \<Rightarrow> monitors \<Rightarrow> monitors" where
  "fixMonitors names ms = fold (\<lambda>name ms. ms(name \<mapsto> fixMonitor (monitorOf ms name))) names ms"

definition fixVirtiofsd :: "ExtraBinConfig \<Rightarrow> ExtraBinConfig" where
  "fixVirtiofsd bin =
     (let bin = (if Xb_Path bin = [] then bin\<lparr>Xb_Path := Xb_Path defaultVirtiofsd\<rparr> else bin)
      in if Xb_Options bin = [] then bin\<lparr>Xb_Options := Xb_Options defaultVirtiofsd\<rparr> else bin)"

definition LoadUruncConfig ::
    "(string \<Rightarrow> UruncConfig \<Rightarrow> err + UruncConfig) \<Rightarrow> (monitors \<Rightarrow> string list) \<Rightarrow> string
      \<Rightarrow> UruncConfig \<times> err option" where
  "LoadUruncConfig decodeFile keys path =
     (case decodeFile path defaultUruncConfig of
        Inl e \<Rightarrow> (defaultUruncConfig, Some e)
      | Inr cfg \<Rightarrow>
          (let cfg = cfg\<lparr>Cfg_Monitors := fixMonitors (keys (Cfg_Monitors cfg)) (Cfg_Monitors cfg)\<rparr>
           in case Cfg_ExtraBins cfg ''virtiofsd'' of
                None \<Rightarrow> (cfg, None)
              | Some bin \<Rightarrow>
                  (cfg\<lparr>Cfg_ExtraBins := (Cfg_ExtraBins cfg)(''virtiofsd'' \<mapsto> fixVirtiofsd bin)\<rparr>, None)))"

section \<open>Storing\<close>

definition monPrefix :: string where "monPrefix = ''urunc_config.monitors.''"
definition binPrefix :: string where "binPrefix = ''urunc_config.extra_binaries.''"

definition mapMonitor :: "string \<Rightarrow> MonitorConfig \<Rightarrow> annotations \<Rightarrow> annotations" where
  "mapMonitor hv hvCfg m =
     (let p = monPrefix @ hv @ ''.''
      in m(p @ ''default_memory_mb'' \<mapsto> FormatUint (unat (Mon_DefaultMemoryMB hvCfg)),
           p @ ''default_vcpus'' \<mapsto> FormatUint (unat (Mon_DefaultVCPUs hvCfg)),
           p @ ''binary_path'' \<mapsto> Mon_BinaryPath hvCfg,
           p @ ''data_path'' \<mapsto> Mon_DataPath hvCfg,
           p @ ''vhost'' \<mapsto> FormatBool (Mon_Vhost hvCfg),
           p @ ''socket_path'' \<mapsto> Mon_SocketPath hvCfg))"

definition mapBin :: "string \<Rightarrow> ExtraBinConfig \<Rightarrow> annotations \<Rightarrow> annotations" where
  "mapBin eb ebCfg m =
     (let p = binPrefix @ eb @ ''.''
      in m(p @ ''path'' \<mapsto> Xb_Path ebCfg, p @ ''options'' \<mapsto> Xb_Options ebCfg))"

definition binOf :: "(string \<Rightarrow> ExtraBinConfig option) \<Rightarrow> string \<Rightarrow> ExtraBinConfig" where
  "binOf bs k = (case bs k of None \<Rightarrow> \<lparr>Xb_Path = [], Xb_Options = []\<rparr> | Some b \<Rightarrow> b)"

definition UruncConfig_Map :: "string list \<Rightarrow> string list \<Rightarrow> UruncConfig \<Rightarrow> annotations" where
  "UruncConfig_Map hvs ebs p =
     (let m = [libcontainerKey \<mapsto> FormatBool (Rt_Libcontainer (Cfg_Runtime p)),
               vaccelKey \<mapsto> FormatBool (Rt_VAccel (Cfg_Runtime p))];
          m = fold (\<lambda>hv. mapMonitor hv (monitorOf (Cfg_Monitors p) hv)) hvs m
      in fold (\<lambda>eb. mapBin eb (binOf (Cfg_ExtraBins p) eb)) ebs m)"

section \<open>Reading back\<close>

definition runtimeFromMap :: "annotations \<Rightarrow> UruncRuntime" where
  "runtimeFromMap m =
     (let rt = defaultRuntimeConfig;
          rt = (case m libcontainerKey of
                  None \<Rightarrow> rt
                | Some val \<Rightarrow> (case ParseBool val of None \<Rightarrow> rt | Some b \<Rightarrow> rt\<lparr>Rt_Libcontainer := b\<rparr>))
      in case m vaccelKey of
           None \<Rightarrow> rt
         | Some val \<Rightarrow> (case ParseBool val of None \<Rightarrow> rt | Some b \<Rightarrow> rt\<lparr>Rt_VAccel := b\<rparr>))"

text \<open>A positive decimal number replaces the old value, anything else leaves it.\<close>

definition readUint :: "string \<Rightarrow> 64 word \<Rightarrow> 64 word" where
  "readUint val old =
     (case Atoi val of Some i \<Rightarrow> if i > 0 then word_of_int i else old | None \<Rightarrow> old)"

definition setMonitorField :: "string \<Rightarrow> string \<Rightarrow> MonitorConfig \<Rightarrow> MonitorConfig" where
  "setMonitorField field val c =
     (if field = ''default_memory_mb'' then c\<lparr>Mon_DefaultMemoryMB := readUint val (Mon_DefaultMemoryMB c)\<rparr>
      else if field = ''default_vcpus'' then c\<lparr>Mon_DefaultVCPUs := readUint val (Mon_DefaultVCPUs c)\<rparr>
      else if field = ''binary_path'' then c\<lparr>Mon_BinaryPath := val\<rparr>
      else if field = ''data_path'' then c\<lparr>Mon_DataPath := val\<rparr>
      else if field = ''socket_path'' then c\<lparr>Mon_SocketPath := val\<rparr>
      else if field = ''vhost'' then
        (case ParseBool val of None \<Rightarrow> c | Some b \<Rightarrow> c\<lparr>Mon_Vhost := b\<rparr>)
      else c)"

text \<open>The two variable parts of a key: the third and the fourth of exactly four.\<close>

definition keyParts :: "string \<Rightarrow> string \<Rightarrow> (string \<times> string) option" where
  "keyParts pre key =
     (if \<not> HasPrefix key pre then None
      else case Split (CHR ''.'') key of [_, _, name, field] \<Rightarrow> Some (name, field) | _ \<Rightarrow> None)"

definition monitorStep :: "annotations \<Rightarrow> string \<Rightarrow> monitors \<Rightarrow> monitors" where
  "monitorStep m key ms =
     (case keyParts monPrefix key of
        None \<Rightarrow> ms
      | Some (hv, field) \<Rightarrow> ms(hv \<mapsto> setMonitorField field (get m key) (monitorOf ms hv)))"

definition setBinField :: "string \<Rightarrow> string \<Rightarrow> ExtraBinConfig \<Rightarrow> ExtraBinConfig" where
  "setBinField field val c =
     (if field = ''path'' then c\<lparr>Xb_Path := val\<rparr>
      else if field = ''options'' then c\<lparr>Xb_Options := val\<rparr>
      else c)"

definition binStep ::
    "annotations \<Rightarrow> string \<Rightarrow> (string \<Rightarrow> ExtraBinConfig option) \<Rightarrow> string \<Rightarrow> ExtraBinConfig option" where
  "binStep m key bs =
     (case keyParts binPrefix key of
        None \<Rightarrow> bs
      | Some (eb, field) \<Rightarrow> bs(eb \<mapsto> setBinField field (get m key) (binOf bs eb)))"

definition zeroLog :: UruncLog where "zeroLog = \<lparr>Log_Level = [], Log_Syslog = False\<rparr>"
definition zeroTimestamps :: UruncTimestamps where
  "zeroTimestamps = \<lparr>Ts_Enabled = False, Ts_Destination = []\<rparr>"

definition UruncConfigFromMap :: "string list \<Rightarrow> string list \<Rightarrow> annotations \<Rightarrow> UruncConfig" where
  "UruncConfigFromMap ks ks' m =
     \<lparr>Cfg_Log = zeroLog, Cfg_Timestamps = zeroTimestamps, Cfg_Runtime = runtimeFromMap m,
      Cfg_Monitors = fold (monitorStep m) ks defaultMonitorsConfig,
      Cfg_ExtraBins = fold (binStep m) ks' defaultExtraBinConfig\<rparr>"

text \<open>An enumeration of the keys of a map.\<close>

definition enumerates :: "'a list \<Rightarrow> ('a \<Rightarrow> 'b option) \<Rightarrow> bool" where
  "enumerates ks m \<longleftrightarrow> distinct ks \<and> set ks = dom m"

section \<open>What the loops compute\<close>

definition monKey :: "string \<Rightarrow> string \<Rightarrow> string" where
  "monKey hv field = monPrefix @ hv @ ''.'' @ field"

definition binKey :: "string \<Rightarrow> string \<Rightarrow> string" where
  "binKey eb field = binPrefix @ eb @ ''.'' @ field"

lemma Split_key:
  assumes "CHR ''.'' \<notin> set a" "CHR ''.'' \<notin> set b"
  shows "Split (CHR ''.'') (a @ CHR ''.'' # b @ CHR ''.'' # rest) = a # b # Split (CHR ''.'') rest"
  using assms by (simp add: Split_append_sep)

lemma keyParts_iff:
  assumes "CHR ''.'' \<notin> set a" "CHR ''.'' \<notin> set b"
  shows "keyParts (a @ CHR ''.'' # b @ [CHR ''.'']) k = Some (name, field) \<longleftrightarrow>
    k = a @ CHR ''.'' # b @ CHR ''.'' # name @ CHR ''.'' # field
    \<and> CHR ''.'' \<notin> set name \<and> CHR ''.'' \<notin> set field"
proof
  assume "keyParts (a @ CHR ''.'' # b @ [CHR ''.'']) k = Some (name, field)"
  then obtain x y where p: "HasPrefix k (a @ CHR ''.'' # b @ [CHR ''.''])"
      and s: "Split (CHR ''.'') k = [x, y, name, field]"
    by (auto simp: keyParts_def split: if_splits list.splits)
  obtain rest where k: "k = a @ CHR ''.'' # b @ CHR ''.'' # rest" using p by (auto simp: HasPrefix_iff)
  then have "Split (CHR ''.'') rest = [name, field]" using s Split_key [OF assms, of rest] by simp
  then have "rest = name @ CHR ''.'' # field" "CHR ''.'' \<notin> set name" "CHR ''.'' \<notin> set field"
    using Join_Split [of "CHR ''.''" rest] Split_no_sep [of _ "CHR ''.''" rest] by auto
  then show "k = a @ CHR ''.'' # b @ CHR ''.'' # name @ CHR ''.'' # field
    \<and> CHR ''.'' \<notin> set name \<and> CHR ''.'' \<notin> set field" using k by simp
next
  assume k: "k = a @ CHR ''.'' # b @ CHR ''.'' # name @ CHR ''.'' # field
    \<and> CHR ''.'' \<notin> set name \<and> CHR ''.'' \<notin> set field"
  then have "Split (CHR ''.'') k = [a, b, name, field]"
    using Split_key [OF assms, of "name @ CHR ''.'' # field"] by (simp add: Split_append_sep Split_self)
  moreover have "HasPrefix k (a @ CHR ''.'' # b @ [CHR ''.''])" using k by (auto simp: HasPrefix_iff)
  ultimately show "keyParts (a @ CHR ''.'' # b @ [CHR ''.'']) k = Some (name, field)"
    by (simp add: keyParts_def)
qed

lemma keyParts_mon:
  "keyParts monPrefix k = Some (hv, f) \<longleftrightarrow> k = monKey hv f \<and> CHR ''.'' \<notin> set hv \<and> CHR ''.'' \<notin> set f"
  using keyParts_iff [of "''urunc_config''" "''monitors''" k hv f] by (simp add: monPrefix_def monKey_def)

lemma keyParts_bin:
  "keyParts binPrefix k = Some (eb, f) \<longleftrightarrow> k = binKey eb f \<and> CHR ''.'' \<notin> set eb \<and> CHR ''.'' \<notin> set f"
  using keyParts_iff [of "''urunc_config''" "''extra_binaries''" k eb f] by (simp add: binPrefix_def binKey_def)

text \<open>The fields of an entry and the value each is stored with.\<close>

definition monFields :: "string list" where
  "monFields = [''default_memory_mb'', ''default_vcpus'', ''binary_path'', ''data_path'', ''vhost'', ''socket_path'']"

definition monFieldVal :: "MonitorConfig \<Rightarrow> string \<Rightarrow> string" where
  "monFieldVal c f =
     (if f = ''default_memory_mb'' then FormatUint (unat (Mon_DefaultMemoryMB c))
      else if f = ''default_vcpus'' then FormatUint (unat (Mon_DefaultVCPUs c))
      else if f = ''binary_path'' then Mon_BinaryPath c
      else if f = ''data_path'' then Mon_DataPath c
      else if f = ''vhost'' then FormatBool (Mon_Vhost c)
      else Mon_SocketPath c)"

definition binFields :: "string list" where
  "binFields = [''path'', ''options'']"

definition binFieldVal :: "ExtraBinConfig \<Rightarrow> string \<Rightarrow> string" where
  "binFieldVal c f = (if f = ''path'' then Xb_Path c else Xb_Options c)"

definition dotless :: "string \<Rightarrow> bool" where
  "dotless s \<longleftrightarrow> CHR ''.'' \<notin> set s"

lemma dotless_fields: "f \<in> set monFields \<Longrightarrow> dotless f" "f \<in> set binFields \<Longrightarrow> dotless f"
  by (auto simp: monFields_def binFields_def dotless_def)

lemma monKey_inject:
  "dotless hv \<Longrightarrow> dotless f \<Longrightarrow> dotless hv' \<Longrightarrow> dotless f' \<Longrightarrow> monKey hv f = monKey hv' f' \<longleftrightarrow> hv = hv' \<and> f = f'"
  using keyParts_mon [of "monKey hv f" hv f] keyParts_mon [of "monKey hv f" hv' f'] by (auto simp: dotless_def)

lemma binKey_inject:
  "dotless eb \<Longrightarrow> dotless f \<Longrightarrow> dotless eb' \<Longrightarrow> dotless f' \<Longrightarrow> binKey eb f = binKey eb' f' \<longleftrightarrow> eb = eb' \<and> f = f'"
  using keyParts_bin [of "binKey eb f" eb f] keyParts_bin [of "binKey eb f" eb' f'] by (auto simp: dotless_def)

lemma key_field_inject [simp]:
  "monKey hv f = monKey hv g \<longleftrightarrow> f = g" "binKey eb f = binKey eb g \<longleftrightarrow> f = g"
  by (simp_all add: monKey_def binKey_def)

lemma mapMonitor_keys:
  "mapMonitor hv c m = m(monKey hv ''default_memory_mb'' \<mapsto> FormatUint (unat (Mon_DefaultMemoryMB c)),
     monKey hv ''default_vcpus'' \<mapsto> FormatUint (unat (Mon_DefaultVCPUs c)),
     monKey hv ''binary_path'' \<mapsto> Mon_BinaryPath c, monKey hv ''data_path'' \<mapsto> Mon_DataPath c,
     monKey hv ''vhost'' \<mapsto> FormatBool (Mon_Vhost c), monKey hv ''socket_path'' \<mapsto> Mon_SocketPath c)"
  by (simp add: mapMonitor_def monKey_def)

lemma mapBin_keys:
  "mapBin eb c m = m(binKey eb ''path'' \<mapsto> Xb_Path c, binKey eb ''options'' \<mapsto> Xb_Options c)"
  by (simp add: mapBin_def binKey_def)

text \<open>What one entry and the whole loop store.\<close>

lemma mapMonitor_lookup:
  assumes "dotless hv"
  shows "mapMonitor hv c m k =
    (case keyParts monPrefix k of
       Some (hv', f) \<Rightarrow> if hv' = hv \<and> f \<in> set monFields then Some (monFieldVal c f) else m k
     | None \<Rightarrow> m k)"
proof (cases "keyParts monPrefix k")
  case None
  then have "k \<noteq> monKey hv f" if "f \<in> set monFields" for f
    using keyParts_mon [of k hv f] assms dotless_fields(1) [OF that] by (auto simp: dotless_def)
  then show ?thesis using None by (simp add: mapMonitor_keys monFields_def)
next
  case (Some hf)
  obtain hv' f where hf: "hf = (hv', f)" by (cases hf)
  with Some have k: "k = monKey hv' f" "dotless hv'" "dotless f" by (auto simp: keyParts_mon dotless_def)
  show ?thesis
  proof (cases "hv' = hv \<and> f \<in> set monFields")
    case True
    then have "f \<in> set monFields" by simp
    then show ?thesis using True Some hf
      unfolding mapMonitor_keys k(1) by (auto simp: monFields_def monFieldVal_def)
  next
    case False
    have "k \<noteq> monKey hv g" if "g \<in> set monFields" for g
      using monKey_inject [OF k(2,3) assms dotless_fields(1) [OF that]] k(1) False that by auto
    then show ?thesis using Some hf False by (auto simp: mapMonitor_keys monFields_def)
  qed
qed

lemma mapBin_lookup:
  assumes "dotless eb"
  shows "mapBin eb c m k =
    (case keyParts binPrefix k of
       Some (eb', f) \<Rightarrow> if eb' = eb \<and> f \<in> set binFields then Some (binFieldVal c f) else m k
     | None \<Rightarrow> m k)"
proof (cases "keyParts binPrefix k")
  case None
  then have "k \<noteq> binKey eb f" if "f \<in> set binFields" for f
    using keyParts_bin [of k eb f] assms dotless_fields(2) [OF that] by (auto simp: dotless_def)
  then show ?thesis using None by (simp add: mapBin_keys binFields_def)
next
  case (Some hf)
  obtain eb' f where hf: "hf = (eb', f)" by (cases hf)
  with Some have k: "k = binKey eb' f" "dotless eb'" "dotless f" by (auto simp: keyParts_bin dotless_def)
  show ?thesis
  proof (cases "eb' = eb \<and> f \<in> set binFields")
    case True
    then have "f \<in> set binFields" by simp
    then show ?thesis using True Some hf
      unfolding mapBin_keys k(1) by (auto simp: binFields_def binFieldVal_def)
  next
    case False
    have "k \<noteq> binKey eb g" if "g \<in> set binFields" for g
      using binKey_inject [OF k(2,3) assms dotless_fields(2) [OF that]] k(1) False that by auto
    then show ?thesis using Some hf False by (auto simp: mapBin_keys binFields_def)
  qed
qed

lemma fold_mapMonitor_lookup:
  "\<forall>hv \<in> set hvs. dotless hv \<Longrightarrow> fold (\<lambda>hv. mapMonitor hv (g hv)) hvs m k =
    (case keyParts monPrefix k of
       Some (hv, f) \<Rightarrow> if hv \<in> set hvs \<and> f \<in> set monFields then Some (monFieldVal (g hv) f) else m k
     | None \<Rightarrow> m k)"
proof (induction hvs arbitrary: m)
  case (Cons x xs)
  then show ?case by (cases "keyParts monPrefix k") (auto simp: mapMonitor_lookup)
qed (simp split: option.split)

lemma fold_mapBin_lookup:
  "\<forall>eb \<in> set ebs. dotless eb \<Longrightarrow> fold (\<lambda>eb. mapBin eb (g eb)) ebs m k =
    (case keyParts binPrefix k of
       Some (eb, f) \<Rightarrow> if eb \<in> set ebs \<and> f \<in> set binFields then Some (binFieldVal (g eb) f) else m k
     | None \<Rightarrow> m k)"
proof (induction ebs arbitrary: m)
  case (Cons x xs)
  then show ?case by (cases "keyParts binPrefix k") (auto simp: mapBin_lookup)
qed (simp split: option.split)

section \<open>The order of a map does not matter\<close>

lemma setMonitorField_simps:
  "setMonitorField ''default_memory_mb'' v c = c\<lparr>Mon_DefaultMemoryMB := readUint v (Mon_DefaultMemoryMB c)\<rparr>"
  "setMonitorField ''default_vcpus'' v c = c\<lparr>Mon_DefaultVCPUs := readUint v (Mon_DefaultVCPUs c)\<rparr>"
  "setMonitorField ''binary_path'' v c = c\<lparr>Mon_BinaryPath := v\<rparr>"
  "setMonitorField ''data_path'' v c = c\<lparr>Mon_DataPath := v\<rparr>"
  "setMonitorField ''socket_path'' v c = c\<lparr>Mon_SocketPath := v\<rparr>"
  "setMonitorField ''vhost'' v c = c\<lparr>Mon_Vhost := (case ParseBool v of None \<Rightarrow> Mon_Vhost c | Some b \<Rightarrow> b)\<rparr>"
  by (simp_all add: setMonitorField_def split: option.split)

lemma setMonitorField_other: "f \<notin> set monFields \<Longrightarrow> setMonitorField f v c = c"
  by (simp add: setMonitorField_def monFields_def)

lemma six_cases:
  obtains "x \<notin> set [a, b, c, d, e, g]" | "x = a" | "x = b" | "x = c" | "x = d" | "x = e" | "x = g"
  by auto

lemmas monFields_cases =
  six_cases [where a = "''default_memory_mb''" and b = "''default_vcpus''" and c = "''binary_path''"
    and d = "''data_path''" and e = "''vhost''" and g = "''socket_path''", folded monFields_def]

lemma setMonitorField_commute:
  "f \<noteq> g \<Longrightarrow> setMonitorField f v (setMonitorField g w c) = setMonitorField g w (setMonitorField f v c)"
  by (rule monFields_cases [of f]; rule monFields_cases [of g])
    (simp_all add: setMonitorField_other setMonitorField_simps split: option.split)

lemma setBinField_commute:
  "f \<noteq> g \<Longrightarrow> setBinField f v (setBinField g w c) = setBinField g w (setBinField f v c)"
  unfolding setBinField_def by simp

lemma monitorStep_commute: "monitorStep m x \<circ> monitorStep m y = monitorStep m y \<circ> monitorStep m x"
proof
  fix ms
  consider "keyParts monPrefix x = None" | "keyParts monPrefix y = None"
    | h f h' f' where "keyParts monPrefix x = Some (h, f)" "keyParts monPrefix y = Some (h', f')"
    by (cases "keyParts monPrefix x"; cases "keyParts monPrefix y") auto
  then show "(monitorStep m x \<circ> monitorStep m y) ms = (monitorStep m y \<circ> monitorStep m x) ms"
  proof cases
    case 3
    show ?thesis
    proof (cases "h = h' \<and> f = f'")
      case True
      then have "x = y" using 3 by (auto simp: keyParts_mon)
      then show ?thesis by simp
    next
      case False
      then show ?thesis using 3
        by (cases "h = h'") (auto simp: monitorStep_def monitorOf_def setMonitorField_commute fun_upd_twist)
    qed
  qed (simp_all add: monitorStep_def)
qed

lemma binStep_commute: "binStep m x \<circ> binStep m y = binStep m y \<circ> binStep m x"
proof
  fix ms
  consider "keyParts binPrefix x = None" | "keyParts binPrefix y = None"
    | h f h' f' where "keyParts binPrefix x = Some (h, f)" "keyParts binPrefix y = Some (h', f')"
    by (cases "keyParts binPrefix x"; cases "keyParts binPrefix y") auto
  then show "(binStep m x \<circ> binStep m y) ms = (binStep m y \<circ> binStep m x) ms"
  proof cases
    case 3
    show ?thesis
    proof (cases "h = h' \<and> f = f'")
      case True
      then have "x = y" using 3 by (auto simp: keyParts_bin)
      then show ?thesis by simp
    next
      case False
      then show ?thesis using 3
        by (cases "h = h'") (auto simp: binStep_def binOf_def setBinField_commute fun_upd_twist)
    qed
  qed (simp_all add: binStep_def)
qed

lemma mset_enumerations:
  "enumerates ks m \<Longrightarrow> enumerates ks' m \<Longrightarrow> mset ks = mset ks'"
  by (simp add: enumerates_def set_eq_iff_mset_eq_distinct [symmetric])

lemma fold_order:
  "(\<And>x y. f x \<circ> f y = f y \<circ> f x) \<Longrightarrow> mset ks = mset ks' \<Longrightarrow> fold f ks = fold f ks'"
  by (rule fold_multiset_equiv) auto

lemma UruncConfigFromMap_order:
  assumes "enumerates ks m" "enumerates ks' m" "enumerates ls m" "enumerates ls' m"
  shows "UruncConfigFromMap ks ks' m = UruncConfigFromMap ls ls' m"
  using fold_order [OF monitorStep_commute, of ks ls m]
    fold_order [OF binStep_commute, of ks' ls' m]
    mset_enumerations [OF assms(1,3)] mset_enumerations [OF assms(2,4)]
  by (simp add: UruncConfigFromMap_def)

section \<open>The round trip\<close>

definition storable :: "MonitorConfig \<Rightarrow> bool" where
  "storable c \<longleftrightarrow> 0 < unat (Mon_DefaultMemoryMB c) \<and> unat (Mon_DefaultMemoryMB c) < 2 ^ 63
     \<and> 0 < unat (Mon_DefaultVCPUs c) \<and> unat (Mon_DefaultVCPUs c) < 2 ^ 63"

lemma readUint_FormatUint: "0 < unat w \<Longrightarrow> unat w < 2 ^ 63 \<Longrightarrow> readUint (FormatUint (unat w)) old = w"
proof -
  assume a: "0 < unat w" and b: "unat w < 2 ^ 63"
  have "Atoi (FormatUint (unat w)) = Some (int (unat w))" by (rule Atoi_FormatUint [OF b])
  moreover have "0 < int (unat w)" using a by linarith
  ultimately show ?thesis by (simp add: readUint_def)
qed

lemma monitorStep_key:
  "dotless hv \<Longrightarrow> dotless f \<Longrightarrow>
    monitorStep m (monKey hv f) ms = ms(hv \<mapsto> setMonitorField f (get m (monKey hv f)) (monitorOf ms hv))"
  using keyParts_mon [of "monKey hv f" hv f] by (simp add: monitorStep_def dotless_def)

lemma binStep_key:
  "dotless eb \<Longrightarrow> dotless f \<Longrightarrow>
    binStep m (binKey eb f) bs = bs(eb \<mapsto> setBinField f (get m (binKey eb f)) (binOf bs eb))"
  using keyParts_bin [of "binKey eb f" eb f] by (simp add: binStep_def dotless_def)

lemma monitorOf_upd [simp]: "monitorOf (ms(hv \<mapsto> c)) hv = c"
  by (simp add: monitorOf_def)

lemma overwritten:
  "x\<lparr>Mon_DefaultMemoryMB := Mon_DefaultMemoryMB c, Mon_DefaultVCPUs := Mon_DefaultVCPUs c,
     Mon_BinaryPath := Mon_BinaryPath c, Mon_DataPath := Mon_DataPath c, Mon_Vhost := Mon_Vhost c,
     Mon_SocketPath := Mon_SocketPath c\<rparr> = (c :: MonitorConfig)"
  "y\<lparr>Xb_Path := Xb_Path d, Xb_Options := Xb_Options d\<rparr> = (d :: ExtraBinConfig)"
  by (cases x; cases c; simp) (cases y; cases d; simp)

lemma binOf_upd [simp]: "binOf (bs(eb \<mapsto> c)) eb = c"
  by (simp add: binOf_def)

lemma fold_fields:
  assumes "dotless hv" "storable c" and m: "\<And>f. f \<in> set monFields \<Longrightarrow> m (monKey hv f) = Some (monFieldVal c f)"
  shows "fold (monitorStep m) (map (monKey hv) monFields) ms = ms(hv \<mapsto> c)"
proof -
  have v: "get m (monKey hv f) = monFieldVal c f" if "f \<in> set monFields" for f
    using m [OF that] by (simp add: get_def)
  have step: "monitorStep m (monKey hv f) ms = ms(hv \<mapsto> setMonitorField f (monFieldVal c f) (monitorOf ms hv))"
    if "f \<in> set monFields" for f ms
    using monitorStep_key [OF assms(1) dotless_fields(1) [OF that]] v [OF that] by simp
  have rest: "fold (monitorStep m) (map (monKey hv) fs) (ms(hv \<mapsto> c0))
      = ms(hv \<mapsto> fold (\<lambda>f. setMonitorField f (monFieldVal c f)) fs c0)"
    if "set fs \<subseteq> set monFields" for fs c0
    using that
  proof (induction fs arbitrary: c0)
    case (Cons f fs)
    then have "f \<in> set monFields" by simp
    note st = step [OF this, of "ms(hv \<mapsto> c0)"]
    show ?case using Cons by (simp add: st del: fun_upd_apply)
  qed simp
  have fields: "monFields = hd monFields # tl monFields" "hd monFields \<in> set monFields"
    "set (tl monFields) \<subseteq> set monFields"
    by (simp_all add: monFields_def)
  have "fold (monitorStep m) (map (monKey hv) monFields) ms =
      ms(hv \<mapsto> fold (\<lambda>f. setMonitorField f (monFieldVal c f)) monFields (monitorOf ms hv))"
    by (subst (1 2) fields(1)) (simp add: step [OF fields(2)] rest [OF fields(3)] del: fun_upd_apply)
  then show ?thesis
    using assms(2)
    by (simp add: monFields_def setMonitorField_simps monFieldVal_def storable_def readUint_FormatUint overwritten)
qed

lemma fold_bin_fields:
  assumes "dotless eb" and m: "\<And>f. f \<in> set binFields \<Longrightarrow> m (binKey eb f) = Some (binFieldVal c f)"
  shows "fold (binStep m) (map (binKey eb) binFields) bs = bs(eb \<mapsto> c)"
proof -
  have v: "get m (binKey eb f) = binFieldVal c f" if "f \<in> set binFields" for f
    using m [OF that] by (simp add: get_def)
  have d: "dotless ''path''" "dotless ''options''" by (simp_all add: dotless_def)
  show ?thesis
    using v [of "''path''"] v [of "''options''"] binStep_key [OF assms(1) d(1)] binStep_key [OF assms(1) d(2)]
    by (simp add: binFields_def setBinField_def binFieldVal_def overwritten)
qed

definition monKeys :: "string list \<Rightarrow> string list" where
  "monKeys hvs = concat (map (\<lambda>hv. map (monKey hv) monFields) hvs)"

definition binKeys :: "string list \<Rightarrow> string list" where
  "binKeys ebs = concat (map (\<lambda>eb. map (binKey eb) binFields) ebs)"

lemma fold_monKeys:
  assumes "\<forall>hv \<in> set hvs. dotless hv \<and> storable (g hv)"
    and "\<And>hv f. hv \<in> set hvs \<Longrightarrow> f \<in> set monFields \<Longrightarrow> m (monKey hv f) = Some (monFieldVal (g hv) f)"
  shows "fold (monitorStep m) (monKeys hvs) ms = (\<lambda>hv. if hv \<in> set hvs then Some (g hv) else ms hv)"
  using assms
proof (induction hvs arbitrary: ms)
  case (Cons hv hvs)
  have "fold (monitorStep m) (monKeys (hv # hvs)) ms
      = fold (monitorStep m) (monKeys hvs) (fold (monitorStep m) (map (monKey hv) monFields) ms)"
    by (simp add: monKeys_def)
  also have "fold (monitorStep m) (map (monKey hv) monFields) ms = ms(hv \<mapsto> g hv)"
    using Cons.prems by (intro fold_fields) auto
  also have "fold (monitorStep m) (monKeys hvs) (ms(hv \<mapsto> g hv)) =
      (\<lambda>h. if h \<in> set hvs then Some (g h) else (ms(hv \<mapsto> g hv)) h)"
    using Cons.prems by (intro Cons.IH) auto
  finally show ?case by (auto simp: fun_eq_iff)
qed (simp add: monKeys_def)

lemma fold_binKeys:
  assumes "\<forall>eb \<in> set ebs. dotless eb"
    and "\<And>eb f. eb \<in> set ebs \<Longrightarrow> f \<in> set binFields \<Longrightarrow> m (binKey eb f) = Some (binFieldVal (g eb) f)"
  shows "fold (binStep m) (binKeys ebs) bs = (\<lambda>eb. if eb \<in> set ebs then Some (g eb) else bs eb)"
  using assms
proof (induction ebs arbitrary: bs)
  case (Cons eb ebs)
  have "fold (binStep m) (binKeys (eb # ebs)) bs
      = fold (binStep m) (binKeys ebs) (fold (binStep m) (map (binKey eb) binFields) bs)"
    by (simp add: binKeys_def)
  also have "fold (binStep m) (map (binKey eb) binFields) bs = bs(eb \<mapsto> g eb)"
    using Cons.prems by (intro fold_bin_fields) auto
  also have "fold (binStep m) (binKeys ebs) (bs(eb \<mapsto> g eb)) =
      (\<lambda>h. if h \<in> set ebs then Some (g h) else (bs(eb \<mapsto> g eb)) h)"
    using Cons.prems by (intro Cons.IH) auto
  finally show ?case by (auto simp: fun_eq_iff)
qed (simp add: binKeys_def)

text \<open>Keys of one kind are skipped by the loop for the other.\<close>

lemma key_kinds:
  "keyParts monPrefix libcontainerKey = None" "keyParts monPrefix vaccelKey = None"
  "keyParts binPrefix libcontainerKey = None" "keyParts binPrefix vaccelKey = None"
  "keyParts monPrefix (binKey eb f) = None" "keyParts binPrefix (monKey hv f) = None"
  by (simp_all add: keyParts_def HasPrefix_def monPrefix_def binPrefix_def libcontainerKey_def vaccelKey_def
      binKey_def monKey_def)

lemma fold_skip: "(\<And>k. k \<in> set ks \<Longrightarrow> f k = id) \<Longrightarrow> fold f ks = id"
  by (induction ks) auto

lemma set_monKeys: "set (monKeys hvs) = {monKey hv f | hv f. hv \<in> set hvs \<and> f \<in> set monFields}"
  by (auto simp: monKeys_def)

lemma set_binKeys: "set (binKeys ebs) = {binKey eb f | eb f. eb \<in> set ebs \<and> f \<in> set binFields}"
  by (auto simp: binKeys_def)

lemma distinct_fields: "distinct monFields" "distinct binFields"
  by (simp_all add: monFields_def binFields_def)

lemma distinct_monKeys:
  "distinct hvs \<Longrightarrow> \<forall>hv \<in> set hvs. dotless hv \<Longrightarrow> distinct (monKeys hvs)"
proof (induction hvs)
  case (Cons hv hvs)
  have "set (map (monKey hv) monFields) \<inter> set (monKeys hvs) = {}"
    using Cons.prems monKey_inject dotless_fields(1) unfolding set_monKeys by fastforce
  then show ?case
    using Cons distinct_fields(1) by (auto simp: monKeys_def distinct_map inj_on_def)
qed (simp add: monKeys_def)

lemma distinct_binKeys:
  "distinct ebs \<Longrightarrow> \<forall>eb \<in> set ebs. dotless eb \<Longrightarrow> distinct (binKeys ebs)"
proof (induction ebs)
  case (Cons eb ebs)
  have "set (map (binKey eb) binFields) \<inter> set (binKeys ebs) = {}"
    using Cons.prems binKey_inject dotless_fields(2) unfolding set_binKeys by fastforce
  then show ?case
    using Cons distinct_fields(2) by (auto simp: binKeys_def distinct_map inj_on_def)
qed (simp add: binKeys_def)

lemma UruncConfig_Map_lookup:
  assumes "\<forall>hv \<in> set hvs. dotless hv" "\<forall>eb \<in> set ebs. dotless eb"
  shows "UruncConfig_Map hvs ebs p k =
    (case keyParts binPrefix k of
       Some (eb, f) \<Rightarrow> if eb \<in> set ebs \<and> f \<in> set binFields then Some (binFieldVal (binOf (Cfg_ExtraBins p) eb) f) else
         (if k = vaccelKey then Some (FormatBool (Rt_VAccel (Cfg_Runtime p)))
          else if k = libcontainerKey then Some (FormatBool (Rt_Libcontainer (Cfg_Runtime p)))
          else None)
     | None \<Rightarrow> (case keyParts monPrefix k of
         Some (hv, f) \<Rightarrow> if hv \<in> set hvs \<and> f \<in> set monFields then Some (monFieldVal (monitorOf (Cfg_Monitors p) hv) f)
           else None
       | None \<Rightarrow> if k = vaccelKey then Some (FormatBool (Rt_VAccel (Cfg_Runtime p)))
                 else if k = libcontainerKey then Some (FormatBool (Rt_Libcontainer (Cfg_Runtime p)))
                 else None))"
proof -
  have a: "keyParts binPrefix k = Some x \<Longrightarrow> keyParts monPrefix k = None" for x
    by (cases x) (auto simp: keyParts_bin key_kinds)
  show ?thesis
    unfolding UruncConfig_Map_def Let_def fold_mapBin_lookup [OF assms(2)] fold_mapMonitor_lookup [OF assms(1)]
    using a by (auto simp: key_kinds split: option.splits)
qed

definition mapKeys :: "string list \<Rightarrow> string list \<Rightarrow> string list" where
  "mapKeys hvs ebs = [libcontainerKey, vaccelKey] @ monKeys hvs @ binKeys ebs"

lemma dom_UruncConfig_Map:
  assumes "\<forall>hv \<in> set hvs. dotless hv" "\<forall>eb \<in> set ebs. dotless eb"
  shows "dom (UruncConfig_Map hvs ebs p) = set (mapKeys hvs ebs)"
proof -
  have m: "keyParts monPrefix (monKey hv f) = Some (hv, f)" if "hv \<in> set hvs" "f \<in> set monFields" for hv f
    using that assms(1) dotless_fields(1) keyParts_mon [of "monKey hv f" hv f] by (simp add: dotless_def)
  have b: "keyParts binPrefix (binKey eb f) = Some (eb, f)" if "eb \<in> set ebs" "f \<in> set binFields" for eb f
    using that assms(2) dotless_fields(2) keyParts_bin [of "binKey eb f" eb f] by (simp add: dotless_def)
  have "UruncConfig_Map hvs ebs p k \<noteq> None \<longleftrightarrow> k \<in> set (mapKeys hvs ebs)" for k
  proof
    assume "UruncConfig_Map hvs ebs p k \<noteq> None"
    then show "k \<in> set (mapKeys hvs ebs)"
      unfolding UruncConfig_Map_lookup [OF assms] mapKeys_def
      by (auto simp: set_monKeys set_binKeys keyParts_mon keyParts_bin split: option.splits if_splits)
  next
    assume "k \<in> set (mapKeys hvs ebs)"
    then consider "k = libcontainerKey" | "k = vaccelKey" | "k \<in> set (monKeys hvs)" | "k \<in> set (binKeys ebs)"
      by (auto simp: mapKeys_def)
    then show "UruncConfig_Map hvs ebs p k \<noteq> None"
      unfolding UruncConfig_Map_lookup [OF assms]
      by cases (auto simp: key_kinds set_monKeys set_binKeys m b)
  qed
  then show ?thesis by (auto simp: dom_def)
qed

lemma distinct_mapKeys:
  assumes "distinct hvs" "distinct ebs" "\<forall>hv \<in> set hvs. dotless hv" "\<forall>eb \<in> set ebs. dotless eb"
  shows "distinct (mapKeys hvs ebs)"
proof -
  have "libcontainerKey \<noteq> vaccelKey" by (simp add: libcontainerKey_def vaccelKey_def)
  moreover have "libcontainerKey \<noteq> monKey h f" "vaccelKey \<noteq> monKey h f"
    "libcontainerKey \<noteq> binKey h f" "vaccelKey \<noteq> binKey h f" "monKey h f \<noteq> binKey h' f'" for h f h' f'
    by (simp_all add: libcontainerKey_def vaccelKey_def monKey_def binKey_def monPrefix_def binPrefix_def)
  ultimately show ?thesis
    using distinct_monKeys [OF assms(1,3)] distinct_binKeys [OF assms(2,4)]
    by (auto simp: mapKeys_def set_monKeys set_binKeys)
qed

text \<open>The defaults, overridden by the entries of the map that was stored.\<close>

lemma UruncConfig_roundtrip_aux:
  assumes hvs: "enumerates hvs (Cfg_Monitors p)" and ebs: "enumerates ebs (Cfg_ExtraBins p)"
    and mon: "\<And>hv c. Cfg_Monitors p hv = Some c \<Longrightarrow> dotless hv \<and> storable c"
    and bin: "\<And>eb c. Cfg_ExtraBins p eb = Some c \<Longrightarrow> dotless eb"
    and ks: "enumerates ks (UruncConfig_Map hvs ebs p)" "enumerates ks' (UruncConfig_Map hvs ebs p)"
  shows "UruncConfigFromMap ks ks' (UruncConfig_Map hvs ebs p) =
    p\<lparr>Cfg_Log := zeroLog, Cfg_Timestamps := zeroTimestamps,
      Cfg_Monitors := defaultMonitorsConfig ++ Cfg_Monitors p,
      Cfg_ExtraBins := defaultExtraBinConfig ++ Cfg_ExtraBins p\<rparr>"
proof -
  let ?m = "UruncConfig_Map hvs ebs p"
  have dh: "\<forall>hv \<in> set hvs. dotless hv \<and> storable (monitorOf (Cfg_Monitors p) hv)"
    using hvs mon by (force simp: enumerates_def monitorOf_def)
  have de: "\<forall>eb \<in> set ebs. dotless eb" using ebs bin by (force simp: enumerates_def)
  have dh': "\<forall>hv \<in> set hvs. dotless hv" using dh by blast
  note look = UruncConfig_Map_lookup [OF dh' de]
  have K: "enumerates (mapKeys hvs ebs) ?m"
    using dom_UruncConfig_Map [OF dh' de] distinct_mapKeys [OF _ _ dh' de] hvs ebs
    by (simp add: enumerates_def)
  have rt: "runtimeFromMap ?m = Cfg_Runtime p"
    by (simp add: runtimeFromMap_def look key_kinds defaultRuntimeConfig_def)
      (simp add: libcontainerKey_def vaccelKey_def)
  have vm: "?m (monKey hv f) = Some (monFieldVal (monitorOf (Cfg_Monitors p) hv) f)"
    if "hv \<in> set hvs" "f \<in> set monFields" for hv f
    using that dh keyParts_mon [of "monKey hv f" hv f] dotless_fields(1) [of f]
    by (simp add: look key_kinds dotless_def)
  have vb: "?m (binKey eb f) = Some (binFieldVal (binOf (Cfg_ExtraBins p) eb) f)"
    if "eb \<in> set ebs" "f \<in> set binFields" for eb f
    using that de keyParts_bin [of "binKey eb f" eb f] dotless_fields(2) [of f]
    by (simp add: look key_kinds dotless_def)
  have skip: "fold (monitorStep ?m) (binKeys ebs) = id" "fold (binStep ?m) (monKeys hvs) = id"
    by (rule fold_skip; auto simp: set_binKeys set_monKeys monitorStep_def binStep_def key_kinds)+
  have mons: "fold (monitorStep ?m) (mapKeys hvs ebs) M
      = (\<lambda>hv. if hv \<in> set hvs then Some (monitorOf (Cfg_Monitors p) hv) else M hv)" for M
    using fold_monKeys [OF dh, of ?m M] vm skip(1)
    by (simp add: mapKeys_def monitorStep_def key_kinds)
  have bins: "fold (binStep ?m) (mapKeys hvs ebs) M
      = (\<lambda>eb. if eb \<in> set ebs then Some (binOf (Cfg_ExtraBins p) eb) else M eb)" for M
    using fold_binKeys [OF de, of ?m "binOf (Cfg_ExtraBins p)" M] vb skip(2)
    by (simp add: mapKeys_def binStep_def key_kinds)
  have "(\<lambda>hv. if hv \<in> set hvs then Some (monitorOf (Cfg_Monitors p) hv) else M hv) = M ++ Cfg_Monitors p" for M
    using hvs by (auto simp: fun_eq_iff enumerates_def monitorOf_def map_add_def domIff split: option.splits)
  moreover have "(\<lambda>eb. if eb \<in> set ebs then Some (binOf (Cfg_ExtraBins p) eb) else M eb) = M ++ Cfg_ExtraBins p" for M
    using ebs by (auto simp: fun_eq_iff enumerates_def binOf_def map_add_def domIff split: option.splits)
  ultimately have "UruncConfigFromMap (mapKeys hvs ebs) (mapKeys hvs ebs) ?m =
      p\<lparr>Cfg_Log := zeroLog, Cfg_Timestamps := zeroTimestamps,
        Cfg_Monitors := defaultMonitorsConfig ++ Cfg_Monitors p,
        Cfg_ExtraBins := defaultExtraBinConfig ++ Cfg_ExtraBins p\<rparr>"
    by (simp add: UruncConfigFromMap_def rt mons bins)
  then show ?thesis using UruncConfigFromMap_order [OF ks K K] by simp
qed

end
