(* ===== verification/Urunc_Config_Props.thy ===== *)
theory Urunc_Config_Props
  imports Urunc_Config
begin

text \<open>
  The configuration file is read once, at create, and travels to later invocations of the
  runtime as annotations in the state: what loading guarantees, and what comes back.
\<close>

lemma fixMonitors_lookup:
  "distinct ks \<Longrightarrow> fixMonitors ks ms hv =
    (if hv \<in> set ks then Some (fixMonitor (monitorOf ms hv)) else ms hv)"
proof (induction ks arbitrary: ms)
  case (Cons k ks)
  then show ?case by (auto simp: fixMonitors_def monitorOf_def)
qed (simp add: fixMonitors_def)

lemma fixMonitor_nonzero:
  "Mon_DefaultMemoryMB (fixMonitor c) \<noteq> 0" "Mon_DefaultVCPUs (fixMonitor c) \<noteq> 0"
  by (simp_all add: fixMonitor_def defaultMonitorMemoryMB_def defaultMonitorVCPUs_def Let_def)

lemma defaultMonitors_cases: "defaultMonitorsConfig hv = Some c \<Longrightarrow> c = defaultMonitor"
  by (auto simp: defaultMonitorsConfig_def split: if_splits)


text \<open>A list of the keys of a finite map over given names, in the order of the names.\<close>

definition keysAmong :: "'a list \<Rightarrow> ('a \<Rightarrow> 'b option) \<Rightarrow> 'a list" where
  "keysAmong names m = filter (\<lambda>k. m k \<noteq> None) names"

lemma keysAmong_enumerates:
  "distinct names \<Longrightarrow> dom m \<subseteq> set names \<Longrightarrow> enumerates (keysAmong names m) m"
  by (auto simp: enumerates_def keysAmong_def)


text \<open>
  C28: reading the configuration back from annotations does not depend on the order in which the
  keys of the map are visited, which the language leaves open and changes from run to run.
\<close>

theorem config_from_map_is_deterministic:
  assumes "enumerates ks m" "enumerates ks' m" "enumerates ls m" "enumerates ls' m"
  shows "UruncConfigFromMap ks ks' m = UruncConfigFromMap ls ls' m"
  using assms by (rule UruncConfigFromMap_order)

theorem config_from_map_is_deterministic_witness:
  "UruncConfigFromMap [''a'', ''b''] [''a'', ''b''] [''a'' \<mapsto> ''1'', ''b'' \<mapsto> ''2''] =
   UruncConfigFromMap [''b'', ''a''] [''b'', ''a''] [''a'' \<mapsto> ''1'', ''b'' \<mapsto> ''2'']"
  by (rule config_from_map_is_deterministic) (auto simp: enumerates_def)

text \<open>
  C27: a configuration stored as annotations and read back is the same configuration: its
  runtime settings, and for every monitor and helper binary the same memory, vCPUs, paths,
  options and flags, in front of the defaults for names it does not mention. Log and
  timestamp settings are not stored.
\<close>

theorem config_roundtrip_through_annotations:
  assumes "enumerates hvs (Cfg_Monitors p)" "enumerates ebs (Cfg_ExtraBins p)"
    "\<And>hv c. Cfg_Monitors p hv = Some c \<Longrightarrow> dotless hv \<and> storable c"
    "\<And>eb c. Cfg_ExtraBins p eb = Some c \<Longrightarrow> dotless eb"
    "enumerates ks (UruncConfig_Map hvs ebs p)" "enumerates ks' (UruncConfig_Map hvs ebs p)"
  shows "UruncConfigFromMap ks ks' (UruncConfig_Map hvs ebs p) =
    p\<lparr>Cfg_Log := zeroLog, Cfg_Timestamps := zeroTimestamps,
      Cfg_Monitors := defaultMonitorsConfig ++ Cfg_Monitors p,
      Cfg_ExtraBins := defaultExtraBinConfig ++ Cfg_ExtraBins p\<rparr>"
  using assms by (rule UruncConfig_roundtrip_aux)

theorem config_roundtrip_through_annotations_witness:
  "let p = \<lparr>Cfg_Log = defaultLogConfig, Cfg_Timestamps = defaultTimestampsConfig,
            Cfg_Runtime = \<lparr>Rt_Libcontainer = True, Rt_VAccel = False\<rparr>,
            Cfg_Monitors = [''qemu'' \<mapsto> defaultMonitor\<lparr>Mon_DefaultVCPUs := 4, Mon_BinaryPath := ''/opt/qemu.real''\<rparr>],
            Cfg_ExtraBins = Map.empty\<rparr>;
       ks = mapKeys [''qemu''] []
   in UruncConfigFromMap ks ks (UruncConfig_Map [''qemu''] [] p) =
      p\<lparr>Cfg_Log := zeroLog, Cfg_Timestamps := zeroTimestamps,
        Cfg_Monitors := defaultMonitorsConfig ++ Cfg_Monitors p,
        Cfg_ExtraBins := defaultExtraBinConfig\<rparr>"
proof -
  define p where "p = \<lparr>Cfg_Log = defaultLogConfig, Cfg_Timestamps = defaultTimestampsConfig,
            Cfg_Runtime = \<lparr>Rt_Libcontainer = True, Rt_VAccel = False\<rparr>,
            Cfg_Monitors = [''qemu'' \<mapsto> defaultMonitor\<lparr>Mon_DefaultVCPUs := 4, Mon_BinaryPath := ''/opt/qemu.real''\<rparr>],
            Cfg_ExtraBins = Map.empty\<rparr>"
  have q: "dotless ''qemu''" by (simp add: dotless_def)
  then have d: "\<forall>hv \<in> set [''qemu'']. dotless hv" "\<forall>eb \<in> set []. dotless eb" by simp_all
  have ks: "enumerates (mapKeys [''qemu''] []) (UruncConfig_Map [''qemu''] [] p)"
    using dom_UruncConfig_Map [OF d] distinct_mapKeys [OF _ _ d] by (simp add: enumerates_def)
  have "storable (defaultMonitor\<lparr>Mon_DefaultVCPUs := 4, Mon_BinaryPath := ''/opt/qemu.real''\<rparr>)"
    by (simp add: storable_def defaultMonitor_def defaultMonitorMemoryMB_def)
  then have "UruncConfigFromMap (mapKeys [''qemu''] []) (mapKeys [''qemu''] []) (UruncConfig_Map [''qemu''] [] p) =
    p\<lparr>Cfg_Log := zeroLog, Cfg_Timestamps := zeroTimestamps,
      Cfg_Monitors := defaultMonitorsConfig ++ Cfg_Monitors p,
      Cfg_ExtraBins := defaultExtraBinConfig ++ Cfg_ExtraBins p\<rparr>"
    using q by (intro config_roundtrip_through_annotations ks) (auto simp: p_def enumerates_def split: if_splits)
  then show ?thesis by (simp add: Let_def p_def)
qed

end
