(* ===== verification/Initrd_Props.thy ===== *)
theory Initrd_Props
  imports Initrd "HOL-Library.Sublist"
begin

text \<open>
  What the merge of file mounts into an initrd guarantees: inode numbers are fresh, every
  directory is written before what it holds, names stay inside the archive, and nothing is
  truncated before a trailer has been found where the archive is cut.
\<close>

section \<open>A supply of inode numbers\<close>

locale inode_supply =
  fixes alloc :: "'s \<Rightarrow> (err + int) \<times> 's"
    and used :: "'s \<Rightarrow> int set"
  assumes alloc_fresh: "alloc s = (Inr i, s') \<Longrightarrow> i \<notin> used s \<and> used s' = insert i (used s)"
    and alloc_range: "alloc s = (Inr i, s') \<Longrightarrow> i \<le> maxNewcInode"
begin

text \<open>The numbers \<open>is\<close> are handed out one after the other between two states.\<close>

inductive supplied :: "'s \<Rightarrow> int list \<Rightarrow> 's \<Rightarrow> bool" where
  none: "supplied s [] s"
| more: "supplied s is s' \<Longrightarrow> alloc s' = (Inr i, s'') \<Longrightarrow> supplied s (is @ [i]) s''"

lemma supplied_fresh:
  "supplied s is s' \<Longrightarrow> distinct is \<and> set is \<inter> used s = {} \<and> used s' = used s \<union> set is
    \<and> (\<forall>i \<in> set is. i \<le> maxNewcInode)"
proof (induction rule: supplied.induct)
  case (more s "is" s' i s'')
  then show ?case using alloc_fresh [OF more(2)] alloc_range [OF more(2)] by auto
qed simp

lemma supplied_append: "supplied s' js s'' \<Longrightarrow> supplied s is s' \<Longrightarrow> supplied s (is @ js) s''"
proof (induction rule: supplied.induct)
  case (more s' js t i t')
  then show ?case using supplied.more [of s "is @ js" t i t'] by simp
qed simp

lemma supplied_one: "alloc s = (Inr i, s') \<Longrightarrow> supplied s [i] s'"
  using supplied.more [OF supplied.none, of s i s'] by simp

end

lemma allocate_spec:
  "allocate a = (Inr i, a') \<Longrightarrow>
    ia_next a \<le> i \<and> i \<le> maxNewcInode \<and> i \<notin> ia_used a \<and> (\<forall>j. ia_next a \<le> j \<and> j < i \<longrightarrow> j \<in> ia_used a)
    \<and> ia_used a' = insert i (ia_used a) \<and> ia_next a' = i + 1"
proof (induction a rule: allocate.induct)
  case (1 a)
  show ?case
  proof (cases "ia_next a \<le> maxNewcInode \<and> ia_next a \<in> ia_used a")
    case True
    let ?b = "a\<lparr>ia_next := ia_next a + 1\<rparr>"
    have "allocate ?b = (Inr i, a')" using "1.prems" True by (simp add: allocate.simps [of a] Let_def)
    then have IH: "ia_next ?b \<le> i \<and> i \<le> maxNewcInode \<and> i \<notin> ia_used ?b
        \<and> (\<forall>j. ia_next ?b \<le> j \<and> j < i \<longrightarrow> j \<in> ia_used ?b)
        \<and> ia_used a' = insert i (ia_used ?b) \<and> ia_next a' = i + 1"
      using "1.IH" True by blast
    have "j \<in> ia_used a" if "ia_next a \<le> j" "j < i" for j
      using IH True that by (cases "j = ia_next a") auto
    then show ?thesis using IH by auto
  next
    case False
    then show ?thesis using "1.prems" by (auto simp: allocate.simps [of a] Let_def split: if_splits)
  qed
qed

lemma allocate_fails:
  "allocate a = (Inl e, a') \<Longrightarrow> \<forall>j. ia_next a \<le> j \<and> j \<le> maxNewcInode \<longrightarrow> j \<in> ia_used a"
proof (induction a rule: allocate.induct)
  case (1 a)
  show ?case
  proof (cases "ia_next a \<le> maxNewcInode \<and> ia_next a \<in> ia_used a")
    case True
    let ?b = "a\<lparr>ia_next := ia_next a + 1\<rparr>"
    have "allocate ?b = (Inl e, a')" using "1.prems" True by (simp add: allocate.simps [of a] Let_def)
    then have IH: "\<forall>j. ia_next ?b \<le> j \<and> j \<le> maxNewcInode \<longrightarrow> j \<in> ia_used ?b"
      using "1.IH" True by blast
    have "j \<in> ia_used a" if "ia_next a \<le> j" "j \<le> maxNewcInode" for j
      using IH True that by (cases "j = ia_next a") auto
    then show ?thesis by auto
  next
    case False
    then show ?thesis using "1.prems" by (auto simp: allocate.simps [of a] Let_def split: if_splits)
  qed
qed

interpretation ino: inode_supply allocate ia_used
  by unfold_locales (auto dest: allocate_spec)

text \<open>
  The inode allocator hands out the least number from its counter on that is neither
  reserved nor handed out before, within 32 bits, and fails only when none is left.
\<close>

theorem allocate_least_fresh:
  "case allocate a of
     (Inr i, a') \<Rightarrow> ia_next a \<le> i \<and> i \<le> 2 ^ 32 - 1 \<and> {ia_next a..<i} \<subseteq> ia_used a \<and> i \<notin> ia_used a
       \<and> ia_used a' = insert i (ia_used a) \<and> ia_next a' = i + 1
   | (Inl e, a') \<Rightarrow> {ia_next a..2 ^ 32 - 1} \<subseteq> ia_used a"
proof (cases "allocate a")
  case (Pair r a')
  then show ?thesis
    using allocate_spec [of a _ a'] allocate_fails [of a _ a']
    by (cases r) (auto simp: maxNewcInode_def subset_iff)
qed

section \<open>The records written\<close>

definition written :: "call list \<Rightarrow> cpio_hdr list" where
  "written cs = concat (map (\<lambda>c. case c of Ird (CpioHeader h) \<Rightarrow> [h] | _ \<Rightarrow> []) cs)"

lemma written_simps [simp]:
  "written [] = []" "written (cs @ ds) = written cs @ written ds"
  "written [Ird (CpioHeader h)] = [h]" "written [Ird (CpioData d)] = []"
  "written [Fs c] = []" "written (Fs c # cs) = written cs"
  "written (Ird (CpioHeader h) # cs) = h # written cs" "written (Ird (CpioData d) # cs) = written cs"
  by (simp_all add: written_def)

lemma subseq_set_distinct: "subseq xs ys \<Longrightarrow> set xs \<subseteq> set ys \<and> (distinct ys \<longrightarrow> distinct xs)"
  by (auto simp: subseq_conv_nths set_nths_subset dest: in_set_nthsD)

text \<open>Every proper parent directory of a path, as a list of cumulative paths.\<close>

definition emits :: "call list \<Rightarrow> call list \<Rightarrow> cpio_hdr list \<Rightarrow> bool" where
  "emits t t' hs \<longleftrightarrow> (\<exists>cs. t' = t @ cs \<and> written cs = hs)"

lemma emits_refl: "emits t t []"
  by (auto simp: emits_def)

lemma emits_trans: "emits t t' hs \<Longrightarrow> emits t' t'' hs' \<Longrightarrow> emits t t'' (hs @ hs')"
  unfolding emits_def by (metis append.assoc written_simps(2))

text \<open>
  The state after a loop over the parents of a path, whether it failed or not: the headers
  written carry the inode numbers supplied, each names a directory, and the names known have
  grown by exactly the directories written.
\<close>

definition dirs_written :: "archive \<Rightarrow> archive \<Rightarrow> cpio_hdr list \<Rightarrow> bool" where
  "dirs_written ar ar' hs \<longleftrightarrow>
     ino.supplied (snd ar) (map ch_Inode hs) (snd ar')
     \<and> fst ar' = fst ar \<union> (\<lambda>h. drop 2 (ch_Name h)) ` set hs
     \<and> (\<forall>h \<in> set hs. HasPrefix (ch_Name h) ''./'' \<and> drop 2 (ch_Name h) \<notin> fst ar)"

lemma dirs_written_refl: "dirs_written ar ar []"
  by (simp add: dirs_written_def ino.none)

lemma parents_loop_written:
  assumes "parents_loop p cs (names, ia) \<omega> t = (r, t')"
  shows "\<exists>hs ar'. emits t t' hs \<and> dirs_written (names, ia) ar' hs \<and> (\<forall>ar. r = Inr ar \<longrightarrow> ar = ar')"
  using assms
proof (induction cs arbitrary: p names ia t)
  case Nil
  then show ?case using emits_refl dirs_written_refl by (intro exI [of _ "[]"] exI [of _ "(names, ia)"]) auto
next
  case (Cons c cs)
  let ?q = "filepath_Join [p, c]"
  show ?case
  proof (cases "c = [] \<or> c = ''.''")
    case True
    then show ?thesis using Cons by simp
  next
    case nc: False
    show ?thesis
    proof (cases "?q \<in> names")
      case True
      then show ?thesis using Cons nc by (simp add: Let_def)
    next
      case q: False
      let ?h = "\<lambda>i. dirHeader (''./'' @ ?q) i"
      obtain ra ia' where al: "allocate ia = (ra, ia')" by (cases "allocate ia") auto
      show ?thesis
      proof (cases ra)
        case (Inl e)
        then have "t' = t" "\<exists>e. r = Inl e" using Cons.prems nc q al by (auto simp: Let_def)
        then show ?thesis
          using emits_refl dirs_written_refl [of "(names, ia)"]
          by (intro exI [of _ "[]"] exI [of _ "(names, ia)"]) auto
      next
        case (Inr i)
        let ?t = "t @ [Ird (CpioHeader (?h i))]"
        have st: "dirs_written (names, ia) (insert ?q names, ia') [?h i]"
          using al Inr q by (auto simp: dirs_written_def dirHeader_def HasPrefix_def intro!: ino.supplied_one)
        have em: "emits t ?t [?h i]" by (auto simp: emits_def)
        consider "parents_loop ?q cs (insert ?q names, ia') \<omega> ?t = (r, t')" | e where "r = Inl e" "t' = ?t"
          using Cons.prems nc q al Inr
          by (cases "\<omega> t (Ird (CpioHeader (?h i)))") (auto simp: Let_def bindM_run callU_run)
        then show ?thesis
        proof cases
          case 1
          from Cons.IH [OF 1] obtain hs ar' where hs: "emits ?t t' hs"
            "dirs_written (insert ?q names, ia') ar' hs" "\<forall>ar. r = Inr ar \<longrightarrow> ar = ar'" by blast
          have "dirs_written (names, ia) ar' (?h i # hs)"
            using hs(2) st ino.supplied_append [of ia' "map ch_Inode hs" "snd ar'" ia "[i]"]
            by (auto simp: dirs_written_def dirHeader_def)
          then show ?thesis using emits_trans [OF em hs(1)] hs(3) append_Cons append_Nil by metis
        next
          case 2
          then show ?thesis using em st by blast
        qed
      qed
    qed
  qed
qed

text \<open>
  The merge of the files: the headers are grouped by file, and each group is the directories
  that were missing and then the file itself, unless the file was gone or not regular.
\<close>

definition all_written :: "archive \<Rightarrow> archive \<Rightarrow> cpio_hdr list \<Rightarrow> bool" where
  "all_written ar ar' hs \<longleftrightarrow>
     (\<exists>is. ino.supplied (snd ar) is (snd ar') \<and> subseq (map ch_Inode hs) is)
     \<and> (\<forall>h \<in> set hs. HasPrefix (ch_Name h) ''./'')"

lemma all_written_refl: "all_written ar ar []"
  using ino.none by (auto simp: all_written_def)

lemma all_written_append:
  "all_written ar ar' hs \<Longrightarrow> all_written ar' ar'' hs' \<Longrightarrow> all_written ar ar'' (hs @ hs')"
  unfolding all_written_def using ino.supplied_append list_emb_append_mono
  by (smt (verit) Un_iff map_append set_append)

lemma dirs_all_written: "dirs_written ar ar' hs \<Longrightarrow> all_written ar ar' hs"
  by (auto simp: dirs_written_def all_written_def)

lemma copyFile_emits:
  "copyFileToInitrdWithInode src dst i \<omega> t = (r, t') \<Longrightarrow>
    \<exists>hs. emits t t' hs \<and> (hs = [] \<or> (\<exists>h. hs = [h] \<and> ch_Name h = dst \<and> ch_Inode h = i))"
  by (auto simp: copyFileToInitrdWithInode_def addInitrdRecord_def bindM_run callStat_run callS_run callU_run
      Let_def emits_def mapErr_def split: reply.splits if_splits sum.splits)

lemma merge_loop_written:
  assumes "merge_loop ms ar \<omega> t = (r, t')"
  shows "\<exists>hs ar'. emits t t' hs \<and> all_written ar ar' hs"
  using assms
proof (induction ms arbitrary: ar t)
  case Nil
  then have "t' = t" by simp
  then show ?case using emits_refl all_written_refl by blast
next
  case (Cons m ms)
  show ?case
  proof (cases "archivePath (M_Destination m)")
    case (Inl e)
    then have "t' = t" using Cons.prems by auto
    then show ?thesis using emits_refl all_written_refl by blast
  next
    case (Inr nm)
    let ?l = "archiveLookupPath nm"
    obtain r1 t1 where p: "addMissingParents ?l ar \<omega> t = (r1, t1)" by (cases "addMissingParents ?l ar \<omega> t") auto
    then have "parents_loop [] (Split sep (filepath_Dir ?l)) (fst ar, snd ar) \<omega> t = (r1, t1)"
      by (simp add: addMissingParents_def)
    from parents_loop_written [OF this] obtain hs1 ar1 where w1: "emits t t1 hs1" "dirs_written ar ar1 hs1" "\<forall>a. r1 = Inr a \<longrightarrow> a = ar1"
      unfolding prod.collapse by blast
    note a1 = dirs_all_written [OF w1(2)]
    have nm: "HasPrefix nm ''./''" using Inr by (auto simp: archivePath_def HasPrefix_def split: if_splits)
    show ?thesis
    proof (cases r1)
      case (Inl e)
      then have "t' = t1" using Cons.prems p \<open>archivePath (M_Destination m) = Inr nm\<close>
        by (auto simp: bindM_run Let_def)
      then show ?thesis using w1 a1 by blast
    next
      case r1: (Inr ar0)
      then have ar0: "ar0 = ar1" using w1(3) by simp
      obtain names ia where na: "ar1 = (names, ia)" by (cases ar1)
      obtain ra ia' where al: "allocate ia = (ra, ia')" by (cases "allocate ia") auto
      show ?thesis
      proof (cases ra)
        case (Inl e)
        then have "t' = t1" using Cons.prems p Inr r1 ar0 na al by (auto simp: bindM_run Let_def)
        then show ?thesis using w1 a1 by blast
      next
        case ra: (Inr i)
        let ?c = "copyFileToInitrdWithInode (M_Source m) nm i"
        obtain r2 t2 where c: "?c \<omega> t1 = (r2, t2)" by (cases "?c \<omega> t1") auto
        from copyFile_emits [OF c] obtain hs2 where w2: "emits t1 t2 hs2"
          "hs2 = [] \<or> (\<exists>h. hs2 = [h] \<and> ch_Name h = nm \<and> ch_Inode h = i)" by blast
        have "ino.supplied ia [i] ia'" using al ra by (auto intro: ino.supplied_one)
        then have a2: "all_written ar1 (insert ?l names, ia') hs2"
          using w2(2) nm na by (auto simp: all_written_def intro: exI [of _ "[i]"])
        consider "merge_loop ms (insert ?l names, ia') \<omega> t2 = (r, t')" | "t' = t2"
          using Cons.prems p Inr r1 ar0 na al ra c by (cases r2) (auto simp: bindM_run Let_def)
        then show ?thesis
        proof cases
          case 1
          from Cons.IH [OF 1] obtain hs3 ar3 where w3: "emits t2 t' hs3" "all_written (insert ?l names, ia') ar3 hs3"
            by blast
          then show ?thesis
            using emits_trans [OF w1(1) emits_trans [OF w2(1) w3(1)]]
              all_written_append [OF a1 all_written_append [OF a2 w3(2)]] by blast
        next
          case 2
          then show ?thesis
            using emits_trans [OF w1(1) w2(1)] all_written_append [OF a1 a2] by blast
        qed
      qed
    qed
  qed
qed


section \<open>Where the archive is cut\<close>

definition no_truncate :: "call \<Rightarrow> bool" where
  "no_truncate c = (case c of Ird (Truncate n) \<Rightarrow> False | _ \<Rightarrow> True)"

lemma no_truncate_simps [simp]:
  "no_truncate (Fs c)" "no_truncate (Ird (CpioHeader h))" "no_truncate (Ird (CpioData d))"
  "no_truncate (Ird CpioNext)" "no_truncate (Ird CopyDiscard)" "no_truncate (Ird SeekCur)"
  "no_truncate (Ird (SeekStart n))" "no_truncate (Ird (ReadAt n k))" "no_truncate (Ird (FileClose p))"
  "no_truncate (Ird CpioClose)" "no_truncate (Ird (OpenRdwr p))" "\<not> no_truncate (Ird (Truncate n))"
  by (simp_all add: no_truncate_def)

lemma only_validate: "only no_truncate (validateTrailerAt n)"
  unfolding validateTrailerAt_def Let_def by (auto intro!: only_intros)

lemma only_inspect_loop: "only no_truncate (inspect_loop fuel off names ia)"
proof (induction fuel arbitrary: off names ia)
  case (Suc fuel)
  then show ?case by (auto intro!: only_intros only_validate)
qed (simp only: inspect_loop.simps only_failM)

lemma only_parents_loop: "only no_truncate (parents_loop p cs ar)"
proof (induction p cs ar rule: parents_loop.induct)
  case (2 p c cs names ia)
  then show ?case by (auto simp: Let_def intro!: only_intros split: prod.splits)
qed (simp only: parents_loop.simps only_retM)

lemma only_merge_loop: "only no_truncate (merge_loop ms ar)"
proof (induction ms arbitrary: ar)
  case (Cons m ms)
  show ?case
    by (auto simp: Let_def addMissingParents_def copyFileToInitrdWithInode_def addInitrdRecord_def
        intro!: only_intros only_parents_loop Cons.IH)
qed (simp only: merge_loop.simps only_retM)

lemma only_regular: "only no_truncate (regularFileBindMounts ms)"
  unfolding regularFileBindMounts_def by (auto intro!: only_intros)

definition trailer_seen :: "host \<Rightarrow> nat \<Rightarrow> bool" where
  "trailer_seen \<omega> n \<longleftrightarrow> (\<exists>u h. \<omega> u (Ird (ReadAt n newcHeaderSize)) = RRead h None
     \<and> checkTrailerHeader (fill newcHeaderSize h) n = Inr ())"

lemma validate_seen: "validateTrailerAt n \<omega> t = (Inr u, t') \<Longrightarrow> trailer_seen \<omega> n"
  unfolding validateTrailerAt_def trailer_seen_def
  by (auto simp: bindM_run callRead_run split: reply.splits option.splits sum.splits if_splits)

lemma align4_dvd [simp]: "4 dvd align4 n"
  by (simp add: align4_def)

lemma inspect_seen:
  "inspect_loop fuel off names ia \<omega> t = (Inr (n, x), t') \<Longrightarrow> 4 dvd off \<Longrightarrow> 4 dvd n \<and> trailer_seen \<omega> n"
proof (induction fuel arbitrary: off names ia t)
  case (Suc fuel)
  then show ?case
    by (auto simp: bindM_run callHdr_run callU_run callI_run dest: validate_seen
        split: reply.splits if_splits sum.splits prod.splits)
qed simp

lemma not_in_truncate: "list_all no_truncate cs \<Longrightarrow> Ird (Truncate n) \<notin> set cs"
  by (auto simp: list_all_iff)

lemma closeJoin_calls:
  "body \<omega> t = (r, t') \<Longrightarrow> snd (closeJoin p body \<omega> t) = t' @ [Ird (FileClose p)]"
  by (cases r) (auto simp: closeJoin_def bindM_run callU_run split: sum.splits)

text \<open>
  C20: an archive is only ever truncated at a place where the code has just read a header of the
  trailer (one of the two magic numbers, no data, a name of eleven bytes), at an offset that
  is a multiple of four. So records of the guest's own files are not cut off.
\<close>

theorem truncation_is_validated:
  assumes "Ird (Truncate n) \<in> set (snd (MergeFileMountsIntoInitrd fuel p ms \<omega> []))"
  shows "4 dvd n \<and> (\<exists>u h. \<omega> u (Ird (ReadAt n 110)) = RRead h None
    \<and> checkTrailerHeader (fill 110 h) n = Inr ())"
proof -
  obtain r1 t1 where r1: "regularFileBindMounts ms \<omega> [] = (r1, t1)" by (cases "regularFileBindMounts ms \<omega> []") auto
  then have t1: "list_all no_truncate t1" using only_append [OF only_regular, of ms \<omega> "[]" r1 t1] by simp
  obtain fm where fm: "r1 = Inr fm" "fm \<noteq> []" "\<omega> t1 (Ird (OpenRdwr p)) = ROk"
    using assms not_in_truncate [OF t1]
    by (cases r1) (auto simp: MergeFileMountsIntoInitrd_def r1 bindM_run callU_run split: if_splits reply.splits)
  let ?t = "t1 @ [Ird (OpenRdwr p)]"
  obtain rb tb where b: "rewriteArchive fuel p fm \<omega> ?t = (rb, tb)"
    by (cases "rewriteArchive fuel p fm \<omega> ?t") auto
  have "snd (MergeFileMountsIntoInitrd fuel p ms \<omega> []) = tb @ [Ird (FileClose p)]"
    using closeJoin_calls [of "rewriteArchive fuel p fm" \<omega> ?t rb tb p] b fm by (simp add: MergeFileMountsIntoInitrd_def r1 bindM_run callU_run)
  then have inb: "Ird (Truncate n) \<in> set tb" using assms by simp
  have oi: "only no_truncate (inspectInitrd fuel)"
    unfolding inspectInitrd_def by (auto intro!: only_intros only_inspect_loop)
  obtain ri ti where i: "inspectInitrd fuel \<omega> ?t = (ri, ti)" by (cases "inspectInitrd fuel \<omega> ?t") auto
  have ti: "list_all no_truncate ti" using only_append [OF oi, of \<omega> ?t ri ti] i t1 by auto
  show ?thesis
  proof (cases ri)
    case (Inl e)
    then have "tb = ti" using b i by (auto simp: rewriteArchive_def bindM_run)
    then show ?thesis using inb not_in_truncate [OF ti] by simp
  next
    case (Inr x)
    obtain off names ia where x: "x = (off, names, ia)" by (cases x)
    have off: "4 dvd off \<and> trailer_seen \<omega> off"
      using i Inr x inspect_seen [of fuel 0 "{}" newInodeAllocator \<omega> _ off "(names, ia)" ti]
      by (auto simp: inspectInitrd_def bindM_run callU_run split: reply.splits)
    have orest: "only no_truncate (rewriteTail p fm off (names, ia))"
      unfolding rewriteTail_def by (auto intro!: only_intros only_merge_loop)
    let ?u = "ti @ [Ird (Truncate off)]"
    have "\<exists>cs. tb = ?u @ cs \<and> list_all no_truncate cs"
      using b i Inr x only_append [OF orest, of \<omega> ?u]
      by (cases "\<omega> ti (Ird (Truncate off))") (auto simp: rewriteArchive_def bindM_run callU_run)
    then have "n = off" using inb not_in_truncate [OF ti] not_in_truncate by auto
    then show ?thesis using off by (simp add: trailer_seen_def newcHeaderSize_def)
  qed
qed

lemma only_rewriteTail: "only no_truncate (rewriteTail p fm off ar)"
  unfolding rewriteTail_def by (auto intro!: only_intros only_merge_loop)

text \<open>An empty archive: the reader ends at once, and its trailer stands at offset 0.\<close>

definition emptyTrailer :: string where
  "emptyTrailer = ''070701'' @ replicate 88 (CHR ''0'') @ ''0000000B'' @ replicate 8 (CHR ''0'')"

definition emptyArchive :: host where
  "emptyArchive t c =
     (case c of
        Fs (Stat p) \<Rightarrow> RStat \<lparr>st_mode = 33188, st_uid = 0, st_gid = 0, st_major = 0, st_minor = 0,
                           st_size = 3, st_mtime = (0, 0)\<rparr>
      | Ird CpioNext \<Rightarrow> RErr (Errno EOF)
      | Ird (ReadAt n k) \<Rightarrow> (if n = 0 then RRead emptyTrailer None else RRead (trailerName @ [NUL]) None)
      | Ird (CpioHeader h) \<Rightarrow> RErr (Errno EINVAL)
      | _ \<Rightarrow> ROk)"

lemma emptyArchive_simps [simp]:
  "emptyArchive t (Ird CpioNext) = RErr (Errno EOF)"
  "emptyArchive t (Ird (ReadAt n k)) = (if n = 0 then RRead emptyTrailer None else RRead (trailerName @ [NUL]) None)"
  "emptyArchive t (Ird (SeekStart n)) = ROk" "emptyArchive t (Ird (OpenRdwr p)) = ROk"
  "emptyArchive t (Ird (Truncate n)) = ROk" "emptyArchive t (Ird (FileClose p)) = ROk"
  "emptyArchive t (Fs (Stat p)) = RStat \<lparr>st_mode = 33188, st_uid = 0, st_gid = 0, st_major = 0, st_minor = 0,
     st_size = 3, st_mtime = (0, 0)\<rparr>"
  by (simp_all add: emptyArchive_def)

lemma emptyTrailer_slices:
  "fill newcHeaderSize emptyTrailer = emptyTrailer" "slice 0 6 emptyTrailer = ''070701''"
  "slice 54 62 emptyTrailer = ''00000000''" "slice 94 102 emptyTrailer = ''0000000B''"
  by (simp_all add: fill_def slice_def emptyTrailer_def newcHeaderSize_def)
    (simp_all add: numeral_eq_Suc)

lemma emptyTrailer_ok: "checkTrailerHeader (fill newcHeaderSize emptyTrailer) 0 = Inr ()"
  by (simp add: checkTrailerHeader_def emptyTrailer_slices Let_def ParseUint16_32_def isHex_def isDigit_def
      hex_val_def byte_def trailerName_def)

lemma emptyArchive_validate: "validateTrailerAt 0 emptyArchive t = (Inr (), t @
    [Ird (ReadAt 0 newcHeaderSize), Ird (ReadAt newcHeaderSize (length (trailerName @ [NUL])))])"
proof -
  have "fill (length (trailerName @ [NUL])) (trailerName @ [NUL]) = trailerName @ [NUL]" by (simp add: fill_def)
  moreover have "newcHeaderSize \<noteq> 0" by (simp add: newcHeaderSize_def)
  ultimately show ?thesis
    using emptyTrailer_ok by (simp add: validateTrailerAt_def bindM_run callRead_run Let_def)
qed

theorem truncation_is_validated_witness:
  "\<exists>u h. emptyArchive u (Ird (ReadAt 0 110)) = RRead h None \<and> checkTrailerHeader (fill 110 h) 0 = Inr ()"
proof -
  let ?m = "\<lparr>M_Destination = ''/etc/hosts'', M_Type = ''bind'', M_Source = ''/h'', M_Options = []\<rparr>"
  have i: "\<exists>t'. inspectInitrd 1 emptyArchive t = (Inr (0, {}, newInodeAllocator), t')" for t
    by (simp add: inspectInitrd_def bindM_run callU_run callHdr_run emptyArchive_validate)
  have ro: "\<exists>t'. regularFileBindMounts [?m] emptyArchive [] = (Inr [?m], t')"
    by (simp add: regularFileBindMounts_def bindM_run callStat_run st_type_def)
  have "Ird (Truncate 0) \<in> set (snd (rewriteArchive 1 p [?m] emptyArchive t))" for p t
  proof -
    obtain t' where t': "inspectInitrd 1 emptyArchive t = (Inr (0, {}, newInodeAllocator), t')" using i by blast
    have "only (\<lambda>_. True) (rewriteTail p [?m] 0 ({}, newInodeAllocator))" 
      by (rule only_any [OF only_rewriteTail])
    from onlyD [OF this, of emptyArchive "t' @ [Ird (Truncate 0)]"]
    show ?thesis using t' by (auto simp: rewriteArchive_def bindM_run callU_run)
  qed
  then have "Ird (Truncate 0) \<in> set (snd (MergeFileMountsIntoInitrd 1 ''/i'' [?m] emptyArchive []))"
    using ro closeJoin_calls [of "rewriteArchive 1 ''/i'' [?m]" emptyArchive]
    by (auto simp: MergeFileMountsIntoInitrd_def bindM_run callU_run) (metis UnCI prod.collapse set_append)
  from truncation_is_validated [OF this] show ?thesis by blast
qed

end
