(* ===== verification/Guests_Props.thy ===== *)
theory Guests_Props
  imports Guests
begin

text \<open>
  What the guests make of their network: the prefix length of a mask, the test whether the
  gateway is in the subnet of the address, and the argument style of Unikraft versions.
\<close>

section \<open>Masks\<close>

lemma prefix_mask_nonempty: "prefix_mask p \<noteq> []"
  by (simp add: prefix_mask_def)

text \<open>
  A guest that is given the subnet mask of a prefix length between 0 and 32 starts
  without error and uses exactly that prefix length: Hermit and Mewz in their network
  state, Mirage in its address option.
\<close>

theorem guests_use_prefix_length:
  assumes "p \<le> 32" "Net_Mask (Uk_Net d) = prefix_mask p"
  shows "fst (Hermit_Init d h) = None \<and> HermitNet_Mask (Hermit_Net (snd (Hermit_Init d h))) = int p
    \<and> fst (Mewz_Init d w) = None \<and> MewzNet_Mask (Mewz_Net (snd (Mewz_Init d w))) = int p
    \<and> fst (Mirage_Init d m) = None
    \<and> HasSuffix (MirageNet_Address (Mirage_Net (snd (Mirage_Init d m)))) (Net_IP (Uk_Net d) @ ''/'' @ FormatUint p)"
proof -
  have cidr: "subnetMaskToCIDR (Net_Mask (Uk_Net d)) = Inr (int p)" "Net_Mask (Uk_Net d) \<noteq> []"
    using assms subnetMaskToCIDR_prefix_mask prefix_mask_nonempty by simp_all
  have "HasSuffix (''--'' @ n @ ''-ipv4='' @ a) a" "HasSuffix (''--ipv4='' @ a) a" for n a :: string
    by (metis HasSuffix_append append_assoc)+
  then have "HasSuffix (MirageNet_Address (Mirage_netOptions n (Uk_Net d) (int p))) (Net_IP (Uk_Net d) @ ''/'' @ FormatUint p)" for n
    by (simp add: Mirage_netOptions_def Itoa_def)
  then show ?thesis using cidr by (simp add: Hermit_Init_def Mewz_Init_def Mirage_Init_def Let_def)
qed

theorem guests_use_prefix_length_witness:
  "HermitNet_Mask (Hermit_Net (snd (Hermit_Init
     (zeroParams\<lparr>Uk_Net := zeroNet\<lparr>Net_Mask := prefix_mask 24\<rparr>\<rparr>) newHermit))) = 24"
  using guests_use_prefix_length [of 24 "zeroParams\<lparr>Uk_Net := zeroNet\<lparr>Net_Mask := prefix_mask 24\<rparr>\<rparr>"] by simp

text \<open>
  Whatever text is given as a subnet mask, a prefix length the code accepts is between 0
  and 32, and only texts of four decimal octets separated by dots are accepted.
\<close>

theorem prefix_length_in_range:
  assumes "subnetMaskToCIDR s = Inr n"
  shows "0 \<le> n \<and> n \<le> 32 \<and> length (Split (CHR ''.'') s) = 4
    \<and> list_all (\<lambda>w. \<exists>v. Atoi w = Some v \<and> 0 \<le> v \<and> v \<le> 255) (Split (CHR ''.'') s)"
proof -
  have l: "length (Split (CHR ''.'') s) = 4" and m: "mask_loop (Split (CHR ''.'') s) 0 = Inr n"
    using assms by (auto simp: subnetMaskToCIDR_def Let_def split: if_splits)
  have "mask_loop ps c = Inr k \<Longrightarrow> list_all (\<lambda>w. \<exists>v. Atoi w = Some v \<and> 0 \<le> v \<and> v \<le> 255) ps" for ps c k
    by (induction ps arbitrary: c)
      (auto simp: bindE_Inr_iff octet_bits_def split: option.splits if_splits)
  then show ?thesis using l m mask_loop_bound [OF m] by simp
qed

theorem prefix_length_in_range_witness: "subnetMaskToCIDR ''255.255.0.0'' = Inr 16 \<and> (16::int) \<le> 32"
proof -
  have "prefix_mask 16 = ''255.255.0.0''"
    by (simp add: prefix_mask_def mask_octet_def FormatUint.simps digit_char_def char_of_def bit_nat_def)
  then have "subnetMaskToCIDR ''255.255.0.0'' = Inr 16" using subnetMaskToCIDR_prefix_mask [of 16] by simp
  then show ?thesis using prefix_length_in_range [of "''255.255.0.0''" 16] by simp
qed

section \<open>The subnet test\<close>

definition octet_msb :: "nat \<Rightarrow> bool list" where
  "octet_msb n = map (bit n) [7, 6, 5, 4, 3, 2, 1, 0]"

text \<open>The 32 bits of an address, the most significant first.\<close>

definition addr_bits :: "nat list \<Rightarrow> bool list" where
  "addr_bits v = concat (map octet_msb v)"

definition mask_bytes :: "nat \<Rightarrow> nat list" where
  "mask_bytes p = map (mask_octet p) [0, 1, 2, 3]"

unbundle bit_operations_syntax

lemma bit_mask_octet: "bit (mask_octet p k) n \<longleftrightarrow> 8 - min 8 (p - 8 * k) \<le> n \<and> n < 8"
proof -
  define j where "j = 8 - min 8 (p - 8 * k)"
  have j: "j \<le> 8" by (simp add: j_def)
  have "(2::nat) ^ 8 = 2 ^ j * 2 ^ (8 - j)" using j by (simp flip: power_add)
  then have "256 - 2 ^ j = push_bit j (mask (8 - j) :: nat)"
    by (simp add: push_bit_eq_mult mask_eq_exp_minus_1 algebra_simps)
  then show ?thesis using j by (auto simp: mask_octet_def j_def [symmetric] bit_push_bit_iff bit_mask_iff)
qed

lemma octet_masked_eq:
  assumes "a < 256" "b < 256"
  shows "a AND mask_octet p k = b AND mask_octet p k \<longleftrightarrow>
    take (min 8 (p - 8 * k)) (octet_msb a) = take (min 8 (p - 8 * k)) (octet_msb b)"
proof -
  define j where "j = min 8 (p - 8 * k)"
  have "a AND mask_octet p k = b AND mask_octet p k \<longleftrightarrow> (\<forall>n. 8 - j \<le> n \<and> n < 8 \<longrightarrow> bit a n = bit b n)"
    by (auto simp: bit_eq_iff bit_and_iff bit_mask_octet j_def)
  also have "\<dots> \<longleftrightarrow> (\<forall>i < j. octet_msb a ! i = octet_msb b ! i)"
  proof -
    have nth: "i < 8 \<Longrightarrow> octet_msb x ! i = bit x (7 - i)" for i x
    proof -
      have "[7, 6, 5, 4, 3, 2, 1, 0] = map (\<lambda>i. 7 - i) [0..<8 :: nat]" by (simp add: upt_rec)
      then show "i < 8 \<Longrightarrow> octet_msb x ! i = bit x (7 - i)" by (simp add: octet_msb_def)
    qed
    have "(\<forall>n. 8 - j \<le> n \<and> n < 8 \<longrightarrow> bit a n = bit b n) \<longleftrightarrow> (\<forall>i < j. bit a (7 - i) = bit b (7 - i))"
    proof
      assume l: "\<forall>n. 8 - j \<le> n \<and> n < 8 \<longrightarrow> bit a n = bit b n"
      show "\<forall>i < j. bit a (7 - i) = bit b (7 - i)"
      proof (intro allI impI)
        fix i assume "i < j"
        then have "8 - j \<le> 7 - i \<and> 7 - i < 8" by (auto simp: j_def)
        then show "bit a (7 - i) = bit b (7 - i)" using l by blast
      qed
    next
      assume r: "\<forall>i < j. bit a (7 - i) = bit b (7 - i)"
      show "\<forall>n. 8 - j \<le> n \<and> n < 8 \<longrightarrow> bit a n = bit b n"
      proof (intro allI impI)
        fix n assume n: "8 - j \<le> n \<and> n < 8"
        then have "7 - n < j" "7 - (7 - n) = n" by (auto simp: j_def)
        then show "bit a n = bit b n" using r by metis
      qed
    qed
    then show ?thesis using nth by (auto simp: j_def)
  qed
  also have "\<dots> \<longleftrightarrow> take j (octet_msb a) = take j (octet_msb b)"
    by (auto simp: list_eq_iff_nth_eq octet_msb_def j_def)
  finally show ?thesis by (simp add: j_def)
qed

lemma length_octet_msb [simp]: "length (octet_msb n) = 8"
  by (simp add: octet_msb_def)

lemma take_addr_bits:
  "take p (addr_bits [a, b, c, d]) =
    take (min 8 p) (octet_msb a) @ take (min 8 (p - 8)) (octet_msb b)
    @ take (min 8 (p - 16)) (octet_msb c) @ take (min 8 (p - 24)) (octet_msb d)"
proof -
  have "take (min 8 k) (octet_msb n) = take k (octet_msb n)" for k n
    by (cases "k \<le> 8") (simp_all add: min_def)
  then show ?thesis by (simp add: addr_bits_def)
qed

lemma masked_eq_iff_bits:
  assumes "length a = 4" "length g = 4" "list_all (\<lambda>n. n \<le> 255) a" "list_all (\<lambda>n. n \<le> 255) g"
  shows "map2 (AND) a (mask_bytes p) = map2 (AND) g (mask_bytes p) \<longleftrightarrow>
    take p (addr_bits a) = take p (addr_bits g)"
proof -
  obtain a0 a1 a2 a3 g0 g1 g2 g3 where l: "a = [a0, a1, a2, a3]" "g = [g0, g1, g2, g3]"
    using assms list_4 by metis
  show ?thesis using assms(3,4)
    by (simp add: l take_addr_bits mask_bytes_def octet_masked_eq less_Suc_eq_le)
qed

lemma mask_octet_le: "mask_octet p k \<le> 255"
  unfolding mask_octet_def by (rule diff_le_mono2 [of 1 _ 256, simplified]) simp

text \<open>
  C31: for IPv4 addresses in dotted notation and the mask of a prefix length, the test that
  decides whether the guest needs an explicit default route says that the address and the
  gateway agree in their first \<open>p\<close> bits.
\<close>

theorem in_subnet_iff_prefix_bits:
  assumes "p \<le> 32" "length a = 4" "length g = 4" "list_all (\<lambda>n. n \<le> 255) a" "list_all (\<lambda>n. n \<le> 255) g"
  shows "IsIPInSubnet \<lparr>LinuxNet_Address = dotted a, LinuxNet_Gateway = dotted g, LinuxNet_Mask = prefix_mask p\<rparr>
    \<longleftrightarrow> take p (addr_bits a) = take p (addr_bits g)"
proof -
  have m: "prefix_mask p = dotted (mask_bytes p)"
    by (simp add: prefix_mask_def dotted_def mask_bytes_def)
  have lm: "length (mask_bytes p) = 4" "\<forall>n \<in> set (mask_bytes p). n \<le> 255"
    by (auto simp: mask_bytes_def mask_octet_le)
  have "ParseIP (dotted a) = v4InV6Prefix @ a" "ParseIP (dotted g) = v4InV6Prefix @ g"
    "To4 (ParseIP (prefix_mask p)) = mask_bytes p"
    using assms lm by (simp_all add: m ParseIP_dotted To4_v4 list_all_iff)
  moreover have "length (map2 (AND) a (mask_bytes p)) = length (map2 (AND) g (mask_bytes p))"
    using assms lm by simp
  ultimately show ?thesis
    using masked_eq_iff_bits [OF assms(2-5)] assms lm by (simp add: IsIPInSubnet_def Let_def IP_Mask_v4 IP_Equal_def)
qed

theorem in_subnet_iff_prefix_bits_witness:
  "IsIPInSubnet \<lparr>LinuxNet_Address = dotted [10, 0, 0, 2], LinuxNet_Gateway = dotted [10, 0, 0, 1],
     LinuxNet_Mask = prefix_mask 24\<rparr>
   \<and> \<not> IsIPInSubnet \<lparr>LinuxNet_Address = dotted [10, 0, 0, 2], LinuxNet_Gateway = dotted [10, 0, 1, 1],
     LinuxNet_Mask = prefix_mask 24\<rparr>"
  using in_subnet_iff_prefix_bits [of 24 "[10, 0, 0, 2]" "[10, 0, 0, 1]"]
    in_subnet_iff_prefix_bits [of 24 "[10, 0, 0, 2]" "[10, 0, 1, 1]"]
  by (simp add: take_addr_bits) (simp add: octet_msb_def bit_nat_def bit_iff_odd)

section \<open>Unikraft versions\<close>

text \<open>
  A Unikraft guest with an undefined or an unreadable version is configured like a
  current one, and the error says which of the two it was; a readable version older than
  0.16.1 gets the old option names and no environment; any other gets the current option
  with the gateway and a name server, 8.8.8.8 when none is known, and keeps its environment.
\<close>

theorem unikraft_arguments_follow_version:
  assumes "newVersion V UnikraftCompatVersion = Inr target"
  defines "dns \<equiv> \<lambda>d. if Net_DNSServer (Uk_Net d) = [] then ''8.8.8.8'' else Net_DNSServer (Uk_Net d)"
  shows "case Unikraft_Init V d u of (e, u') \<Rightarrow>
    (if Uk_Version d \<noteq> [] \<and> (\<exists>v. newVersion V (Uk_Version d) = Inr v \<and> \<not> GreaterThanOrEqual V v target)
     then e = None \<and> Unikraft_Env u' = []
        \<and> UnikraftNet_Address (Unikraft_Net u') = ''netdev.ipv4_addr='' @ Net_IP (Uk_Net d)
        \<and> UnikraftNet_Gateway (Unikraft_Net u') = ''netdev.ipv4_gw_addr='' @ Net_Gateway (Uk_Net d)
        \<and> UnikraftNet_Mask (Unikraft_Net u') = ''netdev.ipv4_subnet_mask='' @ Net_Mask (Uk_Net d)
     else Unikraft_Env u' = Uk_EnvVars d
        \<and> UnikraftNet_Address (Unikraft_Net u') =
            ''netdev.ip='' @ Net_IP (Uk_Net d) @ ''/24:'' @ Net_Gateway (Uk_Net d) @ '':'' @ dns d
        \<and> e = (if Uk_Version d = [] then Some ErrUndefinedVersion
               else case newVersion V (Uk_Version d) of Inl _ \<Rightarrow> Some ErrVersionParsing | Inr _ \<Rightarrow> None))"
  using assms(1)
  by (auto simp: Unikraft_Init_def configureUnikraftArgs_def setCurrentArgs_def setCompatArgs_def
      dns_def defaultDNSServer_def Let_def split: sum.splits)

text \<open>Versions as the numbers between dots, enough to run the model.\<close>

fun ver_ge :: "int list \<Rightarrow> int list \<Rightarrow> bool" where
  "ver_ge as [] = True"
| "ver_ge [] (b # bs) = False"
| "ver_ge (a # as) (b # bs) = (b < a \<or> a = b \<and> ver_ge as bs)"

definition dottedVersions :: "int list versions" where
  "dottedVersions = \<lparr>
     newVersion = (\<lambda>s. if list_all (\<lambda>w. Atoi w \<noteq> None) (Split (CHR ''.'') s)
                      then Inr (map (\<lambda>w. the (Atoi w)) (Split (CHR ''.'') s)) else Inl (Errorf ''version'' [])),
     GreaterThanOrEqual = ver_ge\<rparr>"

lemma dottedVersions_dotted:
  "v \<noteq> [] \<Longrightarrow> list_all (\<lambda>n. n < 2 ^ 63) v \<Longrightarrow>
    newVersion dottedVersions (Join (map FormatUint v) ''.'') = Inr (map int v)"
proof -
  assume v: "v \<noteq> []" "list_all (\<lambda>n. n < 2 ^ 63) v"
  have s: "Split (CHR ''.'') (Join (map FormatUint v) ''.'') = map FormatUint v"
    using Split_dotted [OF v(1)] by (simp add: dotted_def)
  have "list_all (\<lambda>n. Atoi (FormatUint n) = Some (int n)) v"
    using v(2) by (auto simp: list_all_iff Atoi_FormatUint)
  then show ?thesis by (auto simp: dottedVersions_def s list_all_iff)
qed

theorem unikraft_arguments_follow_version_witness:
  "Unikraft_Env (snd (Unikraft_Init dottedVersions
     (zeroParams\<lparr>Uk_Version := Join (map FormatUint [0, 16, 0]) ''.'', Uk_EnvVars := [''A=1'']\<rparr>) newUnikraft)) = []"
proof -
  have "Join (map FormatUint [0, 16, 1]) ''.'' = UnikraftCompatVersion"
    by (simp add: UnikraftCompatVersion_def FormatUint.simps digit_char_def char_of_def bit_nat_def)
  then have t: "newVersion dottedVersions UnikraftCompatVersion = Inr [0, 16, 1]"
    using dottedVersions_dotted [of "[0, 16, 1]"] by simp
  have v: "newVersion dottedVersions (Join (map FormatUint [0, 16, 0]) ''.'') = Inr [0, 16, 0]"
    using dottedVersions_dotted [of "[0, 16, 0]"] by simp
  have "\<not> GreaterThanOrEqual dottedVersions [0, 16, 0] [0, 16, 1]"
    by (simp add: dottedVersions_def)
  then show ?thesis
    using unikraft_arguments_follow_version [OF t, of "zeroParams\<lparr>Uk_Version := Join (map FormatUint [0, 16, 0]) ''.'',
        Uk_EnvVars := [''A=1'']\<rparr>" newUnikraft] v
    by (auto split: prod.splits)
qed

end
