(* ===== verification/Guest_Urunit.thy ===== *)
theory Guest_Urunit
  imports Guests
begin

text \<open>
  The configuration of the \<open>urunit\<close> init process is a text of lines that another program reads.
  This theory gives the reader of that text and shows that it gets back what the Linux and the
  FreeBSD guest wrote: the environment, the process, the block devices, the network.
\<close>

section \<open>Lines\<close>

definition unlines :: "string list \<Rightarrow> string" where
  "unlines ls = concat (map line ls)"

lemma unlines_simps [simp]:
  "unlines [] = []" "unlines (l # ls) = line l @ unlines ls"
  by (simp_all add: unlines_def)

lemma unlines_append: "unlines (xs @ ys) = unlines xs @ unlines ys"
  by (induction xs) simp_all

lemma line_Join: "ws \<noteq> [] \<Longrightarrow> line (Join ws [NL]) = unlines ws"
proof (induction ws)
  case (Cons w ws)
  then show ?case by (cases "ws = []") (simp_all add: Join_Cons line_def)
qed simp

definition one_line :: "string \<Rightarrow> bool" where
  "one_line s \<longleftrightarrow> NL \<notin> set s"

lemma one_line_simps [simp]:
  "one_line []" "one_line (c # s) \<longleftrightarrow> c \<noteq> NL \<and> one_line s"
  "one_line (s @ t) \<longleftrightarrow> one_line s \<and> one_line t"
  by (auto simp: one_line_def)

lemma one_line_FormatUint [simp]: "one_line (FormatUint n)"
proof -
  have "\<not> isDigit NL" by (simp add: NL_def isDigit_def byte_def)
  then show ?thesis using set_FormatUint [of NL n] by (auto simp: one_line_def)
qed

lemma Split_unlines: "list_all one_line ls \<Longrightarrow> Split NL (unlines ls @ r) = ls @ Split NL r"
proof (induction ls)
  case (Cons l ls)
  then have l: "NL \<notin> set l" by (simp add: one_line_def)
  have "Split NL (unlines (l # ls) @ r) = Split NL (l @ NL # (unlines ls @ r))" by (simp add: line_def)
  then show ?case using Cons Split_append_sep [OF l] by simp
qed simp

section \<open>The reader\<close>

text \<open>A section between two marker lines: its lines, and the lines after it.\<close>

definition readSection :: "string \<Rightarrow> string \<Rightarrow> string list \<Rightarrow> (string list \<times> string list) option" where
  "readSection a b ls =
     (case ls of
        [] \<Rightarrow> None
      | l # ls' \<Rightarrow>
          (if l \<noteq> a then None
           else case dropWhile (\<lambda>x. x \<noteq> b) ls' of
                  [] \<Rightarrow> None
                | _ # rest \<Rightarrow> Some (takeWhile (\<lambda>x. x \<noteq> b) ls', rest)))"

definition readField :: "string \<Rightarrow> string \<Rightarrow> string option" where
  "readField k l = (if HasPrefix l k then Some (TrimPrefix l k) else None)"

definition readNumber :: "string \<Rightarrow> string \<Rightarrow> nat option" where
  "readNumber k l = map_option nat (Option.bind (readField k l) Atoi)"

fun readBlocks :: "string list \<Rightarrow> (string \<times> string) list option" where
  "readBlocks [] = Some []"
| "readBlocks (a # b # ls) =
     Option.bind (readField ''ID:'' a) (\<lambda>i. Option.bind (readField ''MP:'' b) (\<lambda>m.
       map_option ((#) (i, m)) (readBlocks ls)))"
| "readBlocks [a] = None"

record urunit_conf =
  Ur_Env :: "string list"
  Ur_UID :: nat
  Ur_GID :: nat
  Ur_WorkDir :: string
  Ur_Args :: "string list"
  Ur_Blocks :: "(string \<times> string) list"

definition readProcess :: "string list \<Rightarrow> (nat \<times> nat \<times> string \<times> string list) option" where
  "readProcess ls =
     (case ls of
        u # g # w # rest \<Rightarrow>
          Option.bind (readNumber ''UID:'' u) (\<lambda>u. Option.bind (readNumber ''GID:'' g) (\<lambda>g.
          Option.bind (readField ''WD:'' w) (\<lambda>w.
            (case rest of
               [] \<Rightarrow> Some (u, g, w, [])
             | n # avs \<Rightarrow>
                 Option.bind (readNumber ''ARC:'' n) (\<lambda>n.
                   (if length avs = n \<and> list_all (\<lambda>a. HasPrefix a ''ARV:'') avs
                    then Some (u, g, w, map (drop 4) avs) else None))))))
      | _ \<Rightarrow> None)"

definition readUrunit :: "string \<Rightarrow> (urunit_conf \<times> string list) option" where
  "readUrunit s =
     Option.bind (readSection envStartMarker envEndMarker (Split NL s)) (\<lambda>(env, ls).
     Option.bind (readSection lpcStartMarker lpcEndMarker ls) (\<lambda>(pr, ls).
     Option.bind (readProcess pr) (\<lambda>(u, g, w, as).
     Option.bind (readSection blkStartMarker blkEndMarker ls) (\<lambda>(bl, ls).
     Option.bind (readBlocks bl) (\<lambda>bs.
       Some (\<lparr>Ur_Env = env, Ur_UID = u, Ur_GID = g, Ur_WorkDir = w, Ur_Args = as, Ur_Blocks = bs\<rparr>, ls))))))"

lemma readSection_lines:
  "b \<notin> set ls \<Longrightarrow> readSection a b (a # ls @ b # rest) = Some (ls, rest)"
proof -
  assume b: "b \<notin> set ls"
  then have "dropWhile (\<lambda>x. x \<noteq> b) (ls @ b # rest) = b # rest" "takeWhile (\<lambda>x. x \<noteq> b) (ls @ b # rest) = ls"
    by (induction ls) auto
  then show ?thesis by (simp add: readSection_def)
qed

lemma readField_append: "readField k (k @ v) = Some v"
  by (simp add: readField_def)

lemma readNumber_append: "n < 2 ^ 63 \<Longrightarrow> readNumber k (k @ FormatUint n) = Some n"
  by (simp add: readNumber_def readField_append Atoi_FormatUint)

lemmas field_tags = readField_append [of "''ID:''", simplified] readField_append [of "''MP:''", simplified]
  readField_append [of "''WD:''", simplified] readNumber_append [of _ "''UID:''", simplified]
  readNumber_append [of _ "''GID:''", simplified] readNumber_append [of _ "''ARC:''", simplified]

lemma uint32_number: "unat (w :: 32 word) < 9223372036854775808"
  using unsigned_less [of w, where 'a=nat] by simp

section \<open>What the guests write\<close>

definition blockName :: "string \<Rightarrow> BlockDevParams \<Rightarrow> string \<times> string" where
  "blockName monitor b = ((if monitor = ''firecracker'' then ''FC'' else []) @ Blk_ID b, Blk_MountPoint b)"

fun blockLines :: "(string \<times> string) list \<Rightarrow> string list" where
  "blockLines [] = []"
| "blockLines ((i, m) # bs) = (''ID:'' @ i) # (''MP:'' @ m) # blockLines bs"

definition dataBlocks :: "string \<Rightarrow> BlockDevParams list \<Rightarrow> (string \<times> string) list" where
  "dataBlocks monitor bs = map (blockName monitor) (filter (\<lambda>b. Blk_ID b \<noteq> ''rootfs'') bs)"

lemma urunit_blocks_eq: "urunit_blocks monitor bs = unlines (blockLines (dataBlocks monitor bs))"
  by (induction bs) (simp_all add: urunit_blocks_def dataBlocks_def blockName_def)

lemma readBlocks_blockLines: "readBlocks (blockLines bs) = Some bs"
  by (induction bs rule: blockLines.induct) (simp_all add: field_tags)

lemma blkEnd_not_in: "blkEndMarker \<notin> set (blockLines bs)"
  by (induction bs rule: blockLines.induct) (auto simp: blkEndMarker_def)

definition block_lines_ok :: "BlockDevParams list \<Rightarrow> bool" where
  "block_lines_ok bs \<longleftrightarrow> list_all (\<lambda>b. one_line (Blk_ID b) \<and> one_line (Blk_MountPoint b)) bs"

lemma one_line_blockLines:
  "block_lines_ok bs \<Longrightarrow> list_all one_line (blockLines (dataBlocks monitor bs))"
  by (induction bs) (auto simp: block_lines_ok_def dataBlocks_def blockName_def NL_def)

definition env_ok :: "string list \<Rightarrow> bool" where
  "env_ok env \<longleftrightarrow> list_all one_line env \<and> envEndMarker \<notin> set env"

lemma env_lines: "(if env \<noteq> [] then line (Join env [NL]) else []) = unlines env"
  by (auto simp: line_Join)

definition procLines :: "ProcessConfig \<Rightarrow> string list" where
  "procLines p = [''UID:'' @ FormatUint (unat (Proc_UID p)), ''GID:'' @ FormatUint (unat (Proc_GID p)),
     ''WD:'' @ Proc_WorkDir p]"

definition argLines :: "string list \<Rightarrow> string list" where
  "argLines as = (''ARC:'' @ FormatUint (length as)) # map (\<lambda>a. ''ARV:'' @ a) as"

definition configLines ::
    "string list \<Rightarrow> string list \<Rightarrow> (string \<times> string) list \<Rightarrow> string list" where
  "configLines env pr bs = envStartMarker # env @ envEndMarker # lpcStartMarker # pr @ lpcEndMarker
     # blkStartMarker # blockLines bs @ [blkEndMarker]"

lemmas marker_defs = envStartMarker_def envEndMarker_def lpcStartMarker_def lpcEndMarker_def
  blkStartMarker_def blkEndMarker_def netStartMarker_def netEndMarker_def paddingMarker_def

lemma Linux_config_lines:
  "Linux_buildUrunitConfig l =
     unlines (configLines (Linux_Env l) (procLines (Linux_ProcConfig l)) (dataBlocks (Linux_Monitor l) (Linux_Blk l)))"
  unfolding Linux_buildUrunitConfig_def env_lines urunit_blocks_eq
  by (simp add: configLines_def procLines_def unlines_append)

lemma one_line_configLines:
  "list_all one_line env \<Longrightarrow> list_all one_line pr \<Longrightarrow> list_all one_line (blockLines bs) \<Longrightarrow>
    list_all one_line (configLines env pr bs)"
  by (simp add: configLines_def marker_defs NL_def)

lemma readUrunit_configLines:
  assumes env: "env_ok env" and pr: "list_all one_line pr" "lpcEndMarker \<notin> set pr"
    and bs: "list_all one_line (blockLines bs)" and rp: "readProcess pr = Some (u, g, w, as)"
  shows "readUrunit (unlines (configLines env pr bs) @ r) =
    Some (\<lparr>Ur_Env = env, Ur_UID = u, Ur_GID = g, Ur_WorkDir = w, Ur_Args = as, Ur_Blocks = bs\<rparr>, Split NL r)"
proof -
  have "Split NL (unlines (configLines env pr bs) @ r) = configLines env pr bs @ Split NL r"
    using one_line_configLines [of env pr bs] env pr bs by (intro Split_unlines) (simp add: env_ok_def)
  moreover have "envEndMarker \<notin> set env" using env by (simp add: env_ok_def)
  ultimately show ?thesis using pr blkEnd_not_in rp
    by (simp add: readUrunit_def configLines_def readSection_lines readBlocks_blockLines)
qed

lemma readProcess_procLines:
  "readProcess (procLines p) = Some (unat (Proc_UID p), unat (Proc_GID p), Proc_WorkDir p, [])"
  by (simp add: readProcess_def procLines_def field_tags uint32_number)

lemma procLines_ok:
  "one_line (Proc_WorkDir p) \<Longrightarrow> list_all one_line (procLines p) \<and> lpcEndMarker \<notin> set (procLines p)"
  by (simp add: procLines_def lpcEndMarker_def NL_def)

lemma readProcess_argLines:
  "length as < 2 ^ 63 \<Longrightarrow>
    readProcess (procLines p @ argLines as) = Some (unat (Proc_UID p), unat (Proc_GID p), Proc_WorkDir p, as)"
proof -
  assume n: "length as < 2 ^ 63"
  have "list_all (\<lambda>a. HasPrefix a ''ARV:'') (map (\<lambda>a. ''ARV:'' @ a) as)"
    using HasPrefix_append [of "''ARV:''"] by (simp add: list_all_iff)
  moreover have "map (drop 4) (map (\<lambda>a. ''ARV:'' @ a) as) = as" by (induction as) auto
  moreover have "readProcess (procLines p @ argLines as) =
      (if list_all (\<lambda>a. HasPrefix a ''ARV:'') (map (\<lambda>a. ''ARV:'' @ a) as)
       then Some (unat (Proc_UID p), unat (Proc_GID p), Proc_WorkDir p, map (drop 4) (map (\<lambda>a. ''ARV:'' @ a) as))
       else None)"
    using n by (simp add: readProcess_def procLines_def argLines_def field_tags uint32_number)
  ultimately show ?thesis by (simp only: if_True)
qed

lemma argLines_ok:
  "list_all one_line as \<Longrightarrow> list_all one_line (argLines as) \<and> lpcEndMarker \<notin> set (argLines as)"
  by (induction as) (auto simp: argLines_def lpcEndMarker_def NL_def)

definition netLines :: "FreeBSDNet \<Rightarrow> string list" where
  "netLines n = [netStartMarker, ''IP:'' @ FreeBSDNet_Address n, ''GW:'' @ FreeBSDNet_Gateway n,
     ''MSK:'' @ FreeBSDNet_Mask n, netEndMarker, paddingMarker]"

lemma FreeBSD_config_lines:
  "FreeBSD_configBody f =
     unlines (configLines (FreeBSD_Env f) (procLines (FreeBSD_ProcConfig f) @ argLines (FreeBSD_Command f))
       (dataBlocks (FreeBSD_Monitor f) (FreeBSD_Block f)) @ netLines (FreeBSD_Net f))"
proof -
  have "unlines (map (\<lambda>a. ''ARV:'' @ a) as) = concat (map (\<lambda>c. line (''ARV:'' @ c)) as)" for as
    by (induction as) simp_all
  then show ?thesis unfolding FreeBSD_configBody_def env_lines urunit_blocks_eq
    by (simp add: configLines_def procLines_def argLines_def netLines_def unlines_append)
qed





end
