(* ===== verification/Vmm_Props.thy ===== *)
theory Vmm_Props
  imports Vmms
begin

text \<open>
  What the rest of urunc relies on in a monitor: the interface \<open>monitor\<close> and the proof that the
  seven monitors give it, the layout of the command lines, and the memory a monitor is told.
\<close>

section \<open>Signals\<close>

definition gone :: "host \<Rightarrow> int \<Rightarrow> bool" where
  "gone \<omega> pid \<longleftrightarrow> (\<exists>u s e. \<omega> u (Proc (Kill pid s)) = RErr e \<and> errors_Is e (Errno ESRCH))"

lemma kill_loop_gone: "fst (kill_loop fuel pid d \<omega> t) = Inr x \<Longrightarrow> gone \<omega> pid"
proof (induction fuel arbitrary: t)
  case (Suc fuel)
  show ?case
  proof (cases "\<omega> t (Proc (Kill pid 0))")
    case (RErr e)
    then show ?thesis using Suc.prems
      by (auto simp: bind_tryU gone_def split: if_splits)
  qed (use Suc.prems Suc.IH in \<open>auto simp: bind_tryU bind_callNow bind_ignoreU badReply_def
        gone_def split: if_splits\<close>)
qed simp

lemma killProcess_gone: "fst (killProcess fuel pid \<omega> t) = Inr x \<Longrightarrow> gone \<omega> pid"
proof (cases "pid \<le> 0")
  case False
  assume r: "fst (killProcess fuel pid \<omega> t) = Inr x"
  show ?thesis
  proof (cases "\<omega> t (Proc (Kill pid SIGKILL))")
    case (RErr e)
    then show ?thesis using r False
      by (auto simp: killProcess_def bind_tryU gone_def split: if_splits)
  qed (use r False kill_loop_gone in \<open>auto simp: killProcess_def bind_tryU bind_callNow badReply_def\<close>)
qed (simp add: killProcess_def)

section \<open>The interface of a monitor\<close>

text \<open>
  What ends a monitor or tells it something, and what the container code relies on: a signal goes to no
  process but the monitor's, and a stop that succeeds leaves no monitor process behind.
\<close>

locale signaller =
  fixes stop :: "nat \<Rightarrow> 'm \<Rightarrow> int \<Rightarrow> unit prog"
    and signal :: "nat \<Rightarrow> 'm \<Rightarrow> int \<Rightarrow> int \<Rightarrow> unit prog"
  assumes stop_only: "only (kill_target pid) (stop fuel m pid)"
    and signal_only: "only (kill_target pid) (signal fuel m pid sig)"
    and stop_gone: "fst (stop fuel m pid \<omega> t) = Inr u \<Longrightarrow> gone \<omega> pid"
begin

text \<open>Whatever is signalled while a monitor is stopped is the monitor, and never pid 0 or a group.\<close>

lemma stop_signals:
  "Proc (Kill p s) \<in> set (snd (runM (stop fuel m pid) \<omega>)) \<Longrightarrow> p = pid \<and> 0 < p"
  using only_run [OF stop_only] by fastforce

lemma signal_signals:
  "Proc (Kill p s) \<in> set (snd (runM (signal fuel m pid sig) \<omega>)) \<Longrightarrow> p = pid \<and> 0 < p"
  using only_run [OF signal_only] by fastforce

end

text \<open>
  A monitor also has a command line, which executes the binary at the path the monitor reports, and its
  stop ends: \<open>turns\<close> are enough under a clock that keeps up with the naps.
\<close>

locale monitor = signaller stop signal
  for stop :: "nat \<Rightarrow> 'm \<Rightarrow> int \<Rightarrow> unit prog" and signal :: "nat \<Rightarrow> 'm \<Rightarrow> int \<Rightarrow> int \<Rightarrow> unit prog" +
  fixes build :: "'m \<Rightarrow> ExecArgs \<Rightarrow> Unikernel \<Rightarrow> string list prog"
    and path :: "'m \<Rightarrow> string"
    and turns :: nat
  assumes build_path: "fst (build m args uk \<omega> t) = Inr argv \<Longrightarrow> \<exists>as. argv = path m # as"
    and stop_returns: "clock_advances \<omega> \<Longrightarrow> turns \<le> fuel \<Longrightarrow> (\<And>u. \<omega> u (Proc (Kill pid 9)) \<noteq> RErr OutOfFuel)
      \<Longrightarrow> fst (stop fuel m pid \<omega> t) \<noteq> Inl OutOfFuel"
begin

lemma exec_is_path: "fst (build m args uk \<omega> t) = Inr argv \<Longrightarrow> argv \<noteq> [] \<and> hd argv = path m"
  using build_path by fastforce

text \<open>A stop decides: the monitor is gone, or the code says why it may not be.\<close>

lemma stop_decides:
  assumes "clock_advances \<omega>" "turns \<le> fuel" "\<And>u. \<omega> u (Proc (Kill pid 9)) \<noteq> RErr OutOfFuel"
  obtains "fst (stop fuel m pid \<omega> t) = Inr ()" "gone \<omega> pid"
    | e where "fst (stop fuel m pid \<omega> t) = Inl e" "e \<noteq> OutOfFuel"
  using stop_returns [OF assms, of m t] stop_gone by (cases "fst (stop fuel m pid \<omega> t)") auto

end

lemmas vmm_stop_defs = SPT_Stop_def HVT_Stop_def Qemu_Stop_def Firecracker_Stop_def
  CloudHypervisor_Stop_def Hyperlight_Stop_def Hedge_Stop_def

lemmas vmm_signal_defs = SPT_Signal_def HVT_Signal_def Qemu_Signal_def Firecracker_Signal_def
  CloudHypervisor_Signal_def Hyperlight_Signal_def Hedge_Signal_def

lemma vmm_build_path:
  "fst (vmm_BuildExecCmd arch v args uk \<omega> t) = Inr argv \<Longrightarrow> \<exists>as. argv = vmm_Path v # as"
proof (cases v)
  case (VFirecracker f)
  assume "fst (vmm_BuildExecCmd arch v args uk \<omega> t) = Inr argv"
  then have "argv = fc_args f args"
    using VFirecracker by (auto simp: Firecracker_BuildExecCmd_def bindM_run split: sum.splits prod.splits)
  then show ?thesis using VFirecracker by (simp add: fc_args_def)
next
  case (VHyperlight h)
  assume "fst (vmm_BuildExecCmd arch v args uk \<omega> t) = Inr argv"
  then have "Hyperlight_BuildExecCmd h args uk = Inr argv" using VHyperlight by simp
  then have "argv \<noteq> [] \<and> hd argv = hl_binaryPath h"
    unfolding Hyperlight_BuildExecCmd_def Let_def by (simp split: if_split_asm) (metis list.discI list.sel(1))+
  then show ?thesis using VHyperlight by (cases argv) (simp_all add: Hyperlight_Path_def)
qed (simp_all add: SPT_BuildExecCmd_eq HVT_BuildExecCmd_eq SPT_Path_def HVT_Path_def Qemu_Path_def
      CloudHypervisor_Path_def Hedge_BuildExecCmd_def Let_def Qemu_BuildExecCmd_def qemu_machine_def
      CloudHypervisor_BuildExecCmd_def ch_machine_def, blast+)

lemma vmm_stop_only: "only (kill_target pid) (vmm_Stop fuel v pid)"
  by (cases v) (auto simp: vmm_stop_defs only_killProcess intro: only_intros)

lemma vmm_signal_only: "only (kill_target pid) (vmm_Signal fuel v pid sig)"
  by (cases v) (auto simp: vmm_signal_defs vmm_stop_defs only_killProcess only_signalProcess intro: only_intros)

lemma vmm_stop_gone: "fst (vmm_Stop fuel v pid \<omega> t) = Inr u \<Longrightarrow> gone \<omega> pid"
  by (cases v) (auto simp: vmm_stop_defs dest: killProcess_gone)

lemma vmm_stop_returns:
  "clock_advances \<omega> \<Longrightarrow> 22 \<le> fuel \<Longrightarrow> (\<And>u. \<omega> u (Proc (Kill pid 9)) \<noteq> RErr OutOfFuel)
    \<Longrightarrow> fst (vmm_Stop fuel v pid \<omega> t) \<noteq> Inl OutOfFuel"
  using killProcess_not_out_of_fuel [of \<omega> fuel pid t]
  by (cases v) (simp_all add: vmm_stop_defs SIGKILL_def hedgeErr_def)

interpretation vm: monitor vmm_Stop vmm_Signal "vmm_BuildExecCmd arch" vmm_Path 22 for arch
  by unfold_locales (fact vmm_stop_only vmm_signal_only vmm_stop_gone vmm_build_path vmm_stop_returns)+

text \<open>
  C22: stopping or signalling a monitor, of any of the seven kinds, sends signals to the pid
  that was asked for and to no other, and never to pid 0 or to a process group.
\<close>

theorem monitors_signal_only_their_process:
  assumes "Proc (Kill p s) \<in> set (snd (runM (vmm_Stop fuel v pid) \<omega>)) \<union> set (snd (runM (vmm_Signal fuel v pid sig) \<omega>))"
  shows "p = pid \<and> 0 < p"
  using assms vm.stop_signals vm.signal_signals by blast

theorem monitors_signal_only_their_process_witness:
  "Proc (Kill 7 15) \<in> set (snd (runM (vmm_Signal 1 (VQemu \<lparr>qemu_binaryPath = [], qemu_binary = [], qemu_vhost = False\<rparr>)
     7 15) (\<lambda>_ _. ROk))) \<and> (7::int) > 0"
proof -
  let ?q = "VQemu \<lparr>qemu_binaryPath = [], qemu_binary = [], qemu_vhost = False\<rparr>"
  have m: "Proc (Kill 7 15) \<in> set (snd (runM (vmm_Signal 1 ?q 7 15) (\<lambda>_ _. ROk)))"
    by (simp add: Qemu_Signal_def signalProcess_def runM_def callU_run)
  then show ?thesis using monitors_signal_only_their_process [of 7 15 1 ?q 7 "\<lambda>_ _. ROk" 15] by blast
qed

text \<open>
  C23: when a stop reports success the kernel has said, in answer to a signal for that pid, that
  no such process exists; a stop never succeeds on a mere timeout or for a pid that is not
  positive.
\<close>

theorem stop_success_means_gone:
  assumes "fst (vmm_Stop fuel v pid \<omega> t) = Inr u"
  shows "0 < pid \<and> (\<exists>h s e. \<omega> h (Proc (Kill pid s)) = RErr e \<and> errors_Is e (Errno ESRCH))"
proof
  show "0 < pid"
    using assms by (cases v) (auto simp: vmm_stop_defs killProcess_def split: if_splits)
  show "\<exists>h s e. \<omega> h (Proc (Kill pid s)) = RErr e \<and> errors_Is e (Errno ESRCH)"
    using vm.stop_gone [OF assms] by (simp add: gone_def)
qed

theorem stop_success_means_gone_witness:
  "\<exists>h s e. (\<lambda>t c. RErr (Errno ESRCH)) h (Proc (Kill 7 s)) = RErr e \<and> errors_Is e (Errno ESRCH)"
proof -
  have "fst (vmm_Stop 0 (VHVT \<lparr>hvt_binaryPath = [], hvt_binary = []\<rparr>) 7 (\<lambda>t c. RErr (Errno ESRCH)) []) = Inr ()"
    by (simp add: HVT_Stop_def killProcess_def bind_tryU)
  from stop_success_means_gone [OF this] show ?thesis by blast
qed

text \<open>A world in which every signal is delivered, nobody ever dies and each nap takes its time.\<close>

definition undying :: host where
  "undying t c = (case c of Proc Now \<Rightarrow> RInt (int pollInterval * int (sleeps t)) | _ \<Rightarrow> ROk)"

text \<open>
  C24: a stop returns, whatever the process does. If the clock never runs behind the naps of the
  loop, 22 turns are enough: the loop ends because the process is gone, because of an error,
  or because two seconds are over.
\<close>

theorem stop_terminates:
  assumes "clock_advances \<omega>" "22 \<le> fuel" "\<And>u. \<omega> u (Proc (Kill pid 9)) \<noteq> RErr OutOfFuel"
  shows "fst (vmm_Stop fuel v pid \<omega> t) \<noteq> Inl OutOfFuel"
  using assms by (rule vm.stop_returns)

theorem stop_terminates_witness:
  "fst (vmm_Stop 22 (VHVT \<lparr>hvt_binaryPath = [], hvt_binary = []\<rparr>) 7 undying []) \<noteq> Inl OutOfFuel"
proof (rule stop_terminates)
  show "clock_advances undying"
    by (simp add: clock_advances_def clock_def undying_def algebra_simps)
qed (simp_all add: undying_def)

section \<open>Command lines\<close>

lemma takeWhile_sep:
  "d \<notin> set xs \<Longrightarrow> takeWhile (\<lambda>x. x \<noteq> d) (xs @ d # ys) = xs \<and> dropWhile (\<lambda>x. x \<noteq> d) (xs @ d # ys) = d # ys"
  by (induction xs) auto

text \<open>
  C30: on the command line of a Solo5 tender everything in front of the first \<open>--\<close> is an option
  the code chose (the tender reads no guest text as an option), and behind it stand the
  unikernel and, as one argument, the command line of the guest if there is one.
\<close>

theorem solo5_guest_text_behind_separator:
  assumes "v = VHVT h \<or> v = VSPT s" "vmm_Path v \<noteq> ''--''"
  shows "\<exists>argv. fst (vmm_BuildExecCmd arch v args uk \<omega> t) = Inr argv
    \<and> takeWhile (\<lambda>x. x \<noteq> ''--'') argv = vmm_Path v # solo5_options arch args uk
    \<and> dropWhile (\<lambda>x. x \<noteq> ''--'') argv =
        [''--'', Ex_UnikernelPath args] @ (if Ex_Command args \<noteq> [] then [Ex_Command args] else [])"
  using assms takeWhile_sep [of "''--''" "vmm_Path v # solo5_options arch args uk"] solo5_options_no_separator
  by (auto simp: HVT_BuildExecCmd_eq SPT_BuildExecCmd_eq HVT_Path_def SPT_Path_def)

theorem solo5_guest_text_behind_separator_witness:
  "\<exists>argv. fst (vmm_BuildExecCmd ''amd64'' (VHVT \<lparr>hvt_binaryPath = ''/hvt'', hvt_binary = []\<rparr>)
      (zeroExecArgs\<lparr>Ex_UnikernelPath := ''/u'', Ex_Command := ''--mem=1''\<rparr>) (UHermit newHermit) (\<lambda>_ _. ROk) []) = Inr argv
    \<and> dropWhile (\<lambda>x. x \<noteq> ''--'') argv = [''--'', ''/u'', ''--mem=1'']"
  using solo5_guest_text_behind_separator [of "VHVT \<lparr>hvt_binaryPath = ''/hvt'', hvt_binary = []\<rparr>"
      "\<lparr>hvt_binaryPath = ''/hvt'', hvt_binary = []\<rparr>" _ "''amd64''"
      "zeroExecArgs\<lparr>Ex_UnikernelPath := ''/u'', Ex_Command := ''--mem=1''\<rparr>" "UHermit newHermit" "\<lambda>_ _. ROk" "[]"]
  by (auto simp: HVT_Path_def zeroExecArgs_def)

section \<open>Memory\<close>

lemma BytesToStringMB_eq:
  "BytesToStringMB b = FormatUint (if unat b < 10 ^ 6 then 256 else unat b div 10 ^ 6)"
proof -
  have d: "unat (bytesToMB b) = unat b div 10 ^ 6" by (simp add: bytesToMB_def unat_div)
  have z: "bytesToMB b = 0 \<longleftrightarrow> unat b < 10 ^ 6" using d unsigned_eq_0_iff [of "bytesToMB b", where 'a=nat] by (simp add: div_eq_0_iff)
  have "b = 0 \<Longrightarrow> unat b < 10 ^ 6" by simp
  then show ?thesis using d z by (auto simp: BytesToStringMB_def DefaultMemory_def Let_def)
qed

text \<open>
  The memory handed to a monitor is the decimal text of a positive number: the limit in
  megabytes rounded down, or 256 for no limit and for a limit below one megabyte.
\<close>

lemma memory_option_is_positive_number:
  "\<exists>n. Atoi (BytesToStringMB b) = Some (int n) \<and> 1 \<le> n \<and> (10 ^ 6 \<le> unat b \<longrightarrow> n * 10 ^ 6 \<le> unat b)"
proof -
  let ?n = "if unat b < 10 ^ 6 then 256 else unat b div 10 ^ 6"
  have "unat b < 2 ^ 64" using unsigned_less [of b, where 'a=nat] by simp
  then have "unat b div 10 ^ 6 < 2 ^ 63" by simp
  then have "Atoi (BytesToStringMB b) = Some (int ?n)"
    unfolding BytesToStringMB_eq by (intro Atoi_FormatUint) simp
  moreover have "1 \<le> ?n" using div_le_mono [of "10 ^ 6" "unat b" "10 ^ 6"] by simp
  ultimately show ?thesis using div_times_less_eq_dividend [of "unat b" "10 ^ 6"] by fastforce
qed

text \<open>
  The number is one of megabytes, and a monitor reads it as one of mebibytes: from 22 megabytes on the
  guest gets more than the limit of its container. A number of mebibytes stays within it.
\<close>

lemma megabytes_exceed_limit:
  assumes "22 * 10 ^ 6 \<le> unat b"
  shows "\<exists>n. BytesToStringMB b = FormatUint n \<and> n * 10 ^ 6 \<le> unat b \<and> unat b < n * 2 ^ 20"
proof -
  let ?n = "unat b div 10 ^ 6"
  have "22 \<le> ?n" using div_le_mono [OF assms, of "10 ^ 6"] by simp
  moreover have "unat b < (?n + 1) * 10 ^ 6" using dividend_less_div_times [of "10 ^ 6" "unat b"] by simp
  ultimately have "unat b < ?n * 2 ^ 20" by simp
  then show ?thesis using assms by (auto simp: BytesToStringMB_eq intro!: exI [of _ ?n])
qed

lemma mebibytes_within_limit: "unat (bytesToMiB b) * 2 ^ 20 \<le> unat b"
  by (simp add: bytesToMiB_def unat_div)

lemma default_memory_is_more: "BytesToStringMB (256 * 1024 * 1024) = ''268''" "bytesToMiB (256 * 1024 * 1024) = 256"
  by (simp_all add: BytesToStringMB_eq FormatUint.simps digit_char_def char_of_def bit_nat_def bytesToMiB_def)

text \<open>Where a command line has the amount of memory, for the monitors that take it as text.\<close>

fun carries_memory :: "VMM \<Rightarrow> string list \<Rightarrow> nat \<Rightarrow> bool" where
  "carries_memory (VQemu q) argv n \<longleftrightarrow> take 2 (tl argv) = [''-m'', FormatUint n @ ''M'']"
| "carries_memory (VCloudHypervisor c) argv n \<longleftrightarrow>
     (\<exists>s \<in> {[], '',shared=on''}. take 2 (dropWhile (\<lambda>a. a \<noteq> ''--memory'') (tl argv)) = [''--memory'', ''size='' @ FormatUint n @ ''M'' @ s])"
| "carries_memory (VHVT h) argv n \<longleftrightarrow> take 1 (tl argv) = [''--mem='' @ FormatUint n]"
| "carries_memory (VSPT s) argv n \<longleftrightarrow> take 1 (tl argv) = [''--mem='' @ FormatUint n]"
| "carries_memory _ argv n \<longleftrightarrow> False"

lemma carries_BytesToStringMB:
  assumes "BytesToStringMB (Ex_MemSizeB args) = FormatUint n" "v \<in> {VQemu q, VCloudHypervisor c, VHVT h, VSPT s}"
  shows "\<exists>argv. fst (vmm_BuildExecCmd arch v args uk \<omega> t) = Inr argv \<and> carries_memory v argv n"
  using assms(2)
  by (elim insertE emptyE)
    (auto simp: assms(1) Qemu_BuildExecCmd_def qemu_machine_def CloudHypervisor_BuildExecCmd_def ch_machine_def
      HVT_BuildExecCmd_eq SPT_BuildExecCmd_eq solo5_options_def Let_def)

text \<open>
  C33: QEMU, Cloud Hypervisor and the two tenders are told the memory limit of the container in units of
  10^6 bytes, and all of them read the number in units of 2^20: from 22 million bytes on, their guest has
  more memory than the limit. The number for Firecracker is one of 2^20 bytes and stays within it.
\<close>

theorem guest_memory_against_limit:
  assumes "22 * 10 ^ 6 \<le> unat (Ex_MemSizeB args)"
  shows "(\<forall>v \<in> {VQemu q, VCloudHypervisor c, VHVT h, VSPT s}. \<exists>argv n. fst (vmm_BuildExecCmd arch v args uk \<omega> t) = Inr argv
      \<and> carries_memory v argv n \<and> n * 10 ^ 6 \<le> unat (Ex_MemSizeB args) \<and> unat (Ex_MemSizeB args) < n * 2 ^ 20)
    \<and> unat (FcMach_MemSizeMiB (FcCfg_Machine (fc_config args uk))) * 2 ^ 20 \<le> unat (Ex_MemSizeB args)"
proof -
  let ?b = "Ex_MemSizeB args"
  obtain n where n: "BytesToStringMB ?b = FormatUint n" "n * 10 ^ 6 \<le> unat ?b" "unat ?b < n * 2 ^ 20"
    using megabytes_exceed_limit [OF assms] by auto
  have "1 \<le> unat (bytesToMiB ?b)" using div_le_mono [OF assms, of "2 ^ 20"] by (simp add: bytesToMiB_def unat_div)
  then have "bytesToMiB ?b \<noteq> 0" by auto
  then have "unat (fc_memory ?b) * 2 ^ 20 \<le> unat ?b"
    using mebibytes_within_limit [of ?b] by (auto simp: fc_memory_def bytesToMiB_def Let_def)
  then have "unat (FcMach_MemSizeMiB (FcCfg_Machine (fc_config args uk))) * 2 ^ 20 \<le> unat ?b"
    by (simp add: fc_config_def Let_def)
  moreover have "\<forall>v \<in> {VQemu q, VCloudHypervisor c, VHVT h, VSPT s}. \<exists>argv n. fst (vmm_BuildExecCmd arch v args uk \<omega> t) = Inr argv
      \<and> carries_memory v argv n \<and> n * 10 ^ 6 \<le> unat ?b \<and> unat ?b < n * 2 ^ 20"
    using carries_BytesToStringMB [OF n(1)] n(2,3) by metis
  ultimately show ?thesis by blast
qed

theorem guest_memory_against_limit_witness:
  "\<exists>argv. fst (vmm_BuildExecCmd ''amd64'' (VQemu (\<lparr>qemu_binaryPath = ''/q'', qemu_binary = [], qemu_vhost = False\<rparr>))
      (zeroExecArgs\<lparr>Ex_MemSizeB := 268435456\<rparr>) (UHermit newHermit) (\<lambda>_ _. ROk) []) = Inr argv
    \<and> (\<exists>n. carries_memory (VQemu (\<lparr>qemu_binaryPath = ''/q'', qemu_binary = [], qemu_vhost = False\<rparr>)) argv n \<and> 268435456 < n * 2 ^ 20)"
  using guest_memory_against_limit [of "zeroExecArgs\<lparr>Ex_MemSizeB := 268435456\<rparr>"
      "\<lparr>qemu_binaryPath = ''/q'', qemu_binary = [], qemu_vhost = False\<rparr>"] by fastforce

end
