(* ===== verification/Mounts.thy ===== *)
theory Mounts
  imports Go_Path Host Urunc_Types
begin

text \<open>
  Mounts and device nodes of the monitor's root file system, \<open>pkg/unikontainers/mount.go\<close>, and the
  copy helpers of \<open>utils.go\<close>. Mount flags are \<open>uintptr\<close> values, here 64-bit words.
\<close>

unbundle bit_operations_syntax

section \<open>Flags\<close>

definition MS_RDONLY :: "64 word" where "MS_RDONLY = 1"
definition MS_NOSUID :: "64 word" where "MS_NOSUID = 2"
definition MS_NODEV :: "64 word" where "MS_NODEV = 4"
definition MS_NOEXEC :: "64 word" where "MS_NOEXEC = 8"
definition MS_SYNCHRONOUS :: "64 word" where "MS_SYNCHRONOUS = 16"
definition MS_REMOUNT :: "64 word" where "MS_REMOUNT = 32"
definition MS_MANDLOCK :: "64 word" where "MS_MANDLOCK = 64"
definition MS_DIRSYNC :: "64 word" where "MS_DIRSYNC = 128"
definition MS_NOSYMFOLLOW :: "64 word" where "MS_NOSYMFOLLOW = 256"
definition MS_NOATIME :: "64 word" where "MS_NOATIME = 1024"
definition MS_NODIRATIME :: "64 word" where "MS_NODIRATIME = 2048"
definition MS_BIND :: "64 word" where "MS_BIND = 4096"
definition MS_REC :: "64 word" where "MS_REC = 16384"
definition MS_SILENT :: "64 word" where "MS_SILENT = 32768"
definition MS_UNBINDABLE :: "64 word" where "MS_UNBINDABLE = 131072"
definition MS_PRIVATE :: "64 word" where "MS_PRIVATE = 262144"
definition MS_SLAVE :: "64 word" where "MS_SLAVE = 524288"
definition MS_SHARED :: "64 word" where "MS_SHARED = 1048576"
definition MS_RELATIME :: "64 word" where "MS_RELATIME = 2097152"
definition MS_I_VERSION :: "64 word" where "MS_I_VERSION = 8388608"
definition MS_STRICTATIME :: "64 word" where "MS_STRICTATIME = 16777216"
definition MS_LAZYTIME :: "64 word" where "MS_LAZYTIME = 33554432"

definition ST_RELATIME :: "64 word" where "ST_RELATIME = 4096"

definition propagationTable :: "(string \<times> 64 word) list" where
  "propagationTable =
     [(''rprivate'', MS_PRIVATE OR MS_REC), (''private'', MS_PRIVATE),
      (''rslave'', MS_SLAVE OR MS_REC), (''slave'', MS_SLAVE),
      (''rshared'', MS_SHARED OR MS_REC), (''shared'', MS_SHARED),
      (''runbindable'', MS_UNBINDABLE OR MS_REC), (''unbindable'', MS_UNBINDABLE)]"

definition mapRootfsPropagationFlag :: "string \<Rightarrow> err + 64 word" where
  "mapRootfsPropagationFlag value =
     (case map_of propagationTable value of
        None \<Rightarrow> Inl (Errorf ''rootfsPropagation=%s is not supported'' [value])
      | Some p \<Rightarrow> Inr p)"

definition vfsFlagMapping :: "(string \<times> (bool \<times> 64 word)) list" where
  "vfsFlagMapping =
     [(''ro'', (False, MS_RDONLY)), (''rw'', (True, MS_RDONLY)),
      (''nosuid'', (False, MS_NOSUID)), (''suid'', (True, MS_NOSUID)),
      (''nodev'', (False, MS_NODEV)), (''dev'', (True, MS_NODEV)),
      (''noexec'', (False, MS_NOEXEC)), (''exec'', (True, MS_NOEXEC)),
      (''noatime'', (False, MS_NOATIME)), (''atime'', (True, MS_NOATIME)),
      (''nodiratime'', (False, MS_NODIRATIME)), (''diratime'', (True, MS_NODIRATIME)),
      (''relatime'', (False, MS_RELATIME)), (''norelatime'', (True, MS_RELATIME)),
      (''strictatime'', (False, MS_STRICTATIME)), (''nostrictatime'', (True, MS_STRICTATIME)),
      (''nosymfollow'', (False, MS_NOSYMFOLLOW)), (''symfollow'', (True, MS_NOSYMFOLLOW)),
      (''sync'', (False, MS_SYNCHRONOUS)), (''async'', (True, MS_SYNCHRONOUS)),
      (''dirsync'', (False, MS_DIRSYNC)),
      (''mand'', (False, MS_MANDLOCK)), (''nomand'', (True, MS_MANDLOCK)),
      (''silent'', (False, MS_SILENT)), (''loud'', (True, MS_SILENT)),
      (''lazytime'', (False, MS_LAZYTIME)), (''nolazytime'', (True, MS_LAZYTIME)),
      (''iversion'', (False, MS_I_VERSION)), (''noiversion'', (True, MS_I_VERSION))]"

text \<open>The flag and whether the option clears it.\<close>

definition mapVFSFlag :: "string \<Rightarrow> err + (64 word \<times> bool)" where
  "mapVFSFlag value =
     (case map_of vfsFlagMapping value of
        None \<Rightarrow> Inl (Errorf ''%s is not a supported vfs mount flag'' [value])
      | Some (clear, flag) \<Rightarrow> Inr (flag, clear))"

definition lockedFlags :: "(64 word \<times> 64 word) list" where
  "lockedFlags = [(MS_RDONLY, MS_RDONLY), (MS_NODEV, MS_NODEV), (MS_NOEXEC, MS_NOEXEC), (MS_NOSUID, MS_NOSUID),
     (MS_NOATIME, MS_NOATIME), (ST_RELATIME, MS_RELATIME), (MS_NODIRATIME, MS_NODIRATIME)]"

definition lockedMountFlags :: "64 word \<Rightarrow> 64 word" where
  "lockedMountFlags st =
     (let flags = fold (\<lambda>(s, m) flags. if st AND s = s then flags OR m else flags) lockedFlags 0
      in if flags AND (MS_NOATIME OR MS_RELATIME) = 0 then flags OR MS_STRICTATIME else flags)"

definition getUnprivilegedMountFlags :: "string \<Rightarrow> 64 word prog" where
  "getUnprivilegedMountFlags path =
     bindM (callStatfs (Fs (Statfs path))) (\<lambda>(st, _). retM (lockedMountFlags (word_of_nat st)))"

definition isBindMount :: "OciMount \<Rightarrow> bool" where
  "isBindMount m = (''bind'' \<in> set (M_Options m) \<or> ''rbind'' \<in> set (M_Options m))"

text \<open>One turn of the loop of \<open>splitMountOptions\<close>.\<close>

definition splitStep ::
    "bool \<Rightarrow> string \<Rightarrow> string list \<times> 64 word list \<times> 64 word \<Rightarrow> string list \<times> 64 word list \<times> 64 word" where
  "splitStep isBind o' = (\<lambda>(containerdOpts, propagation, vfsFlags).
     (case mapRootfsPropagationFlag o' of
        Inr pFlag \<Rightarrow> (containerdOpts, propagation @ [pFlag], vfsFlags)
      | Inl _ \<Rightarrow>
          (case mapVFSFlag o' of
             Inr (flag, clear) \<Rightarrow>
               (let vfsFlags = (if clear then vfsFlags AND NOT flag else vfsFlags OR flag)
                in if isBind then (containerdOpts, propagation, vfsFlags)
                   else (containerdOpts @ [o'], propagation, vfsFlags))
           | Inl _ \<Rightarrow> (containerdOpts @ [o'], propagation, vfsFlags))))"

definition splitMountOptions :: "string list \<Rightarrow> bool \<Rightarrow> string list \<times> 64 word list \<times> 64 word" where
  "splitMountOptions options isBind = fold (splitStep isBind) options ([], [], 0)"

section \<open>Mounting\<close>

definition isDirMode :: "stat_info \<Rightarrow> bool" where
  "isDirMode s = (st_type s = Directory)"

definition createDir :: "string \<Rightarrow> unit prog" where
  "createDir d = wrapM ''failed to create directory %s: %w'' [d] (callU (Fs (MkdirAll d 493)))"

definition createMountPoint :: "string \<Rightarrow> OciMount \<Rightarrow> unit prog" where
  "createMountPoint target m =
     (let dir = createDir target
      in if isBindMount m then
           bindM (wrapM ''failed to stat mount source %s: %w'' [M_Source m] (callStat (Fs (Stat (M_Source m))))) (\<lambda>st.
             if \<not> isDirMode st then
               bindM (createDir (filepath_Dir target)) (\<lambda>_.
               bindM (wrapM ''failed to create file %s: %w'' [target] (callU (Fs (OpenCreate target 420)))) (\<lambda>_.
                 wrapM ''failed to close file %s: %w'' [target] (callU (Fs (CloseFile target)))))
             else dir)
         else dir)"

definition remountFlags :: "string \<Rightarrow> 64 word \<Rightarrow> 64 word prog" where
  "remountFlags source vfsFlags =
     (let remount = vfsFlags OR MS_BIND OR MS_REMOUNT
      in bindM (callFlag (Mnt RunningInUserNS)) (\<lambda>inNS.
           if inNS then
             bindM (wrapM ''failed to get locked mount flags of %s: %w'' [source] (getUnprivilegedMountFlags source))
               (\<lambda>locked. retM (remount OR locked))
           else retM remount))"

definition applyMount :: "string \<Rightarrow> OciMount \<Rightarrow> unit prog" where
  "applyMount rootfsPath m =
     bindM (wrapM ''failed to resolve mount target %s: %w'' [M_Destination m]
              (callS (Fs (SecureJoin rootfsPath (M_Destination m))))) (\<lambda>target.
     bindM (wrapM ''failed to create mount target %s: %w'' [target] (createMountPoint target m)) (\<lambda>_.
       case splitMountOptions (M_Options m) (isBindMount m) of (containerdOpts, propagation, vfsFlags) \<Rightarrow>
     bindM (wrapM ''failed to mount %s at %s: %w'' [M_Source m, target]
              (callU (Mnt (CdMount (M_Type m) (M_Source m) target containerdOpts)))) (\<lambda>_.
     bindM (if isBindMount m \<and> vfsFlags \<noteq> 0 then
              bindM (remountFlags (M_Source m) vfsFlags) (\<lambda>remount.
                wrapM ''failed to apply mount flags for %s: %w'' [target]
                  (callU (Mnt (Mount [] target [] (unat remount) []))))
            else retM ()) (\<lambda>_.
     bindM (forM propagation (\<lambda>pFlag.
              wrapM ''failed to set propagation flag for %s: %w'' [M_Destination m]
                (callU (Mnt (Mount [] target [] (unat pFlag) []))))) (\<lambda>_.
       if M_Type m = ''tmpfs'' \<and> ''mode=1777'' \<in> set (M_Options m) then
         wrapM ''failed to chmod %s: %w'' [target] (callU (Fs (Chmod target 1023)))
       else retM ())))))"

definition applyMounts :: "string \<Rightarrow> OciMount list \<Rightarrow> unit prog" where
  "applyMounts rootfsPath mounts =
     forM mounts (\<lambda>m. wrapM ''failed to apply mount %s: %w'' [M_Source m] (applyMount rootfsPath m))"

definition kernelFSMagics :: "int list" where
  "kernelFSMagics = [0x62656572, 0x9fa0, 0x27e0eb, 0x63677270, 0x73636673, 0x64626720, 0x74726163,
     0xcafe4a11, 0xde5e81e4, 0x6165676C, 0x42494e4d, 0x6e736673, 0xf97cff8c, 0x43415d53,
     0x62656570, 0x65735543, 0x19800202]"

definition isHostKernelFS :: "string \<Rightarrow> bool prog" where
  "isHostKernelFS path =
     bindM (wrapM ''failed to statfs %s: %w'' [path] (callStatfs (Fs (Statfs path)))) (\<lambda>(_, t).
       retM (t \<in> set kernelFSMagics))"

fun onlyBindMounts :: "OciMount list \<Rightarrow> OciMount list prog" where
  "onlyBindMounts [] = retM []"
| "onlyBindMounts (m # ms) =
     (if \<not> isBindMount m then
        (if M_Type m = ''bind'' \<or> M_Type m = ''rbind'' then
           failM (Errorf ''mount of %s to %s has type %q but no bind or rbind option''
                    [M_Source m, M_Destination m, M_Type m])
         else onlyBindMounts ms)
      else bindM (isHostKernelFS (M_Source m)) (\<lambda>kernelFS.
        if kernelFS then onlyBindMounts ms
        else bindM (onlyBindMounts ms) (\<lambda>result. retM (m # result))))"

section \<open>Preparing the root\<close>

text \<open>
  The loop that walks up to the parent mount. \<open>fuel\<close> bounds the number of steps up; the length
  of an absolute path is enough.
\<close>

fun parentPrivate_loop :: "nat \<Rightarrow> string \<Rightarrow> unit prog" where
  "parentPrivate_loop 0 path = failM OutOfFuel"
| "parentPrivate_loop (Suc fuel) path =
     bindM (tryM (callU (Mnt (Mount [] path [] (unat MS_PRIVATE) [])))) (\<lambda>r.
       case r of
         Inr _ \<Rightarrow> retM ()
       | Inl e \<Rightarrow>
           (if e \<noteq> Errno EINVAL \<or> path = ''/'' then
              failM (Errorf ''could not remount as private the parent mount of %s'' [path])
            else parentPrivate_loop fuel (filepath_Dir path)))"

definition rootfsParentMountPrivate :: "string \<Rightarrow> unit prog" where
  "rootfsParentMountPrivate path = parentPrivate_loop (Suc (length path)) path"

definition prepareRoot :: "string \<Rightarrow> string \<Rightarrow> unit prog" where
  "prepareRoot path rootfsPropagation =
     bindM (liftM (if rootfsPropagation \<noteq> [] then mapRootfsPropagationFlag rootfsPropagation
                   else Inr (MS_SLAVE OR MS_REC))) (\<lambda>flag.
     bindM (callU (Mnt (Mount [] ''/'' [] (unat flag) []))) (\<lambda>_.
     bindM (rootfsParentMountPrivate path) (\<lambda>_.
       callU (Mnt (Mount path path ''bind'' (unat (MS_BIND OR MS_REC)) [])))))"

section \<open>Devices and files\<close>

text \<open>\<open>filepath.Rel("/", p)\<close>.\<close>

definition RelRoot :: "string \<Rightarrow> err + string" where
  "RelRoot p =
     (if \<not> IsAbs p then Inl (Errorf ''Rel: can't make %s relative to /'' [p])
      else if Clean p = ''/'' then Inr ''.'' else Inr (tl (Clean p)))"

definition bindMount :: "string \<Rightarrow> string \<Rightarrow> bool \<Rightarrow> bool \<Rightarrow> string list \<Rightarrow> OciMount" where
  "bindMount source destination private ro extraOptions =
     \<lparr>M_Destination = destination, M_Type = ''bind'', M_Source = source,
      M_Options = [''bind''] @ (if private then [''private''] else []) @ (if ro then [''ro''] else [])
        @ extraOptions\<rparr>"

text \<open>A temporary file system, and a device of the host as the specification describes it.\<close>

definition tmpfsMount :: "string \<Rightarrow> string \<Rightarrow> OciMount" where
  "tmpfsMount target sz =
     \<lparr>M_Destination = target, M_Type = ''tmpfs'', M_Source = ''tmpfs'',
      M_Options = [''nosuid'', ''noexec'', ''strictatime'', ''mode=1777'', ''size='' @ sz, ''private'']\<rparr>"

definition devPermBits :: nat where "devPermBits = 6"

definition monitorDeviceMode :: "nat \<Rightarrow> nat" where
  "monitorDeviceMode hostMode = hostMode mod 512 OR devPermBits"

definition deviceFromHost :: "string \<Rightarrow> LinuxDevice prog" where
  "deviceFromHost path =
     bindM (callStat (Fs (Stat path))) (\<lambda>devStat.
     bindM (case st_type devStat of
              CharDev \<Rightarrow> retM ''c''
            | BlockDev \<Rightarrow> retM ''b''
            | _ \<Rightarrow> failM (Errorf ''%s is not a device node'' [path])) (\<lambda>devType.
       retM \<lparr>Dev_Path = path, Dev_Type = devType, Dev_Major = int (st_major devStat),
             Dev_Minor = int (st_minor devStat), Dev_FileMode = Some (monitorDeviceMode (st_mode devStat)),
             Dev_UID = Some (word_of_nat (st_uid devStat)), Dev_GID = Some (word_of_nat (st_gid devStat))\<rparr>))"

text \<open>\<open>unix.Mkdev\<close> on 32-bit numbers.\<close>

definition Mkdev :: "nat \<Rightarrow> nat \<Rightarrow> nat" where
  "Mkdev major minor =
     major div 4096 * 2 ^ 44 + minor div 256 * 2 ^ 20 + major mod 4096 * 256 + minor mod 256"

definition MaxUint32 :: int where "MaxUint32 = 4294967295"
definition MaxInt :: nat where "MaxInt = 9223372036854775807"

definition ptr :: "string \<Rightarrow> string list \<Rightarrow> 'a option \<Rightarrow> err + 'a" where
  "ptr fmt as p = (case p of None \<Rightarrow> Inl (Errorf fmt as) | Some x \<Rightarrow> Inr x)"

definition devTypeBits :: "LinuxDevice \<Rightarrow> err + nat" where
  "devTypeBits dev =
     (if Dev_Type dev = ''c'' then Inr 8192 else if Dev_Type dev = ''b'' then Inr 24576
      else Inl (Errorf ''%s is not a device node'' [Dev_Path dev]))"

definition makeDevNode :: "string \<Rightarrow> LinuxDevice \<Rightarrow> nat \<Rightarrow> unit prog" where
  "makeDevNode dstPath dev devType =
     bindM (liftM (ptr ''reference of %s FileMode is nil'' [Dev_Path dev] (Dev_FileMode dev))) (\<lambda>mode.
       let permBits = mode mod 512
       in if Dev_Major dev < 0 \<or> Dev_Major dev > MaxUint32 \<or> Dev_Minor dev < 0 \<or> Dev_Minor dev > MaxUint32 then
            failM (Errorf ''device number out of range for %s: major=%d minor=%d''
                     [dstPath, Itoa (Dev_Major dev), Itoa (Dev_Minor dev)])
          else
            let newDev = Mkdev (nat (Dev_Major dev)) (nat (Dev_Minor dev))
            in if newDev > MaxInt then
                 failM (Errorf ''device number for %s too large: %d'' [dstPath, FormatUint newDev])
               else
                 bindM (wrapM ''failed to make device node %s: %w'' [dstPath]
                          (callU (Fs (Mknod dstPath (devType OR permBits) newDev)))) (\<lambda>_.
                   wrapM ''failed to chmod %s: %w'' [dstPath] (callU (Fs (Chmod dstPath (permBits OR 6))))))"

definition setupDev :: "string \<Rightarrow> LinuxDevice \<Rightarrow> unit prog" where
  "setupDev monRootfs dev =
     bindM (callFlag (Mnt RunningInUserNS)) (\<lambda>inNS.
       if inNS then applyMount monRootfs (bindMount (Dev_Path dev) (Dev_Path dev) False False [])
       else
         bindM (liftM (devTypeBits dev)) (\<lambda>devType.
         bindM (wrapM ''failed to get relative path of %s to /: %w'' [Dev_Path dev] (liftM (RelRoot (Dev_Path dev)))) (\<lambda>rel.
           let dstPath = filepath_Join [monRootfs, rel]
           in bindM (if filepath_Dir (Dev_Path dev) \<noteq> ''/dev'' then createDir (filepath_Dir dstPath) else retM ()) (\<lambda>_.
              bindM (makeDevNode dstPath dev devType) (\<lambda>_.
              bindM (liftM (ptr ''reference of %s UID is nil'' [Dev_Path dev] (Dev_UID dev))) (\<lambda>uid.
              bindM (liftM (ptr ''reference of %s GID is nil'' [Dev_Path dev] (Dev_GID dev))) (\<lambda>gid.
                wrapM ''failed to chown %s: %w'' [dstPath] (callU (Fs (Chown dstPath (unat uid) (unat gid)))))))))))"

fun setupDevices :: "string \<Rightarrow> LinuxDevice list \<Rightarrow> bool \<Rightarrow> unit prog" where
  "setupDevices monRootfs [] needsTAP = retM ()"
| "setupDevices monRootfs (dev # devices) needsTAP =
     (if \<not> needsTAP \<and> Dev_Path dev = ''/dev/net/tun'' then setupDevices monRootfs devices needsTAP
      else bindM (setupDev monRootfs dev) (\<lambda>_. setupDevices monRootfs devices needsTAP))"

definition copyFile :: "string \<Rightarrow> string \<Rightarrow> unit prog" where
  "copyFile sourceFile targetPath =
     bindM (callU (Fs (OpenRead sourceFile))) (\<lambda>_.
       deferM (callU (Fs (CloseFile sourceFile)))
         (bindM (callU (Fs (MkdirAll (filepath_Dir targetPath) 493))) (\<lambda>_.
          bindM (callU (Fs (Create targetPath))) (\<lambda>_.
            deferM (callU (Fs (CloseFile targetPath))) (callU (Fs (CopyData sourceFile targetPath)))))))"

definition moveFile :: "string \<Rightarrow> string \<Rightarrow> unit prog" where
  "moveFile sourceFile targetPath =
     bindM (copyFile sourceFile targetPath) (\<lambda>_. callU (Fs (Remove sourceFile)))"

definition fileFromHost :: "string \<Rightarrow> string \<Rightarrow> string \<Rightarrow> unit prog" where
  "fileFromHost monRootfs hostPath target =
     bindM (callStat (Fs (Stat hostPath))) (\<lambda>fileInfo.
       if st_type fileInfo \<noteq> Regular then failM ErrNotRegularFile
       else
         bindM (if target = [] then
                  wrapM ''failed to get relative path of %s to /: %w'' [hostPath] (liftM (RelRoot hostPath))
                else retM target) (\<lambda>target.
         bindM (wrapM ''failed to resolve target %s: %w'' [target] (callS (Fs (SecureJoin monRootfs target)))) (\<lambda>dstPath.
         bindM (wrapM ''failed to copy file %s: %w'' [hostPath] (copyFile hostPath dstPath)) (\<lambda>_.
         bindM (wrapM ''failed to chmod %s: %w'' [dstPath] (callU (Fs (Chmod dstPath (st_mode fileInfo))))) (\<lambda>_.
           wrapM ''failed to chown %s: %w'' [dstPath]
             (callU (Fs (Chown dstPath (st_uid fileInfo) (st_gid fileInfo)))))))))"

end
