(* ===== verification/Mounts_Props.thy ===== *)
theory Mounts_Props
  imports Mounts
begin

text \<open>
  Mount options, the confinement of mounts to the monitor's root, device numbers, and the walk
  up to the parent mount.
\<close>

unbundle bit_operations_syntax

section \<open>Options\<close>

definition is_propagation :: "string \<Rightarrow> bool" where
  "is_propagation x \<longleftrightarrow> map_of propagationTable x \<noteq> None"

definition is_vfs :: "string \<Rightarrow> bool" where
  "is_vfs x \<longleftrightarrow> \<not> is_propagation x \<and> map_of vfsFlagMapping x \<noteq> None"

text \<open>What one option does to bit \<open>k\<close> of the flags: sets it, clears it, or leaves it alone.\<close>

definition vfs_effect :: "nat \<Rightarrow> string \<Rightarrow> bool option" where
  "vfs_effect k x =
     (if is_propagation x then None
      else case map_of vfsFlagMapping x of
        None \<Rightarrow> None
      | Some (clear, flag) \<Rightarrow> (if bit flag k then Some (\<not> clear) else None))"

text \<open>The last option that concerns a bit decides it.\<close>

fun last_effect :: "nat \<Rightarrow> string list \<Rightarrow> bool" where
  "last_effect k [] = False"
| "last_effect k (x # xs) =
     (if list_all (\<lambda>y. vfs_effect k y = None) xs then vfs_effect k x = Some True else last_effect k xs)"

lemma last_effect_none: "list_all (\<lambda>y. vfs_effect k y = None) xs \<Longrightarrow> \<not> last_effect k xs"
  by (induction xs) auto

lemma last_effect_snoc:
  "last_effect k (xs @ [x]) = (case vfs_effect k x of None \<Rightarrow> last_effect k xs | Some b \<Rightarrow> b)"
proof (induction xs)
  case Nil
  show ?case by (cases "vfs_effect k x") auto
next
  case (Cons y ys)
  then show ?case by (cases "vfs_effect k x") auto
qed

lemma splitMountOptions_snoc:
  "splitMountOptions (xs @ [x]) b = splitStep b x (splitMountOptions xs b)"
  by (simp add: splitMountOptions_def)

lemma bit_flag_step:
  fixes flag :: "64 word"
  shows "bit (v AND NOT flag) k = (bit v k \<and> \<not> bit flag k)"
    "bit (v OR flag) k = (bit v k \<or> bit flag k)"
  using bit_imp_le_length [of v k] by (auto simp: bit_and_iff bit_or_iff bit_not_iff)

text \<open>The three results of one option.\<close>

lemma split_kinds:
  obtains (propag) p where "mapRootfsPropagationFlag x = Inr p" "is_propagation x" "\<not> is_vfs x"
      "p = the (map_of propagationTable x)" "\<And>k. vfs_effect k x = None"
    | (vfs) e clear flag where "mapRootfsPropagationFlag x = Inl e" "mapVFSFlag x = Inr (flag, clear)"
      "\<not> is_propagation x" "is_vfs x" "\<And>k. vfs_effect k x = (if bit flag k then Some (\<not> clear) else None)"
    | (other) e e' where "mapRootfsPropagationFlag x = Inl e" "mapVFSFlag x = Inl e'"
      "\<not> is_propagation x" "\<not> is_vfs x" "\<And>k. vfs_effect k x = None"
proof (cases "map_of propagationTable x")
  case (Some p)
  then show ?thesis
    by (intro propag [of p]) (simp_all add: mapRootfsPropagationFlag_def is_propagation_def is_vfs_def vfs_effect_def)
next
  case p: None
  show ?thesis
  proof (cases "map_of vfsFlagMapping x")
    case None
    then show ?thesis using p
      by (intro other) (simp_all add: mapRootfsPropagationFlag_def mapVFSFlag_def is_propagation_def is_vfs_def
          vfs_effect_def del: map_of_eq_None_iff)
  next
    case (Some f)
    obtain clear flag where f: "f = (clear, flag)" by (cases f)
    show ?thesis using p Some f
      by (intro vfs [of _ flag clear]) (simp_all add: mapRootfsPropagationFlag_def mapVFSFlag_def
          is_propagation_def is_vfs_def vfs_effect_def del: map_of_eq_None_iff)
  qed
qed

lemma splitStep_results:
  "fst (splitStep b x s) = fst s @ (if \<not> is_propagation x \<and> \<not> (b \<and> is_vfs x) then [x] else [])"
  "fst (snd (splitStep b x s)) = fst (snd s) @ (if is_propagation x then [the (map_of propagationTable x)] else [])"
  "bit (snd (snd (splitStep b x s))) k = (case vfs_effect k x of None \<Rightarrow> bit (snd (snd s)) k | Some c \<Rightarrow> c)"
  by (cases x rule: split_kinds; cases s; simp add: splitStep_def Let_def bit_flag_step)+

lemma splitMountOptions_results:
  "fst (splitMountOptions xs b) = filter (\<lambda>x. \<not> is_propagation x \<and> \<not> (b \<and> is_vfs x)) xs"
  "fst (snd (splitMountOptions xs b)) = map (\<lambda>x. the (map_of propagationTable x)) (filter is_propagation xs)"
  "bit (snd (snd (splitMountOptions xs b))) k = last_effect k xs"
proof (induction xs rule: rev_induct)
  case Nil
  {
    case 1
    show ?case by (simp add: splitMountOptions_def)
  next
    case 2
    show ?case by (simp add: splitMountOptions_def)
  next
    case 3
    show ?case by (simp add: splitMountOptions_def)
  }
next
  case (snoc x xs)
  {
    case 1
    show ?case using snoc.IH(1) by (simp add: splitMountOptions_snoc splitStep_results)
  next
    case 2
    show ?case using snoc.IH(2) by (simp add: splitMountOptions_snoc splitStep_results)
  next
    case 3
    show ?case using snoc.IH(3)
      by (cases "vfs_effect k x") (simp_all add: splitMountOptions_snoc splitStep_results last_effect_snoc)
  }
qed

text \<open>
  C35: mount options are sorted by what handles them, and none is lost: the propagation tokens
  become their flags in order, the VFS options of a bind mount are withheld from the mount
  package, everything else is handed on in order, and each VFS flag is set exactly when the last
  option that names it sets it.
\<close>

theorem mount_options_split:
  "fst (splitMountOptions xs b) = filter (\<lambda>x. \<not> is_propagation x \<and> \<not> (b \<and> is_vfs x)) xs
   \<and> fst (snd (splitMountOptions xs b)) = map (\<lambda>x. the (map_of propagationTable x)) (filter is_propagation xs)
   \<and> (\<forall>k. bit (snd (snd (splitMountOptions xs b))) k = last_effect k xs)"
  by (simp add: splitMountOptions_results)

section \<open>Confinement\<close>

text \<open>The targets a world resolves below a root, and the mounts whose target is one of them.\<close>

definition resolved :: "host \<Rightarrow> string \<Rightarrow> string \<Rightarrow> bool" where
  "resolved \<omega> root p \<longleftrightarrow> (\<exists>t d. \<omega> t (Fs (SecureJoin root d)) = RStr p)"

definition mounts_below :: "host \<Rightarrow> string \<Rightarrow> call \<Rightarrow> bool" where
  "mounts_below \<omega> root c =
     (case c of
        Mnt (CdMount ty src target opts) \<Rightarrow> resolved \<omega> root target
      | Mnt (Mount src target fs flags data) \<Rightarrow> resolved \<omega> root target
      | Mnt (Unmount p f) \<Rightarrow> False
      | Fs (OpenCreate p m) \<Rightarrow> resolved \<omega> root p
      | Fs (Chmod p m) \<Rightarrow> resolved \<omega> root p
      | Fs (Chown p u g) \<Rightarrow> resolved \<omega> root p
      | Fs (Remove p) \<Rightarrow> False | Fs (RemoveAll p) \<Rightarrow> False | Fs (Rename p q) \<Rightarrow> False
      | Fs (WriteFile p d m) \<Rightarrow> False | Fs (Mknod p m d) \<Rightarrow> False
      | _ \<Rightarrow> True)"

lemma acts_SecureJoin: "P (Fs (SecureJoin root d)) \<Longrightarrow> acts \<omega> P (callS (Fs (SecureJoin root d))) (resolved \<omega> root)"
  by (auto simp: acts_def callS_run resolved_def split: reply.splits)

lemma acts_createMountPoint:
  "resolved \<omega> root target \<Longrightarrow> acts \<omega> (mounts_below \<omega> root) (createMountPoint target m) (\<lambda>_. True)"
  unfolding createMountPoint_def createDir_def Let_def acts_def
  by (auto simp: bindM_run call_runs mounts_below_def split: reply.splits sum.splits)

lemma only_remountFlags: "only (mounts_below \<omega> root) (remountFlags src v)"
  unfolding remountFlags_def getUnprivilegedMountFlags_def Let_def
  by (auto intro!: only_intros simp: mounts_below_def)

lemma acts_applyMount: "acts \<omega> (mounts_below \<omega> root) (applyMount root m) (\<lambda>_. True)"
proof -
  note bind = acts_bindM
  have remount: "acts \<omega> (mounts_below \<omega> root)
      (if isBindMount m \<and> v \<noteq> 0 then
         bindM (remountFlags (M_Source m) v) (\<lambda>remount.
           wrapM ''failed to apply mount flags for %s: %w'' [target]
             (callU (Mnt (Mount [] target [] (unat remount) []))))
       else retM ()) (\<lambda>_. True)" if "resolved \<omega> root target" for v target
    using that by (auto intro!: acts_only only_intros only_remountFlags simp: mounts_below_def)
  have tail: "acts \<omega> (mounts_below \<omega> root)
      (bindM (forM p (\<lambda>pFlag.
              wrapM ''failed to set propagation flag for %s: %w'' [M_Destination m]
                (callU (Mnt (Mount [] target [] (unat pFlag) []))))) (\<lambda>_.
       if M_Type m = ''tmpfs'' \<and> ''mode=1777'' \<in> set (M_Options m) then
         wrapM ''failed to chmod %s: %w'' [target] (callU (Fs (Chmod target 1023)))
       else retM ())) (\<lambda>_. True)" if "resolved \<omega> root target" for p :: "64 word list" and target
    using that by (auto intro!: acts_only only_intros simp: mounts_below_def)
  show ?thesis
    unfolding applyMount_def
    by (rule acts_bindM [where R = "resolved \<omega> root"])
      (auto intro!: acts_intros acts_SecureJoin bind [OF acts_createMountPoint] bind [OF remount] tail
        bind [OF acts_only [OF only_calls(1)]] acts_bindM [where R = "\<lambda>_. True"]
        acts_createMountPoint acts_only [OF only_calls(1)] remount acts_only [OF only_remountFlags]
        simp: mounts_below_def split: prod.splits)
qed

lemma acts_applyMounts: "acts \<omega> (mounts_below \<omega> root) (applyMounts root ms) (\<lambda>_. True)"
  unfolding applyMounts_def by (auto intro!: acts_intros acts_applyMount)


definition joiner :: "string \<Rightarrow> host" where
  "joiner root t c =
     (case c of
        Fs (SecureJoin r d) \<Rightarrow> RStr (root @ ''/etc/hosts'')
      | Fs (Stat p) \<Rightarrow> RStat \<lparr>st_mode = 16877, st_uid = 0, st_gid = 0, st_major = 0, st_minor = 0, st_size = 0, st_mtime = (0, 0)\<rparr>
      | Mnt RunningInUserNS \<Rightarrow> RBool False
      | _ \<Rightarrow> ROk)"


section \<open>The walk to the parent mount\<close>

lemma Clean_trailing:
  "cs \<noteq> [] \<Longrightarrow> list_all plain_comp cs \<Longrightarrow> \<forall>c \<in> set cs. sep \<notin> set c \<Longrightarrow>
    Clean (sep # Join cs [sep] @ [sep]) = sep # Join cs [sep]"
proof -
  assume cs: "cs \<noteq> []" "list_all plain_comp cs" "\<forall>c \<in> set cs. sep \<notin> set c"
  have "Split sep (Join cs [sep] @ [sep]) = Split sep (Join (cs @ [[]]) [sep])" using cs by (simp add: Join_snoc)
  also have "\<dots> = cs @ [[]]" using cs by (intro Split_Join) auto
  finally have "Split sep (sep # Join cs [sep] @ [sep]) = [] # cs @ [[]]" by simp
  then have "clean_comps True (Split sep (sep # Join cs [sep] @ [sep])) = cs"
    using cs(2) foldl_clean_plain [of cs True "[]"] by (simp add: clean_comps_def)
  then show ?thesis by (simp add: Clean_def unsplit_def)
qed

lemma Dir_unsplit:
  "list_all plain_comp (cs @ [c]) \<Longrightarrow> \<forall>d \<in> set (cs @ [c]). sep \<notin> set d \<Longrightarrow>
    filepath_Dir (unsplit True (cs @ [c])) = unsplit True cs"
proof -
  assume n: "list_all plain_comp (cs @ [c])" "\<forall>d \<in> set (cs @ [c]). sep \<notin> set d"
  have "dropWhile (\<lambda>x. x \<noteq> sep) (rev c @ sep # r) = sep # r" for r
    using n(2) by (intro dropWhile_append2 [THEN trans]) auto
  then have "rev (dropWhile (\<lambda>x. x \<noteq> sep) (rev (unsplit True (cs @ [c])))) =
      (if cs = [] then [sep] else sep # Join cs [sep] @ [sep])"
    by (simp add: unsplit_def Join_snoc)
  moreover have "Clean [sep] = unsplit True []"
    by (simp add: Clean_def clean_comps_def unsplit_def)
  ultimately show ?thesis using Clean_trailing [of cs] n
    by (auto simp: filepath_Dir_def unsplit_def)
qed

lemma parentPrivate_returns:
  "list_all plain_comp cs \<Longrightarrow> \<forall>d \<in> set cs. sep \<notin> set d \<Longrightarrow> length cs < fuel \<Longrightarrow>
    fst (parentPrivate_loop fuel (unsplit True cs) \<omega> t) \<noteq> Inl OutOfFuel"
proof (induction cs arbitrary: fuel t rule: rev_induct)
  case Nil
  then obtain f where "fuel = Suc f" by (cases fuel) auto
  then show ?case by (auto simp: bindM_run unsplit_def sep_def split: sum.splits)
next
  case (snoc c cs)
  then obtain f where f: "fuel = Suc f" "length cs < f" by (cases fuel) auto
  have "fst (parentPrivate_loop f (filepath_Dir (unsplit True (cs @ [c]))) \<omega> u) \<noteq> Inl OutOfFuel" for u
    using snoc f Dir_unsplit [of cs c] by simp
  then show ?case using f by (auto simp: bindM_run split: sum.splits)
qed

lemma length_Join_ge: "[] \<notin> set cs \<Longrightarrow> length cs \<le> length (Join cs [sep])"
proof (induction cs)
  case (Cons c cs)
  then show ?case by (cases cs; cases c) auto
qed simp

text \<open>
  C36: the loop that looks for the parent mount ends for every absolute and clean path, whatever
  the kernel answers: each turn either returns or goes one directory up, and the root is the
  last. (For a relative path the code would not come to an end at the dot directory.)
\<close>

theorem parent_mount_walk_ends:
  assumes "IsAbs path" "Clean path = path"
  shows "fst (rootfsParentMountPrivate path \<omega> t) \<noteq> Inl OutOfFuel"
proof -
  define cs where "cs = clean_comps True (Split sep path)"
  have "path \<noteq> []" using assms(1) by (auto simp: IsAbs_def)
  then have p: "path = unsplit True cs" using assms by (metis Clean_def cs_def)
  have n: "list_all plain_comp cs" using clean_comps_normal [of True] by (simp add: cs_def normal_comps_def)
  have d: "\<forall>d \<in> set cs. sep \<notin> set d" using clean_comps_no_sep by (auto simp: cs_def)
  have "[] \<notin> set cs" using n by (auto simp: list_all_iff)
  from length_Join_ge [OF this] have "length cs < Suc (length path)" by (simp add: p unsplit_def)
  from parentPrivate_returns [OF n d this] show ?thesis by (simp add: rootfsParentMountPrivate_def p)
qed

theorem parent_mount_walk_ends_witness:
  "fst (rootfsParentMountPrivate ''/run/urunc/c1'' (\<lambda>t c. RErr (Errno EINVAL)) []) \<noteq> Inl OutOfFuel"
proof (rule parent_mount_walk_ends)
  show "IsAbs ''/run/urunc/c1''" by (simp add: sep_def)
  show "Clean ''/run/urunc/c1'' = ''/run/urunc/c1''"
    by (simp add: Clean_def clean_comps_def clean_step.simps unsplit_def sep_def)
qed

section \<open>Devices\<close>

definition dev_major :: "nat \<Rightarrow> nat" where
  "dev_major d = d div 256 mod 4096 + d div 2 ^ 44 * 4096"

definition dev_minor :: "nat \<Rightarrow> nat" where
  "dev_minor d = d mod 256 + d div 2 ^ 20 mod 2 ^ 24 * 256"

lemma Mkdev_fields:
  assumes "major < 2 ^ 32" "minor < 2 ^ 32"
  shows "dev_major (Mkdev major minor) = major" "dev_minor (Mkdev major minor) = minor"
proof -
  define a b c d where d: "a = major div 4096" "b = major mod 4096" "c = minor div 256" "d = minor mod 256"
  have bounds: "b < 4096" "d < 256" "c < 2 ^ 24" using assms by (auto simp: d)
  have m: "Mkdev major minor = a * 2 ^ 44 + c * 2 ^ 20 + b * 256 + d" by (simp add: Mkdev_def d)
  define q r where q: "q = r * 4096 + b" "r = a * 2 ^ 24 + c"
  have m': "Mkdev major minor = q * 256 + d" by (simp add: m q)
  have e1: "Mkdev major minor mod 256 = d" and e2: "Mkdev major minor div 256 = q"
    using bounds unfolding m' by simp_all
  have e3: "Mkdev major minor div 256 mod 4096 = b"
    using bounds unfolding e2 q(1) by simp
  have e4: "Mkdev major minor div 2 ^ 20 = r"
  proof -
    have "Mkdev major minor div 2 ^ 20 = Mkdev major minor div 256 div 4096" by (simp add: div_mult2_eq [symmetric])
    then show ?thesis using bounds unfolding e2 q(1) by simp
  qed
  have e5: "Mkdev major minor div 2 ^ 44 = a"
  proof -
    have "Mkdev major minor div 2 ^ 44 = Mkdev major minor div 2 ^ 20 div 2 ^ 24" by (simp add: div_mult2_eq [symmetric])
    then show ?thesis using bounds unfolding e4 q(2) by simp
  qed
  show "dev_major (Mkdev major minor) = major" unfolding dev_major_def e3 e5 by (simp add: d)
  show "dev_minor (Mkdev major minor) = minor" using bounds unfolding dev_minor_def e1 e4 q(2) by simp (simp add: d)
qed

text \<open>
  A device node made in the monitor's root is the host's device: its number decodes to the
  major and minor number of the specification, and its mode is the permission bits of the
  specification with the type of node asked for.
\<close>

theorem device_nodes_are_the_devices:
  assumes "Fs (Mknod p mode d) \<in> set (snd (runM (makeDevNode dst dev ty) \<omega>))"
  shows "p = dst \<and> int (dev_major d) = Dev_Major dev \<and> int (dev_minor d) = Dev_Minor dev
    \<and> (\<exists>m. Dev_FileMode dev = Some m \<and> mode = ty OR m mod 512)"
proof -
  obtain m where m: "Dev_FileMode dev = Some m" "p = dst" "mode = ty OR m mod 512"
      "d = Mkdev (nat (Dev_Major dev)) (nat (Dev_Minor dev))"
    and r: "0 \<le> Dev_Major dev" "Dev_Major dev \<le> MaxUint32" "0 \<le> Dev_Minor dev" "Dev_Minor dev \<le> MaxUint32"
    using assms by (cases "Dev_FileMode dev")
      (auto simp: makeDevNode_def runM_def ptr_def bindM_run call_runs Let_def split: if_splits reply.splits)
  have "nat (Dev_Major dev) < 2 ^ 32" "nat (Dev_Minor dev) < 2 ^ 32" using r by (auto simp: MaxUint32_def)
  from Mkdev_fields [OF this] show ?thesis using m r by simp
qed

theorem device_nodes_are_the_devices_witness:
  "dev_major (Mkdev 10 232) = 10 \<and>
   Fs (Mknod ''/m/dev/kvm'' (8192 OR 432 mod 512) (Mkdev 10 232)) \<in>
     set (snd (runM (makeDevNode ''/m/dev/kvm'' \<lparr>Dev_Path = ''/dev/kvm'', Dev_Type = ''c'', Dev_Major = 10, Dev_Minor = 232,
       Dev_FileMode = Some 432, Dev_UID = Some 0, Dev_GID = Some 0\<rparr> 8192) (\<lambda>_ _. ROk)))"
proof -
  let ?d = "\<lparr>Dev_Path = ''/dev/kvm'', Dev_Type = ''c'', Dev_Major = 10, Dev_Minor = 232,
       Dev_FileMode = Some 432, Dev_UID = Some 0, Dev_GID = Some 0\<rparr>"
  have m: "Fs (Mknod ''/m/dev/kvm'' (8192 OR 432 mod 512) (Mkdev 10 232)) \<in>
     set (snd (runM (makeDevNode ''/m/dev/kvm'' ?d 8192) (\<lambda>_ _. ROk)))"
    by (simp add: makeDevNode_def runM_def ptr_def bindM_run call_runs Let_def MaxUint32_def MaxInt_def Mkdev_def)
  show ?thesis using device_nodes_are_the_devices [OF m] m by simp
qed

end
