(* ===== verification/Blocks.thy ===== *)
theory Blocks
  imports Mounts Guests
begin

text \<open>
  Block devices, \<open>pkg/unikontainers/block.go\<close>: which mount of the host is a block device that a
  guest can have, the files a guest boots from, loop devices, unmounting, and the volumes that are
  taken from the host at create and given back at delete.
\<close>

section \<open>Mounts of the host\<close>

definition blockOf :: "string \<Rightarrow> mount_entry \<Rightarrow> BlockDevParams" where
  "blockOf path m =
     zeroBlock\<lparr>Blk_Source := mi_Source m, Blk_FsType := mi_FSType m, Blk_MountPoint := path,
       Blk_MountOptions := mi_Options m, Blk_ID := []\<rparr>"

text \<open>One turn of the loop: the last entry mounted at the path, and the sources of all others.\<close>

definition mountInfoStep ::
    "string \<Rightarrow> mount_entry \<Rightarrow> BlockDevParams \<times> string set \<Rightarrow> BlockDevParams \<times> string set" where
  "mountInfoStep path m = (\<lambda>(blockDev, sources).
     if mi_Mountpoint m = path then (blockOf path m, sources)
     else (blockDev, if mi_FSType m \<noteq> mi_Source m then insert (mi_Source m) sources else sources))"

definition findMountInfo :: "mount_entry list \<Rightarrow> string \<Rightarrow> err + BlockDevParams" where
  "findMountInfo mountInfo path =
     (case fold (mountInfoStep path) mountInfo (zeroBlock, {}) of
        (blockDev, nonSpecialSources) \<Rightarrow>
          (if Blk_Source blockDev = [] then Inl ErrMountpoint
           else if Blk_Source blockDev \<in> nonSpecialSources then Inl ErrMountpoint
           else Inr blockDev))"

definition getMountInfo :: "string \<Rightarrow> BlockDevParams prog" where
  "getMountInfo path =
     bindM (wrapM ''failed to read mountinfo: %w'' [] (callMounts (Mnt GetMounts)))
       (\<lambda>mountInfo. liftM (findMountInfo mountInfo path))"

section \<open>Boot files\<close>

definition extractFile :: "string \<Rightarrow> string \<Rightarrow> string \<Rightarrow> unit prog" where
  "extractFile rootfsPath newRootfsPath file =
     bindM (callS (Fs (SecureJoin rootfsPath file))) (\<lambda>currentPath.
     bindM (callS (Fs (SecureJoin newRootfsPath file))) (\<lambda>targetPath.
       wrapM ''could not move %s to %s: %w'' [currentPath, targetPath] (moveFile currentPath targetPath)))"

definition extractBootFiles :: "string \<Rightarrow> string \<Rightarrow> string \<Rightarrow> string \<Rightarrow> string \<Rightarrow> unit prog" where
  "extractBootFiles rootfsPath newRootfsPath unikernel uruncJSON initrd =
     bindM (extractFile rootfsPath newRootfsPath unikernel) (\<lambda>_.
     bindM (if initrd \<noteq> [] then extractFile rootfsPath newRootfsPath initrd else retM ()) (\<lambda>_.
       extractFile rootfsPath newRootfsPath uruncJSON))"

text \<open>Sources that are no regular files are left out; any other error ends the loop.\<close>

definition copyMountfiles :: "string \<Rightarrow> OciMount list \<Rightarrow> unit prog" where
  "copyMountfiles targetPath mounts =
     forM mounts (\<lambda>m.
       bindM (tryM (fileFromHost targetPath (M_Source m) (M_Destination m))) (\<lambda>r.
         case r of
           Inr _ \<Rightarrow> retM ()
         | Inl e \<Rightarrow> (if errors_Is e ErrNotRegularFile then retM () else failM e)))"

definition handleExplicitBlockImage :: "string \<Rightarrow> string \<Rightarrow> err + BlockDevParams" where
  "handleExplicitBlockImage blockImg mountPoint =
     (if blockImg = [] then Inr zeroBlock
      else if mountPoint = [] then Inl (Errorf ''annotation for block device was set without a mountpoint'' [])
      else Inr (zeroBlock\<lparr>Blk_Source := blockImg, Blk_MountPoint := mountPoint,
                  Blk_ID := (if mountPoint = ''/'' then ''rootfs'' else []), Blk_IsExplicit := True\<rparr>))"

section \<open>Loop devices and unmounting\<close>

definition LO_FLAGS_AUTOCLEAR :: "32 word" where "LO_FLAGS_AUTOCLEAR = 4"

definition autoclearFlags :: "bool \<Rightarrow> 32 word \<Rightarrow> 32 word" where
  "autoclearFlags autoclear flags =
     (if autoclear then flags OR LO_FLAGS_AUTOCLEAR else flags AND NOT LO_FLAGS_AUTOCLEAR)"

definition setLoopAutoclear :: "string \<Rightarrow> bool \<Rightarrow> bool prog" where
  "setLoopAutoclear devPath autoclear =
     bindM (tryM (callStat (Fs (Stat (filepath_Join [''/sys/class/block'', filepath_Base devPath, ''loop'']))))) (\<lambda>r.
       case r of
         Inl e \<Rightarrow> (if os_IsNotExist e then retM False else failM e)
       | Inr _ \<Rightarrow>
           bindM (wrapM ''failed to open %s: %w'' [devPath] (callU (Ird (OpenRdwr devPath)))) (\<lambda>_.
             deferM (callU (Ird (FileClose devPath)))
               (bindM (wrapM ''failed to get the status of %s: %w'' [devPath] (callI (Mnt (LoopStat devPath)))) (\<lambda>info.
                  let flags = word_of_int info
                  in if autoclear = (flags AND LO_FLAGS_AUTOCLEAR \<noteq> 0) then retM False
                     else bindM (wrapM ''failed to set the status of %s: %w'' [devPath]
                            (callU (Mnt (LoopSetFlags devPath (unat (autoclearFlags autoclear flags)))))) (\<lambda>_.
                            retM True)))))"

text \<open>The loop of \<open>unmount\<close>; the code runs it 10 times, 20 ms apart.\<close>

fun unmount_loop :: "nat \<Rightarrow> string \<Rightarrow> unit prog" where
  "unmount_loop 0 target = failM (ErrorfW ''failed to unmount target %s: %w'' [target] (Errno EBUSY))"
| "unmount_loop (Suc n) target =
     bindM (tryM (callU (Mnt (Unmount target 0)))) (\<lambda>r.
       case r of
         Inr _ \<Rightarrow> retM ()
       | Inl e \<Rightarrow>
           (if e = Errno EBUSY then
              bindM (ignoreM (callU (Proc (Sleep 20000000)))) (\<lambda>_. unmount_loop n target)
            else failM e))"

definition unmount :: "string \<Rightarrow> unit prog" where
  "unmount target = unmount_loop 10 target"

section \<open>Volumes\<close>

text \<open>The loop of \<open>getBlockVolumes\<close> from index \<open>i\<close> on.\<close>

fun volumes_loop :: "nat \<Rightarrow> OciMount list \<Rightarrow> Unikernel \<Rightarrow> BlockDevParams list prog" where
  "volumes_loop i [] ukernel = retM []"
| "volumes_loop i (m # ms) ukernel =
     bindM (tryM (getMountInfo (M_Source m))) (\<lambda>r.
       case r of
         Inl e \<Rightarrow> (if errors_Is e ErrMountpoint then volumes_loop (Suc i) ms ukernel else failM e)
       | Inr mInfo \<Rightarrow>
           (if uk_SupportsFS ukernel (Blk_FsType mInfo) then
              bindM (setLoopAutoclear (Blk_Source mInfo) False) (\<lambda>cleared.
              bindM (unmount (Blk_MountPoint mInfo)) (\<lambda>_.
              bindM (volumes_loop (Suc i) ms ukernel) (\<lambda>blkImgs.
                retM (mInfo\<lparr>Blk_LoopAutoclear := cleared, Blk_ID := ''vol'' @ FormatUint i,
                        Blk_HostMountPoint := Blk_MountPoint mInfo, Blk_MountPoint := M_Destination m,
                        Blk_IsExplicit := False\<rparr> # blkImgs))))
            else volumes_loop (Suc i) ms ukernel))"

definition getBlockVolumes :: "OciMount list \<Rightarrow> Unikernel \<Rightarrow> BlockDevParams list prog" where
  "getBlockVolumes mounts ukernel = volumes_loop 0 mounts ukernel"

definition vfsOptionStep :: "string \<Rightarrow> 64 word \<Rightarrow> 64 word" where
  "vfsOptionStep o' flags =
     (case mapVFSFlag o' of
        Inl _ \<Rightarrow> flags
      | Inr (flag, clearFlag) \<Rightarrow> (if clearFlag then flags AND NOT flag else flags OR flag))"

definition restoreVolume :: "BlockDevParams \<Rightarrow> unit prog" where
  "restoreVolume b =
     (if Blk_HostMountPoint b = [] then retM ()
      else bindM (wrapM ''failed to check if %s is a mountpoint: %w'' [Blk_HostMountPoint b]
                    (callB (Mnt (Mounted (Blk_HostMountPoint b))))) (\<lambda>mounted.
        if mounted then retM ()
        else
          let flags = fold vfsOptionStep (Split (CHR '','') (Blk_MountOptions b)) 0
          in bindM (wrapM ''failed to remount %s at %s: %w'' [Blk_Source b, Blk_HostMountPoint b]
                (callU (Mnt (Mount (Blk_Source b) (Blk_HostMountPoint b) (Blk_FsType b) (unat flags) [])))) (\<lambda>_.
               if Blk_LoopAutoclear b then bindM (setLoopAutoclear (Blk_Source b) True) (\<lambda>_. retM ())
               else retM ())))"

definition restoreBlockVolumes :: "BlockDevParams list \<Rightarrow> unit prog" where
  "restoreBlockVolumes blockArgs = forM blockArgs restoreVolume"

fun nodes_loop :: "BlockDevParams list \<Rightarrow> RootfsParams \<Rightarrow> LinuxDevice list prog" where
  "nodes_loop [] rootfs = retM []"
| "nodes_loop (b # bs) rootfs =
     (if Blk_Source b = Rfs_Path rootfs \<and> Rfs_MountedPath rootfs = [] then nodes_loop bs rootfs
      else bindM (deviceFromHost (Blk_Source b)) (\<lambda>bDev.
           bindM (nodes_loop bs rootfs) (\<lambda>blockDevs. retM (bDev # blockDevs))))"

definition blockDevNodes :: "BlockDevParams list \<Rightarrow> RootfsParams \<Rightarrow> LinuxDevice list prog" where
  "blockDevNodes blockArgs rootfs =
     (if Rfs_Type rootfs \<noteq> ''block'' then retM [] else nodes_loop blockArgs rootfs)"

end
