(* ===== verification/Oci_Spec.thy ===== *)
theory Oci_Spec
  imports Urunc_Types Annotations
begin

text \<open>
  What urunc reads of the OCI runtime specification (\<open>specs-go\<close>): the container's specification, its
  state, hooks and namespaces. A pointer that the code compares with nil is an option. The root and
  the process of a specification, which the code uses without asking, are present.
\<close>

record OciUser =
  User_UID :: "32 word"
  User_GID :: "32 word"
  User_AdditionalGids :: "32 word list"

record OciProcess =
  P_Terminal :: bool
  P_User :: OciUser
  P_Args :: "string list"
  P_Env :: "string list"
  P_Cwd :: string
  P_Capabilities :: "OciCaps option"

record OciNamespace =
  Ns_Type :: string
  Ns_Path :: string

text \<open>Of the resources only the memory limit; of the seccomp section only whether it is there.\<close>

record OciLinux =
  L_Namespaces :: "OciNamespace list"
  L_RootfsPropagation :: string
  L_MemoryLimit :: "int option"
  L_Seccomp :: bool
  L_Devices :: "LinuxDevice list"

record OciHook =
  Hk_Path :: string
  Hk_Args :: "string list"
  Hk_Env :: "string list"
  Hk_Timeout :: "int option"

record OciHooks =
  Hs_CreateRuntime :: "OciHook list"
  Hs_CreateContainer :: "OciHook list"
  Hs_StartContainer :: "OciHook list"
  Hs_Poststart :: "OciHook list"
  Hs_Poststop :: "OciHook list"

record OciSpec =
  S_Version :: string
  S_Annotations :: annotations
  S_RootPath :: string
  S_RootReadonly :: bool
  S_Process :: OciProcess
  S_Linux :: "OciLinux option"
  S_Mounts :: "OciMount list"
  S_Hooks :: "OciHooks option"

record OciState =
  St_Version :: string
  St_ID :: string
  St_Status :: string
  St_Pid :: int
  St_Bundle :: string
  St_Annotations :: annotations

definition StateCreating :: string where "StateCreating = ''creating''"
definition StateCreated :: string where "StateCreated = ''created''"
definition StateRunning :: string where "StateRunning = ''running''"

end
