(* ===== verification/Runtime_Utils.thy ===== *)
theory Runtime_Utils
  imports Oci_Spec Host Go_Path Go_Net
begin

text \<open>
  The helpers of \<open>pkg/unikontainers/utils.go\<close>: the specification and the pid file, the queue proxy of
  Knative, namespaces, hooks, processes started beside the monitor, data of QEMU, and the name
  server of the guest. The JSON codecs of the structs that other packages define are arguments.
\<close>

section \<open>Names\<close>

definition configFilename :: string where "configFilename = ''config.json''"
definition stateFilename :: string where "stateFilename = ''state.json''"
definition monitorFilename :: string where "monitorFilename = ''monitor.json''"
definition initPidFilename :: string where "initPidFilename = ''init.pid''"
definition rootfsDirName :: string where "rootfsDirName = ''rootfs''"

section \<open>Files\<close>

definition filepath_Abs :: "string \<Rightarrow> string prog" where
  "filepath_Abs path =
     (if IsAbs path then retM (Clean path)
      else bindM (callS (Proc Getwd)) (\<lambda>wd. retM (filepath_Join [wd, path])))"

definition loadSpec :: "(string \<Rightarrow> err + OciSpec) \<Rightarrow> string \<Rightarrow> OciSpec prog" where
  "loadSpec decSpec bundleDir =
     bindM (wrapM ''failed to find absolute path of bundle: %w'' [] (filepath_Abs bundleDir)) (\<lambda>absBundleDir.
     bindM (wrapM ''failed to read specification file: %w'' []
              (callS (Fs (ReadFile (filepath_Join [absBundleDir, configFilename]))))) (\<lambda>specData.
       wrapM ''failed to parse specification json: %w'' [] (liftM (decSpec specData))))"

definition writePidFile :: "string \<Rightarrow> int \<Rightarrow> unit prog" where
  "writePidFile path pid =
     (let tmpName = filepath_Join [filepath_Dir path, ''.'' @ filepath_Base path]
      in bindM (callU (Fs (OpenExcl tmpName))) (\<lambda>_.
         bindM (tryM (callU (Fs (WriteString tmpName (Itoa pid))))) (\<lambda>r.
         bindM (ignoreM (callU (Fs (CloseFile tmpName)))) (\<lambda>_.
           case r of Inl e \<Rightarrow> failM e | Inr _ \<Rightarrow> callU (Fs (Rename tmpName path))))))"

definition resolveAgainstBase :: "string \<Rightarrow> string \<Rightarrow> string prog" where
  "resolveAgainstBase base path =
     (if IsAbs path then retM path
      else bindM (if IsAbs base then retM base
                  else wrapM ''could not get absolute path of %s: %w'' [base] (filepath_Abs base))
             (\<lambda>baseAbs. retM (filepath_Join [baseAbs, path])))"

definition fileExists :: "string \<Rightarrow> bool prog" where
  "fileExists fpath =
     bindM (tryM (callStat (Fs (Stat fpath)))) (\<lambda>r. case r of Inl _ \<Rightarrow> retM False | Inr _ \<Rightarrow> retM True)"

text \<open>
  The error of a failed \<open>Readlink\<close> names the path that the call has just overwritten, which is empty.
\<close>

definition findQemuDataDir :: "string \<Rightarrow> string prog" where
  "findQemuDataDir basename =
     (let qdPath = filepath_Join [''/usr/local/share/'', basename]
      in bindM (tryM (callStat (Fs (Lstat qdPath)))) (\<lambda>r.
           case r of
             Inl e \<Rightarrow>
               (if \<not> os_IsNotExist e then failM (ErrorfW ''failed to get info of %s: %w'' [qdPath] e)
                else retM (filepath_Join [''/usr/share/'', basename]))
           | Inr info \<Rightarrow>
               (if st_type info = SymlinkT
                then wrapM ''failed to get target of %s %w'' [[]] (callS (Fs (Readlink qdPath)))
                else retM qdPath)))"

section \<open>The queue proxy\<close>

text \<open>
  The regular expression for the host of a readiness probe: what is left behind a match at the
  start of a string, and the replacement of every match from left to right.
\<close>

definition re_space :: "char \<Rightarrow> bool" where
  "re_space c = (byte c \<in> {9, 10, 12, 13, 32})"

definition quote :: char where "quote = CHR 0x22"

definition hostKey :: string where "hostKey = [quote] @ ''host'' @ [quote]"

definition match_host :: "string \<Rightarrow> string option" where
  "match_host s =
     (if \<not> HasPrefix s hostKey then None
      else case dropWhile re_space (drop (length hostKey) s) of
        [] \<Rightarrow> None
      | c # r \<Rightarrow>
          (if c \<noteq> CHR '':'' then None
           else case dropWhile re_space r of
             [] \<Rightarrow> None
           | q # v \<Rightarrow>
               (if q \<noteq> quote \<or> v = [] \<or> hd v = quote then None
                else case dropWhile (\<lambda>x. x \<noteq> quote) v of [] \<Rightarrow> None | _ # rest \<Rightarrow> Some rest)))"

lemma match_host_shorter: "match_host s = Some rest \<Longrightarrow> length rest < length s"
proof -
  assume m: "match_host s = Some rest"
  define a where "a = dropWhile re_space (drop (length hostKey) s)"
  have a: "length a \<le> length s" unfolding a_def
    by (rule le_trans [OF length_dropWhile_le]) simp
  from m obtain c r where c: "a = c # r" by (auto simp: match_host_def a_def split: if_splits list.splits)
  from m c obtain q v where q: "dropWhile re_space r = q # v"
    by (auto simp: match_host_def a_def [symmetric] split: if_splits list.splits)
  have "length v < length r" using length_dropWhile_le [of re_space r] q by simp
  moreover from m c q obtain d where "dropWhile (\<lambda>x. x \<noteq> quote) v = d # rest"
    by (auto simp: match_host_def a_def [symmetric] split: if_splits list.splits)
  then have "length rest < length v" using length_dropWhile_le [of "\<lambda>x. x \<noteq> quote" v] by simp
  ultimately show ?thesis using a c by simp
qed

function replace_host :: "string \<Rightarrow> string \<Rightarrow> string" where
  "replace_host new [] = []"
| "replace_host new (c # s) =
     (case match_host (c # s) of
        Some rest \<Rightarrow> new @ replace_host new rest
      | None \<Rightarrow> c # replace_host new s)"
  by pat_completeness auto
termination
  by (relation "measure (length \<circ> snd)") (auto dest: match_host_shorter)

definition probePrefix :: string where "probePrefix = ''SERVING_READINESS_PROBE''"

definition redirectedHost :: string where
  "redirectedHost = hostKey @ '':'' @ [quote] @ QueueProxyRedirectIP @ [quote]"

text \<open>\<open>remove\<close>: the list without its element at an index in range.\<close>

definition remove_at :: "'a list \<Rightarrow> nat \<Rightarrow> 'a list" where
  "remove_at s i = take i s @ drop (i + 1) s"

text \<open>The environment without the first readiness probe, and the rewritten probe (empty if none).\<close>

fun takeProbe :: "string list \<Rightarrow> nat \<Rightarrow> string list \<Rightarrow> string list \<times> string" where
  "takeProbe env i [] = (env, [])"
| "takeProbe env i (envVar # rest) =
     (if HasPrefix envVar probePrefix then (remove_at env i, replace_host redirectedHost envVar)
      else takeProbe env (i + 1) rest)"

definition queueProxyEnv :: "string list \<Rightarrow> string list" where
  "queueProxyEnv env =
     (case takeProbe env 0 env of (env', probe) \<Rightarrow> env' @ [probe, ''REDIRECT_IP='' @ QueueProxyRedirectIP])"

definition handleQueueProxy :: "(OciSpec \<Rightarrow> err + string) \<Rightarrow> OciSpec \<Rightarrow> string \<Rightarrow> unit prog" where
  "handleQueueProxy encSpec spec configFile =
     (let spec' = spec\<lparr>S_Process := (S_Process spec)\<lparr>P_Env := queueProxyEnv (P_Env (S_Process spec))\<rparr>\<rparr>
      in bindM (mapErrM (ErrorfV ''error getting file info: %v'' []) (callStat (Fs (Stat configFile)))) (\<lambda>fileInfo.
         bindM (mapErrM (ErrorfV ''error marshalling JSON: %v'' []) (liftM (encSpec spec'))) (\<lambda>updatedData.
           mapErrM (ErrorfV ''error writing to file: %v'' [])
             (callU (Fs (WriteFile configFile updatedData (st_mode fileInfo)))))))"

section \<open>Namespaces\<close>

definition checkValidNsPath :: "string \<Rightarrow> unit prog" where
  "checkValidNsPath path =
     bindM (tryM (callStat (Fs (Lstat path)))) (\<lambda>r.
       case r of
         Inl _ \<Rightarrow> failM ErrNotExistingNS
       | Inr _ \<Rightarrow>
           (if CHR '','' \<in> set path then failM (Errorf ''invalid namespace path %s'' [path]) else retM ()))"

fun findNS :: "OciNamespace list \<Rightarrow> string \<Rightarrow> string prog" where
  "findNS [] nsType = failM (Errorf ''namespace %s was not found'' [nsType])"
| "findNS (ns # namespaces) nsType =
     (if Ns_Type ns = nsType then bindM (checkValidNsPath (Ns_Path ns)) (\<lambda>_. retM (Ns_Path ns))
      else findNS namespaces nsType)"

section \<open>Processes\<close>

definition spawnProcess :: "string list \<Rightarrow> unit prog" where
  "spawnProcess argv =
     (if argv = [] then retM ()
      else wrapM ''failed to start %s: %w'' [hd argv] (callU (Proc (StartProc argv))))"

definition executeHook :: "OciHook \<Rightarrow> string \<Rightarrow> unit prog" where
  "executeHook hook state =
     (let timeout = (case Hk_Timeout hook of None \<Rightarrow> None | Some t \<Rightarrow> if t > 0 then Some t else None);
          args = (if length (Hk_Args hook) > 0 then drop 1 (Hk_Args hook) else Hk_Args hook)
      in bindM (callRun (Proc (RunHook (Hk_Path hook) args (Hk_Env hook) state timeout))) (\<lambda>(stdout, stderr, err, _).
           case err of
             None \<Rightarrow> retM ()
           | Some e \<Rightarrow> failM (ErrorfW ''failed hook: %s stdout: %s stderr %s error: %w'' [Hk_Path hook, stdout, stderr] e)))"

definition convertUint32ToIntSlice :: "32 word list \<Rightarrow> nat list" where
  "convertUint32ToIntSlice valSlice = map unat valSlice"

section \<open>The name server\<close>

text \<open>The last mount at the path, which is the file the container sees.\<close>

definition resolvConfMount :: "OciMount list \<Rightarrow> OciMount option" where
  "resolvConfMount mounts = find (\<lambda>m. Clean (M_Destination m) = ResolvConfPath) (rev mounts)"

definition usable_nameserver :: "string \<Rightarrow> string option" where
  "usable_nameserver ln =
     (case Fields ln of
        kw # field # _ \<Rightarrow>
          (let addr = To4 (ParseIP field)
           in if kw = ''nameserver'' \<and> addr \<noteq> [] \<and> hd addr \<noteq> 127 then Some (dotted addr) else None)
      | _ \<Rightarrow> None)"

fun first_nameserver :: "string list \<Rightarrow> string" where
  "first_nameserver [] = []"
| "first_nameserver (l # ls) =
     (case usable_nameserver l of Some s \<Rightarrow> s | None \<Rightarrow> first_nameserver ls)"

definition getDNSServer :: "OciMount list \<Rightarrow> string prog" where
  "getDNSServer mounts =
     (case resolvConfMount mounts of
        None \<Rightarrow> retM []
      | Some m \<Rightarrow>
          bindM (tryM (callS (Fs (ReadFile (M_Source m))))) (\<lambda>r.
            case r of Inl _ \<Rightarrow> retM [] | Inr data \<Rightarrow> retM (first_nameserver (Split NL data))))"

end
