(* ===== verification/Rootfs.thy ===== *)
theory Rootfs
  imports Blocks Runtime_Utils Vmms Urunc_Config Initrd
begin

text \<open>
  The root file system of the guest: its choice (\<open>rootfsSelector\<close> of \<open>rootfs.go\<close> and \<open>ChooseRootfs\<close> of
  \<open>unikontainers.go\<close>) and the builders behind the interface \<open>rootfsBuilder\<close> (\<open>rootfs.go\<close>,
  \<open>initrd_rootfs.go\<close>, \<open>shared_fs.go\<close>, \<open>block.go\<close>).
\<close>

section \<open>Relative paths\<close>

text \<open>\<open>filepath.Rel\<close> on the components of the two cleaned paths.\<close>

definition path_words :: "string \<Rightarrow> string list" where
  "path_words p = (if p = [] then [] else if p = ''/'' then [[]] else Split sep p)"

fun strip_common :: "'a list \<Rightarrow> 'a list \<Rightarrow> 'a list \<times> 'a list" where
  "strip_common (b # bs) (t # ts) = (if b = t then strip_common bs ts else (b # bs, t # ts))"
| "strip_common bs ts = (bs, ts)"

definition Rel :: "string \<Rightarrow> string \<Rightarrow> err + string" where
  "Rel basepath targpath =
     (let b = Clean basepath; t = Clean targpath; b' = (if b = ''.'' then [] else b)
      in if b = t then Inr ''.''
         else if IsAbs b' \<noteq> IsAbs t then Inl (Errorf ''Rel: can't make %s relative to %s'' [targpath, basepath])
         else case strip_common (path_words b') (path_words t) of
           (bs, ts) \<Rightarrow>
             (if bs \<noteq> [] \<and> ts \<noteq> [] \<and> hd bs = ''..''
              then Inl (Errorf ''Rel: can't make %s relative to %s'' [targpath, basepath])
              else Inr (Join (map (\<lambda>_. ''..'') bs @ ts) [sep])))"

section \<open>Choosing the root file system\<close>

record rootfsSelector =
  rs_bundle :: string
  rs_cntrRootfs :: string
  rs_annot :: annotations
  rs_unikernel :: Unikernel
  rs_vmm :: VMM
  rs_vfsdPath :: string

definition newRootfsResult :: "string \<Rightarrow> string \<Rightarrow> string \<Rightarrow> RootfsParams" where
  "newRootfsResult rootfsType path mountedPath =
     zeroRootfs\<lparr>Rfs_Type := rootfsType, Rfs_Path := path, Rfs_MountedPath := mountedPath\<rparr>"

definition tryInitrd :: "rootfsSelector \<Rightarrow> RootfsParams option" where
  "tryInitrd rs =
     (let initrdPath = get (rs_annot rs) annotInitrd
      in if initrdPath = [] then None
         else Some (newRootfsResult ''initrd'' initrdPath (rs_cntrRootfs rs)))"

definition tryExplicitBlock :: "rootfsSelector \<Rightarrow> RootfsParams option" where
  "tryExplicitBlock rs =
     (let blockPath = get (rs_annot rs) annotBlock; blockMntPoint = get (rs_annot rs) annotBlockMntPoint
      in if blockPath = [] \<or> blockMntPoint \<noteq> ''/'' \<or> \<not> uk_SupportsBlock (rs_unikernel rs) then None
         else Some (newRootfsResult ''block'' blockPath []))"

definition shouldMountContainerRootfs :: "rootfsSelector \<Rightarrow> bool" where
  "shouldMountContainerRootfs rs =
     (let annotValue = get (rs_annot rs) annotMountRootfs
      in if annotValue = [] then False
         else case ParseBool annotValue of None \<Rightarrow> False | Some shouldMount \<Rightarrow> shouldMount)"

definition tryContainerBlockRootfs :: "rootfsSelector \<Rightarrow> RootfsParams option prog" where
  "tryContainerBlockRootfs rs =
     (if \<not> uk_SupportsBlock (rs_unikernel rs) then retM None
      else bindM (tryM (getMountInfo (rs_cntrRootfs rs))) (\<lambda>r.
        case r of
          Inl _ \<Rightarrow> retM None
        | Inr rootFsDevice \<Rightarrow>
            (if \<not> uk_SupportsFS (rs_unikernel rs) (Blk_FsType rootFsDevice) then retM None
             else retM (Some (newRootfsResult ''block'' (Blk_Source rootFsDevice) (rs_cntrRootfs rs))))))"

definition tryVirtiofs :: "rootfsSelector \<Rightarrow> RootfsParams option prog" where
  "tryVirtiofs rs =
     (if \<not> uk_SupportsFS (rs_unikernel rs) ''virtiofs'' then retM None
      else if \<not> vmm_SupportsSharedfs (rs_vmm rs) ''virtio'' then retM None
      else bindM (fileExists (rs_vfsdPath rs)) (\<lambda>there.
        if \<not> there then retM None
        else retM (Some (newRootfsResult ''virtiofs'' (rs_cntrRootfs rs) (rs_cntrRootfs rs)))))"

definition try9pfs :: "rootfsSelector \<Rightarrow> RootfsParams option" where
  "try9pfs rs =
     (if \<not> uk_SupportsFS (rs_unikernel rs) ''9pfs'' then None
      else if \<not> vmm_SupportsSharedfs (rs_vmm rs) ''9p'' then None
      else Some (newRootfsResult ''9pfs'' (rs_cntrRootfs rs) (rs_cntrRootfs rs)))"

definition tryContainerSharedFS :: "rootfsSelector \<Rightarrow> RootfsParams option prog" where
  "tryContainerSharedFS rs =
     bindM (tryVirtiofs rs) (\<lambda>r. case r of Some result \<Rightarrow> retM (Some result) | None \<Rightarrow> retM (try9pfs rs))"

definition tryContainerRootfs :: "rootfsSelector \<Rightarrow> RootfsParams option prog" where
  "tryContainerRootfs rs =
     (if \<not> shouldMountContainerRootfs rs then retM None
      else bindM (tryContainerBlockRootfs rs) (\<lambda>r.
        case r of Some result \<Rightarrow> retM (Some result) | None \<Rightarrow> tryContainerSharedFS rs))"

definition switchMonRootfs :: "RootfsParams \<Rightarrow> string \<Rightarrow> RootfsParams" where
  "switchMonRootfs res bundle =
     res\<lparr>Rfs_MonRootfs := filepath_Join [Clean bundle, MonitorRootfsDirName]\<rparr>"

text \<open>The cascade behind the set-up of the selector, by priority.\<close>

definition selectRootfs :: "rootfsSelector \<Rightarrow> RootfsParams prog" where
  "selectRootfs rs =
     (case tryInitrd rs of
        Some result \<Rightarrow> retM (switchMonRootfs result (rs_bundle rs))
      | None \<Rightarrow>
          (case tryExplicitBlock rs of
             Some result \<Rightarrow> retM (switchMonRootfs result (rs_bundle rs))
           | None \<Rightarrow>
               bindM (tryContainerRootfs rs) (\<lambda>r.
                 case r of
                   Some result \<Rightarrow> retM (switchMonRootfs result (rs_bundle rs))
                 | None \<Rightarrow>
                     (if shouldMountContainerRootfs rs then
                        failM (Errorf ''can not use the container rootfs as the sandbox's guest rootfs through block or shared-fs'' [])
                      else retM (switchMonRootfs (newRootfsResult [] [] (rs_cntrRootfs rs)) (rs_bundle rs))))))"

definition ChooseRootfs ::
    "goarch \<Rightarrow> string \<Rightarrow> string \<Rightarrow> annotations \<Rightarrow> UruncConfig option \<Rightarrow> RootfsParams prog" where
  "ChooseRootfs arch bundle specRoot annot cfg =
     (let bundleDir = Clean bundle
      in bindM (resolveAgainstBase bundleDir (Clean specRoot)) (\<lambda>rootfsDir.
         case cfg of
           None \<Rightarrow> failM (Errorf ''urunc config is required for guest rootfs selection'' [])
         | Some cfg \<Rightarrow>
             bindM (liftM (New_unikernel (get annot annotType))) (\<lambda>unikernel.
             bindM (NewVMM arch (get annot annotHypervisor) (Cfg_Monitors cfg)) (\<lambda>vmm.
               selectRootfs \<lparr>rs_bundle = bundleDir, rs_cntrRootfs = rootfsDir, rs_annot = annot,
                 rs_unikernel = unikernel, rs_vmm = vmm,
                 rs_vfsdPath = Xb_Path (binOf (Cfg_ExtraBins cfg) ''virtiofsd'')\<rparr>))))"

section \<open>Builders\<close>

record noRootfs =
  nr_containerRootfsPath :: string
  nr_annotBlockPath :: string
  nr_annotBlockMountPoint :: string

record initrdRootfs =
  ir_mounts :: "OciMount list"
  ir_mountedPath :: string
  ir_initrdPath :: string
  ir_guestType :: string

record sharedfsRootfs =
  sr_mounts :: "OciMount list"
  sr_vfsdConfig :: ExtraBinConfig
  sr_sharedPath :: string
  sr_mountedPath :: string
  sr_sfsType :: string
  sr_memory :: "64 word"

record blockRootfs =
  br_mounts :: "OciMount list"
  br_monRootfs :: string
  br_mountedPath :: string
  br_containerRootfs :: string
  br_path :: string
  br_kernelPath :: string
  br_initrdPath :: string
  br_uruncJSONPath :: string
  br_guestType :: string
  br_guest :: Unikernel

definition tmpfsSizeForNoRootfs :: string where "tmpfsSizeForNoRootfs = ''65536k''"
definition tmpfsSizeForInitrdRootfs :: string where "tmpfsSizeForInitrdRootfs = ''65536k''"
definition tmpfsSizeFor9pfsRootfs :: string where "tmpfsSizeFor9pfsRootfs = ''65536k''"
definition tmpfsSizeForBlockRootfs :: string where "tmpfsSizeForBlockRootfs = ''65536k''"

text \<open>The mount of the container's image in the monitor's root, in three builders.\<close>

definition imageMount :: "string \<Rightarrow> bool \<Rightarrow> OciMount" where
  "imageMount path ro = bindMount path ContainerRootfsMountPath True ro [''nodev'', ''nosuid'', ''noexec'']"

definition noRootfs_getMounts :: "noRootfs \<Rightarrow> OciMount list" where
  "noRootfs_getMounts n =
     (let readOnly = (nr_annotBlockPath n = [] \<or> nr_annotBlockMountPoint n = [])
      in [imageMount (nr_containerRootfsPath n) readOnly, tmpfsMount ''/tmp'' tmpfsSizeForNoRootfs])"

definition noRootfs_getBlockDevs :: "noRootfs \<Rightarrow> err + BlockDevParams list" where
  "noRootfs_getBlockDevs n =
     bindE (handleExplicitBlockImage (nr_annotBlockPath n) (nr_annotBlockMountPoint n)) (\<lambda>blk.
       Inr (if Blk_Source blk \<noteq> [] \<and> Blk_MountPoint blk \<noteq> ''/'' then [blk\<lparr>Blk_ID := ''annot_vol''\<rparr>] else []))"

definition initrdRootfs_postSetup :: "nat \<Rightarrow> initrdRootfs \<Rightarrow> unit prog" where
  "initrdRootfs_postSetup fuel i =
     bindM (wrapM ''failed to resolve guest's initrd path: %w'' []
              (callS (Fs (SecureJoin (ir_mountedPath i) (ir_initrdPath i))))) (\<lambda>initrdHostFullPath.
       wrapM ''failed to update guest's initrd: %w'' []
         (if ir_guestType i = UnikraftUnikernel then MergeFileMountsIntoInitrd fuel initrdHostFullPath (ir_mounts i)
          else CopyFileMountsToInitrd initrdHostFullPath (ir_mounts i)))"

definition initrdRootfs_getMounts :: "initrdRootfs \<Rightarrow> OciMount list" where
  "initrdRootfs_getMounts i =
     [imageMount (ir_mountedPath i) False, tmpfsMount ''/tmp'' tmpfsSizeForInitrdRootfs]"

definition chooseTmpfsSize :: "string \<Rightarrow> 64 word \<Rightarrow> string" where
  "chooseTmpfsSize sfsType mem =
     (if sfsType = ''9pfs'' then tmpfsSizeFor9pfsRootfs
      else BytesToStringMB (mem + 1024 * 1024) @ ''m'')"

definition rebaseBindMounts :: "string \<Rightarrow> OciMount list \<Rightarrow> OciMount list prog" where
  "rebaseBindMounts containerRootfs mounts =
     mapM (\<lambda>m.
       bindM (callS (Fs (SecureJoin containerRootfs (M_Destination m)))) (\<lambda>resolved.
       bindM (liftM (Rel containerRootfs resolved)) (\<lambda>rel.
         retM \<lparr>M_Destination = filepath_Join [ContainerRootfsMountPath, rel], M_Type = ''bind'',
               M_Source = M_Source m, M_Options = M_Options m\<rparr>))) mounts"

definition sharedfsRootfs_getMounts :: "sharedfsRootfs \<Rightarrow> OciMount list prog" where
  "sharedfsRootfs_getMounts s =
     (let vfsd = (if sr_sfsType s = ''virtiofs''
                  then [bindMount (Xb_Path (sr_vfsdConfig s)) (Xb_Path (sr_vfsdConfig s)) True True []] else []);
          tmp = tmpfsMount ''/tmp'' (chooseTmpfsSize (sr_sfsType s) (sr_memory s))
      in bindM (rebaseBindMounts (sr_mountedPath s) (sr_mounts s)) (\<lambda>bindMounts.
           retM ([imageMount (sr_mountedPath s) False] @ vfsd @ [tmp] @ bindMounts)))"

definition sharedfsRootfs_preStartCmd :: "sharedfsRootfs \<Rightarrow> string list" where
  "sharedfsRootfs_preStartCmd s =
     (if sr_sfsType s = ''9pfs'' then []
      else [Xb_Path (sr_vfsdConfig s), ''--socket-path=/tmp/vhostqemu'', ''--shared-dir'', sr_sharedPath s]
        @ (if Xb_Options (sr_vfsdConfig s) \<noteq> [] then Fields (Xb_Options (sr_vfsdConfig s)) else []))"

definition blockRootfs_preSetup :: "blockRootfs \<Rightarrow> unit prog" where
  "blockRootfs_preSetup b =
     (if br_mountedPath b = [] then retM ()
      else bindM (wrapM ''failed to copy files from mount list: %w'' []
                    (copyMountfiles (br_mountedPath b) (br_mounts b))) (\<lambda>_.
           bindM (wrapM ''failed to extract boot files from rootfs: %w'' []
                    (extractBootFiles (br_mountedPath b)
                      (filepath_Join [br_monRootfs b, ContainerRootfsMountPath])
                      (br_kernelPath b) (br_uruncJSONPath b) (br_initrdPath b))) (\<lambda>_.
             wrapM ''failed to unmount rootfs: %w'' [] (unmount (br_mountedPath b)))))"

definition blockRootfs_getMounts :: "blockRootfs \<Rightarrow> OciMount list" where
  "blockRootfs_getMounts b =
     [tmpfsMount ''/tmp'' tmpfsSizeForBlockRootfs]
     @ (if br_mountedPath b = [] then [imageMount (br_containerRootfs b) False] else [])"

definition blockRootfs_getBlockDevs :: "blockRootfs \<Rightarrow> BlockDevParams list prog" where
  "blockRootfs_getBlockDevs b =
     (let rootfsBlock = zeroBlock\<lparr>Blk_Source := br_path b,
            Blk_MountPoint := (if br_guestType b = ''rumprun'' then ''/data'' else ''/''),
            Blk_ID := ''rootfs'', Blk_IsExplicit := (br_mountedPath b = [])\<rparr>
      in bindM (getBlockVolumes (br_mounts b) (br_guest b)) (\<lambda>blockFromMounts.
           retM (rootfsBlock # blockFromMounts)))"

section \<open>The interface\<close>

datatype rootfsBuilder =
    BNone noRootfs | BInitrd initrdRootfs | BShared sharedfsRootfs | BBlock blockRootfs

fun rb_preSetup :: "rootfsBuilder \<Rightarrow> unit prog" where
  "rb_preSetup (BBlock b) = blockRootfs_preSetup b"
| "rb_preSetup (BNone n) = retM ()"
| "rb_preSetup (BInitrd i) = retM ()"
| "rb_preSetup (BShared s) = retM ()"

fun rb_postSetup :: "nat \<Rightarrow> rootfsBuilder \<Rightarrow> unit prog" where
  "rb_postSetup fuel (BInitrd i) = initrdRootfs_postSetup fuel i"
| "rb_postSetup fuel (BNone n) = retM ()"
| "rb_postSetup fuel (BShared s) = retM ()"
| "rb_postSetup fuel (BBlock b) = retM ()"

fun rb_getMounts :: "rootfsBuilder \<Rightarrow> OciMount list prog" where
  "rb_getMounts (BNone n) = retM (noRootfs_getMounts n)"
| "rb_getMounts (BInitrd i) = retM (initrdRootfs_getMounts i)"
| "rb_getMounts (BShared s) = sharedfsRootfs_getMounts s"
| "rb_getMounts (BBlock b) = retM (blockRootfs_getMounts b)"

fun rb_getBlockDevs :: "rootfsBuilder \<Rightarrow> BlockDevParams list prog" where
  "rb_getBlockDevs (BNone n) = liftM (noRootfs_getBlockDevs n)"
| "rb_getBlockDevs (BInitrd i) = retM []"
| "rb_getBlockDevs (BShared s) = retM []"
| "rb_getBlockDevs (BBlock b) = blockRootfs_getBlockDevs b"

fun rb_getSharedDirs :: "rootfsBuilder \<Rightarrow> SharedfsParams" where
  "rb_getSharedDirs (BShared s) = \<lparr>Sfs_Type = sr_sfsType s, Sfs_Path = ContainerRootfsMountPath\<rparr>"
| "rb_getSharedDirs (BNone n) = zeroSharedfs"
| "rb_getSharedDirs (BInitrd i) = zeroSharedfs"
| "rb_getSharedDirs (BBlock b) = zeroSharedfs"

fun rb_preStartCmd :: "rootfsBuilder \<Rightarrow> string list" where
  "rb_preStartCmd (BShared s) = sharedfsRootfs_preStartCmd s"
| "rb_preStartCmd (BNone n) = []"
| "rb_preStartCmd (BInitrd i) = []"
| "rb_preStartCmd (BBlock b) = []"

text \<open>
  The builder of a selected root file system. Of the container it reads the mounts of the
  specification, the annotations of the state, and the configuration.
\<close>

definition newRootfsBuilder ::
    "OciSpec \<Rightarrow> annotations \<Rightarrow> UruncConfig \<Rightarrow> string \<Rightarrow> RootfsParams \<Rightarrow> Unikernel \<Rightarrow> string \<Rightarrow> string
      \<Rightarrow> 64 word \<Rightarrow> rootfsBuilder prog" where
  "newRootfsBuilder spec annot cfg containerRootfs rootfsParams unikernel unikernelPath initrdPath memory =
     bindM (if Rfs_Type rootfsParams \<in> {''block'', ''initrd'', ''virtiofs'', ''9pfs''}
            then onlyBindMounts (S_Mounts spec) else retM []) (\<lambda>mounts.
       if Rfs_Type rootfsParams = ''block'' then
         retM (BBlock \<lparr>br_mounts = mounts, br_monRootfs = Rfs_MonRootfs rootfsParams,
           br_mountedPath = Rfs_MountedPath rootfsParams, br_containerRootfs = containerRootfs,
           br_path = Rfs_Path rootfsParams, br_kernelPath = unikernelPath, br_initrdPath = initrdPath,
           br_uruncJSONPath = uruncJSONFilename, br_guestType = get annot annotType, br_guest = unikernel\<rparr>)
       else if Rfs_Type rootfsParams = ''initrd'' then
         retM (BInitrd \<lparr>ir_mounts = mounts, ir_mountedPath = Rfs_MountedPath rootfsParams,
           ir_initrdPath = Rfs_Path rootfsParams, ir_guestType = get annot annotType\<rparr>)
       else if Rfs_Type rootfsParams \<in> {''virtiofs'', ''9pfs''} then
         retM (BShared \<lparr>sr_mounts = mounts, sr_vfsdConfig = binOf (Cfg_ExtraBins cfg) ''virtiofsd'',
           sr_sharedPath = ContainerRootfsMountPath, sr_mountedPath = Rfs_MountedPath rootfsParams,
           sr_sfsType = Rfs_Type rootfsParams, sr_memory = memory\<rparr>)
       else
         retM (BNone \<lparr>nr_containerRootfsPath = Rfs_MountedPath rootfsParams,
           nr_annotBlockPath = get annot annotBlock, nr_annotBlockMountPoint = get annot annotBlockMntPoint\<rparr>))"

end
