(* ===== verification/Monitor_Env.thy ===== *)
theory Monitor_Env
  imports Rootfs Go_Json Vaccel_Address
begin

text \<open>
  The environment the monitor runs in: the mounts and devices of its root file system (\<open>rootfs.go\<close>,
  \<open>getMonitorResources\<close> of \<open>unikontainers.go\<close>), the change of the root, and vAccel (\<open>vaccel.go\<close>).
\<close>

section \<open>Mounts and devices\<close>

definition procMount :: OciMount where
  "procMount = \<lparr>M_Destination = ''/proc'', M_Type = ''proc'', M_Source = ''proc'', M_Options = []\<rparr>"

definition devMount :: OciMount where
  "devMount = \<lparr>M_Destination = ''/dev'', M_Type = ''tmpfs'', M_Source = ''tmpfs'',
     M_Options = [''nosuid'', ''strictatime'', ''mode=755'', ''size=65536k'', ''private'']\<rparr>"

definition devPtsMount :: OciMount where
  "devPtsMount = \<lparr>M_Destination = ''/dev/pts'', M_Type = ''devpts'', M_Source = ''devpts'',
     M_Options = [''nosuid'', ''noexec'', ''newinstance'', ''ptmxmode=0666'', ''mode=0620'']\<rparr>"

text \<open>A read-only bind mount of a path that may be missing on the host.\<close>

definition mountIfPresent :: "string \<Rightarrow> string \<Rightarrow> OciMount list prog" where
  "mountIfPresent path target =
     bindM (tryM (callStat (Fs (Stat path)))) (\<lambda>r.
       case r of
         Inr _ \<Rightarrow> retM [bindMount path target True True []]
       | Inl e \<Rightarrow> (if os_IsNotExist e then retM [] else failM e))"

definition qemuDataMounts :: "string \<Rightarrow> OciMount list prog" where
  "qemuDataMounts monitorDataPath =
     bindM (if monitorDataPath = [] then
              bindM (findQemuDataDir ''qemu'') (\<lambda>q.
              bindM (wrapM ''failed to get info of seabios directory: %w'' [] (findQemuDataDir ''seabios'')) (\<lambda>s.
                retM (q, s)))
            else retM (filepath_Join [monitorDataPath, ''qemu''], filepath_Join [monitorDataPath, ''seabios'']))
       (\<lambda>(qDataPath, sBiosPath).
          bindM (mountIfPresent sBiosPath ''/usr/share/seabios'') (\<lambda>bios.
            retM (bindMount qDataPath ''/usr/share/qemu'' True True [] # bios)))"

definition mountsForMonitor :: "string \<Rightarrow> string \<Rightarrow> OciMount list prog" where
  "mountsForMonitor monitorPath monitorDataPath =
     (let monitorName = filepath_Base monitorPath
      in bindM (if monitorName \<noteq> ''firecracker'' then
                  bindM (mountIfPresent ''/lib64'' ''/lib64'') (\<lambda>lib64.
                    retM ([bindMount ''/lib'' ''/lib'' True True []] @ lib64
                          @ [bindMount ''/usr/lib'' ''/usr/lib'' True True []]))
                else retM []) (\<lambda>libs.
         bindM (if HasPrefix monitorName ''qemu'' then qemuDataMounts monitorDataPath else retM []) (\<lambda>qemu.
           retM ([procMount, devMount, devPtsMount, bindMount monitorPath monitorPath True True []]
                 @ libs @ qemu))))"

definition tunDevice :: "LinuxDevice list prog" where
  "tunDevice =
     bindM (tryM (deviceFromHost ''/dev/net/tun'')) (\<lambda>r.
       case r of
         Inr tunDev \<Rightarrow> retM [tunDev]
       | Inl e \<Rightarrow>
           (if errors_Is e (Errno ENOENT) then retM []
            else failM (ErrorfW ''could not get host device /dev/net/tun: %w'' [] e)))"

definition getMonitorDevices :: "bool \<Rightarrow> bool \<Rightarrow> LinuxDevice list prog" where
  "getMonitorDevices needsKVM needsTUN =
     bindM (wrapM ''could not get host device /dev/null: %w'' [] (deviceFromHost ''/dev/null'')) (\<lambda>nullDev.
     bindM (wrapM ''could not get host device /dev/urandom: %w'' [] (deviceFromHost ''/dev/urandom'')) (\<lambda>randomDev.
     bindM (if needsTUN then tunDevice else retM []) (\<lambda>tun.
     bindM (if needsKVM then
              bindM (wrapM ''could not get host device /dev/kvm: %w'' [] (deviceFromHost ''/dev/kvm''))
                (\<lambda>kvmDev. retM [kvmDev])
            else retM []) (\<lambda>kvm.
       retM ([nullDev, randomDev] @ tun @ kvm)))))"

definition setupConsole :: "string \<Rightarrow> unit prog" where
  "setupConsole monRootfs =
     (let ptmxPath = filepath_Join [monRootfs, ''/dev/ptmx''];
          consolePath = filepath_Join [monRootfs, ''/dev/console'']
      in bindM (tryM (callU (Fs (Symlink ''pts/ptmx'' ptmxPath)))) (\<lambda>r.
         bindM (case r of
                  Inr _ \<Rightarrow> retM ()
                | Inl e \<Rightarrow> (if e = Errno EEXIST then retM ()
                            else failM (ErrorfW ''failed to create /dev/ptmx symlink: %w'' [] e))) (\<lambda>_.
         bindM (wrapM ''failed to create /dev/console: %w'' [] (callU (Fs (OpenCreate consolePath 438)))) (\<lambda>_.
           deferM (callU (Fs (CloseFile consolePath)))
             (wrapM ''failed to chmod /dev/console: %w'' [] (callU (Fs (Chmod consolePath 438))))))))"

text \<open>
  The resolv.conf of the container, for a monitor that serves the guest's sockets itself.
\<close>

definition monitorResolvConfMount :: "VMM \<Rightarrow> OciMount list \<Rightarrow> OciMount option" where
  "monitorResolvConfMount vmm cntrMounts =
     (if vmm_UsesTUNTAP vmm then None
      else case resolvConfMount cntrMounts of
        None \<Rightarrow> None
      | Some m \<Rightarrow>
          Some (m\<lparr>M_Destination := ResolvConfPath,
                  M_Options := (if ''ro'' \<in> set (M_Options m) then M_Options m else M_Options m @ [''ro''])\<rparr>))"

record monitorResources =
  Mr_Rootfs :: RootfsParams
  Mr_Mounts :: "OciMount list"
  Mr_Devices :: "LinuxDevice list"
  Mr_TUNTAP :: bool
  Mr_BlockArgs :: "BlockDevParams list"
  Mr_Sharedfs :: SharedfsParams
  Mr_PreStartCmd :: "string list"

definition zeroResources :: monitorResources where
  "zeroResources = \<lparr>Mr_Rootfs = zeroRootfs, Mr_Mounts = [], Mr_Devices = [], Mr_TUNTAP = False,
     Mr_BlockArgs = [], Mr_Sharedfs = zeroSharedfs, Mr_PreStartCmd = []\<rparr>"

definition getMonitorResources ::
    "rootfsBuilder \<Rightarrow> RootfsParams \<Rightarrow> VMM \<Rightarrow> string \<Rightarrow> OciMount list \<Rightarrow> monitorResources prog" where
  "getMonitorResources rfs rootfsParams vmm monitorDataPath cntrMounts =
     bindM (mountsForMonitor (vmm_Path vmm) monitorDataPath) (\<lambda>mounts.
     bindM (wrapM ''failed to get mounts for monitor rootfs: %w'' [] (rb_getMounts rfs)) (\<lambda>rootfsMounts.
     let resolv = (case monitorResolvConfMount vmm cntrMounts of None \<Rightarrow> [] | Some m \<Rightarrow> [m]);
         tuntap = vmm_UsesTUNTAP vmm
     in bindM (wrapM ''failed to get host devices for monitor: %w'' []
                 (getMonitorDevices (vmm_UsesKVM vmm) tuntap)) (\<lambda>devices.
     bindM (wrapM ''failed to get block devices to attach in sandbox: %w'' [] (rb_getBlockDevs rfs)) (\<lambda>blockArgs.
     bindM (wrapM ''failed to get block devices which should be replicated inside monitor's execution environment: %w''
              [] (blockDevNodes blockArgs rootfsParams)) (\<lambda>blockDevs.
       retM (zeroResources\<lparr>Mr_Mounts := mounts @ rootfsMounts @ resolv, Mr_Devices := devices @ blockDevs,
               Mr_TUNTAP := tuntap, Mr_BlockArgs := blockArgs, Mr_Sharedfs := rb_getSharedDirs rfs,
               Mr_PreStartCmd := rb_preStartCmd rfs\<rparr>))))))"

section \<open>The change of the root\<close>

definition MNT_DETACH :: nat where "MNT_DETACH = 2"

definition pivotRootfs :: "string \<Rightarrow> unit prog" where
  "pivotRootfs newRoot =
     (let oldRoot = filepath_Join [newRoot, ''/old_root'']
      in bindM (wrapM ''failed to create directory %s: %w'' [oldRoot] (callU (Fs (MkdirAll oldRoot 493)))) (\<lambda>_.
         bindM (wrapM ''failed to pivot root: %w'' [] (callU (Proc (PivotRoot ''.'' ''old_root'')))) (\<lambda>_.
         bindM (wrapM ''failed to set CWD as /: %w'' [] (callU (Proc (Chdir ''/'')))) (\<lambda>_.
         bindM (wrapM ''failed to make old_root rslave: %w'' []
                  (callU (Mnt (Mount [] ''old_root'' [] (unat (MS_SLAVE OR MS_REC)) [])))) (\<lambda>_.
         bindM (wrapM ''failed to unmount old_root: %w'' [] (callU (Mnt (Unmount ''old_root'' MNT_DETACH)))) (\<lambda>_.
           wrapM ''failed to remove old_root: %w'' [] (callU (Fs (RemoveAll ''old_root'')))))))))"

definition changeRoot :: "string \<Rightarrow> bool \<Rightarrow> unit prog" where
  "changeRoot rootfsDir pivot =
     bindM (callU (Proc (Chdir rootfsDir))) (\<lambda>_.
     bindM (if pivot then pivotRootfs rootfsDir else callU (Proc (Chroot ''.''))) (\<lambda>_.
       callU (Proc (Chdir ''/''))))"

section \<open>vAccel\<close>

text \<open>The runes of a string; a byte that starts none counts as the replacement character.\<close>

definition rune_val :: "nat list \<Rightarrow> nat" where
  "rune_val bs =
     (case bs of
        [a] \<Rightarrow> a
      | [a, b] \<Rightarrow> a mod 32 * 64 + b mod 64
      | [a, b, c] \<Rightarrow> a mod 16 * 4096 + b mod 64 * 64 + c mod 64
      | [a, b, c, d] \<Rightarrow> a mod 8 * 262144 + b mod 64 * 4096 + c mod 64 * 64 + d mod 64
      | _ \<Rightarrow> 65533)"

function runes :: "nat list \<Rightarrow> nat list" where
  "runes [] = []"
| "runes (b # bs) =
     (let n = rune_len (b # bs)
      in if n = 0 then 65533 # runes bs else rune_val (take n (b # bs)) # runes (drop n (b # bs)))"
  by pat_completeness auto
termination
  by (relation "measure length") auto

definition idToGuestCID :: "string \<Rightarrow> int" where
  "idToGuestCID cid = int (sum_list (runes (map byte cid))) mod 97 + 3"

text \<open>Whether the address is valid, the host socket it names, and the address the guest gets.\<close>

definition isValidVSockAddress :: "string \<Rightarrow> string \<Rightarrow> err + (string \<times> string)" where
  "isValidVSockAddress rpcAddress hypervisor =
     (case vAccelAddressRe hypervisor of
        None \<Rightarrow> Inl (Errorf ''unsupported hypervisor: %q'' [hypervisor])
      | Some re \<Rightarrow>
          (if \<not> re rpcAddress then
             Inl (Errorf ''rpc address %q does not match the expected format for %s'' [rpcAddress, hypervisor])
           else if hypervisor = ''firecracker'' then
             Inr (TrimPrefix rpcAddress vAccelUnixScheme, ''vsock://2:'' @ the (unix_address rpcAddress))
           else Inr ([], rpcAddress)))"

text \<open>The type, the host socket, the address, and the error.\<close>

definition resolveVAccelConfig ::
    "string \<Rightarrow> annotations \<Rightarrow> string \<times> string \<times> string \<times> err option" where
  "resolveVAccelConfig hypervisor annotations =
     (let address = get annotations annotRPCAddress
      in case annotations annotVAccel of
           None \<Rightarrow> ([], [], [], Some ErrVAccelDisabled)
         | Some vAccelType \<Rightarrow>
             (if address = [] then
                (vAccelType, [], [], Some (Errorf ''vaccel is enabled, but rpc address is not set'' []))
              else if vAccelType = ''vsock'' then
                (case isValidVSockAddress address hypervisor of
                   Inl e \<Rightarrow> (vAccelType, [], [], Some e)
                 | Inr (vsockSocketPath, address') \<Rightarrow> (vAccelType, vsockSocketPath, address', None))
              else (vAccelType, [], address, None)))"

definition checkVAccelSocket :: "string \<Rightarrow> unit prog" where
  "checkVAccelSocket path =
     bindM (wrapM ''could not find the vAccel socket %s: %w'' [path] (callStat (Fs (Stat path)))) (\<lambda>st.
       if st_type st \<noteq> Sock then failM (Errorf ''%s is not a unix socket'' [path]) else retM ())"

definition prepareVSockEnvironment :: "string \<Rightarrow> string \<Rightarrow> string \<Rightarrow> LinuxDevice list prog" where
  "prepareVSockEnvironment monRootfs hypervisor hostSocket =
     bindM (wrapM ''could not get host device /dev/vsock: %w'' [] (deviceFromHost ''/dev/vsock'')) (\<lambda>vsockDev.
     bindM (wrapM ''could not get host device /dev/vhost-vsock: %w'' [] (deviceFromHost ''/dev/vhost-vsock'')) (\<lambda>vhostSockDev.
     bindM (if hypervisor = ''firecracker'' then
              bindM (checkVAccelSocket hostSocket) (\<lambda>_.
                applyMounts monRootfs
                  [bindMount hostSocket (filepath_Join [VAccelMountPath, filepath_Base hostSocket]) True True []])
            else retM ()) (\<lambda>_.
       retM [vsockDev, vhostSockDev])))"

end
