(* ===== verification/Ipc.thy ===== *)
theory Ipc
  imports Host Go_Path
begin

text \<open>
  Messages between the processes of the runtime, \<open>pkg/unikontainers/ipc.go\<close>: unix sockets between
  create, start and the process that becomes the monitor, and the ready pipe of the libcontainer
  mode. An open connection, listener or pipe is the one last opened.
\<close>

section \<open>Addresses and messages\<close>

definition readyPipeName :: string where "readyPipeName = ''urunc-ready.fifo''"
definition readyOK :: nat where "readyOK = 0"
definition ReadyPipeFD :: nat where "ReadyPipeFD = 3"
definition reexecSock :: string where "reexecSock = ''reexec.sock''"
definition uruncSock :: string where "uruncSock = ''urunc.sock''"
definition ReexecStarted :: string where "ReexecStarted = ''RX_START''"
definition AckReexec :: string where "AckReexec = ''UC_ACK''"
definition StartExecve :: string where "StartExecve = ''UC_START''"
definition StartSuccess :: string where "StartSuccess = ''RX_SUCCESS''"
definition StartErr :: string where "StartErr = ''RX_ERROR''"
definition maxRetries :: nat where "maxRetries = 50"
definition waitTime :: nat where "waitTime = 5000000"
definition FromReexec :: bool where "FromReexec = True"

definition getSockAddr :: "string \<Rightarrow> string \<Rightarrow> string" where
  "getSockAddr dir name = filepath_Join [dir, name]"

definition getUruncSockAddr :: "string \<Rightarrow> string" where
  "getUruncSockAddr containerDir = getSockAddr containerDir uruncSock"

definition getReexecSockAddr :: "string \<Rightarrow> string" where
  "getReexecSockAddr baseDir = getSockAddr baseDir reexecSock"

definition getReadyPipePath :: "string \<Rightarrow> string" where
  "getReadyPipePath baseDir = filepath_Join [baseDir, readyPipeName]"

definition ensureValidSockAddr :: "string \<Rightarrow> err + unit" where
  "ensureValidSockAddr sockAddr =
     (if sockAddr = [] then Inl (Errorf ''socket address is empty'' [])
      else if length sockAddr > 108 then Inl (Errorf ''socket address %s is too long'' [sockAddr])
      else Inr ())"

definition SockAddrExists :: "string \<Rightarrow> bool prog" where
  "SockAddrExists sockAddr =
     bindM (tryM (callStat (Fs (Stat sockAddr)))) (\<lambda>r. retM (case r of Inr _ \<Rightarrow> True | Inl _ \<Rightarrow> False))"

section \<open>Sockets\<close>

definition SendIPCMessage :: "string \<Rightarrow> string \<Rightarrow> unit prog" where
  "SendIPCMessage socketAddress message =
     bindM (callU (Ipc (Dial socketAddress))) (\<lambda>_.
       deferM (callU (Ipc ConnClose))
         (wrapM ''failed to send message %s to %s: %w'' [message, socketAddress] (callU (Ipc (ConnWrite message)))))"

text \<open>The loop that dials, with the number of attempts left.\<close>

fun dial_loop :: "nat \<Rightarrow> string \<Rightarrow> unit prog" where
  "dial_loop 0 socketAddress = failM (Errorf ''failed to connect to %s, exceeded max retries'' [socketAddress])"
| "dial_loop (Suc n) socketAddress =
     bindM (tryM (callU (Ipc (Dial socketAddress)))) (\<lambda>r.
       case r of
         Inr _ \<Rightarrow> retM ()
       | Inl _ \<Rightarrow>
           (if n = 0 then failM (Errorf ''failed to connect to %s, exceeded max retries'' [socketAddress])
            else bindM (ignoreM (callU (Proc (Sleep waitTime)))) (\<lambda>_. dial_loop n socketAddress)))"

definition sendIPCMessageWithRetry :: "string \<Rightarrow> string \<Rightarrow> bool \<Rightarrow> unit prog" where
  "sendIPCMessageWithRetry socketAddress message mustBeValid =
     bindM (liftM (if mustBeValid then ensureValidSockAddr socketAddress else Inr ())) (\<lambda>_.
     bindM (dial_loop maxRetries socketAddress) (\<lambda>_.
       deferM (callU (Ipc ConnClose)) (callU (Ipc (ConnWrite message)))))"

definition createListener :: "string \<Rightarrow> bool \<Rightarrow> unit prog" where
  "createListener socketAddress mustBeValid =
     bindM (liftM (if mustBeValid then ensureValidSockAddr socketAddress else Inr ())) (\<lambda>_.
       callU (Ipc (Listen socketAddress)))"

text \<open>One connection, one read of at most the length of the expected message.\<close>

definition AwaitMessage :: "string \<Rightarrow> unit prog" where
  "AwaitMessage expectedMessage =
     bindM (callU (Ipc Accept)) (\<lambda>_.
       deferM (callU (Ipc ConnClose))
         (bindM (wrapM ''failed to read from socket: %w'' [] (callS (Ipc (ConnRead (length expectedMessage))))) (\<lambda>buf.
            let msg = take (length expectedMessage) buf
            in if msg \<noteq> expectedMessage then
                 failM (Errorf ''received unexpected message: %s (expected %s)'' [msg, expectedMessage])
               else retM ())))"

section \<open>The ready pipe\<close>

definition removeIfPresent :: "string \<Rightarrow> string \<Rightarrow> unit prog" where
  "removeIfPresent fmt path =
     bindM (tryM (callU (Fs (Remove path)))) (\<lambda>r.
       case r of
         Inr _ \<Rightarrow> retM ()
       | Inl e \<Rightarrow> (if is_ErrNotExist e then retM () else failM (ErrorfW fmt [path] e)))"

definition CreateReadyPipe :: "string \<Rightarrow> unit prog" where
  "CreateReadyPipe baseDir =
     (let path = getReadyPipePath baseDir
      in bindM (removeIfPresent ''failed to remove stale ready pipe %s: %w'' path) (\<lambda>_.
         bindM (wrapM ''failed to create ready pipe %s: %w'' [path] (callU (Ipc (Mkfifo path 384)))) (\<lambda>_.
           wrapM ''failed to open ready pipe %s: %w'' [path] (callU (Ird (OpenRdwr path))))))"

definition openReadReadyPipe :: "string \<Rightarrow> unit prog" where
  "openReadReadyPipe baseDir =
     wrapM ''failed to open ready pipe %s: %w'' [getReadyPipePath baseDir]
       (callU (Ipc (FifoOpen (getReadyPipePath baseDir))))"

definition closeReadReadyPipe :: "bool \<Rightarrow> string \<Rightarrow> unit prog" where
  "closeReadReadyPipe isOpen baseDir =
     bindM (if isOpen then ignoreM (callU (Ipc FifoClose)) else retM ()) (\<lambda>_.
       removeIfPresent ''failed to remove ready pipe %s: %w'' (getReadyPipePath baseDir))"

definition awaitReadyPipe :: "unit prog" where
  "awaitReadyPipe =
     bindM (callRead (Ipc FifoRead)) (\<lambda>(buf, err).
       case err of
         Some e \<Rightarrow>
           (if errors_Is e (Errno EOF) then
              failM (Errorf ''the monitor exited before reporting a successful start'' [])
            else failM (ErrorfW ''failed to read from the ready pipe: %w'' [] e))
       | None \<Rightarrow>
           (if length buf \<noteq> 1 \<or> byte (hd buf) \<noteq> readyOK then
              failM (Errorf ''the monitor reported a failed start'' [])
            else retM ()))"

definition errOf :: "err + unit \<Rightarrow> err option" where
  "errOf r = (case r of Inl e \<Rightarrow> Some e | Inr _ \<Rightarrow> None)"

definition failSome :: "err option \<Rightarrow> unit prog" where
  "failSome e = (case e of None \<Rightarrow> retM () | Some e \<Rightarrow> failM e)"

definition signalReady :: "bool \<Rightarrow> unit prog" where
  "signalReady ok =
     bindM (tryM (callU (Ipc (FdWrite ReadyPipeFD [if ok then readyOK else 1])))) (\<lambda>werr.
     bindM (tryM (callU (Ipc (FdClose ReadyPipeFD)))) (\<lambda>cerr.
       failSome (errors_Join (errOf werr) (errOf cerr))))"

end
