(* ===== verification/Network.thy ===== *)
theory Network
  imports Runtime_Utils Ipc
begin

text \<open>
  The network of the guest: \<open>pkg/network\<close>, \<open>SetupNet\<close> and the cleanup of the tap devices in
  \<open>unikontainers.go\<close>. What the netlink package, the gateway package and the kernel do is a call.
\<close>

record UnikernelInterface =
  If_IP :: string
  If_DefaultGateway :: string
  If_Mask :: string
  If_Interface :: string
  If_MAC :: string
  If_MTU :: int

record UnikernelNetworkInfo =
  Ni_TapDevice :: string
  Ni_EthDevice :: UnikernelInterface

datatype Manager = StaticNetwork | DynamicNetwork

definition NewNetworkManager :: "string \<Rightarrow> err + Manager" where
  "NewNetworkManager networkType =
     (if networkType = ''static'' then Inr StaticNetwork
      else if networkType = ''dynamic'' then Inr DynamicNetwork
      else Inl (Errorf ''network manager %s not supported'' [networkType]))"

section \<open>Devices\<close>

definition DefaultTap :: string where "DefaultTap = ''tapX_urunc''"

definition tapName :: "string \<Rightarrow> string" where
  "tapName s = concat (map (\<lambda>c. if c = CHR ''X'' then s else [c]) DefaultTap)"

definition getTapIndex :: "nat prog" where
  "getTapIndex =
     bindM (callStrs (Net Interfaces)) (\<lambda>ifaces.
       let tapCount = length (filter (\<lambda>name. Contains name ''tap'') ifaces)
       in if tapCount > 255 then failM (Errorf ''TAP interfaces count higher than 255'' []) else retM tapCount)"

text \<open>One descriptor of the new device: its owner and group are set, and it is closed on every way.\<close>

definition setupTapFd :: "string \<Rightarrow> int \<Rightarrow> int \<Rightarrow> unit prog" where
  "setupTapFd name ownerUID ownerGID =
     bindM (tryM (callU (Net (TapSetOwner name ownerUID)))) (\<lambda>r.
       case r of
         Inl e \<Rightarrow>
           bindM (ignoreM (callU (Net (TapFdClose name)))) (\<lambda>_.
             failM (ErrorfW ''failed to set tap %s owner to uid %d: %w'' [name, Itoa ownerUID] e))
       | Inr _ \<Rightarrow>
           bindM (tryM (callU (Net (TapSetGroup name ownerGID)))) (\<lambda>r.
             case r of
               Inl e \<Rightarrow>
                 bindM (ignoreM (callU (Net (TapFdClose name)))) (\<lambda>_.
                   failM (ErrorfW ''failed to set tap %s group to gid %d: %w'' [name, Itoa ownerGID] e))
             | Inr _ \<Rightarrow>
                 wrapM ''failed to close the fd of tap %s: %w'' [name] (callU (Net (TapFdClose name)))))"

definition createTapDevice :: "string \<Rightarrow> int \<Rightarrow> 32 word \<Rightarrow> 32 word \<Rightarrow> link prog" where
  "createTapDevice name mtu ownerUID ownerGID =
     bindM (wrapM ''failed to create tap device: %w'' [] (callLink (Net (TapAdd name)))) (\<lambda>(tapLink, fds).
     bindM (forM [0..<fds] (\<lambda>_. setupTapFd name (int (unat ownerUID)) (int (unat ownerGID)))) (\<lambda>_.
     bindM (wrapM ''failed to set tap device MTU to %d: %w'' [Itoa mtu] (callU (Net (LinkSetMTU tapLink mtu)))) (\<lambda>_.
       retM tapLink)))"

definition IsLoopback :: "nat list \<Rightarrow> bool" where
  "IsLoopback ip =
     (if To4 ip \<noteq> [] then hd (To4 ip) = 127
      else ip = [0, 0, 0, 0, 0, 0, 0, 0, 0, 0, 0, 0, 0, 0, 0, 1])"

definition usableAddr :: "(nat list \<times> nat list) option \<Rightarrow> bool" where
  "usableAddr addr =
     (case addr of None \<Rightarrow> False | Some (ip, m) \<Rightarrow> \<not> IsLoopback ip \<and> To4 ip \<noteq> [])"

definition getInterfaceInfo :: "string \<Rightarrow> UnikernelInterface prog" where
  "getInterfaceInfo iface =
     bindM (callLink (Net (InterfaceByName iface))) (\<lambda>(ief, _).
       if lk_MAC ief = [] then failM (Errorf ''failed to get MAC address of %v'' [iface])
       else
         bindM (callAddrs (Net (IfAddrs iface))) (\<lambda>addrs.
           case find usableAddr addrs of
             Some (Some (ip, netMask)) \<Rightarrow>
               bindM (callS (Net DiscoverGateway)) (\<lambda>gateway.
                 retM \<lparr>If_IP = dotted (To4 ip), If_DefaultGateway = gateway, If_Mask = dotted netMask,
                       If_Interface = iface, If_MAC = lk_MAC ief, If_MTU = lk_MTU ief\<rparr>)
           | _ \<Rightarrow> failM (Errorf ''failed to find mask for %q'' [iface])))"

section \<open>The interface of the container\<close>

definition is_default_route :: "string option \<Rightarrow> bool" where
  "is_default_route r = (case r of None \<Rightarrow> True | Some dst \<Rightarrow> dst = ''0.0.0.0/0'' \<or> dst = ''::/0'')"

fun iface_loop :: "link option list \<Rightarrow> link prog" where
  "iface_loop [] = failM ErrNoContainerIface"
| "iface_loop (None # links) = iface_loop links"
| "iface_loop (Some l # links) =
     (if lk_Loopback l then iface_loop links
      else bindM (tryM (callI (Net (AddrList l)))) (\<lambda>addrs.
        case addrs of
          Inl _ \<Rightarrow> iface_loop links
        | Inr n \<Rightarrow>
            (if n = 0 then iface_loop links
             else bindM (tryM (callRoutes (Net (RouteList l)))) (\<lambda>routes.
               case routes of
                 Inl _ \<Rightarrow> iface_loop links
               | Inr rs \<Rightarrow> (if list_ex is_default_route rs then retM l else iface_loop links)))))"

definition discoverContainerIface :: "link prog" where
  "discoverContainerIface =
     bindM (callU (Net NewHandle)) (\<lambda>_.
       deferM (callU (Net HandleClose)) (bindM (callLinks (Net LinkList)) iface_loop))"

definition ContainerIface :: "UnikernelInterface prog" where
  "ContainerIface = bindM discoverContainerIface (\<lambda>l. getInterfaceInfo (lk_Name l))"

section \<open>Redirecting the traffic\<close>

definition addIngressQdisc :: "link \<Rightarrow> unit prog" where
  "addIngressQdisc l = callU (Net (IngressAdd (lk_Index l)))"

definition addRedirectFilter :: "link \<Rightarrow> link \<Rightarrow> unit prog" where
  "addRedirectFilter source target = callU (Net (RedirectAdd (lk_Index source) (lk_Index target)))"

definition addTrafficRules :: "link \<Rightarrow> link \<Rightarrow> unit prog" where
  "addTrafficRules tap redirectLink =
     bindM (wrapM ''addIngressQdisc(tap=%s) failed: %w'' [lk_Name tap] (addIngressQdisc tap)) (\<lambda>_.
     bindM (wrapM ''addIngressQdisc(redirect=%s) failed: %w'' [lk_Name redirectLink] (addIngressQdisc redirectLink)) (\<lambda>_.
     bindM (wrapM ''addRedirectFilter(%s->%s) failed: %w'' [lk_Name tap, lk_Name redirectLink]
              (addRedirectFilter tap redirectLink)) (\<lambda>_.
       wrapM ''addRedirectFilter(%s->%s) failed: %w'' [lk_Name redirectLink, lk_Name tap]
         (addRedirectFilter redirectLink tap))))"

definition networkSetup ::
    "string \<Rightarrow> string \<Rightarrow> link \<Rightarrow> bool \<Rightarrow> 32 word \<Rightarrow> 32 word \<Rightarrow> link prog" where
  "networkSetup name ipAddress redirectLink addTCRules uid gid =
     bindM (wrapM ''createTapDevice(%s) failed: %w'' [name]
              (createTapDevice name (lk_MTU redirectLink) uid gid)) (\<lambda>tap.
     bindM (wrapM ''LinkSetUp(%s) failed: %w'' [lk_Name tap] (callU (Net (LinkSetUp tap)))) (\<lambda>_.
     bindM (wrapM ''LinkSetUp(%s) failed: %w'' [lk_Name redirectLink] (callU (Net (LinkSetUp redirectLink)))) (\<lambda>_.
     bindM (if addTCRules then addTrafficRules tap redirectLink else retM ()) (\<lambda>_.
     bindM (if ipAddress \<noteq> [] then
              bindM (wrapM ''ParseAddr(%s) failed: %w'' [ipAddress] (callS (Net (ParseAddr ipAddress)))) (\<lambda>ipn.
                wrapM ''AddrReplace(%s, %s) failed: %w'' [lk_Name tap, ipAddress] (callU (Net (AddrReplace tap ipn))))
            else retM ()) (\<lambda>_.
       retM tap)))))"

definition Dynamic_NetworkSetup :: "32 word \<Rightarrow> 32 word \<Rightarrow> UnikernelNetworkInfo prog" where
  "Dynamic_NetworkSetup uid gid =
     bindM (wrapM ''getTapIndex failed: %w'' [] getTapIndex) (\<lambda>tapIndex.
       if tapIndex > 0 then
         failM (Errorf ''unsupported operation: can't spawn multiple unikernels in the same network namespace'' [])
       else
         bindM (wrapM ''failed to find container interface, (unikernel may have been spawned using ctr): %w'' []
                  discoverContainerIface) (\<lambda>redirectLink.
         let newTapName = tapName (Itoa (int tapIndex))
         in bindM (wrapM ''networkSetup(%s) failed: %w'' [newTapName]
                     (networkSetup newTapName [] redirectLink True uid gid)) (\<lambda>newTapDevice.
            bindM (wrapM ''getInterfaceInfo(%s) failed: %w'' [lk_Name redirectLink]
                     (getInterfaceInfo (lk_Name redirectLink))) (\<lambda>ifInfo.
              retM \<lparr>Ni_TapDevice = lk_Name newTapDevice, Ni_EthDevice = ifInfo\<rparr>))))"

definition StaticIPAddr :: string where "StaticIPAddr = StaticNetworkTapIP @ ''/24''"

definition ipForwardPath :: string where "ipForwardPath = ''/proc/sys/net/ipv4/ip_forward''"

definition natArgs :: "string \<Rightarrow> string \<Rightarrow> string \<Rightarrow> string list" where
  "natArgs path iface sourceIP =
     [path, ''-t'', ''nat'', ''-A'', ''POSTROUTING'', ''-s'', sourceIP, ''-o'', iface, ''-j'',
      ''MASQUERADE'', ''--wait'', ''1'']"

definition setNATRule :: "string \<Rightarrow> string \<Rightarrow> unit prog" where
  "setNATRule iface sourceIP =
     bindM (callS (Proc (LookPath ''iptables''))) (\<lambda>path.
     bindM (wrapM ''failed to open /proc/sys/net/ipv4/ip_forward: %w'' [] (callU (Fs (OpenWrite ipForwardPath)))) (\<lambda>_.
       deferM (callU (Fs (CloseFile ipForwardPath)))
         (bindM (wrapM ''failed to enable IP forwarding: %w'' [] (callU (Fs (WriteString ipForwardPath ''1'')))) (\<lambda>_.
          let args = natArgs path iface sourceIP
          in bindM (callRun (Proc (RunCmd args))) (\<lambda>(stdout, stderr, err, exited).
               case err of
                 None \<Rightarrow> retM ()
               | Some e \<Rightarrow>
                   (if exited then failM (Errorf ''iptables command %s failed: %s'' [Join args '' '', stderr])
                    else failM e))))))"

definition Static_NetworkSetup :: "32 word \<Rightarrow> 32 word \<Rightarrow> UnikernelNetworkInfo prog" where
  "Static_NetworkSetup uid gid =
     bindM discoverContainerIface (\<lambda>redirectLink.
     bindM (networkSetup (tapName ''0'') StaticIPAddr redirectLink False uid gid) (\<lambda>newTapDevice.
     bindM (setNATRule (lk_Name redirectLink) StaticIPAddr) (\<lambda>_.
       retM \<lparr>Ni_TapDevice = lk_Name newTapDevice,
             Ni_EthDevice = \<lparr>If_IP = StaticNetworkUnikernelIP, If_DefaultGateway = StaticNetworkTapIP,
               If_Mask = ''255.255.255.0'', If_Interface = lk_Name redirectLink, If_MAC = lk_MAC redirectLink,
               If_MTU = 0\<rparr>\<rparr>)))"

fun NetworkSetup :: "Manager \<Rightarrow> 32 word \<Rightarrow> 32 word \<Rightarrow> UnikernelNetworkInfo prog" where
  "NetworkSetup StaticNetwork uid gid = Static_NetworkSetup uid gid"
| "NetworkSetup DynamicNetwork uid gid = Dynamic_NetworkSetup uid gid"

definition guestNet :: "string \<Rightarrow> UnikernelInterface \<Rightarrow> NetDevParams" where
  "guestNet tap i =
     zeroNet\<lparr>Net_TapDev := tap, Net_IP := If_IP i, Net_Mask := If_Mask i, Net_Gateway := If_DefaultGateway i,
       Net_MAC := If_MAC i, Net_MTU := If_MTU i\<rparr>"

definition SetupNet :: "bool \<Rightarrow> string \<Rightarrow> 32 word \<Rightarrow> 32 word \<Rightarrow> NetDevParams prog" where
  "SetupNet tuntap networkType uid gid =
     (if \<not> tuntap then
        bindM (tryM ContainerIface) (\<lambda>r.
          case r of
            Inr iface \<Rightarrow> retM (guestNet [] iface)
          | Inl e \<Rightarrow>
              (if errors_Is e ErrNoContainerIface then retM zeroNet
               else failM (ErrorfW ''failed to describe the container's interface: %w'' [] e)))
      else
        bindM (mapErrM (ErrorfV ''failed to create network manager for %s type: %v'' [networkType])
                 (liftM (NewNetworkManager networkType))) (\<lambda>netManager.
        bindM (tryM (NetworkSetup netManager uid gid)) (\<lambda>r.
          case r of
            Inl _ \<Rightarrow> retM zeroNet
          | Inr networkInfo \<Rightarrow> retM (guestNet (Ni_TapDevice networkInfo) (Ni_EthDevice networkInfo)))))"

section \<open>Cleaning up\<close>

definition HANDLE_INGRESS :: nat where "HANDLE_INGRESS = 4294967281"

definition deleteIngressQdisc :: "link \<Rightarrow> unit prog" where
  "deleteIngressQdisc l =
     bindM (callQdiscs (Net (QdiscList l))) (\<lambda>qdiscs.
       forM qdiscs (\<lambda>q.
         if fst q = HANDLE_INGRESS \<and> snd q = lk_Index l then callU (Net (QdiscDel q)) else retM ()))"

definition deleteAllQDiscs :: "link \<Rightarrow> unit prog" where
  "deleteAllQDiscs device =
     bindM (deleteIngressQdisc device) (\<lambda>_. bindM discoverContainerIface deleteIngressQdisc)"

definition deleteAllTCFilters :: "link \<Rightarrow> unit prog" where
  "deleteAllTCFilters device =
     bindM (callStrs (Net (FilterList device))) (\<lambda>tapFilters.
     bindM discoverContainerIface (\<lambda>eth.
     bindM (callStrs (Net (FilterList eth))) (\<lambda>ethFilters.
       forM (tapFilters @ ethFilters) (\<lambda>f. callU (Net (FilterDel f))))))"

definition deleteTapDevice :: "link \<Rightarrow> unit prog" where
  "deleteTapDevice device =
     bindM (callU (Net (LinkSetDown device))) (\<lambda>_. callU (Net (LinkDel device)))"

text \<open>The names the cleanup looks for: \<open>tap\<close>, digits, \<open>_urunc\<close>.\<close>

definition tapRe :: "string \<Rightarrow> bool" where
  "tapRe name =
     (HasPrefix name ''tap'' \<and>
      (let ds = takeWhile isDigit (drop 3 name)
       in ds \<noteq> [] \<and> drop (3 + length ds) name = ''_urunc''))"

definition cleanupTap :: "link \<Rightarrow> err option prog" where
  "cleanupTap l =
     bindM (tryM (deleteAllTCFilters l)) (\<lambda>r1.
     bindM (tryM (deleteAllQDiscs l)) (\<lambda>r2.
     bindM (tryM (deleteTapDevice l)) (\<lambda>r3.
       retM (errors_Join (errors_Join (errOf r1) (errOf r2)) (errOf r3)))))"

fun cleanup_loop :: "link option list \<Rightarrow> err option \<Rightarrow> err option prog" where
  "cleanup_loop [] retErr = retM retErr"
| "cleanup_loop (None # links) retErr = cleanup_loop links retErr"
| "cleanup_loop (Some l # links) retErr =
     (if \<not> tapRe (lk_Name l) then cleanup_loop links retErr
      else bindM (cleanupTap l) (\<lambda>devErr. cleanup_loop links (errors_Join retErr devErr)))"

definition CleanupAllUruncTaps :: "unit prog" where
  "CleanupAllUruncTaps =
     bindM (wrapM ''failed to get netlink handle: %w'' [] (callU (Net NewHandle))) (\<lambda>_.
       deferM (callU (Net HandleClose))
         (bindM (wrapM ''failed to list links: %w'' [] (callLinks (Net LinkList))) (\<lambda>links.
            bindM (cleanup_loop links None) failSome)))"

definition selfNetNs :: string where "selfNetNs = ''/proc/thread-self/ns/net''"

definition removeTapsInNetNs :: "string \<Rightarrow> unit prog" where
  "removeTapsInNetNs netNsPath =
     bindM (wrapM ''error opening current network namespace: %w'' [] (callU (Net (OpenNs selfNetNs)))) (\<lambda>_.
       deferM (callU (Net (CloseNs selfNetNs)))
         (bindM (wrapM ''error opening namespace path: %w'' [] (callU (Net (OpenNs netNsPath)))) (\<lambda>_.
            deferM (callU (Net (CloseNs netNsPath)))
              (bindM (wrapM ''error joining namespace: %w'' [] (callU (Net (Setns netNsPath)))) (\<lambda>_.
               bindM (tryM CleanupAllUruncTaps) (\<lambda>r.
               bindM (tryM (wrapM ''error returning to the original network namespace: %w'' []
                              (callU (Net (Setns selfNetNs))))) (\<lambda>b.
                 failSome (errors_Join (errOf r) (errOf b)))))))))"

definition cleanupNetwork :: "OciNamespace list \<Rightarrow> unit prog" where
  "cleanupNetwork namespaces =
     (let netNsPath = (case find (\<lambda>ns. Ns_Type ns = ''network'') namespaces of None \<Rightarrow> [] | Some ns \<Rightarrow> Ns_Path ns)
      in if netNsPath = [] then retM ()
         else bindM (tryM (checkValidNsPath netNsPath)) (\<lambda>r.
           case r of
             Inl e \<Rightarrow> (if errors_Is e ErrNotExistingNS then retM () else failM e)
           | Inr _ \<Rightarrow> removeTapsInNetNs netNsPath))"

end
