(* ===== verification/Nsenter.thy ===== *)
theory Nsenter
  imports Runtime_Utils
begin

text \<open>
  The description of the namespaces for the process that enters them: the attributes of
  \<open>ipc_message.go\<close> and \<open>FormatNsenterInfo\<close> of \<open>unikontainers.go\<close>. A message is a list of bytes. The
  header that the netlink package puts in front of the attributes, and the byte order of the
  machine, are arguments.
\<close>

unbundle bit_operations_syntax

section \<open>Attributes\<close>

definition initMsg :: nat where "initMsg = 62000"
definition cloneFlagsAttr :: nat where "cloneFlagsAttr = 27281"
definition nsPathsAttr :: nat where "nsPathsAttr = 27282"

text \<open>A number in a number of bytes, in the order of the machine.\<close>

fun little :: "nat \<Rightarrow> nat \<Rightarrow> nat list" where
  "little 0 v = []"
| "little (Suc n) v = v mod 256 # little n (v div 256)"

definition putUint :: "bool \<Rightarrow> nat \<Rightarrow> nat \<Rightarrow> nat list" where
  "putUint big n v = (if big then rev (little n v) else little n v)"

record int32msg =
  im_Type :: nat
  im_Value :: "32 word"

record bytemsg =
  bm_Type :: nat
  bm_Value :: string

definition NLA_HDRLEN :: nat where "NLA_HDRLEN = 4"
definition NLA_ALIGNTO :: nat where "NLA_ALIGNTO = 4"

definition int32msg_Len :: "int32msg \<Rightarrow> nat" where
  "int32msg_Len msg = NLA_HDRLEN + 4"

definition int32msg_Serialize :: "bool \<Rightarrow> int32msg \<Rightarrow> nat list" where
  "int32msg_Serialize big msg =
     putUint big 2 (int32msg_Len msg) @ putUint big 2 (im_Type msg) @ putUint big 4 (unat (im_Value msg))"

definition bytemsg_Len :: "bytemsg \<Rightarrow> nat" where
  "bytemsg_Len msg = NLA_HDRLEN + length (bm_Value msg) + 1"

text \<open>The panic of a message that is too long is caught by the caller and becomes its error.\<close>

definition bytemsg_Serialize :: "bool \<Rightarrow> bytemsg \<Rightarrow> err + nat list" where
  "bytemsg_Serialize big msg =
     (let l = bytemsg_Len msg
      in if l > 65535 then
           Inl (Errorf ''netlink: cannot serialize bytemsg of length %d (larger than UINT16_MAX)'' [FormatUint l])
         else
           let size' = (l + NLA_ALIGNTO - 1) div NLA_ALIGNTO * NLA_ALIGNTO;
               content = putUint big 2 l @ putUint big 2 (bm_Type msg) @ map byte (bm_Value msg)
           in Inr (content @ replicate (size' - length content) 0))"

section \<open>Namespaces\<close>

text \<open>The place of a namespace in the list of paths, its tag, and its clone flag.\<close>

definition nsTable :: "(string \<times> (nat \<times> string \<times> 32 word)) list" where
  "nsTable =
     [(''ipc'', (1, ''ipc:'', 0x08000000)), (''uts'', (2, ''uts:'', 0x04000000)),
      (''network'', (3, ''net:'', 0x40000000)), (''pid'', (4, ''pid:'', 0x20000000)),
      (''mount'', (5, ''mnt:'', 0x00020000)), (''cgroup'', (6, ''cgroup:'', 0x02000000)),
      (''time'', (7, ''time:'', 0x00000080))]"

definition numNS :: nat where "numNS = 8"

record nsInfo =
  ni_writePaths :: bool
  ni_writeFlags :: bool
  ni_cloneFlags :: "32 word"
  ni_nsPaths :: "string list"

definition zeroNsInfo :: nsInfo where
  "zeroNsInfo = \<lparr>ni_writePaths = False, ni_writeFlags = False, ni_cloneFlags = 0,
     ni_nsPaths = replicate numNS []\<rparr>"

definition setNs :: "OciNamespace \<Rightarrow> nsInfo \<Rightarrow> nsInfo prog" where
  "setNs ns s =
     (case map_of nsTable (Ns_Type ns) of
        None \<Rightarrow> retM s
      | Some (i, tag, flag) \<Rightarrow>
          (if Ns_Path ns = [] then retM (s\<lparr>ni_cloneFlags := ni_cloneFlags s OR flag\<rparr>)
           else bindM (checkValidNsPath (Ns_Path ns)) (\<lambda>_.
                  retM (s\<lparr>ni_nsPaths := (ni_nsPaths s)[i := tag @ Ns_Path ns]\<rparr>))))"

text \<open>One turn of the loop: the namespace, and whether flags or paths have to be written.\<close>

definition nsStep :: "OciNamespace \<Rightarrow> nsInfo \<Rightarrow> nsInfo prog" where
  "nsStep ns s =
     bindM (setNs ns s) (\<lambda>s.
       retM (if Ns_Path ns = [] then s\<lparr>ni_writeFlags := True\<rparr> else s\<lparr>ni_writePaths := True\<rparr>))"

fun ns_loop :: "OciNamespace list \<Rightarrow> nsInfo \<Rightarrow> nsInfo prog" where
  "ns_loop [] s = retM s"
| "ns_loop (ns # nss) s = bindM (nsStep ns s) (ns_loop nss)"

definition nsBuf :: "string list \<Rightarrow> string" where
  "nsBuf nsPaths = Join (filter (\<lambda>p. p \<noteq> []) nsPaths) '',''"

definition nsAttributes :: "bool \<Rightarrow> nsInfo \<Rightarrow> err + nat list" where
  "nsAttributes big s =
     (let flags = (if ni_writeFlags s
            then int32msg_Serialize big \<lparr>im_Type = cloneFlagsAttr, im_Value = ni_cloneFlags s\<rparr> else [])
      in bindE (if ni_writePaths s
             then bytemsg_Serialize big \<lparr>bm_Type = nsPathsAttr, bm_Value = nsBuf (ni_nsPaths s)\<rparr> else Inr [])
           (\<lambda>paths. Inr (flags @ paths)))"

text \<open>The header gets the type of the message and the bytes behind it.\<close>

definition FormatNsenterInfo ::
    "(nat \<Rightarrow> nat list \<Rightarrow> nat list) \<Rightarrow> bool \<Rightarrow> OciNamespace list \<Rightarrow> nat list prog" where
  "FormatNsenterInfo header big namespaces =
     bindM (ns_loop namespaces zeroNsInfo) (\<lambda>s.
     bindM (liftM (nsAttributes big s)) (\<lambda>data.
       retM (header initMsg data @ data)))"

end
