(* ===== verification/Monitor_Process.thy ===== *)
theory Monitor_Process
  imports Monitor_Env Network Nsenter
begin

text \<open>
  The process that becomes the monitor: its specification and the libcontainer mode
  (\<open>monitor_spec.go\<close>, \<open>monitor.go\<close>, \<open>libcontainer.go\<close>), and the steps it shares with \<open>Exec\<close> of
  \<open>unikontainers.go\<close>. Everything that the runtime gets from outside \<open>src/\<close> and that is no call is
  collected in one record: the JSON codecs of the structs, the version library, the header of a
  netlink message, the machine, the enumerations of Go maps, and the bounds for the two loops that
  the code does not bound itself.
\<close>

record monitorSpec =
  Ms_ContainerID :: string
  Ms_UnikernelType :: string
  Ms_MonitorType :: string
  Ms_MonitorCfg :: MonitorConfig
  Ms_ExecArgs :: ExecArgs
  Ms_GuestParams :: UnikernelParams
  Ms_NetworkType :: string
  Ms_DNSServer :: string
  Ms_User :: OciUser
  Ms_PreStartCmd :: "string list"

text \<open>A decoder of the monitor resources gives what it has read and the error that stopped it.\<close>

record 'v deps =
  dp_arch :: goarch
  dp_versions :: "'v versions"
  dp_bigEndian :: bool
  dp_nlHeader :: "nat \<Rightarrow> nat list \<Rightarrow> nat list"
  dp_listVMs :: "err + string list"
  dp_initrdFuel :: nat
  dp_stopFuel :: nat
  dp_decSpec :: "string \<Rightarrow> err + OciSpec"
  dp_encSpec :: "OciSpec \<Rightarrow> err + string"
  dp_decConfig :: "string \<Rightarrow> err + UnikernelConfig"
  dp_encState :: "OciState \<Rightarrow> err + string"
  dp_decState :: "string \<Rightarrow> err + OciState"
  dp_encRes :: "monitorResources \<Rightarrow> err + string"
  dp_decRes :: "string \<Rightarrow> monitorResources \<times> err option"
  dp_encMon :: "monitorSpec \<Rightarrow> err + string"
  dp_decMon :: "string \<Rightarrow> err + monitorSpec"
  dp_monitors :: "monitors \<Rightarrow> string list"
  dp_extraBins :: "(string \<Rightarrow> ExtraBinConfig option) \<Rightarrow> string list"
  dp_keys :: "annotations \<Rightarrow> string list"
  dp_decFile :: "string \<Rightarrow> UruncConfig \<Rightarrow> err + UruncConfig"
  dp_specconv :: "string \<Rightarrow> bool \<Rightarrow> OciSpec \<Rightarrow> err + lib_config"
  dp_signalNum :: "string \<Rightarrow> int"

section \<open>Monitor resources\<close>

definition saveMonitorResources :: "'v deps \<Rightarrow> string \<Rightarrow> monitorResources \<Rightarrow> unit prog" where
  "saveMonitorResources D baseDir res =
     bindM (liftM (dp_encRes D res)) (\<lambda>data.
       callU (Fs (WriteFile (filepath_Join [baseDir, monitorFilename]) data 384)))"

definition loadMonitorResources :: "'v deps \<Rightarrow> string \<Rightarrow> (monitorResources \<times> err option) prog" where
  "loadMonitorResources D baseDir =
     bindM (tryM (callS (Fs (ReadFile (filepath_Join [baseDir, monitorFilename]))))) (\<lambda>r.
       case r of
         Inl e \<Rightarrow> retM (zeroResources, Some e)
       | Inr data \<Rightarrow> retM (dp_decRes D data))"

section \<open>Confinement to the image\<close>

definition confineToContainerRootfs :: "string \<Rightarrow> string prog" where
  "confineToContainerRootfs path =
     (if path = [] then retM []
      else bindM (callS (Fs (SecureJoin ContainerRootfsMountPath path))) (\<lambda>confined.
        if \<not> allowedPathRe confined then failM (Errorf ''confined path %q must match %s'' [confined, ''^[A-Za-z0-9._/-]+$''])
        else retM confined))"

fun confineBlockSources :: "BlockDevParams list \<Rightarrow> BlockDevParams list prog" where
  "confineBlockSources [] = retM []"
| "confineBlockSources (b # blocks) =
     bindM (if Blk_IsExplicit b
            then bindM (confineToContainerRootfs (Blk_Source b)) (\<lambda>s. retM (b\<lparr>Blk_Source := s\<rparr>))
            else retM b) (\<lambda>b.
     bindM (confineBlockSources blocks) (\<lambda>bs. retM (b # bs)))"

text \<open>The three boot files of the monitor's arguments, in this order.\<close>

definition confineBootFiles :: "ExecArgs \<Rightarrow> ExecArgs prog" where
  "confineBootFiles args =
     bindM (confineToContainerRootfs (Ex_UnikernelPath args)) (\<lambda>u.
     bindM (confineToContainerRootfs (Ex_InitrdPath args)) (\<lambda>i.
     bindM (confineToContainerRootfs (Ex_SnapshotPath args)) (\<lambda>s.
       retM (args\<lparr>Ex_UnikernelPath := u, Ex_InitrdPath := i, Ex_SnapshotPath := s\<rparr>))))"

section \<open>Steps before the execve\<close>

text \<open>The command line, and the guest that \<open>Init\<close> has filled.\<close>

definition buildUnikernelCommand ::
    "'v deps \<Rightarrow> Unikernel \<Rightarrow> UnikernelParams \<Rightarrow> (string \<times> Unikernel) prog" where
  "buildUnikernelCommand D unikernel params =
     bindM (uk_Init (dp_versions D) params unikernel) (\<lambda>(err, uk).
       bindM (case err of
                None \<Rightarrow> retM ()
              | Some e \<Rightarrow> (if errors_Is e ErrUndefinedVersion \<or> errors_Is e ErrVersionParsing then retM ()
                          else failM e)) (\<lambda>_.
         bindM (liftM (uk_CommandString (dp_arch D) uk)) (\<lambda>cmd. retM (cmd, uk))))"

definition setupUser :: "OciUser \<Rightarrow> unit prog" where
  "setupUser user =
     bindM (if length (User_AdditionalGids user) > 0 then
              mapErrM (ErrorfV ''could not set Additional groups %v : %v'' [])
                (callU (Proc (Setgroups (convertUint32ToIntSlice (User_AdditionalGids user)))))
            else retM ()) (\<lambda>_.
     bindM (mapErrM (ErrorfV ''could not set gid %d: %v'' [FormatUint (unat (User_GID user))])
              (callU (Proc (Setgid (unat (User_GID user)))))) (\<lambda>_.
       mapErrM (ErrorfV ''could not set uid %d: %v'' [FormatUint (unat (User_UID user))])
         (callU (Proc (Setuid (unat (User_UID user)))))))"

definition controlSocketDir :: "VMM \<Rightarrow> string \<Rightarrow> unit prog" where
  "controlSocketDir vmm socketPath =
     (if vmm_SupportsControlSocket vmm \<and> socketPath \<noteq> [] then
        let sockDir = filepath_Dir socketPath
        in wrapM ''failed to create control socket directory %q: %w'' [sockDir] (callU (Fs (MkdirAll sockDir 448)))
      else retM ())"

definition execMonitor :: "VMM \<Rightarrow> ExecArgs \<Rightarrow> string list \<Rightarrow> unit prog" where
  "execMonitor vmm execArgs execCmd =
     bindM (vmm_PreExec vmm execArgs) (\<lambda>_.
       callU (Proc (Exec (vmm_Path vmm) execCmd (Ex_Environment execArgs))))"

text \<open>The environment of the process, which cannot fail to be read.\<close>

definition os_Environ :: "string list prog" where
  "os_Environ = bindM (tryM (callStrs (Proc Environ))) (\<lambda>r. retM (case r of Inr env \<Rightarrow> env | Inl _ \<Rightarrow> []))"

section \<open>The monitor process of the libcontainer mode\<close>

definition monitorSpecFilename :: string where "monitorSpecFilename = ''.monitor_spec.json''"

definition LoadMonitorSpec :: "'v deps \<Rightarrow> string \<Rightarrow> monitorSpec prog" where
  "LoadMonitorSpec D dir =
     bindM (callS (Fs (ReadFile (filepath_Join [dir, monitorSpecFilename])))) (\<lambda>data.
       wrapM ''could not decode the monitor spec: %w'' [] (liftM (dp_decMon D data)))"

definition runMonitor :: "'v deps \<Rightarrow> monitorSpec \<Rightarrow> unit prog" where
  "runMonitor D ms =
     bindM os_Environ (\<lambda>env.
     bindM (liftM (New_unikernel (Ms_UnikernelType ms))) (\<lambda>unikernel.
     bindM (NewVMM (dp_arch D) (Ms_MonitorType ms) [Ms_MonitorType ms \<mapsto> Ms_MonitorCfg ms]) (\<lambda>vmm.
     bindM (wrapM ''failed to setup network: %w'' []
              (SetupNet (vmm_UsesTUNTAP vmm) (Ms_NetworkType ms) (User_UID (Ms_User ms)) (User_GID (Ms_User ms)))) (\<lambda>netArgs.
     let netArgs = netArgs\<lparr>Net_DNSServer := Ms_DNSServer ms\<rparr>;
         execArgs = (Ms_ExecArgs ms)\<lparr>Ex_Environment := env, Ex_Net := netArgs\<rparr>;
         guest = (Ms_GuestParams ms)\<lparr>Uk_Net := netArgs\<rparr>
     in bindM (confineBootFiles execArgs) (\<lambda>execArgs.
     bindM (confineBlockSources (Uk_Block guest)) (\<lambda>blocks.
     bindM (buildUnikernelCommand D unikernel (guest\<lparr>Uk_Block := blocks\<rparr>)) (\<lambda>(cmd, unikernel).
     let execArgs = execArgs\<lparr>Ex_Command := cmd\<rparr>
     in bindM (setupUser (Ms_User ms)) (\<lambda>_.
     bindM (controlSocketDir vmm (Ex_SocketPath execArgs)) (\<lambda>_.
     bindM (spawnProcess (Ms_PreStartCmd ms)) (\<lambda>_.
     bindM (vmm_BuildExecCmd (dp_arch D) vmm execArgs unikernel) (\<lambda>execCmd.
     bindM (signalReady True) (\<lambda>_.
       execMonitor vmm execArgs execCmd))))))))))))"

definition ExecMonitor :: "'v deps \<Rightarrow> unit prog" where
  "ExecMonitor D =
     bindM (ignoreM (callU (Ipc (FdCloexec ReadyPipeFD)))) (\<lambda>_.
     bindM (tryM (LoadMonitorSpec D ''/'')) (\<lambda>r.
       case r of
         Inl e \<Rightarrow>
           bindM (tryM (signalReady False)) (\<lambda>_. failM (ErrorfW ''failed to read the monitor spec: %w'' [] e))
       | Inr ms \<Rightarrow>
           bindM (tryM (runMonitor D ms)) (\<lambda>r.
             case r of
               Inr _ \<Rightarrow> retM ()
             | Inl e \<Rightarrow>
                 bindM (tryM (signalReady False)) (\<lambda>sig.
                   failSome (errors_Join (Some e) (errOf sig))))))"

section \<open>The libcontainer configuration\<close>

definition monCaps :: "string list" where "monCaps = [''CAP_NET_ADMIN'']"

definition monitorOCISpec :: "OciSpec \<Rightarrow> monitorResources \<Rightarrow> RootfsParams \<Rightarrow> OciSpec" where
  "monitorOCISpec spec monRes rootfsParams =
     spec\<lparr>S_RootPath := Rfs_MonRootfs rootfsParams, S_RootReadonly := False,
       S_Mounts := Mr_Mounts monRes,
       S_Process := (S_Process spec)\<lparr>P_Cwd := ''/''\<rparr>,
       S_Linux := map_option (\<lambda>l. l\<lparr>L_Devices := Mr_Devices monRes\<rparr>) (S_Linux spec)\<rparr>"

text \<open>
  The configuration of the monitor's container: no seccomp rules, every device allowed, and the
  hooks after the start and the stop left to urunc.
\<close>

definition BuildContainerConfig :: "'v deps \<Rightarrow> OciSpec \<Rightarrow> string \<Rightarrow> string \<Rightarrow> bool \<Rightarrow> lib_config prog" where
  "BuildContainerConfig D spec containerID baseDir systemdCgroup =
     bindM (loadMonitorResources D baseDir) (\<lambda>(monRes, err).
       case err of
         Some e \<Rightarrow> failM (ErrorfW ''failed to load monitor resources: %w'' [] e)
       | None \<Rightarrow>
           bindM (wrapM ''failed to build the monitor's libcontainer config: %w'' []
                    (liftM (dp_specconv D containerID systemdCgroup (monitorOCISpec spec monRes (Mr_Rootfs monRes))))) (\<lambda>config.
             retM (config\<lparr>lc_Seccomp := False, lc_DeviceRules := [(CHR ''a'', True)],
                     lc_Hooks := filter (\<lambda>h. h \<notin> {''poststart'', ''poststop''}) (lc_Hooks config)\<rparr>)))"

definition withCap :: "string list \<Rightarrow> string \<Rightarrow> string list" where
  "withCap caps add = (if add \<in> set caps then caps else caps @ [add])"

definition specCapabilities :: "OciSpec \<Rightarrow> OciCaps option" where
  "specCapabilities spec = P_Capabilities (S_Process spec)"

definition addCap :: "string \<Rightarrow> OciCaps \<Rightarrow> OciCaps" where
  "addCap c caps =
     \<lparr>Cap_Bounding = withCap (Cap_Bounding caps) c, Cap_Effective = withCap (Cap_Effective caps) c,
      Cap_Permitted = withCap (Cap_Permitted caps) c, Cap_Inheritable = withCap (Cap_Inheritable caps) c,
      Cap_Ambient = withCap (Cap_Ambient caps) c\<rparr>"

definition monitorCapabilities :: "OciSpec \<Rightarrow> bool \<Rightarrow> OciCaps option" where
  "monitorCapabilities spec tuntap =
     (case specCapabilities spec of
        None \<Rightarrow> None
      | Some caps \<Rightarrow> Some (if \<not> tuntap then caps else fold addCap monCaps caps))"

definition MonitorCapabilities :: "'v deps \<Rightarrow> OciSpec \<Rightarrow> string \<Rightarrow> OciCaps option prog" where
  "MonitorCapabilities D spec baseDir =
     bindM (loadMonitorResources D baseDir) (\<lambda>(monRes, err).
       case err of
         Some e \<Rightarrow> failM (ErrorfW ''failed to load monitor resources: %w'' [] e)
       | None \<Rightarrow> retM (monitorCapabilities spec (Mr_TUNTAP monRes)))"

end
