(* ===== verification/Lifecycle.thy ===== *)
theory Lifecycle
  imports Monitor_Process
begin

text \<open>
  The container, \<open>pkg/unikontainers/unikontainers.go\<close>: its creation from a bundle, the state that is
  kept on disk, the steps of create, start, kill and delete, and the set-up of the monitor. An
  operation that changes the container returns it; log lines and time stamps are left out.
\<close>

record Unikontainer =
  U_State :: OciState
  U_Spec :: OciSpec
  U_BaseDir :: string
  U_RootDir :: string
  U_Cfg :: UruncConfig

definition invalidSpec :: err where
  "invalidSpec = Errorf ''invalid OCI spec: linux section is required'' []"

definition libcontainerDirName :: string where "libcontainerDirName = ''libcontainer''"

definition annot_of :: "Unikontainer \<Rightarrow> string \<Rightarrow> string" where
  "annot_of u k = get (St_Annotations (U_State u)) k"

text \<open>The Linux section of a container, which \<open>New\<close> and \<open>Get\<close> have checked to be there.\<close>

definition linux_of :: "Unikontainer \<Rightarrow> OciLinux" where
  "linux_of u = the (S_Linux (U_Spec u))"

definition isLibcontainer :: "Unikontainer \<Rightarrow> bool" where
  "isLibcontainer u = Rt_Libcontainer (Cfg_Runtime (U_Cfg u))"

section \<open>New and Get\<close>

definition newState :: "'v deps \<Rightarrow> OciSpec \<Rightarrow> string \<Rightarrow> string \<Rightarrow> UnikernelConfig \<Rightarrow> UruncConfig \<Rightarrow> OciState" where
  "newState D spec containerID bundlePath config cfg =
     \<lparr>St_Version = S_Version spec, St_ID = containerID, St_Status = ''creating'', St_Pid = -1,
      St_Bundle = bundlePath,
      St_Annotations = UnikernelConfig_Map config ++
        UruncConfig_Map (dp_monitors D (Cfg_Monitors cfg)) (dp_extraBins D (Cfg_ExtraBins cfg)) cfg\<rparr>"

definition New :: "'v deps \<Rightarrow> string \<Rightarrow> string \<Rightarrow> string \<Rightarrow> UruncConfig \<Rightarrow> Unikontainer prog" where
  "New D bundlePath containerID rootDir cfg =
     bindM (loadSpec (dp_decSpec D) bundlePath) (\<lambda>spec.
       if S_Linux spec = None then failM invalidSpec
       else if get (S_Annotations spec) annotCRICntrName = criQueueProxyCntr then
         bindM (handleQueueProxy (dp_encSpec D) spec (filepath_Join [bundlePath, configFilename])) (\<lambda>_.
           failM ErrQueueProxy)
       else
         bindM (GetUnikernelConfig (dp_decConfig D) bundlePath (S_Annotations spec) (S_RootPath spec)) (\<lambda>config.
         bindM (liftM (validateValues config)) (\<lambda>_.
           if Uc_VAccel config \<noteq> [] \<and> \<not> Rt_VAccel (Cfg_Runtime cfg) then
             failM (Errorf ''%s is set, but vAccel is disabled in the urunc configuration ([runtime] vAccel)'' [annotVAccel])
           else
             retM \<lparr>U_State = newState D spec containerID bundlePath config cfg, U_Spec = spec,
                   U_BaseDir = filepath_Join [rootDir, containerID], U_RootDir = rootDir, U_Cfg = cfg\<rparr>)))"

definition loadUnikontainerState :: "'v deps \<Rightarrow> string \<Rightarrow> OciState prog" where
  "loadUnikontainerState D stateFilePath =
     bindM (callS (Fs (ReadFile stateFilePath))) (\<lambda>data. liftM (dp_decState D data))"

definition Get :: "'v deps \<Rightarrow> string \<Rightarrow> string \<Rightarrow> Unikontainer prog" where
  "Get D containerID rootDir =
     (let containerDir = filepath_Join [rootDir, containerID]
      in bindM (loadUnikontainerState D (filepath_Join [containerDir, stateFilename])) (\<lambda>state.
           if get (St_Annotations state) annotType = [] then failM ErrNotUnikernel
           else bindM (loadSpec (dp_decSpec D) (St_Bundle state)) (\<lambda>spec.
             if S_Linux spec = None then failM invalidSpec
             else retM \<lparr>U_State = state, U_Spec = spec, U_BaseDir = containerDir, U_RootDir = rootDir,
                    U_Cfg = UruncConfigFromMap (dp_keys D (St_Annotations state)) (dp_keys D (St_Annotations state))
                              (St_Annotations state)\<rparr>)))"

section \<open>The state on disk\<close>

text \<open>The annotations of the specification that are not urunc's own are added to the state.\<close>

definition mergeAnnotations :: "annotations \<Rightarrow> annotations \<Rightarrow> annotations" where
  "mergeAnnotations spec state =
     (\<lambda>key. case state key of
        Some v \<Rightarrow> Some v
      | None \<Rightarrow> (if HasPrefix key annotUruncPrefix then None else spec key))"

definition statePath :: "Unikontainer \<Rightarrow> string" where
  "statePath u = filepath_Join [U_BaseDir u, stateFilename]"

definition saveContainerState :: "'v deps \<Rightarrow> Unikontainer \<Rightarrow> Unikontainer prog" where
  "saveContainerState D u =
     (let st = (U_State u)\<lparr>St_Annotations :=
                  mergeAnnotations (S_Annotations (U_Spec u)) (St_Annotations (U_State u))\<rparr>
      in bindM (liftM (dp_encState D st)) (\<lambda>data.
         bindM (callU (Fs (WriteFile (statePath u) data 420))) (\<lambda>_. retM (u\<lparr>U_State := st\<rparr>))))"

definition setStatus :: "string \<Rightarrow> Unikontainer \<Rightarrow> Unikontainer" where
  "setStatus s u = u\<lparr>U_State := (U_State u)\<lparr>St_Status := s\<rparr>\<rparr>"

definition setPid :: "int \<Rightarrow> Unikontainer \<Rightarrow> Unikontainer" where
  "setPid pid u = u\<lparr>U_State := (U_State u)\<lparr>St_Pid := pid\<rparr>\<rparr>"

definition Create :: "'v deps \<Rightarrow> Unikontainer \<Rightarrow> int \<Rightarrow> string \<Rightarrow> Unikontainer prog" where
  "Create D u pid pidFilePath =
     (let path = (if pidFilePath \<noteq> [] then pidFilePath else filepath_Join [St_Bundle (U_State u), initPidFilename])
      in bindM (writePidFile path pid) (\<lambda>_. saveContainerState D (setStatus StateCreated (setPid pid u))))"

definition SetRunningState :: "'v deps \<Rightarrow> Unikontainer \<Rightarrow> Unikontainer prog" where
  "SetRunningState D u = saveContainerState D (setStatus StateRunning u)"

section \<open>The specification of the monitor\<close>

text \<open>The \<open>uint\<close> products wrap around.\<close>

definition monitorMemoryBytes :: "64 word \<Rightarrow> int option \<Rightarrow> 64 word" where
  "monitorMemoryBytes defaultMem limit =
     (case limit of
        Some l \<Rightarrow> if l > 0 then word_of_int l else defaultMem * 1024 * 1024
      | None \<Rightarrow> defaultMem * 1024 * 1024)"

definition guestDefaultMemoryMB :: "string \<Rightarrow> 64 word \<Rightarrow> 64 word" where
  "guestDefaultMemoryMB vmmType defaultMem = (if vmmType = HyperlightVmm then 0 else defaultMem)"

definition monitorCfgOf :: "Unikontainer \<Rightarrow> MonitorConfig" where
  "monitorCfgOf u = monitorOf (Cfg_Monitors (U_Cfg u)) (annot_of u annotHypervisor)"

definition monitorExecArgs :: "Unikontainer \<Rightarrow> monitorResources \<Rightarrow> string list \<Rightarrow> ExecArgs" where
  "monitorExecArgs u monRes env =
     (let mon = monitorCfgOf u;
          defaultVCPUs = (if Mon_DefaultVCPUs mon < 1 then 1 else Mon_DefaultVCPUs mon);
          defaultMemSizeMB = guestDefaultMemoryMB (annot_of u annotHypervisor) (Mon_DefaultMemoryMB mon)
      in zeroExecArgs\<lparr>Ex_ContainerID := St_ID (U_State u), Ex_UnikernelPath := annot_of u annotBinary,
           Ex_InitrdPath := annot_of u annotInitrd, Ex_SnapshotPath := annot_of u annotSnapshot,
           Ex_Seccomp := L_Seccomp (linux_of u),
           Ex_MemSizeB := monitorMemoryBytes defaultMemSizeMB (L_MemoryLimit (linux_of u)),
           Ex_VCPUs := defaultVCPUs, Ex_SocketPath := Mon_SocketPath mon, Ex_Environment := env,
           Ex_Ports := annot_of u annotHyperlightPorts, Ex_Sharedfs := Mr_Sharedfs monRes,
           Ex_ResolvConf := (resolvConfMount (Mr_Mounts monRes) \<noteq> None)\<rparr>)"

definition monitorGuestParams :: "Unikontainer \<Rightarrow> RootfsParams \<Rightarrow> monitorResources \<Rightarrow> UnikernelParams" where
  "monitorGuestParams u rootfsParams monRes =
     (let p = S_Process (U_Spec u)
      in zeroParams\<lparr>Uk_CmdLine := P_Args p, Uk_EnvVars := P_Env p, Uk_Monitor := annot_of u annotHypervisor,
           Uk_Version := annot_of u annotVersion,
           Uk_ProcConf := \<lparr>Proc_UID = User_UID (P_User p), Proc_GID = User_GID (P_User p), Proc_WorkDir = P_Cwd p\<rparr>,
           Uk_NetDevName := annot_of u annotNetDev, Uk_BlkDevName := annot_of u annotBlkDev,
           Uk_Rootfs := rootfsParams, Uk_Block := Mr_BlockArgs monRes\<rparr>)"

definition zeroUser :: OciUser where
  "zeroUser = \<lparr>User_UID = 0, User_GID = 0, User_AdditionalGids = []\<rparr>"

definition buildMonitorSpec :: "Unikontainer \<Rightarrow> RootfsParams \<Rightarrow> monitorResources \<Rightarrow> monitorSpec prog" where
  "buildMonitorSpec u rootfsParams monRes =
     bindM os_Environ (\<lambda>env.
     let vmmArgs = monitorExecArgs u monRes env
     in bindM (if Ex_ResolvConf vmmArgs then retM [] else getDNSServer (S_Mounts (U_Spec u))) (\<lambda>dns.
       retM \<lparr>Ms_ContainerID = St_ID (U_State u), Ms_UnikernelType = annot_of u annotType,
             Ms_MonitorType = annot_of u annotHypervisor, Ms_MonitorCfg = monitorCfgOf u,
             Ms_ExecArgs = vmmArgs, Ms_GuestParams = monitorGuestParams u rootfsParams monRes,
             Ms_NetworkType = [], Ms_DNSServer = dns, Ms_User = zeroUser,
             Ms_PreStartCmd = Mr_PreStartCmd monRes\<rparr>))"

definition getNetworkType :: "Unikontainer \<Rightarrow> string" where
  "getNetworkType u =
     (if get (S_Annotations (U_Spec u)) annotCRICntrName = criUserCntr then ''static'' else ''dynamic'')"

definition writeMonitorSpec :: "'v deps \<Rightarrow> Unikontainer \<Rightarrow> RootfsParams \<Rightarrow> monitorResources \<Rightarrow> unit prog" where
  "writeMonitorSpec D u rootfsParams monRes =
     bindM (buildMonitorSpec u rootfsParams monRes) (\<lambda>ms.
     let guest = Ms_GuestParams ms;
         ms = ms\<lparr>Ms_NetworkType := getNetworkType u, Ms_User := P_User (S_Process (U_Spec u)),
                 Ms_GuestParams := guest\<lparr>Uk_Rootfs := (Uk_Rootfs guest)\<lparr>Rfs_MonRootfs := ''/''\<rparr>\<rparr>,
                 Ms_ExecArgs := (Ms_ExecArgs ms)\<lparr>Ex_Environment := []\<rparr>\<rparr>
     in bindM (wrapM ''could not encode the monitor spec: %w'' [] (liftM (dp_encMon D ms))) (\<lambda>data.
        bindM (wrapM ''could not resolve path for monitor spec: %w'' []
                 (callS (Fs (SecureJoin (Rfs_MonRootfs rootfsParams) monitorSpecFilename)))) (\<lambda>path.
          wrapM ''could not write the monitor spec: %w'' [] (callU (Fs (WriteFile path data 384))))))"

section \<open>InitialSetup\<close>

text \<open>The steps behind the choice of the root file system.\<close>

definition setupResources ::
    "'v deps \<Rightarrow> Unikontainer \<Rightarrow> string \<Rightarrow> RootfsParams \<Rightarrow> Unikernel \<Rightarrow> monitorResources prog" where
  "setupResources D u rootfsDir rootfsParams unikernel =
     bindM (wrapM ''failed to create monitor rootfs directory %s: %w'' [Rfs_MonRootfs rootfsParams]
              (callU (Fs (MkdirAll (Rfs_MonRootfs rootfsParams) 493)))) (\<lambda>_.
     bindM (NewVMM (dp_arch D) (annot_of u annotHypervisor) (Cfg_Monitors (U_Cfg u))) (\<lambda>vmm.
     let memory = monitorMemoryBytes (Mon_DefaultMemoryMB (monitorCfgOf u)) (L_MemoryLimit (linux_of u))
     in bindM (newRootfsBuilder (U_Spec u) (St_Annotations (U_State u)) (U_Cfg u) rootfsDir rootfsParams unikernel
                 (annot_of u annotBinary) (annot_of u annotInitrd) memory) (\<lambda>rfsBuilder.
     bindM (wrapM ''pre setup step for rootfs failed: %w'' [] (rb_preSetup rfsBuilder)) (\<lambda>_.
     bindM (getMonitorResources rfsBuilder rootfsParams vmm (Mon_DataPath (monitorCfgOf u)) (S_Mounts (U_Spec u))) (\<lambda>monRes.
     bindM (wrapM ''post setup step for rootfs failed: %w'' [] (rb_postSetup (dp_initrdFuel D) rfsBuilder)) (\<lambda>_.
       retM (monRes\<lparr>Mr_Rootfs := rootfsParams\<rparr>)))))))"

definition InitialSetup :: "'v deps \<Rightarrow> Unikontainer \<Rightarrow> Unikontainer prog" where
  "InitialSetup D u =
     (let bundleDir = Clean (St_Bundle (U_State u))
      in bindM (resolveAgainstBase bundleDir (Clean (S_RootPath (U_Spec u)))) (\<lambda>rootfsDir.
         bindM (liftM (New_unikernel (annot_of u annotType))) (\<lambda>unikernel.
         bindM (ChooseRootfs (dp_arch D) bundleDir rootfsDir (St_Annotations (U_State u)) (Some (U_Cfg u))) (\<lambda>rootfsParams.
         bindM (setupResources D u rootfsDir rootfsParams unikernel) (\<lambda>monRes.
         let u = setStatus StateCreating u
         in bindM (callU (Fs (MkdirAll (U_BaseDir u) 493))) (\<lambda>_.
            bindM (wrapM ''failed to store monitor resources: %w'' [] (saveMonitorResources D (U_BaseDir u) monRes)) (\<lambda>_.
            bindM (if isLibcontainer u then
                     wrapM ''failed to store the monitor spec: %w'' [] (writeMonitorSpec D u rootfsParams monRes)
                   else retM ()) (\<lambda>_.
              saveContainerState D u))))))))"

section \<open>Hooks\<close>

definition getHooksByName :: "OciHooks \<Rightarrow> string \<Rightarrow> OciHook list" where
  "getHooksByName hooks name =
     (if name = ''CreateRuntime'' then Hs_CreateRuntime hooks
      else if name = ''CreateContainer'' then Hs_CreateContainer hooks
      else if name = ''StartContainer'' then Hs_StartContainer hooks
      else if name = ''Poststart'' then Hs_Poststart hooks
      else if name = ''Poststop'' then Hs_Poststop hooks
      else [])"

definition ExecuteHooks :: "'v deps \<Rightarrow> Unikontainer \<Rightarrow> string \<Rightarrow> unit prog" where
  "ExecuteHooks D u name =
     (case S_Hooks (U_Spec u) of
        None \<Rightarrow> retM ()
      | Some hooks \<Rightarrow>
          bindM (liftM (dp_encState D (U_State u))) (\<lambda>s.
            forM (getHooksByName hooks name) (\<lambda>hook.
              wrapM ''failed to execute %s hook: %w'' [name] (executeHook hook s))))"

section \<open>Sockets of a container\<close>

definition CreateListener :: "Unikontainer \<Rightarrow> bool \<Rightarrow> unit prog" where
  "CreateListener u isReexec =
     (if \<not> isReexec \<and> isLibcontainer u then openReadReadyPipe (U_BaseDir u)
      else
        let sockAddr = (if isReexec then getReexecSockAddr (U_BaseDir u) else getUruncSockAddr (U_BaseDir u))
        in wrapM ''failed to create listener at %s: %w'' [sockAddr] (createListener sockAddr True))"

text \<open>The pipe of a listener that was created is open.\<close>

definition DestroyListener :: "Unikontainer \<Rightarrow> bool \<Rightarrow> unit prog" where
  "DestroyListener u isReexec =
     (if \<not> isReexec \<and> isLibcontainer u then closeReadReadyPipe True (U_BaseDir u)
      else
        let sockAddr = (if isReexec then getReexecSockAddr (U_BaseDir u) else getUruncSockAddr (U_BaseDir u))
        in wrapM ''failed to close listener at %s: %w'' [sockAddr] (callU (Ipc (ListenerClose sockAddr))))"

definition CreateConn :: "Unikontainer \<Rightarrow> bool \<Rightarrow> unit prog" where
  "CreateConn u isReexec =
     (let sockAddr = (if isReexec then getUruncSockAddr (U_BaseDir u) else getReexecSockAddr (U_BaseDir u))
      in wrapM ''failed to create connection to unix socket %s: %w'' [sockAddr] (callU (Ipc (Dial sockAddr))))"

definition DestroyConn :: "Unikontainer \<Rightarrow> bool \<Rightarrow> unit prog" where
  "DestroyConn u isReexec =
     (let sockAddr = (if isReexec then getUruncSockAddr (U_BaseDir u) else getReexecSockAddr (U_BaseDir u))
      in wrapM ''failed to close connection to unix socket %s: %w'' [sockAddr] (callU (Ipc ConnClose)))"

definition AwaitMsg :: "Unikontainer \<Rightarrow> string \<Rightarrow> unit prog" where
  "AwaitMsg u msg = (if isLibcontainer u then awaitReadyPipe else AwaitMessage msg)"

definition SendMessage :: "string \<Rightarrow> unit prog" where
  "SendMessage message =
     wrapM ''failed to send message %s over active connection: %w'' [message] (callU (Ipc (ConnWrite message)))"

section \<open>Exec\<close>

definition setupMonitorRootfs :: "Unikontainer \<Rightarrow> string \<Rightarrow> monitorResources \<Rightarrow> bool \<Rightarrow> unit prog" where
  "setupMonitorRootfs u monRootfs monRes withTUNTAP =
     bindM (wrapM ''failed to create monitor rootfs directory %s: %w'' [monRootfs] (callU (Fs (MkdirAll monRootfs 493)))) (\<lambda>_.
     bindM (prepareRoot monRootfs (L_RootfsPropagation (linux_of u))) (\<lambda>_.
     bindM (wrapM ''failed to apply rootfs mounts: %w'' [] (applyMounts monRootfs (Mr_Mounts monRes))) (\<lambda>_.
     bindM (wrapM ''failed to create devices in monitor rootfs: %w'' []
              (setupDevices monRootfs (Mr_Devices monRes) withTUNTAP)) (\<lambda>_.
       wrapM ''failed to setup console: %w'' [] (setupConsole monRootfs)))))"

definition rpcEnvPrefix :: string where "rpcEnvPrefix = ''VACCEL_RPC_ADDRESS=''"

text \<open>The environment without the first earlier address, and the address at the end.\<close>

fun dropFirstPrefix :: "string \<Rightarrow> string list \<Rightarrow> string list" where
  "dropFirstPrefix p [] = []"
| "dropFirstPrefix p (x # xs) = (if HasPrefix x p then xs else x # dropFirstPrefix p xs)"

definition setRpcAddress :: "string list \<Rightarrow> string \<Rightarrow> string list" where
  "setRpcAddress env rpcAddress = dropFirstPrefix rpcEnvPrefix env @ [rpcEnvPrefix @ rpcAddress]"

definition setupVAccel ::
    "Unikontainer \<Rightarrow> string \<Rightarrow> ExecArgs \<Rightarrow> UnikernelParams \<Rightarrow> (ExecArgs \<times> UnikernelParams) prog" where
  "setupVAccel u monRootfs vmmArgs guest =
     (case resolveVAccelConfig (annot_of u annotHypervisor) (St_Annotations (U_State u)) of
        (vAccelType, vAccelSocketPath, rpcAddress, err) \<Rightarrow>
     bindM (case err of
              None \<Rightarrow> retM ()
            | Some e \<Rightarrow> (if errors_Is e ErrVAccelDisabled then retM ()
                        else failM (ErrorfW ''vAccel misconfiguration: %w'' [] e))) (\<lambda>_.
       if vAccelType = ''vsock'' then
         bindM (wrapM ''failed to prepare the vsock environment: %w'' []
                  (prepareVSockEnvironment monRootfs (annot_of u annotHypervisor) vAccelSocketPath)) (\<lambda>vaccelDevices.
         bindM (wrapM ''failed to create devices in monitor rootfs: %w'' []
                  (setupDevices monRootfs vaccelDevices False)) (\<lambda>_.
           retM (vmmArgs\<lparr>Ex_VAccelType := vAccelType, Ex_VSockDevPath := VAccelMountPath,
                         Ex_VSockDevID := idToGuestCID (St_ID (U_State u))\<rparr>,
                 guest\<lparr>Uk_EnvVars := setRpcAddress (Uk_EnvVars guest) rpcAddress\<rparr>)))
       else retM (vmmArgs, guest)))"

text \<open>
  Only with an entry for the mount namespace, to be joined or to be created, is the root pivoted.
\<close>

definition usesPivot :: "Unikontainer \<Rightarrow> bool prog" where
  "usesPivot u =
     bindM (tryM (findNS (L_Namespaces (linux_of u)) ''mount'')) (\<lambda>r.
       retM (case r of Inr _ \<Rightarrow> True | Inl e \<Rightarrow> errors_Is e ErrNotExistingNS))"

text \<open>The steps of \<open>Exec\<close> from the change of the root on.\<close>

definition execInRoot ::
    "'v deps \<Rightarrow> Unikontainer \<Rightarrow> monitorResources \<Rightarrow> VMM \<Rightarrow> Unikernel \<Rightarrow> ExecArgs \<Rightarrow> UnikernelParams \<Rightarrow> unit prog" where
  "execInRoot D u monRes vmm unikernel vmmArgs guest =
     bindM (confineBootFiles vmmArgs) (\<lambda>vmmArgs.
     bindM (confineBlockSources (Uk_Block guest)) (\<lambda>blocks.
     bindM (buildUnikernelCommand D unikernel (guest\<lparr>Uk_Block := blocks\<rparr>)) (\<lambda>(cmd, unikernel).
     let vmmArgs = vmmArgs\<lparr>Ex_Command := cmd\<rparr>
     in bindM (setupUser (P_User (S_Process (U_Spec u)))) (\<lambda>_.
     bindM (controlSocketDir vmm (Ex_SocketPath vmmArgs)) (\<lambda>_.
     bindM (ExecuteHooks D u ''StartContainer'') (\<lambda>_.
     bindM (spawnProcess (Mr_PreStartCmd monRes)) (\<lambda>_.
     bindM (vmm_BuildExecCmd (dp_arch D) vmm vmmArgs unikernel) (\<lambda>execCmd.
     bindM (SendMessage StartSuccess) (\<lambda>_.
       execMonitor vmm vmmArgs execCmd)))))))))"

definition Exec_monitor :: "'v deps \<Rightarrow> Unikontainer \<Rightarrow> unit prog" where
  "Exec_monitor D u =
     bindM (loadMonitorResources D (U_BaseDir u)) (\<lambda>(monRes, err).
     bindM (case err of None \<Rightarrow> retM () | Some e \<Rightarrow> failM (ErrorfW ''failed to load monitor resources: %w'' [] e)) (\<lambda>_.
     let rootfsParams = Mr_Rootfs monRes; monRootfs = Rfs_MonRootfs rootfsParams
     in if monRootfs = [] then failM (Errorf ''missing metadata for rootfs preparation'' [])
        else
     bindM (buildMonitorSpec u rootfsParams monRes) (\<lambda>ms.
     bindM (liftM (New_unikernel (Ms_UnikernelType ms))) (\<lambda>unikernel.
     bindM (NewVMM (dp_arch D) (Ms_MonitorType ms) (Cfg_Monitors (U_Cfg u))) (\<lambda>vmm.
     let user = P_User (S_Process (U_Spec u))
     in bindM (SetupNet (vmm_UsesTUNTAP vmm) (getNetworkType u) (User_UID user) (User_GID user)) (\<lambda>netArgs.
     let withTUNTAP = (Net_TapDev netArgs \<noteq> []);
         netArgs = netArgs\<lparr>Net_DNSServer := Ms_DNSServer ms\<rparr>;
         guest = (Ms_GuestParams ms)\<lparr>Uk_Net := netArgs\<rparr>;
         vmmArgs = (Ms_ExecArgs ms)\<lparr>Ex_Net := netArgs\<rparr>
     in bindM (setupMonitorRootfs u monRootfs monRes withTUNTAP) (\<lambda>_.
     bindM (setupVAccel u monRootfs vmmArgs guest) (\<lambda>(vmmArgs, guest).
     bindM (usesPivot u) (\<lambda>withPivot.
     bindM (changeRoot monRootfs withPivot) (\<lambda>_.
       execInRoot D u monRes vmm unikernel vmmArgs guest))))))))))"

section \<open>Signal, Kill, Delete\<close>

definition monitorRootfs :: "Unikontainer \<Rightarrow> string prog" where
  "monitorRootfs u =
     (let bundleDir = Clean (St_Bundle (U_State u)); rootfsDir = Clean (S_RootPath (U_Spec u));
          rootfsDir = (if \<not> IsAbs rootfsDir then filepath_Join [bundleDir, rootfsDir] else rootfsDir);
          monRootfs = filepath_Join [bundleDir, MonitorRootfsDirName]
      in bindM (tryM (callStat (Fs (Stat monRootfs)))) (\<lambda>r.
           retM (case r of Inr _ \<Rightarrow> monRootfs | Inl _ \<Rightarrow> rootfsDir)))"

definition removeControlSocket :: "Unikontainer \<Rightarrow> string \<Rightarrow> unit prog" where
  "removeControlSocket u socketPath =
     bindM (monitorRootfs u) (\<lambda>root.
     bindM (callS (Fs (SecureJoin root socketPath))) (\<lambda>sockRealPath.
     bindM (tryM (callStat (Fs (Lstat sockRealPath)))) (\<lambda>r.
       case r of
         Inl e \<Rightarrow> (if os_IsNotExist e then retM () else failM e)
       | Inr info \<Rightarrow> (if st_type info \<noteq> Sock then retM () else callU (Fs (Remove sockRealPath))))))"

definition Signal :: "'v deps \<Rightarrow> Unikontainer \<Rightarrow> int \<Rightarrow> unit prog" where
  "Signal D u sig =
     (if St_Pid (U_State u) \<le> 0 then retM ()
      else bindM (NewVMM (dp_arch D) (annot_of u annotHypervisor) (Cfg_Monitors (U_Cfg u))) (\<lambda>vmm.
           bindM (vmm_Signal (dp_stopFuel D) vmm (St_Pid (U_State u)) sig) (\<lambda>_.
             let socketPath = Mon_SocketPath (monitorCfgOf u)
             in if (sig = SIGKILL \<or> sig = SIGTERM) \<and> socketPath \<noteq> [] \<and> vmm_SupportsControlSocket vmm
                then ignoreM (removeControlSocket u socketPath) else retM ())))"

definition Kill_container :: "'v deps \<Rightarrow> Unikontainer \<Rightarrow> unit prog" where
  "Kill_container D u =
     (if St_Pid (U_State u) \<le> 0 then retM ()
      else bindM (NewVMM (dp_arch D) (annot_of u annotHypervisor) (Cfg_Monitors (U_Cfg u))) (\<lambda>vmm.
             vmm_Stop (dp_stopFuel D) vmm (St_Pid (U_State u))))"

definition isRunning :: "'v deps \<Rightarrow> Unikontainer \<Rightarrow> bool prog" where
  "isRunning D u =
     (if annot_of u annotHypervisor \<noteq> HedgeVmm then
        (if St_Pid (U_State u) \<le> 0 then retM False
         else bindM (tryM (callU (Proc (Kill (St_Pid (U_State u)) 0)))) (\<lambda>r.
                retM (case r of Inr _ \<Rightarrow> True | Inl _ \<Rightarrow> False)))
      else retM (Hedge_VMState (dp_listVMs D) Hedge (St_ID (U_State u)) = ''running''))"

definition LibcontainerRoot :: "Unikontainer \<Rightarrow> string" where
  "LibcontainerRoot u = filepath_Join [U_RootDir u, libcontainerDirName]"

definition destroyLibcontainer :: "Unikontainer \<Rightarrow> unit prog" where
  "destroyLibcontainer u =
     bindM (tryM (callU (Lib (LibLoad (LibcontainerRoot u) (St_ID (U_State u)))))) (\<lambda>r.
       case r of
         Inl _ \<Rightarrow> retM ()
       | Inr _ \<Rightarrow> wrapM ''failed to destroy the monitor's libcontainer state: %w'' [] (callU (Lib LibDestroy)))"

definition Delete :: "'v deps \<Rightarrow> Unikontainer \<Rightarrow> bool \<Rightarrow> unit prog" where
  "Delete D u force =
     bindM (isRunning D u) (\<lambda>running.
       if running then failM (Errorf ''cannot delete running container: %s'' [St_ID (U_State u)])
       else
     bindM (if isLibcontainer u then destroyLibcontainer u else retM ()) (\<lambda>_.
     bindM (tryM (cleanupNetwork (L_Namespaces (linux_of u)))) (\<lambda>r.
     bindM (case r of
              Inr _ \<Rightarrow> retM ()
            | Inl e \<Rightarrow> (if \<not> force then failM (ErrorfW ''failed to cleanup network: %w'' [] e) else retM ())) (\<lambda>_.
     bindM (loadMonitorResources D (U_BaseDir u)) (\<lambda>(monRes, _).
     bindM (ignoreM (restoreBlockVolumes (Mr_BlockArgs monRes))) (\<lambda>_.
     let monRootfs = filepath_Join [Clean (St_Bundle (U_State u)), MonitorRootfsDirName]
     in bindM (wrapM ''failed to remove the monitor rootfs %s: %w'' [monRootfs] (callU (Fs (RemoveAll monRootfs)))) (\<lambda>_.
          callU (Fs (RemoveAll (U_BaseDir u))))))))))"

end
