(* ===== verification/Cli.thy ===== *)
theory Cli
  imports Lifecycle
begin

text \<open>
  The command line, \<open>cmd/urunc\<close>: the root directory, the checks on arguments, and the commands
  create, start, kill, delete, run, ps and monitor over the operations of a container. What the cli
  package has parsed is a record. An execve that succeeds never returns to the code: where the
  process is handed over to runc there is no container to go on with, and nothing follows.
\<close>

record cliCommand =
  Cli_Name :: string
  Cli_Args :: "string list"
  Cli_argv :: "string list"
  Cli_rootSet :: bool
  Cli_root :: string
  Cli_bundle :: string
  Cli_consoleSocket :: string
  Cli_pidFile :: string
  Cli_format :: string
  Cli_logFormat :: string
  Cli_logLevel :: int
  Cli_reexec :: bool
  Cli_force :: bool
  Cli_systemdCgroup :: bool

definition firstArg :: "cliCommand \<Rightarrow> string" where
  "firstArg c = (case Cli_Args c of [] \<Rightarrow> [] | a # _ \<Rightarrow> a)"

section \<open>Arguments\<close>

datatype checkType = exactArgs | minArgs | maxArgs

definition checkArgs :: "cliCommand \<Rightarrow> nat \<Rightarrow> checkType \<Rightarrow> err + unit" where
  "checkArgs c expected check =
     (let n = length (Cli_Args c);
          as = [hd (Cli_argv c @ [[]]), Cli_Name c, FormatUint expected]
      in case check of
           exactArgs \<Rightarrow> (if n \<noteq> expected then Inl (Errorf ''%s: %q requires exactly %d argument(s)'' as) else Inr ())
         | minArgs \<Rightarrow> (if n < expected then Inl (Errorf ''%s: %q requires a minimum of %d argument(s)'' as) else Inr ())
         | maxArgs \<Rightarrow> (if n > expected then Inl (Errorf ''%s: %q requires a maximum of %d argument(s)'' as) else Inr ()))"

definition id_char :: "char \<Rightarrow> bool" where
  "id_char c =
     (let b = byte c
      in 97 \<le> b \<and> b \<le> 122 \<or> 65 \<le> b \<and> b \<le> 90 \<or> isDigit c
         \<or> c = CHR ''_'' \<or> c = CHR ''+'' \<or> c = CHR ''-'' \<or> c = CHR ''.'')"

definition validateID :: "string \<Rightarrow> err + unit" where
  "validateID cid =
     (if cid = [] then Inl ErrEmptyContainerID
      else if \<not> list_all id_char cid then Inl ErrInvalidID
      else if sep # cid \<noteq> Clean (sep # cid) then Inl ErrInvalidID
      else Inr ())"

text \<open>
  \<open>strings.ToUpper\<close> as far as it can give an ASCII letter: the two runes outside ASCII that do are
  the long s and the dotless i. Any other rune stays outside ASCII, so no signal has such a name.
\<close>

definition upper_char :: "char \<Rightarrow> char" where
  "upper_char c = (if 97 \<le> byte c \<and> byte c \<le> 122 then char_of (byte c - 32) else c)"

fun ToUpper :: "string \<Rightarrow> string" where
  "ToUpper (a # b # s) =
     (if byte a = 197 \<and> byte b = 191 then CHR ''S'' # ToUpper s
      else if byte a = 196 \<and> byte b = 177 then CHR ''I'' # ToUpper s
      else upper_char a # ToUpper (b # s))"
| "ToUpper [a] = [upper_char a]"
| "ToUpper [] = []"

definition parseSignal :: "(string \<Rightarrow> int) \<Rightarrow> string \<Rightarrow> err + int" where
  "parseSignal signalNum rawSignal =
     (case Atoi rawSignal of
        Some s \<Rightarrow> Inr s
      | None \<Rightarrow>
          (let sig = ToUpper rawSignal;
               sig = (if HasPrefix sig ''SIG'' then sig else ''SIG'' @ sig);
               signal = signalNum sig
           in if signal = 0 then Inl (Errorf ''unknown signal %q'' [rawSignal]) else Inr signal))"

section \<open>The root directory\<close>

definition os_Getenv :: "string \<Rightarrow> string prog" where
  "os_Getenv key =
     bindM (tryM (callS (Proc (Getenv key)))) (\<lambda>r. retM (case r of Inr v \<Rightarrow> v | Inl _ \<Rightarrow> []))"

definition ShouldHonorXDGRuntimeDir :: "bool prog" where
  "ShouldHonorXDGRuntimeDir =
     bindM (tryM (callI (Proc Geteuid))) (\<lambda>euid.
       if euid \<noteq> Inr 0 then retM True
       else bindM (callFlag (Mnt RunningInUserNS)) (\<lambda>inUserNS.
         if \<not> inUserNS then retM False
         else bindM (tryM (callS (Proc (Getenv ''USER'')))) (\<lambda>u. retM (u \<noteq> Inr ''root''))))"

definition prepareXDGRuntimeDir :: "string \<Rightarrow> unit prog" where
  "prepareXDGRuntimeDir root =
     bindM (wrapM ''the path in $XDG_RUNTIME_DIR must be writable by the user: %w'' [] (callU (Fs (MkdirAll root 448)))) (\<lambda>_.
       wrapM ''you should check permission of the path in $XDG_RUNTIME_DIR: %w'' [] (callU (Fs (Chmod root 960))))"

definition reviseRootDir :: "string \<Rightarrow> string prog" where
  "reviseRootDir root =
     bindM (filepath_Abs root) (\<lambda>root.
       if root = ''/'' then failM (Errorf ''option --root argument should not be set to /'' [])
       else retM root)"

definition monitorArgv :: string where "monitorArgv = ''monitor''"

definition isMonitorInvocation :: "cliCommand \<Rightarrow> bool" where
  "isMonitorInvocation c = (Cli_Name c = monitorArgv)"

text \<open>The root directory, as \<open>Before\<close> leaves it for the command.\<close>

definition resolveRoot :: "cliCommand \<Rightarrow> string prog" where
  "resolveRoot c =
     (if isMonitorInvocation c then retM (Cli_root c)
      else if Cli_rootSet c then reviseRootDir (Cli_root c)
      else bindM (os_Getenv ''XDG_RUNTIME_DIR'') (\<lambda>xdgRuntimeDir.
        if xdgRuntimeDir = [] then retM (Cli_root c)
        else bindM ShouldHonorXDGRuntimeDir (\<lambda>honor.
          if \<not> honor then retM (Cli_root c)
          else bindM (prepareXDGRuntimeDir (xdgRuntimeDir @ ''/urunc'')) (\<lambda>_.
                 reviseRootDir (xdgRuntimeDir @ ''/urunc'')))))"

section \<open>Containers\<close>

definition runcExec :: "cliCommand \<Rightarrow> unit prog" where
  "runcExec c =
     bindM (callS (Proc (LookPath ''runc''))) (\<lambda>binPath.
     bindM os_Environ (\<lambda>env. callU (Proc (Exec binPath (binPath # drop 1 (Cli_argv c)) env))))"

text \<open>The container, or none when the process has become runc.\<close>

definition getUnikontainer :: "'v deps \<Rightarrow> cliCommand \<Rightarrow> Unikontainer option prog" where
  "getUnikontainer D c =
     bindM (liftM (validateID (firstArg c))) (\<lambda>_.
     bindM (tryM (Get D (firstArg c) (Cli_root c))) (\<lambda>r.
       case r of
         Inr u \<Rightarrow> retM (Some u)
       | Inl e \<Rightarrow> (if errors_Is e ErrNotUnikernel then bindM (runcExec c) (\<lambda>_. retM None) else failM e)))"

definition newUnikontainer :: "'v deps \<Rightarrow> cliCommand \<Rightarrow> UruncConfig \<Rightarrow> Unikontainer option prog" where
  "newUnikontainer D c uruncCfg =
     bindM (liftM (validateID (firstArg c))) (\<lambda>_.
     bindM (if Cli_bundle c = [] then callS (Proc Getwd) else retM (Cli_bundle c)) (\<lambda>bundlePath.
     bindM (tryM (New D bundlePath (firstArg c) (Cli_root c) uruncCfg)) (\<lambda>r.
       case r of
         Inl e \<Rightarrow>
           (if errors_Is e ErrQueueProxy \<or> errors_Is e ErrNotUnikernel
            then bindM (runcExec c) (\<lambda>_. retM None) else failM e)
       | Inr u \<Rightarrow> bindM (InitialSetup D u) (\<lambda>u. retM (Some u)))))"

section \<open>Create\<close>

text \<open>
  A deferred step whose error counts when the body has none, and one that runs when the body fails.
\<close>

definition closeM :: "string \<Rightarrow> unit prog \<Rightarrow> unit prog \<Rightarrow> unit prog" where
  "closeM fmt cleanup body =
     bindM (tryM body) (\<lambda>r. bindM (tryM (wrapM fmt [] cleanup)) (\<lambda>c.
       case r of Inl e \<Rightarrow> failM e | Inr _ \<Rightarrow> liftM c))"

definition onErrM :: "unit prog \<Rightarrow> 'a prog \<Rightarrow> 'a prog" where
  "onErrM cleanup body =
     bindM (tryM body) (\<lambda>r.
       case r of Inr x \<Rightarrow> retM x | Inl e \<Rightarrow> bindM (ignoreM cleanup) (\<lambda>_. failM e))"

definition createReexecCmd :: "cliCommand \<Rightarrow> (string list \<times> string list) prog" where
  "createReexecCmd c =
     bindM os_Environ (\<lambda>env.
       retM (Cli_argv c @ [''--reexec''],
             env @ [''_LIBCONTAINER_INITPIPE=3'', ''_LIBCONTAINER_LOGPIPE=4'',
                    ''_LIBCONTAINER_LOGLEVEL='' @ Itoa (Cli_logLevel c)]))"

definition handleNsenterRet :: "int prog" where
  "handleNsenterRet =
     bindM (wrapM ''error reading pid from init pipe: %w'' [] (callPids (Lib NsenterPids))) (\<lambda>(stage2, stage1).
     bindM (ignoreM (callU (Lib (WaitPid stage1)))) (\<lambda>_.
     bindM (tryM (callI (Lib WaitReexec))) (\<lambda>r.
       case r of
         Inl e \<Rightarrow> bindM (ignoreM (callU (Lib ReexecWait))) (\<lambda>_. failM (ErrorfW ''nsenter error: %w'' [] e))
       | Inr code \<Rightarrow>
           (if code \<noteq> 0 then
              bindM (ignoreM (callU (Lib ReexecWait))) (\<lambda>_.
                failM (Errorf ''nsenter unsuccessful exit: %d'' [Itoa code]))
            else retM stage2))))"

text \<open>
  The start of the reexec process, with what follows it: the files of the terminal are closed when
  that is done. A connection to a unix socket always is of the type the code asks for.
\<close>

definition withReexec ::
    "cliCommand \<Rightarrow> string list \<Rightarrow> string list \<Rightarrow> bool \<Rightarrow> unit prog \<Rightarrow> unit prog" where
  "withReexec c argv env terminal rest =
     (if terminal then
        bindM (wrapM ''failed to setup pty and start reexec process: %w'' [] (callU (Lib (StartReexec argv env True)))) (\<lambda>_.
          deferM (callU (Lib PtyClose))
            (bindM (wrapM ''failed to dial console socket: %w'' [] (callU (Lib (ConsoleDial (Cli_consoleSocket c))))) (\<lambda>_.
               deferM (callU (Lib ConsoleClose)) (deferM (callU (Lib ConsoleClose))
                 (bindM (tryM (callS (Lib PtyName))) (\<lambda>name.
                  bindM (wrapM ''failed to send PTY file descriptor over socket: %w'' []
                           (callU (Lib (ConsoleSend (case name of Inr n \<Rightarrow> n | Inl _ \<Rightarrow> []))))) (\<lambda>_. rest)))))))
      else
        bindM (wrapM ''failed to start reexec process: %w'' [] (callU (Lib (StartReexec argv env False)))) (\<lambda>_. rest))"

text \<open>The end of create: the container's pid, the hooks, and the message to the reexec process.\<close>

definition finishCreate :: "'v deps \<Rightarrow> cliCommand \<Rightarrow> Unikontainer \<Rightarrow> int \<Rightarrow> unit prog" where
  "finishCreate D c u containerPid =
     bindM (Create D u containerPid (Cli_pidFile c)) (\<lambda>u.
     bindM (wrapM ''failed to execute CreateRuntime hooks: %w'' [] (ExecuteHooks D u ''CreateRuntime'')) (\<lambda>_.
       wrapM ''failed to send ACK to reexec process: %w'' [] (callU (Lib (InitWrite AckReexec)))))"

definition createProcess :: "'v deps \<Rightarrow> cliCommand \<Rightarrow> Unikontainer \<Rightarrow> unit prog" where
  "createProcess D c u =
     bindM (wrapM ''failed to create init socket: %w'' [] (callU (Lib (SockPair ''init'')))) (\<lambda>_.
     closeM ''failed to close parent socket pair: %w'' (callU (Lib ParentClose))
    (bindM (wrapM ''failed to create pipe for logs: %w'' [] (callU (Lib PipeNew))) (\<lambda>_.
     bindM (wrapM ''failed to format namespace info for nsenter: %w'' []
              (FormatNsenterInfo (dp_nlHeader D) (dp_bigEndian D) (L_Namespaces (linux_of u)))) (\<lambda>nsenterInfo.
     bindM (createReexecCmd c) (\<lambda>(argv, env).
     withReexec c argv env (P_Terminal (S_Process (U_Spec u)))
    (bindM (wrapM ''failed to close child socket pair: %w'' [] (callU (Lib ChildClose))) (\<lambda>_.
     bindM (wrapM ''failed to close child log pipe: %w'' [] (callU (Lib LogClose))) (\<lambda>_.
     bindM (wrapM ''failed to copy nsenter info to socket: %w'' [] (callU (Lib (InitCopy nsenterInfo)))) (\<lambda>_.
     bindM handleNsenterRet (\<lambda>reexecPid.
     closeM ''unable to forward init logs: %w'' (callU (Lib WaitLogs))
       (finishCreate D c u reexecPid)))))))))))"

definition createUnikontainer :: "'v deps \<Rightarrow> cliCommand \<Rightarrow> UruncConfig \<Rightarrow> unit prog" where
  "createUnikontainer D c uruncCfg =
     bindM (newUnikontainer D c uruncCfg) (\<lambda>r.
       case r of None \<Rightarrow> retM () | Some u \<Rightarrow> createProcess D c u)"

section \<open>Create in the libcontainer mode\<close>

text \<open>The log level is the number logrus gives it; 5 is debug.\<close>

definition buildMonitorArgs :: "int \<Rightarrow> string \<Rightarrow> string \<Rightarrow> string list" where
  "buildMonitorArgs logLevel cid logFormat =
     [''/proc/self/exe''] @ (if logLevel \<ge> 5 then [''--debug''] else [])
     @ (if logFormat \<noteq> [] then [''--log-format'', logFormat] else []) @ [monitorArgv, cid]"

definition monitorProcess :: "'v deps \<Rightarrow> cliCommand \<Rightarrow> Unikontainer \<Rightarrow> string \<Rightarrow> lib_process prog" where
  "monitorProcess D c u readyFile =
     bindM (MonitorCapabilities D (U_Spec u) (U_BaseDir u)) (\<lambda>caps.
     bindM os_Environ (\<lambda>env.
     let terminal = P_Terminal (S_Process (U_Spec u));
         process = \<lparr>lp_Args = buildMonitorArgs (Cli_logLevel c) (St_ID (U_State u)) (Cli_logFormat c),
           lp_Env = env, lp_Cwd = ''/'', lp_Init = True, lp_Caps = caps,
           lp_LogLevel = Itoa (Cli_logLevel c), lp_ExtraFiles = [readyFile], lp_Terminal = terminal\<rparr>
     in if \<not> terminal then retM process
        else if Cli_consoleSocket c = [] then
          failM (Errorf ''the container requests a terminal but no console socket was given'' [])
        else
          bindM (wrapM ''failed to dial the console socket %s: %w'' [Cli_consoleSocket c]
                   (callU (Lib (ConsoleDial (Cli_consoleSocket c))))) (\<lambda>_.
            deferM (callU (Lib ConsoleClose))
              (bindM (wrapM ''failed to get the console socket file: %w'' [] (callU (Lib ConsoleFile))) (\<lambda>_.
                 retM process)))))"

definition startInContainer :: "'v deps \<Rightarrow> cliCommand \<Rightarrow> Unikontainer \<Rightarrow> lib_process \<Rightarrow> unit prog" where
  "startInContainer D c u process =
     bindM (wrapM ''failed to start the monitor's init process: %w'' [] (callU (Lib (LibStart process)))) (\<lambda>_.
     onErrM (bindM (tryM (callU (Lib LibKillInit))) (\<lambda>_. callU (Lib LibWaitInit)))
       (bindM (wrapM ''failed to read the monitor's container state: %w'' [] (callI (Lib LibState))) (\<lambda>pid.
        bindM (Create D u pid (Cli_pidFile c)) (\<lambda>_. retM ()))))"

definition createContainer :: "'v deps \<Rightarrow> cliCommand \<Rightarrow> Unikontainer \<Rightarrow> unit prog" where
  "createContainer D c u =
     bindM (BuildContainerConfig D (U_Spec u) (St_ID (U_State u)) (U_BaseDir u) (Cli_systemdCgroup c)) (\<lambda>config.
     bindM (wrapM ''failed to create the monitor's container: %w'' []
              (callU (Lib (LibCreate (LibcontainerRoot u) (St_ID (U_State u)) config)))) (\<lambda>_.
     onErrM (callU (Lib LibDestroy))
      (bindM (CreateReadyPipe (U_BaseDir u)) (\<lambda>_.
       deferM (callU (Ird (FileClose (getReadyPipePath (U_BaseDir u)))))
        (bindM (monitorProcess D c u (getReadyPipePath (U_BaseDir u))) (startInContainer D c u))))))"

definition libcontainerCreate :: "'v deps \<Rightarrow> cliCommand \<Rightarrow> UruncConfig \<Rightarrow> unit prog" where
  "libcontainerCreate D c uruncCfg =
     bindM (newUnikontainer D c uruncCfg) (\<lambda>r.
       case r of None \<Rightarrow> retM () | Some u \<Rightarrow> createContainer D c u)"

section \<open>The reexec process\<close>

text \<open>
  From the container on. The connection that a failed \<open>Exec\<close> leaves behind is closed; a successful
  one has replaced the process and leaves nobody to close it.
\<close>

definition reexecContainer :: "'v deps \<Rightarrow> Unikontainer \<Rightarrow> unit prog" where
  "reexecContainer D u =
     bindM (wrapM ''failed to execute CreateContainer hooks: %w'' [] (ExecuteHooks D u ''CreateContainer'')) (\<lambda>_.
     bindM (wrapM ''error creating listener on reexec socket: %w'' [] (CreateListener u FromReexec)) (\<lambda>_.
     bindM (tryM (wrapM ''error waiting START message: %w'' [] (AwaitMsg u StartExecve))) (\<lambda>await.
     bindM (tryM (wrapM ''error destroying listener on reexec socket: %w'' [] (DestroyListener u FromReexec))) (\<lambda>clean.
     bindM (case await of Inl e \<Rightarrow> failSome (errors_Join (Some e) (errOf clean)) | Inr _ \<Rightarrow> retM ()) (\<lambda>_.
     bindM (wrapM ''error creating connection to urunc socket: %w'' [] (CreateConn u FromReexec)) (\<lambda>_.
     bindM (tryM (Exec_monitor D u)) (\<lambda>r.
       case r of
         Inr _ \<Rightarrow> retM ()
       | Inl e \<Rightarrow>
           deferM (DestroyConn u FromReexec)
             (bindM (tryM (SendMessage StartErr)) (\<lambda>sockErr.
                failSome (errors_Join (Some e) (errOf sockErr)))))))))))"

definition fdFromEnv :: "string \<Rightarrow> int prog" where
  "fdFromEnv key =
     bindM (os_Getenv key) (\<lambda>s.
       case Atoi s of
         None \<Rightarrow> failM (ErrorfW (''unable to convert '' @ key @ '': %w'') [] (Errorf ''strconv.Atoi: parsing %q'' [s]))
       | Some fd \<Rightarrow> retM fd)"

definition reexecUnikontainer :: "'v deps \<Rightarrow> cliCommand \<Rightarrow> unit prog" where
  "reexecUnikontainer D c =
     bindM (fdFromEnv ''_LIBCONTAINER_LOGPIPE'') (\<lambda>logFd.
     bindM (wrapM ''close log pipe: %w'' [] (callU (Lib (NewFileClose logFd)))) (\<lambda>_.
     bindM (fdFromEnv ''_LIBCONTAINER_INITPIPE'') (\<lambda>initFd.
     bindM (wrapM ''failed to read from init socket: %w'' [] (callS (Lib (FileRead initFd (length AckReexec))))) (\<lambda>buf.
     let msg = take (length AckReexec) buf
     in if msg \<noteq> AckReexec then failM (Errorf ''received unexpected message: %s'' [msg])
        else
     bindM (wrapM ''close init pipe: %w'' [] (callU (Lib (NewFileClose initFd)))) (\<lambda>_.
     bindM (getUnikontainer D c) (\<lambda>r.
       case r of None \<Rightarrow> retM () | Some u \<Rightarrow> reexecContainer D u))))))"

section \<open>Start\<close>

definition startMonitorInit :: "Unikontainer \<Rightarrow> unit prog" where
  "startMonitorInit u =
     bindM (wrapM ''failed to load the monitor's container: %w'' []
              (callU (Lib (LibLoad (LibcontainerRoot u) (St_ID (U_State u)))))) (\<lambda>_.
       wrapM ''failed to release the monitor process: %w'' [] (callU (Lib LibExec)))"

definition startReexec :: "Unikontainer \<Rightarrow> unit prog" where
  "startReexec u =
     bindM (wrapM ''failed to create connection with reexec socket: %w'' [] (CreateConn u (\<not> FromReexec))) (\<lambda>_.
     bindM (tryM (wrapM ''error sending START message: %w'' [] (SendMessage StartExecve))) (\<lambda>sendErr.
     bindM (tryM (wrapM ''error destroying connection to reexec socket: %w'' [] (DestroyConn u (\<not> FromReexec)))) (\<lambda>cleanErr.
       failSome (errors_Join (errOf sendErr) (errOf cleanErr)))))"

definition startContainer :: "'v deps \<Rightarrow> Unikontainer \<Rightarrow> unit prog" where
  "startContainer D u =
     bindM (CreateListener u (\<not> FromReexec)) (\<lambda>_.
       deferM (DestroyListener u (\<not> FromReexec))
        (bindM (if isLibcontainer u then startMonitorInit u else startReexec u) (\<lambda>_.
         bindM (wrapM ''failed to get the success message from the monitor: %w'' [] (AwaitMsg u StartSuccess)) (\<lambda>_.
         bindM (wrapM ''failed to set the state as running for container: %w'' [] (SetRunningState D u)) (\<lambda>u.
           ExecuteHooks D u ''Poststart'')))))"

definition startUnikontainer :: "'v deps \<Rightarrow> cliCommand \<Rightarrow> unit prog" where
  "startUnikontainer D c =
     bindM (getUnikontainer D c) (\<lambda>r. case r of None \<Rightarrow> retM () | Some u \<Rightarrow> startContainer D u)"

section \<open>The commands\<close>

definition loadConfig :: "'v deps \<Rightarrow> UruncConfig prog" where
  "loadConfig D =
     bindM (os_Getenv UruncConfigFileEnv) (\<lambda>v.
       retM (fst (LoadUruncConfig (dp_decFile D) (dp_monitors D) (ResolveUruncConfigPath (\<lambda>_. v)))))"

definition createCommand :: "'v deps \<Rightarrow> cliCommand \<Rightarrow> unit prog" where
  "createCommand D c =
     bindM (liftM (checkArgs c 1 exactArgs)) (\<lambda>_.
       if Cli_reexec c then reexecUnikontainer D c
       else bindM (loadConfig D) (\<lambda>uruncCfg.
         if Rt_Libcontainer (Cfg_Runtime uruncCfg) then libcontainerCreate D c uruncCfg
         else createUnikontainer D c uruncCfg))"

definition startCommand :: "'v deps \<Rightarrow> cliCommand \<Rightarrow> unit prog" where
  "startCommand D c = bindM (liftM (checkArgs c 1 exactArgs)) (\<lambda>_. startUnikontainer D c)"

definition killCommand :: "'v deps \<Rightarrow> cliCommand \<Rightarrow> unit prog" where
  "killCommand D c =
     bindM (liftM (checkArgs c 1 minArgs)) (\<lambda>_.
     bindM (liftM (checkArgs c 2 maxArgs)) (\<lambda>_.
     bindM (getUnikontainer D c) (\<lambda>r.
       case r of
         None \<Rightarrow> retM ()
       | Some u \<Rightarrow>
           (let sigstr = (case drop 1 (Cli_Args c) of [] \<Rightarrow> [] | s # _ \<Rightarrow> s);
                sigstr = (if sigstr = [] then ''SIGTERM'' else sigstr)
            in bindM (liftM (parseSignal (dp_signalNum D) sigstr)) (\<lambda>signal. Signal D u signal)))))"

text \<open>A container without a state on disk: what is left of it goes.\<close>

definition deleteLeftover :: "cliCommand \<Rightarrow> err \<Rightarrow> unit prog" where
  "deleteLeftover c e =
     (if firstArg c = [] then failM ErrEmptyContainerID
      else bindM (ignoreM (callU (Fs (RemoveAll (filepath_Join [Cli_root c, firstArg c]))))) (\<lambda>_.
        if Cli_force c then retM ()
        else failM (ErrorfW ''container %s does not exist: %w'' [firstArg c] e)))"

definition deleteContainer :: "'v deps \<Rightarrow> Unikontainer \<Rightarrow> bool \<Rightarrow> unit prog" where
  "deleteContainer D u force =
     bindM (if force then Kill_container D u else retM ()) (\<lambda>_.
     bindM (Delete D u force) (\<lambda>_. ignoreM (ExecuteHooks D u ''Poststop'')))"

definition deleteCommand :: "'v deps \<Rightarrow> cliCommand \<Rightarrow> unit prog" where
  "deleteCommand D c =
     bindM (liftM (checkArgs c 1 exactArgs)) (\<lambda>_.
     bindM (tryM (getUnikontainer D c)) (\<lambda>r.
       case r of
         Inl e \<Rightarrow> (if is_ErrNotExist e then deleteLeftover c e else failM e)
       | Inr None \<Rightarrow> retM ()
       | Inr (Some u) \<Rightarrow> deleteContainer D u (Cli_force c)))"

text \<open>
  A reexec that returns without an error has replaced the process, so the start behind it in the
  code is not reached.
\<close>

definition runCommand :: "'v deps \<Rightarrow> cliCommand \<Rightarrow> unit prog" where
  "runCommand D c = bindM (liftM (checkArgs c 1 exactArgs)) (\<lambda>_. reexecUnikontainer D c)"

definition psCommand :: "'v deps \<Rightarrow> cliCommand \<Rightarrow> unit prog" where
  "psCommand D c =
     bindM (liftM (checkArgs c 1 minArgs)) (\<lambda>_.
     bindM (getUnikontainer D c) (\<lambda>r.
       case r of
         None \<Rightarrow> retM ()
       | Some u \<Rightarrow>
           (let pid = Itoa (St_Pid (U_State u))
            in if Cli_format c = ''json'' then callU (Proc (Stdout (''['' @ pid @ '']'' @ [NL])))
               else if Cli_format c = ''table'' then
                 bindM (ignoreM (callU (Proc (Stdout (''PID'' @ [NL]))))) (\<lambda>_.
                   ignoreM (callU (Proc (Stdout (pid @ [NL])))))
               else failM (Errorf ''invalid format option: %s'' [Cli_format c]))))"

definition monitorCommand :: "'v deps \<Rightarrow> cliCommand \<Rightarrow> unit prog" where
  "monitorCommand D c = bindM (liftM (checkArgs c 1 exactArgs)) (\<lambda>_. ExecMonitor D)"

text \<open>The program: the root directory, then the command.\<close>

definition urunc :: "'v deps \<Rightarrow> cliCommand \<Rightarrow> unit prog" where
  "urunc D c =
     bindM (resolveRoot c) (\<lambda>root.
     let c = c\<lparr>Cli_root := root\<rparr>
     in if Cli_Name c = ''create'' then createCommand D c
        else if Cli_Name c = ''delete'' then deleteCommand D c
        else if Cli_Name c = ''kill'' then killCommand D c
        else if Cli_Name c = monitorArgv then monitorCommand D c
        else if Cli_Name c = ''run'' then runCommand D c
        else if Cli_Name c = ''ps'' then psCommand D c
        else if Cli_Name c = ''start'' then startCommand D c
        else retM ())"

end
