(* ===== verification/Call_Order.thy ===== *)
theory Call_Order
  imports Host
begin

text \<open>
  The order of calls. A step is \<open>granted\<close> when the world answers it without an error; \<open>performed \<omega> t cs ds\<close>
  says that the calls \<open>ds\<close>, made from history \<open>t\<close> on, contain the steps \<open>cs\<close> in this order, each
  granted. \<open>sure\<close> says what a program that succeeds has performed, and \<open>guarded\<close> what has been
  performed before any call of a kind, in every course of the world.
\<close>

section \<open>Steps performed in order\<close>

fun performed :: "host \<Rightarrow> call list \<Rightarrow> call list \<Rightarrow> call list \<Rightarrow> bool" where
  "performed \<omega> t [] ds = True"
| "performed \<omega> t (c # cs) ds =
     (\<exists>p q. ds = p @ c # q \<and> \<omega> (t @ p) c = ROk \<and> performed \<omega> (t @ p @ [c]) cs q)"

lemma performed_step:
  "ds = p @ c # q \<Longrightarrow> \<omega> (t @ p) c = ROk \<Longrightarrow> performed \<omega> (t @ p @ [c]) cs q \<Longrightarrow> performed \<omega> t (c # cs) ds"
  by auto

lemma performed_cases:
  assumes "performed \<omega> t (c # cs) ds"
  obtains p q where "ds = p @ c # q" "\<omega> (t @ p) c = ROk" "performed \<omega> (t @ p @ [c]) cs q"
  using assms by auto

declare performed.simps(2) [simp del]

lemma performed_later: "performed \<omega> (t @ ds) cs es \<Longrightarrow> performed \<omega> t cs (ds @ es)"
proof (cases cs)
  case (Cons c cs')
  assume "performed \<omega> (t @ ds) cs es"
  then obtain p q where "es = p @ c # q" "\<omega> ((t @ ds) @ p) c = ROk" "performed \<omega> ((t @ ds) @ p @ [c]) cs' q"
    using Cons by (auto elim: performed_cases)
  then show ?thesis using Cons by (auto intro: performed_step [where p = "ds @ p" and q = q])
qed simp

lemma performed_more: "performed \<omega> t cs ds \<Longrightarrow> performed \<omega> t cs (ds @ es)"
proof (induction cs arbitrary: t ds)
  case (Cons c cs)
  from Cons.prems obtain p q where pq: "ds = p @ c # q" "\<omega> (t @ p) c = ROk" "performed \<omega> (t @ p @ [c]) cs q"
    by (rule performed_cases)
  then show ?case using Cons.IH [OF pq(3)] by (auto intro: performed_step [where p = p and q = "q @ es"])
qed simp

lemma performed_append:
  "performed \<omega> t as ds \<Longrightarrow> performed \<omega> (t @ ds) bs es \<Longrightarrow> performed \<omega> t (as @ bs) (ds @ es)"
proof (induction as arbitrary: t ds)
  case Nil
  then show ?case by (simp add: performed_later)
next
  case (Cons c as)
  from Cons.prems(1) obtain p q where pq: "ds = p @ c # q" "\<omega> (t @ p) c = ROk" "performed \<omega> (t @ p @ [c]) as q"
    by (rule performed_cases)
  have "performed \<omega> (t @ p @ [c]) (as @ bs) (q @ es)"
    using Cons.IH [OF pq(3)] pq(1) Cons.prems(2) by simp
  then show ?case using pq by (auto intro: performed_step [where p = p and q = "q @ es"])
qed

lemma performed_one: "\<omega> t c = ROk \<Longrightarrow> performed \<omega> t [c] [c]"
  by (rule performed_step [where p = "[]" and q = "[]"]) simp_all

text \<open>A step that was performed is one of the calls.\<close>

lemma performed_set: "performed \<omega> t cs ds \<Longrightarrow> set cs \<subseteq> set ds"
proof (induction cs arbitrary: t ds)
  case (Cons c cs)
  from Cons.prems obtain p q where "ds = p @ c # q" "performed \<omega> (t @ p @ [c]) cs q"
    by (rule performed_cases)
  then show ?case using Cons.IH by fastforce
qed simp

text \<open>Where a call is found that the first steps do not make.\<close>

lemma split_after:
  assumes "ds @ es = pre @ c # post" "list_all P ds" "\<not> P c"
  obtains p where "pre = ds @ p" "es = p @ c # post"
  using assms by (auto simp: append_eq_append_conv2 append_eq_Cons_conv list_all_iff)

text \<open>A call of the first program, or one of the second.\<close>

lemma split_sequence:
  assumes "ds @ es = pre @ c # post"
  obtains (first) q where "ds = pre @ c # q" | (second) p where "pre = ds @ p" "es = p @ c # post"
  using assms by (auto simp: append_eq_append_conv2 append_eq_Cons_conv)

section \<open>What a success has performed\<close>

definition sure :: "host \<Rightarrow> (call list \<Rightarrow> bool) \<Rightarrow> 'a prog \<Rightarrow> bool" where
  "sure \<omega> S m \<longleftrightarrow>
     (\<forall>t x t'. m \<omega> t = (Inr x, t') \<longrightarrow> (\<exists>ds cs. t' = t @ ds \<and> S cs \<and> performed \<omega> t cs ds))"

lemma sure_only: "only (\<lambda>_. True) m \<Longrightarrow> sure \<omega> (\<lambda>cs. cs = []) m"
  unfolding sure_def by (metis onlyD performed.simps(1) snd_conv)

lemma sure_callU: "sure \<omega> (\<lambda>cs. cs = [c]) (callU c)"
  unfolding sure_def by (auto simp: callU_run performed_one split: reply.splits simp del: performed.simps)

lemma sure_mapErrM: "sure \<omega> S m \<Longrightarrow> sure \<omega> S (mapErrM f m)"
  unfolding sure_def
proof (intro allI impI)
  fix t x t'
  assume S: "\<forall>t x t'. m \<omega> t = (Inr x, t') \<longrightarrow> (\<exists>ds cs. t' = t @ ds \<and> S cs \<and> performed \<omega> t cs ds)"
    and r: "mapErrM f m \<omega> t = (Inr x, t')"
  then have "m \<omega> t = (Inr x, t')" by (cases "m \<omega> t"; cases "fst (m \<omega> t)") auto
  then show "\<exists>ds cs. t' = t @ ds \<and> S cs \<and> performed \<omega> t cs ds" using S by blast
qed

lemma sure_wrapM: "sure \<omega> S m \<Longrightarrow> sure \<omega> S (wrapM fmt as m)"
  by (simp add: wrapM_def sure_mapErrM)

lemma sure_mono: "sure \<omega> S m \<Longrightarrow> (\<And>cs. S cs \<Longrightarrow> S' cs) \<Longrightarrow> sure \<omega> S' m"
  unfolding sure_def by blast

lemma sure_bindM:
  assumes m: "sure \<omega> A m" and f: "\<And>x. sure \<omega> (B x) (f x)"
    and AB: "\<And>x a b. A a \<Longrightarrow> B x b \<Longrightarrow> S (a @ b)"
  shows "sure \<omega> S (bindM m f)"
  unfolding sure_def
proof (intro allI impI)
  fix t y t''
  assume "bindM m f \<omega> t = (Inr y, t'')"
  then obtain x t' where "m \<omega> t = (Inr x, t')" and fx: "f x \<omega> t' = (Inr y, t'')"
    by (auto simp: bindM_Inr_iff)
  then obtain ds a where ds: "t' = t @ ds" "A a" "performed \<omega> t a ds" using m unfolding sure_def by blast
  obtain es b where "t'' = t' @ es" "B x b" "performed \<omega> t' b es" using f fx unfolding sure_def by blast
  then show "\<exists>ds cs. t'' = t @ ds \<and> S cs \<and> performed \<omega> t cs ds"
    using ds AB performed_append by (intro exI [of _ "ds @ es"] exI [of _ "a @ b"]) auto
qed

section \<open>What precedes a call\<close>

definition guarded :: "host \<Rightarrow> (call \<Rightarrow> bool) \<Rightarrow> (call list \<Rightarrow> bool) \<Rightarrow> 'a prog \<Rightarrow> bool" where
  "guarded \<omega> C S m \<longleftrightarrow>
     (\<forall>t. \<exists>ds. snd (m \<omega> t) = t @ ds \<and>
        (\<forall>pre c post. ds = pre @ c # post \<longrightarrow> C c \<longrightarrow> (\<exists>cs. S cs \<and> performed \<omega> t cs pre)))"

lemma guarded_from:
  assumes "guarded \<omega> C S m" "snd (m \<omega> t) = t @ pre @ c # post" "C c"
  shows "\<exists>cs. S cs \<and> performed \<omega> t cs pre"
  using assms unfolding guarded_def by (metis same_append_eq)

lemma guarded_run:
  assumes "guarded \<omega> C S m" "snd (runM m \<omega>) = pre @ c # post" "C c"
  shows "\<exists>cs. S cs \<and> performed \<omega> [] cs pre"
  using guarded_from [OF assms(1), of "[]"] assms(2,3) by (simp add: runM_def)

lemma guarded_only: "only (\<lambda>c. \<not> C c) m \<Longrightarrow> guarded \<omega> C S m"
  unfolding guarded_def by (fastforce dest: onlyD simp: list_all_iff)

lemma guarded_none: "only (\<lambda>_. True) m \<Longrightarrow> S [] \<Longrightarrow> guarded \<omega> C S m"
  unfolding guarded_def by (metis onlyD performed.simps(1))

lemma guarded_mono: "guarded \<omega> C S m \<Longrightarrow> (\<And>cs. S cs \<Longrightarrow> S' cs) \<Longrightarrow> guarded \<omega> C S' m"
  unfolding guarded_def by blast

lemma guarded_bindM:
  assumes quiet: "only (\<lambda>c. \<not> C c) m" and m: "sure \<omega> A m" and f: "\<And>x. guarded \<omega> C (B x) (f x)"
    and AB: "\<And>x a b. A a \<Longrightarrow> B x b \<Longrightarrow> S (a @ b)"
  shows "guarded \<omega> C S (bindM m f)"
  unfolding guarded_def
proof (intro allI)
  fix t
  obtain ds where ds: "snd (m \<omega> t) = t @ ds" "list_all (\<lambda>c. \<not> C c) ds" using onlyD [OF quiet] by blast
  show "\<exists>ds. snd (bindM m f \<omega> t) = t @ ds \<and>
        (\<forall>pre c post. ds = pre @ c # post \<longrightarrow> C c \<longrightarrow> (\<exists>cs. S cs \<and> performed \<omega> t cs pre))"
  proof (cases "fst (m \<omega> t)")
    case (Inl e)
    then have "m \<omega> t = (Inl e, t @ ds)" using ds(1) by (cases "m \<omega> t") auto
    then have "snd (bindM m f \<omega> t) = t @ ds" by (simp add: bindM_run)
    then show ?thesis using ds(2) by (intro exI [of _ ds]) (auto simp: list_all_iff)
  next
    case (Inr x)
    then have mx: "m \<omega> t = (Inr x, t @ ds)" using ds(1) by (cases "m \<omega> t") auto
    obtain a where a: "A a" "performed \<omega> t a ds" using m mx unfolding sure_def by blast
    obtain es where es: "snd (f x \<omega> (t @ ds)) = (t @ ds) @ es"
      "\<And>pre c post. es = pre @ c # post \<Longrightarrow> C c \<Longrightarrow> \<exists>cs. B x cs \<and> performed \<omega> (t @ ds) cs pre"
      using f unfolding guarded_def by blast
    have "snd (bindM m f \<omega> t) = t @ (ds @ es)" using mx es(1) by (simp add: bindM_run)
    moreover have "\<exists>cs. S cs \<and> performed \<omega> t cs pre" if eq: "ds @ es = pre @ c # post" and C: "C c" for pre c post
    proof -
      from eq ds(2) obtain p where p: "pre = ds @ p" "es = p @ c # post"
        using split_after [OF eq ds(2)] C by blast
      from es(2) [OF p(2) C] obtain b where "B x b" "performed \<omega> (t @ ds) b p" by blast
      then show ?thesis using a AB p(1) performed_append by (intro exI [of _ "a @ b"]) auto
    qed
    ultimately show ?thesis by blast
  qed
qed

text \<open>A step without a requirement of its own, and a branch.\<close>

lemma guarded_skip:
  assumes "only (\<lambda>c. \<not> C c) m" "\<And>x. guarded \<omega> C S (f x)"
  shows "guarded \<omega> C S (bindM m f)"
proof (rule guarded_bindM [where A = "\<lambda>a. a = []" and B = "\<lambda>_. S"])
  show "sure \<omega> (\<lambda>a. a = []) m" by (rule sure_only) (rule only_mono [OF assms(1)], simp)
qed (use assms in auto)

lemma guarded_case_prod: "(\<And>a b. guarded \<omega> C S (f a b)) \<Longrightarrow> guarded \<omega> C S (case p of (a, b) \<Rightarrow> f a b)"
  by (cases p) simp

lemma guarded_if: "(b \<Longrightarrow> guarded \<omega> C S m) \<Longrightarrow> (\<not> b \<Longrightarrow> guarded \<omega> C S n) \<Longrightarrow> guarded \<omega> C S (if b then m else n)"
  by simp

lemma guarded_failM: "guarded \<omega> C S (failM e)"
  by (rule guarded_only) (rule only_failM)

text \<open>What precedes a call in one of two programs precedes it in their sequence.\<close>

lemma guarded_tryM: "guarded \<omega> C S m \<Longrightarrow> guarded \<omega> C S (tryM m)"
  by (simp add: guarded_def)

lemma guarded_mapErrM: "guarded \<omega> C S m \<Longrightarrow> guarded \<omega> C S (mapErrM f m)"
  by (simp add: guarded_def)

lemma guarded_then:
  assumes m: "guarded \<omega> C S m" and f: "\<And>t x t'. m \<omega> t = (Inr x, t') \<Longrightarrow> guarded \<omega> C S (f x)"
  shows "guarded \<omega> C S (bindM m f)"
  unfolding guarded_def
proof (intro allI)
  fix t
  obtain ds where ds: "snd (m \<omega> t) = t @ ds"
    "\<And>pre c post. ds = pre @ c # post \<Longrightarrow> C c \<Longrightarrow> \<exists>cs. S cs \<and> performed \<omega> t cs pre"
    using m unfolding guarded_def by blast
  show "\<exists>ds. snd (bindM m f \<omega> t) = t @ ds \<and>
        (\<forall>pre c post. ds = pre @ c # post \<longrightarrow> C c \<longrightarrow> (\<exists>cs. S cs \<and> performed \<omega> t cs pre))"
  proof (cases "m \<omega> t")
    case (Pair r t')
    then have t': "t' = t @ ds" using ds(1) by simp
    show ?thesis
    proof (cases r)
      case (Inl e)
      then show ?thesis using Pair t' ds(2) by (intro exI [of _ ds]) (simp add: bindM_run)
    next
      case (Inr x)
      then have mx: "m \<omega> t = (Inr x, t @ ds)" using Pair t' by simp
      obtain es where es: "snd (f x \<omega> (t @ ds)) = (t @ ds) @ es"
        "\<And>pre c post. es = pre @ c # post \<Longrightarrow> C c \<Longrightarrow> \<exists>cs. S cs \<and> performed \<omega> (t @ ds) cs pre"
        using f [OF mx] unfolding guarded_def by blast
      have "\<exists>cs. S cs \<and> performed \<omega> t cs pre" if eq: "ds @ es = pre @ c # post" and C: "C c" for pre c post
      proof -
        from eq show ?thesis
          by (cases rule: split_sequence) (use ds(2) es(2) C performed_later in blast)+
      qed
      then show ?thesis using mx es(1) by (intro exI [of _ "ds @ es"]) (simp add: bindM_run)
    qed
  qed
qed

section \<open>Replies that are waited for\<close>

text \<open>
  \<open>met \<omega> G t ds\<close>: among the calls \<open>ds\<close> made from history \<open>t\<close> on is one with a reply that \<open>G\<close> asks for.
  \<open>yields\<close>: a program that succeeds has met it; \<open>awaits\<close>: it has been met before any call of a kind.
\<close>

definition met :: "host \<Rightarrow> (call \<Rightarrow> reply \<Rightarrow> bool) \<Rightarrow> call list \<Rightarrow> call list \<Rightarrow> bool" where
  "met \<omega> G t ds \<longleftrightarrow> (\<exists>p c q. ds = p @ c # q \<and> G c (\<omega> (t @ p) c))"

lemma met_later: "met \<omega> G (t @ ds) es \<Longrightarrow> met \<omega> G t (ds @ es)"
  unfolding met_def by (metis append.assoc)

lemma met_more: "met \<omega> G t ds \<Longrightarrow> met \<omega> G t (ds @ es)"
  unfolding met_def by (metis append.assoc append_Cons)

definition yields :: "host \<Rightarrow> (call \<Rightarrow> reply \<Rightarrow> bool) \<Rightarrow> 'a prog \<Rightarrow> bool" where
  "yields \<omega> G m \<longleftrightarrow> (\<forall>t x t'. m \<omega> t = (Inr x, t') \<longrightarrow> (\<exists>ds. t' = t @ ds \<and> met \<omega> G t ds))"

definition awaits :: "host \<Rightarrow> (call \<Rightarrow> bool) \<Rightarrow> (call \<Rightarrow> reply \<Rightarrow> bool) \<Rightarrow> 'a prog \<Rightarrow> bool" where
  "awaits \<omega> C G m \<longleftrightarrow>
     (\<forall>t. \<exists>ds. snd (m \<omega> t) = t @ ds \<and> (\<forall>pre c post. ds = pre @ c # post \<longrightarrow> C c \<longrightarrow> met \<omega> G t pre))"

lemma awaits_run:
  "awaits \<omega> C G m \<Longrightarrow> snd (runM m \<omega>) = pre @ c # post \<Longrightarrow> C c \<Longrightarrow> met \<omega> G [] pre"
  unfolding awaits_def runM_def by (metis append_Nil)

lemma awaits_only: "only (\<lambda>c. \<not> C c) m \<Longrightarrow> awaits \<omega> C G m"
  unfolding awaits_def by (fastforce dest: onlyD simp: list_all_iff)

lemma awaits_tryM: "awaits \<omega> C G m \<Longrightarrow> awaits \<omega> C G (tryM m)"
  by (simp add: awaits_def)

lemma awaits_mapErrM: "awaits \<omega> C G m \<Longrightarrow> awaits \<omega> C G (mapErrM f m)"
  by (simp add: awaits_def)

lemma yields_mapErrM: "yields \<omega> G m \<Longrightarrow> yields \<omega> G (mapErrM f m)"
  unfolding yields_def by (metis (no_types, lifting) mapErrM_run mapErr_Inr_iff prod.collapse prod.inject)

lemma yields_wrapM: "yields \<omega> G m \<Longrightarrow> yields \<omega> G (wrapM fmt as m)"
  by (simp add: wrapM_def yields_mapErrM)

lemma awaits_bindM:
  assumes m: "awaits \<omega> C G m" and f: "\<And>t x t'. m \<omega> t = (Inr x, t') \<Longrightarrow> awaits \<omega> C G (f x)"
  shows "awaits \<omega> C G (bindM m f)"
  unfolding awaits_def
proof (intro allI)
  fix t
  obtain ds where ds: "snd (m \<omega> t) = t @ ds" "\<And>pre c post. ds = pre @ c # post \<Longrightarrow> C c \<Longrightarrow> met \<omega> G t pre"
    using m unfolding awaits_def by blast
  obtain r where r: "m \<omega> t = (r, t @ ds)" using ds(1) by (cases "m \<omega> t") auto
  show "\<exists>ds. snd (bindM m f \<omega> t) = t @ ds \<and> (\<forall>pre c post. ds = pre @ c # post \<longrightarrow> C c \<longrightarrow> met \<omega> G t pre)"
  proof (cases r)
    case (Inl e)
    then show ?thesis using r ds(2) by (intro exI [of _ ds]) (simp add: bindM_run)
  next
    case (Inr x)
    obtain es where es: "snd (f x \<omega> (t @ ds)) = (t @ ds) @ es"
      "\<And>pre c post. es = pre @ c # post \<Longrightarrow> C c \<Longrightarrow> met \<omega> G (t @ ds) pre"
      using f [OF r [unfolded Inr]] unfolding awaits_def by blast
    have "met \<omega> G t pre" if eq: "ds @ es = pre @ c # post" and C: "C c" for pre c post
      using eq by (cases rule: split_sequence) (use ds(2) es(2) C met_later in blast)+
    then show ?thesis using r Inr es(1) by (intro exI [of _ "ds @ es"]) (simp add: bindM_run)
  qed
qed

lemma awaits_skip: "only (\<lambda>c. \<not> C c) m \<Longrightarrow> (\<And>x. awaits \<omega> C G (f x)) \<Longrightarrow> awaits \<omega> C G (bindM m f)"
  by (rule awaits_bindM [OF awaits_only])

lemma awaits_if: "(b \<Longrightarrow> awaits \<omega> C G m) \<Longrightarrow> (\<not> b \<Longrightarrow> awaits \<omega> C G n) \<Longrightarrow> awaits \<omega> C G (if b then m else n)"
  by simp

lemma awaits_case_option:
  "awaits \<omega> C G m \<Longrightarrow> (\<And>x. awaits \<omega> C G (f x)) \<Longrightarrow> awaits \<omega> C G (case r of None \<Rightarrow> m | Some x \<Rightarrow> f x)"
  by (cases r) simp_all

lemma awaits_failM: "awaits \<omega> C G (failM e)" and awaits_retM: "awaits \<omega> C G (retM x)"
  by (simp_all add: awaits_def)

lemma awaits_mono: "awaits \<omega> C G m \<Longrightarrow> (\<And>c r. G c r \<Longrightarrow> G' c r) \<Longrightarrow> awaits \<omega> C G' m"
  unfolding awaits_def met_def by meson

text \<open>Behind a program that yields the reply, everything is allowed.\<close>

lemma awaits_behind:
  assumes m: "only (\<lambda>c. \<not> C c) m" "yields \<omega> G m" and f: "\<And>x. only (\<lambda>_. True) (f x)"
  shows "awaits \<omega> C G (bindM m f)"
  unfolding awaits_def
proof (intro allI)
  fix t
  obtain r ds where r: "m \<omega> t = (r, t @ ds)" and ds: "list_all (\<lambda>c. \<not> C c) ds" using only_result [OF m(1)] by blast
  show "\<exists>ds. snd (bindM m f \<omega> t) = t @ ds \<and> (\<forall>pre c post. ds = pre @ c # post \<longrightarrow> C c \<longrightarrow> met \<omega> G t pre)"
  proof (cases r)
    case (Inl e)
    then show ?thesis using r ds by (intro exI [of _ ds]) (auto simp: bindM_run)
  next
    case (Inr x)
    then have y: "met \<omega> G t ds" using m(2) r unfolding yields_def by fastforce
    obtain r' es where es: "f x \<omega> (t @ ds) = (r', (t @ ds) @ es)" using only_result [OF f] by blast
    have "met \<omega> G t pre" if eq: "ds @ es = pre @ c # post" and C: "C c" for pre c post
      using split_after [OF eq ds] C y met_more by metis
    then show ?thesis using r Inr es by (intro exI [of _ "ds @ es"]) (simp add: bindM_run)
  qed
qed

end
