(* ===== verification/Footprint.thy ===== *)
theory Footprint
  imports Cli Call_Order
begin

text \<open>
  Which calls the operations can make at all. A call is \<open>quiet\<close> when it replaces no process, sends
  no signal, writes to no connection or inherited descriptor and leaves the user of the process alone;
  every step before the execve is quiet but for those that do just that.
\<close>

definition quiet :: "call \<Rightarrow> bool" where
  "quiet c = (case c of
      Proc (Exec _ _ _) \<Rightarrow> False | Proc (Kill _ _) \<Rightarrow> False | Ipc (FdWrite _ _) \<Rightarrow> False | Ipc (ConnWrite _) \<Rightarrow> False
    | Proc (Setuid _) \<Rightarrow> False | Proc (Setgid _) \<Rightarrow> False | Proc (Setgroups _) \<Rightarrow> False | _ \<Rightarrow> True)"

lemma quiet_groups [simp]:
  "quiet (Fs f)" "quiet (Mnt m)" "quiet (Net n)" "quiet (Lib l)" "quiet (Ird i)"
  by (simp_all add: quiet_def)

lemma quiet_proc [simp]:
  "quiet (Proc Now)" "quiet (Proc (Sleep n))" "quiet (Proc (LookPath s))" "quiet (Proc (StartProc a))"
  "quiet (Proc (RunCmd a))" "quiet (Proc (RunHook s a b u t))" "quiet (Proc (Chdir s))"
  "quiet (Proc (Chroot s))" "quiet (Proc (PivotRoot s s'))" "quiet (Proc Environ)" "quiet (Proc Getwd)"
  "quiet (Proc (Getenv s))" "quiet (Proc Geteuid)" "quiet (Proc (Stdout s))"
  by (simp_all add: quiet_def)

lemma quiet_ipc [simp]:
  "quiet (Ipc (Dial s))" "quiet (Ipc (Listen s))" "quiet (Ipc Accept)"
  "quiet (Ipc (ConnRead n))" "quiet (Ipc ConnClose)" "quiet (Ipc (ListenerClose s))" "quiet (Ipc (FifoOpen s))"
  "quiet (Ipc FifoRead)" "quiet (Ipc FifoClose)" "quiet (Ipc (Mkfifo s n))" "quiet (Ipc (FdClose n))"
  "quiet (Ipc (FdCloexec n))"
  by (simp_all add: quiet_def)

lemma quiet_loud [simp]:
  "\<not> quiet (Proc (Exec p a e))" "\<not> quiet (Proc (Kill q s))" "\<not> quiet (Ipc (FdWrite n b))" "\<not> quiet (Ipc (ConnWrite txt))"
  "\<not> quiet (Proc (Setuid n))" "\<not> quiet (Proc (Setgid n))" "\<not> quiet (Proc (Setgroups g))"
  by (simp_all add: quiet_def)



text \<open>The value of a program that makes no call, unfolded.\<close>

lemma only_Pair [only_intros]: "only P (\<lambda>\<omega>. Pair r)"
  by (simp add: only_def)

section \<open>Mounts, devices and files\<close>

lemma only_quiet_os_Environ [only_intros]: "only quiet (os_Environ)"
  by (auto simp: os_Environ_def Let_def intro!: only_intros)

lemma only_quiet_getUnprivilegedMountFlags [only_intros]: "only quiet (getUnprivilegedMountFlags p)"
  by (auto simp: getUnprivilegedMountFlags_def Let_def intro!: only_intros)

lemma only_quiet_createDir [only_intros]: "only quiet (createDir p)"
  by (auto simp: createDir_def Let_def intro!: only_intros)

lemma only_quiet_createMountPoint [only_intros]: "only quiet (createMountPoint p m)"
  by (auto simp: createMountPoint_def Let_def intro!: only_intros)

lemma only_quiet_remountFlags [only_intros]: "only quiet (remountFlags p v)"
  by (auto simp: remountFlags_def Let_def intro!: only_intros)

lemma only_quiet_applyMount [only_intros]: "only quiet (applyMount p m)"
  by (auto simp: applyMount_def Let_def intro!: only_intros)

lemma only_quiet_applyMounts [only_intros]: "only quiet (applyMounts p ms)"
  by (auto simp: applyMounts_def Let_def intro!: only_intros)

lemma only_quiet_isHostKernelFS [only_intros]: "only quiet (isHostKernelFS p)"
  by (auto simp: isHostKernelFS_def Let_def intro!: only_intros)

lemma only_quiet_parentPrivate_loop [only_intros]: "only quiet (parentPrivate_loop fuel p)"
  by (induction fuel arbitrary: p) (auto intro!: only_intros)

lemma only_quiet_rootfsParentMountPrivate [only_intros]: "only quiet (rootfsParentMountPrivate p)"
  by (auto simp: rootfsParentMountPrivate_def Let_def intro!: only_intros)

lemma only_quiet_prepareRoot [only_intros]: "only quiet (prepareRoot p f)"
  by (auto simp: prepareRoot_def Let_def intro!: only_intros)

lemma only_quiet_deviceFromHost [only_intros]: "only quiet (deviceFromHost p)"
  by (auto simp: deviceFromHost_def intro!: only_intros split: file_type.split)

lemma only_quiet_makeDevNode [only_intros]: "only quiet (makeDevNode p d n)"
  by (auto simp: makeDevNode_def Let_def intro!: only_intros)

lemma only_quiet_setupDev [only_intros]: "only quiet (setupDev p d)"
  by (auto simp: setupDev_def Let_def intro!: only_intros)

lemma only_quiet_setupDevices [only_intros]: "only quiet (setupDevices p ds b)"
  by (induction ds; unfold setupDevices.simps; intro only_intros)

section \<open>Network\<close>

lemma only_quiet_getTapIndex [only_intros]: "only quiet (getTapIndex)"
  by (auto simp: getTapIndex_def Let_def intro!: only_intros)

lemma only_quiet_setupTapFd [only_intros]: "only quiet (setupTapFd n a b)"
  by (auto simp: setupTapFd_def Let_def intro!: only_intros)

lemma only_quiet_createTapDevice [only_intros]: "only quiet (createTapDevice n m a b)"
  by (auto simp: createTapDevice_def Let_def intro!: only_intros)

lemma only_quiet_getInterfaceInfo [only_intros]: "only quiet (getInterfaceInfo s)"
  by (auto simp: getInterfaceInfo_def intro!: only_intros split: option.split)

lemma only_quiet_iface_loop [only_intros]: "only quiet (iface_loop ls)"
  by (induction ls rule: iface_loop.induct; unfold iface_loop.simps; (intro only_intros)?) simp_all

lemma only_quiet_discoverContainerIface [only_intros]: "only quiet (discoverContainerIface)"
  by (auto simp: discoverContainerIface_def Let_def intro!: only_intros)

lemma only_quiet_ContainerIface [only_intros]: "only quiet (ContainerIface)"
  by (auto simp: ContainerIface_def Let_def intro!: only_intros)

lemma only_quiet_addIngressQdisc [only_intros]: "only quiet (addIngressQdisc l)"
  by (auto simp: addIngressQdisc_def Let_def intro!: only_intros)

lemma only_quiet_addRedirectFilter [only_intros]: "only quiet (addRedirectFilter l l')"
  by (auto simp: addRedirectFilter_def Let_def intro!: only_intros)

lemma only_quiet_addTrafficRules [only_intros]: "only quiet (addTrafficRules l l')"
  by (auto simp: addTrafficRules_def Let_def intro!: only_intros)

lemma only_quiet_networkSetup [only_intros]: "only quiet (networkSetup n i l b u g)"
  by (auto simp: networkSetup_def Let_def intro!: only_intros)

lemma only_quiet_Dynamic_NetworkSetup [only_intros]: "only quiet (Dynamic_NetworkSetup u g)"
  by (auto simp: Dynamic_NetworkSetup_def Let_def intro!: only_intros)

lemma only_quiet_setNATRule [only_intros]: "only quiet (setNATRule i s)"
  by (auto simp: setNATRule_def Let_def intro!: only_intros)

lemma only_quiet_Static_NetworkSetup [only_intros]: "only quiet (Static_NetworkSetup u g)"
  by (auto simp: Static_NetworkSetup_def Let_def intro!: only_intros)

lemma only_quiet_NetworkSetup [only_intros]: "only quiet (NetworkSetup m u g)"
  by (cases m) (auto intro!: only_intros)

lemma only_quiet_SetupNet [only_intros]: "only quiet (SetupNet b n u g)"
  by (auto simp: SetupNet_def Let_def intro!: only_intros)

section \<open>Guests and monitors\<close>

lemma only_quiet_addInitrdRecord [only_intros]: "only quiet (addInitrdRecord a b c d)"
  by (auto simp: addInitrdRecord_def Let_def intro!: only_intros)

lemma only_quiet_AddFileToInitrd [only_intros]: "only quiet (AddFileToInitrd a b c)"
  by (auto simp: AddFileToInitrd_def Let_def intro!: only_intros)

lemma only_quiet_Linux_setupUrunitConfig [only_intros]: "only quiet (Linux_setupUrunitConfig r l)"
  by (auto simp: Linux_setupUrunitConfig_def intro!: only_intros)

lemma only_quiet_Linux_Init [only_intros]: "only quiet (Linux_Init d l)"
  by (auto simp: Linux_Init_def Let_def intro!: only_intros split: sum.split)

lemma only_quiet_FreeBSD_setupUrunitConfig [only_intros]: "only quiet (FreeBSD_setupUrunitConfig f)"
  by (auto simp: FreeBSD_setupUrunitConfig_def intro!: only_intros)

lemma only_quiet_FreeBSD_Init [only_intros]: "only quiet (FreeBSD_Init d f)"
  by (auto simp: FreeBSD_Init_def Let_def intro!: only_intros)

lemma only_quiet_uk_Init [only_intros]: "only quiet (uk_Init V d u)"
  by (cases u) (auto intro!: only_intros)

lemma only_quiet_getVMMPath [only_intros]: "only quiet (getVMMPath a b c d)"
  by (auto simp: getVMMPath_def Let_def intro!: only_intros)

lemma only_quiet_NewVMM [only_intros]: "only quiet (NewVMM a b c)"
  by (auto simp: NewVMM_def Hedge_Ok_def intro!: only_intros split: option.split)

lemma only_quiet_vmm_PreExec [only_intros]: "only quiet (vmm_PreExec v a)"
  by (cases v) (auto simp: SPT_PreExec_def HVT_PreExec_def Qemu_PreExec_def Firecracker_PreExec_def
      CloudHypervisor_PreExec_def Hyperlight_PreExec_def Hedge_PreExec_def intro!: only_intros)

lemma only_quiet_vmm_BuildExecCmd [only_intros]: "only quiet (vmm_BuildExecCmd arch v a u)"
  by (cases v) (auto simp: Firecracker_BuildExecCmd_def intro!: only_intros)

section \<open>Steps of the monitor process\<close>

lemma only_quiet_loadMonitorResources [only_intros]: "only quiet (loadMonitorResources D b)"
  by (auto simp: loadMonitorResources_def intro!: only_intros)

lemma only_quiet_getDNSServer [only_intros]: "only quiet (getDNSServer ms)"
  by (auto simp: getDNSServer_def intro!: only_intros split: option.split)

lemma only_quiet_buildMonitorSpec [only_intros]: "only quiet (buildMonitorSpec u r m)"
  by (auto simp: buildMonitorSpec_def Let_def intro!: only_intros)

lemma only_quiet_setupConsole [only_intros]: "only quiet (setupConsole p)"
  by (auto simp: setupConsole_def Let_def intro!: only_intros)

lemma only_quiet_setupMonitorRootfs [only_intros]: "only quiet (setupMonitorRootfs u p m b)"
  by (auto simp: setupMonitorRootfs_def intro!: only_intros)

lemma only_quiet_checkVAccelSocket [only_intros]: "only quiet (checkVAccelSocket p)"
  by (auto simp: checkVAccelSocket_def intro!: only_intros)

lemma only_quiet_prepareVSockEnvironment [only_intros]: "only quiet (prepareVSockEnvironment p h s)"
  by (auto simp: prepareVSockEnvironment_def intro!: only_intros)

lemma only_quiet_setupVAccel [only_intros]: "only quiet (setupVAccel u p a g)"
  by (auto simp: setupVAccel_def intro!: only_intros)

lemma only_quiet_checkValidNsPath [only_intros]: "only quiet (checkValidNsPath p)"
  by (auto simp: checkValidNsPath_def intro!: only_intros)

lemma only_quiet_findNS [only_intros]: "only quiet (findNS ns t)"
  by (induction ns; unfold findNS.simps; (intro only_intros)?)

lemma only_quiet_usesPivot [only_intros]: "only quiet (usesPivot u)"
  by (auto simp: usesPivot_def intro!: only_intros)

lemma only_quiet_pivotRootfs [only_intros]: "only quiet (pivotRootfs p)"
  by (auto simp: pivotRootfs_def Let_def intro!: only_intros)

lemma only_quiet_changeRoot [only_intros]: "only quiet (changeRoot p b)"
  by (auto simp: changeRoot_def intro!: only_intros)

lemma only_quiet_confineToContainerRootfs [only_intros]: "only quiet (confineToContainerRootfs p)"
  by (auto simp: confineToContainerRootfs_def intro!: only_intros)

lemma only_quiet_confineBlockSources [only_intros]: "only quiet (confineBlockSources bs)"
  by (induction bs; unfold confineBlockSources.simps; (intro only_intros)?)

lemma only_quiet_confineBootFiles [only_intros]: "only quiet (confineBootFiles a)"
  by (auto simp: confineBootFiles_def intro!: only_intros)

lemma only_quiet_buildUnikernelCommand [only_intros]: "only quiet (buildUnikernelCommand D u p)"
  by (auto simp: buildUnikernelCommand_def intro!: only_intros split: option.split)

lemma only_quiet_controlSocketDir [only_intros]: "only quiet (controlSocketDir v p)"
  by (auto simp: controlSocketDir_def Let_def intro!: only_intros)

lemma only_quiet_executeHook [only_intros]: "only quiet (executeHook h s)"
  by (auto simp: executeHook_def Let_def intro!: only_intros split: option.split)

lemma only_quiet_ExecuteHooks [only_intros]: "only quiet (ExecuteHooks D u n)"
  by (auto simp: ExecuteHooks_def intro!: only_intros split: option.split)

lemma only_quiet_spawnProcess [only_intros]: "only quiet (spawnProcess a)"
  by (auto simp: spawnProcess_def intro!: only_intros)

lemma only_quiet_LoadMonitorSpec [only_intros]: "only quiet (LoadMonitorSpec D d)"
  by (auto simp: LoadMonitorSpec_def intro!: only_intros)

end
