(* ===== verification/Samples.thy ===== *)
theory Samples
  imports Cli "HOL-Library.Code_Target_Nat"
begin

text \<open>
  Small concrete values for the witnesses: what comes from outside \<open>src/\<close>, a specification, a
  container that runs a Mirage guest under solo5-spt, and a host that grants every request.
\<close>

definition sample_mon :: MonitorConfig where
  "sample_mon = zeroMonitorConfig\<lparr>Mon_BinaryPath := ''/bin/spt'', Mon_DefaultMemoryMB := 16, Mon_DefaultVCPUs := 1\<rparr>"

definition sample_cfg :: UruncConfig where
  "sample_cfg = defaultUruncConfig\<lparr>Cfg_Monitors := [''spt'' \<mapsto> sample_mon]\<rparr>"

definition sample_user :: OciUser where
  "sample_user = \<lparr>User_UID = 65, User_GID = 66, User_AdditionalGids = []\<rparr>"

definition sample_spec :: OciSpec where
  "sample_spec = \<lparr>S_Version = ''1'', S_Annotations = Map.empty, S_RootPath = ''rootfs'', S_RootReadonly = False,
     S_Process = \<lparr>P_Terminal = False, P_User = sample_user, P_Args = [''app''], P_Env = [], P_Cwd = ''/'',
       P_Capabilities = None\<rparr>,
     S_Linux = Some \<lparr>L_Namespaces = [], L_RootfsPropagation = [], L_MemoryLimit = None, L_Seccomp = False,
       L_Devices = []\<rparr>,
     S_Mounts = [], S_Hooks = None\<rparr>"

definition sample_annot :: annotations where
  "sample_annot = [annotType \<mapsto> ''mirage'', annotHypervisor \<mapsto> ''spt'', annotBinary \<mapsto> ''k'']"

definition sample_state :: OciState where
  "sample_state = \<lparr>St_Version = ''1'', St_ID = ''c1'', St_Status = ''created'', St_Pid = 7, St_Bundle = ''/b'',
     St_Annotations = sample_annot\<rparr>"

definition sample_container :: Unikontainer where
  "sample_container = \<lparr>U_State = sample_state, U_Spec = sample_spec, U_BaseDir = ''/r/c1'', U_RootDir = ''/r'',
     U_Cfg = sample_cfg\<rparr>"

definition sample_res :: monitorResources where
  "sample_res = zeroResources\<lparr>Mr_Rootfs := zeroRootfs\<lparr>Rfs_MonRootfs := ''/b/m''\<rparr>\<rparr>"

definition sample_monSpec :: monitorSpec where
  "sample_monSpec = \<lparr>Ms_ContainerID = ''c1'', Ms_UnikernelType = ''mirage'', Ms_MonitorType = ''spt'',
     Ms_MonitorCfg = sample_mon, Ms_ExecArgs = zeroExecArgs\<lparr>Ex_UnikernelPath := ''k''\<rparr>, Ms_GuestParams = zeroParams,
     Ms_NetworkType = ''dynamic'', Ms_DNSServer = [], Ms_User = sample_user, Ms_PreStartCmd = []\<rparr>"

definition sample_deps :: "unit deps" where
  "sample_deps = \<lparr>dp_arch = ''amd64'', dp_versions = \<lparr>newVersion = (\<lambda>_. Inl badReply), GreaterThanOrEqual = (\<lambda>_ _. True)\<rparr>,
     dp_bigEndian = False, dp_nlHeader = (\<lambda>_ _. []), dp_listVMs = Inr [], dp_initrdFuel = 1, dp_stopFuel = 22,
     dp_decSpec = (\<lambda>_. Inr sample_spec), dp_encSpec = (\<lambda>_. Inr []), dp_decConfig = (\<lambda>_. Inl badReply),
     dp_encState = (\<lambda>_. Inr ''s''), dp_decState = (\<lambda>_. Inr sample_state),
     dp_encRes = (\<lambda>_. Inr ''r''), dp_decRes = (\<lambda>_. (sample_res, None)),
     dp_encMon = (\<lambda>_. Inr ''m''), dp_decMon = (\<lambda>_. Inr sample_monSpec),
     dp_monitors = (\<lambda>_. [''spt'']), dp_extraBins = (\<lambda>_. [''virtiofsd'']), dp_keys = (\<lambda>_. []),
     dp_decFile = (\<lambda>_ _. Inl badReply), dp_specconv = (\<lambda>_ _ _. Inl badReply), dp_signalNum = (\<lambda>_. 0)\<rparr>"

definition sample_host :: host where
  "sample_host t c = (case c of
      Fs (ReadFile p) \<Rightarrow> RStr ''d'' | Fs (SecureJoin a b) \<Rightarrow> RStr (a @ ''/'' @ b) | _ \<Rightarrow> ROk)"

text \<open>The same with a specification that describes the image.\<close>

definition image_deps :: "unit deps" where
  "image_deps = sample_deps\<lparr>dp_decSpec := (\<lambda>_. Inr (sample_spec\<lparr>S_Annotations := sample_annot\<rparr>))\<rparr>"

definition sample_command :: cliCommand where
  "sample_command = \<lparr>Cli_Name = ''start'', Cli_Args = [''c1''], Cli_argv = [''urunc'', ''start'', ''c1''], Cli_rootSet = False,
     Cli_root = ''/r'', Cli_bundle = [], Cli_consoleSocket = [], Cli_pidFile = [], Cli_format = [], Cli_logFormat = [],
     Cli_logLevel = 4, Cli_reexec = False, Cli_force = False, Cli_systemdCgroup = False\<rparr>"

text \<open>The host of start, which hears of a success, and the host of the process that becomes the monitor.\<close>

definition start_host :: host where
  "start_host t c = (case c of Ipc (ConnRead n) \<Rightarrow> RStr ''RX_SUCCESS'' | _ \<Rightarrow> sample_host t c)"

definition reexec_host :: host where
  "reexec_host t c = (case c of
      Ipc (ConnRead n) \<Rightarrow> RStr ''UC_START'' | Lib (FileRead fd n) \<Rightarrow> RStr ''UC_ACK'' | Proc (Getenv k) \<Rightarrow> RStr ''4''
    | Proc (LookPath p) \<Rightarrow> RStr (''/bin/'' @ p)
    | _ \<Rightarrow> sample_host t c)"

definition create_host :: host where
  "create_host t c = (case c of
      Lib NsenterPids \<Rightarrow> RPids 8 7 | Lib WaitReexec \<Rightarrow> RInt 0 | Proc Environ \<Rightarrow> RStrs [] | _ \<Rightarrow> sample_host t c)"

end
