(* ===== verification/Exec_Props.thy ===== *)
theory Exec_Props
  imports Footprint Samples
begin

text \<open>
  What has happened before the process becomes the monitor, in the reexec process (\<open>Exec\<close>) and in the
  monitor process of the libcontainer mode (\<open>ExecMonitor\<close>).
\<close>

section \<open>The user and the root\<close>

lemma sure_then:
  assumes "sure \<omega> (\<lambda>cs. cs = as) m" "\<And>x. sure \<omega> (\<lambda>cs. cs = bs) (f x)"
  shows "sure \<omega> (\<lambda>cs. cs = as @ bs) (bindM m f)"
  by (rule sure_bindM [OF assms(1), where B = "\<lambda>_ cs. cs = bs"]) (use assms(2) in auto)

definition userSteps :: "OciUser \<Rightarrow> call list" where
  "userSteps user =
     (if length (User_AdditionalGids user) > 0
      then [Proc (Setgroups (convertUint32ToIntSlice (User_AdditionalGids user)))] else [])
     @ [Proc (Setgid (unat (User_GID user))), Proc (Setuid (unat (User_UID user)))]"

lemma setupUser_sure: "sure \<omega> (\<lambda>cs. cs = userSteps user) (setupUser user)"
proof -
  have "sure \<omega> (\<lambda>cs. cs = (if length (User_AdditionalGids user) > 0
        then [Proc (Setgroups (convertUint32ToIntSlice (User_AdditionalGids user)))] else [])
      @ [Proc (Setgid (unat (User_GID user)))] @ [Proc (Setuid (unat (User_UID user)))]) (setupUser user)"
    unfolding setupUser_def
  proof (intro sure_then sure_mapErrM sure_callU)
    show "sure \<omega> (\<lambda>cs. cs = (if length (User_AdditionalGids user) > 0
          then [Proc (Setgroups (convertUint32ToIntSlice (User_AdditionalGids user)))] else []))
       (if length (User_AdditionalGids user) > 0
        then mapErrM (ErrorfV ''could not set Additional groups %v : %v'' [])
          (callU (Proc (Setgroups (convertUint32ToIntSlice (User_AdditionalGids user))))) else retM ())"
      by (auto intro: sure_mapErrM sure_callU sure_only only_retM)
  qed
  then show ?thesis by (simp add: userSteps_def)
qed

definition rootSteps :: "string \<Rightarrow> bool \<Rightarrow> call list" where
  "rootSteps rootfsDir pivot =
     [Proc (Chdir rootfsDir)]
     @ (if pivot then [Proc (PivotRoot ''.'' ''old_root''), Proc (Chdir ''/''), Mnt (Unmount ''old_root'' MNT_DETACH)]
        else [Proc (Chroot ''.'')])
     @ [Proc (Chdir ''/'')]"

lemma pivotRootfs_sure:
  "sure \<omega> (\<lambda>cs. cs = [Proc (PivotRoot ''.'' ''old_root''), Proc (Chdir ''/''), Mnt (Unmount ''old_root'' MNT_DETACH)])
     (pivotRootfs newRoot)"
proof -
  have skip: "sure \<omega> (\<lambda>cs. cs = []) (callU c)" for c
    by (rule sure_only) (rule only_calls, simp)
  have "sure \<omega> (\<lambda>cs. cs = [] @ [Proc (PivotRoot ''.'' ''old_root'')] @ [Proc (Chdir ''/'')] @ []
      @ [Mnt (Unmount ''old_root'' MNT_DETACH)] @ []) (pivotRootfs newRoot)"
    unfolding pivotRootfs_def Let_def by (intro sure_then sure_wrapM skip sure_callU)
  then show ?thesis by simp
qed

lemma changeRoot_sure: "sure \<omega> (\<lambda>cs. cs = rootSteps rootfsDir pivot) (changeRoot rootfsDir pivot)"
  unfolding changeRoot_def rootSteps_def
  by (intro sure_then sure_callU) (simp add: sure_callU pivotRootfs_sure)

section \<open>Calls that others see\<close>

text \<open>
  The steps of \<open>Exec\<close> are gone through once, for any kind \<open>C\<close> of calls that are not quiet and do not
  change the user: what has been performed when such a call is made, if \<open>tail\<close> has been between the
  change of the user and the call.
\<close>

definition userCall :: "call \<Rightarrow> bool" where
  "userCall c = (case c of Proc (Setgroups _) \<Rightarrow> True | Proc (Setgid _) \<Rightarrow> True | Proc (Setuid _) \<Rightarrow> True | _ \<Rightarrow> False)"

lemma setupUser_calls: "only userCall (setupUser user)"
  unfolding setupUser_def by (auto simp: userCall_def intro!: only_intros)

definition execSteps :: "Unikontainer \<Rightarrow> call list \<Rightarrow> call list \<Rightarrow> bool" where
  "execSteps u tail cs \<longleftrightarrow>
     (\<exists>root pivot. root \<noteq> [] \<and> cs = rootSteps root pivot @ userSteps (P_User (S_Process (U_Spec u))) @ tail)"

locale watched =
  fixes C :: "call \<Rightarrow> bool"
  assumes loud: "C c \<Longrightarrow> \<not> quiet c" and other: "C c \<Longrightarrow> \<not> userCall c"
begin

lemma only_unseen: "only quiet m \<Longrightarrow> only (\<lambda>c. \<not> C c) m"
  by (rule only_mono [where P = quiet]) (auto dest: loud)

lemma skip: "only quiet m \<Longrightarrow> (\<And>x. guarded \<omega> C S (f x)) \<Longrightarrow> guarded \<omega> C S (bindM m f)"
  by (rule guarded_skip) (rule only_unseen)

text \<open>A step that has to be performed, in front of those that follow.\<close>

lemma step:
  assumes "only (\<lambda>c. \<not> C c) m" "sure \<omega> (\<lambda>cs. cs = as) m" "\<And>x. guarded \<omega> C (\<lambda>cs. cs = bs) (f x)"
  shows "guarded \<omega> C (\<lambda>cs. cs = as @ bs) (bindM m f)"
  by (rule guarded_bindM [OF assms(1,2), where B = "\<lambda>_ cs. cs = bs"]) (use assms(3) in auto)

lemma user_unseen: "only (\<lambda>c. \<not> C c) (setupUser user)"
  by (rule only_mono [OF setupUser_calls]) (auto dest: other)

lemma in_root:
  assumes "\<And>args cmd. guarded \<omega> C (\<lambda>cs. cs = tail) (bindM (SendMessage StartSuccess) (\<lambda>_. execMonitor vmm args cmd))"
  shows "guarded \<omega> C (\<lambda>cs. cs = userSteps (P_User (S_Process (U_Spec u))) @ tail)
     (execInRoot D u monRes vmm unikernel vmmArgs guest)"
  unfolding execInRoot_def Let_def
  by (intro skip [OF only_quiet_confineBootFiles] skip [OF only_quiet_confineBlockSources]
      skip [OF only_quiet_buildUnikernelCommand] guarded_case_prod
      step [OF user_unseen setupUser_sure] skip [OF only_quiet_controlSocketDir]
      skip [OF only_quiet_ExecuteHooks] skip [OF only_quiet_spawnProcess]
      skip [OF only_quiet_vmm_BuildExecCmd] assms)

lemma root_then:
  assumes "\<And>args cmd. guarded \<omega> C (\<lambda>cs. cs = tail) (bindM (SendMessage StartSuccess) (\<lambda>_. execMonitor vmm args cmd))"
    and "root \<noteq> []"
  shows "guarded \<omega> C (execSteps u tail)
     (bindM (changeRoot root pivot) (\<lambda>_. execInRoot D u monRes vmm unikernel vmmArgs guest))"
  by (rule guarded_mono [OF step [OF only_unseen [OF only_quiet_changeRoot] changeRoot_sure in_root [OF assms(1)]]])
    (use assms(2) in \<open>auto simp: execSteps_def\<close>)

lemma Exec_steps:
  assumes "\<And>vmm args cmd. guarded \<omega> C (\<lambda>cs. cs = tail)
      (bindM (SendMessage StartSuccess) (\<lambda>_. execMonitor vmm args cmd))"
  shows "guarded \<omega> C (execSteps u tail) (Exec_monitor D u)"
  unfolding Exec_monitor_def
proof (rule skip [OF only_quiet_loadMonitorResources], rule guarded_case_prod, rule skip)
  fix monRes :: monitorResources and err :: "err option"
  show "only quiet (case err of None \<Rightarrow> retM () | Some e \<Rightarrow> failM (ErrorfW ''failed to load monitor resources: %w'' [] e))"
    by (auto intro!: only_intros)
  define root where "root = Rfs_MonRootfs (Mr_Rootfs monRes)"
  show "guarded \<omega> C (execSteps u tail)
     (let rootfsParams = Mr_Rootfs monRes; monRootfs = Rfs_MonRootfs rootfsParams
     in if monRootfs = [] then failM (Errorf ''missing metadata for rootfs preparation'' [])
        else
     bindM (buildMonitorSpec u rootfsParams monRes) (\<lambda>ms.
     bindM (liftM (New_unikernel (Ms_UnikernelType ms))) (\<lambda>unikernel.
     bindM (NewVMM (dp_arch D) (Ms_MonitorType ms) (Cfg_Monitors (U_Cfg u))) (\<lambda>vmm.
     let user = P_User (S_Process (U_Spec u))
     in bindM (SetupNet (vmm_UsesTUNTAP vmm) (getNetworkType u) (User_UID user) (User_GID user)) (\<lambda>netArgs.
     let withTUNTAP = (Net_TapDev netArgs \<noteq> []);
         netArgs = netArgs\<lparr>Net_DNSServer := Ms_DNSServer ms\<rparr>;
         guest = (Ms_GuestParams ms)\<lparr>Uk_Net := netArgs\<rparr>;
         vmmArgs = (Ms_ExecArgs ms)\<lparr>Ex_Net := netArgs\<rparr>
     in bindM (setupMonitorRootfs u monRootfs monRes withTUNTAP) (\<lambda>_.
     bindM (setupVAccel u monRootfs vmmArgs guest) (\<lambda>(vmmArgs, guest).
     bindM (usesPivot u) (\<lambda>withPivot.
     bindM (changeRoot monRootfs withPivot) (\<lambda>_.
       execInRoot D u monRes vmm unikernel vmmArgs guest)))))))))"
    unfolding Let_def root_def [symmetric]
    by (cases "root = []")
      (auto intro!: guarded_failM root_then [OF assms] skip [OF only_quiet_buildMonitorSpec]
        skip [OF only_liftM] skip [OF only_quiet_NewVMM] skip [OF only_quiet_SetupNet]
        skip [OF only_quiet_setupMonitorRootfs] skip [OF only_quiet_setupVAccel]
        skip [OF only_quiet_usesPivot] guarded_case_prod)
qed

text \<open>The same without an order: what \<open>Exec\<close> never calls.\<close>

lemma Exec_never:
  assumes "\<And>vmm args cmd. only (\<lambda>c. \<not> C c) (bindM (SendMessage StartSuccess) (\<lambda>_. execMonitor vmm args cmd))"
  shows "only (\<lambda>c. \<not> C c) (Exec_monitor D u)"
  unfolding Exec_monitor_def execInRoot_def Let_def
  by (intro only_bindM only_if only_case_option only_case_prod only_failM only_retM only_liftM assms user_unseen
      only_unseen [OF only_quiet_loadMonitorResources] only_unseen [OF only_quiet_buildMonitorSpec]
      only_unseen [OF only_quiet_NewVMM] only_unseen [OF only_quiet_SetupNet]
      only_unseen [OF only_quiet_setupMonitorRootfs] only_unseen [OF only_quiet_setupVAccel]
      only_unseen [OF only_quiet_usesPivot] only_unseen [OF only_quiet_changeRoot]
      only_unseen [OF only_quiet_confineBootFiles] only_unseen [OF only_quiet_confineBlockSources]
      only_unseen [OF only_quiet_buildUnikernelCommand] only_unseen [OF only_quiet_controlSocketDir]
      only_unseen [OF only_quiet_ExecuteHooks] only_unseen [OF only_quiet_spawnProcess]
      only_unseen [OF only_quiet_vmm_BuildExecCmd])

end

definition is_exec :: "call \<Rightarrow> bool" where
  "is_exec c = (\<exists>path argv env. c = Proc (Exec path argv env))"

definition is_success :: "call \<Rightarrow> bool" where
  "is_success c = (c = Ipc (ConnWrite StartSuccess))"

interpretation exec: watched is_exec
  by unfold_locales (auto simp: is_exec_def userCall_def)

interpretation success: watched is_success
  by unfold_locales (auto simp: is_success_def userCall_def)

section \<open>Exec\<close>

lemma SendMessage_sure: "sure \<omega> (\<lambda>cs. cs = [Ipc (ConnWrite m)]) (SendMessage m)"
  unfolding SendMessage_def by (intro sure_wrapM sure_callU)

lemma only_SendMessage: "P (Ipc (ConnWrite m)) \<Longrightarrow> only P (SendMessage m)"
  unfolding SendMessage_def by (auto intro!: only_intros)

lemma only_any_execMonitor: "only (\<lambda>_. True) (execMonitor vmm args cmd)"
  unfolding execMonitor_def by (auto intro!: only_intros only_any [OF only_quiet_vmm_PreExec])

lemma exec_behind_success:
  "guarded \<omega> is_exec (\<lambda>cs. cs = [Ipc (ConnWrite StartSuccess)])
     (bindM (SendMessage StartSuccess) (\<lambda>_. execMonitor vmm args cmd))"
proof -
  have "only (\<lambda>c. \<not> is_exec c) (SendMessage StartSuccess)" by (rule only_SendMessage) (simp add: is_exec_def)
  from exec.step [OF this SendMessage_sure guarded_none [OF only_any_execMonitor refl]] show ?thesis by simp
qed



section \<open>The monitor process of the libcontainer mode\<close>

text \<open>Its steps up to the report of a success.\<close>

definition runSetup :: "'v deps \<Rightarrow> monitorSpec \<Rightarrow> (VMM \<times> ExecArgs \<times> string list) prog" where
  "runSetup D ms =
     bindM os_Environ (\<lambda>env.
     bindM (liftM (New_unikernel (Ms_UnikernelType ms))) (\<lambda>unikernel.
     bindM (NewVMM (dp_arch D) (Ms_MonitorType ms) [Ms_MonitorType ms \<mapsto> Ms_MonitorCfg ms]) (\<lambda>vmm.
     bindM (wrapM ''failed to setup network: %w'' []
              (SetupNet (vmm_UsesTUNTAP vmm) (Ms_NetworkType ms) (User_UID (Ms_User ms)) (User_GID (Ms_User ms)))) (\<lambda>netArgs.
     bindM (confineBootFiles ((Ms_ExecArgs ms)\<lparr>Ex_Environment := env, Ex_Net := netArgs\<lparr>Net_DNSServer := Ms_DNSServer ms\<rparr>\<rparr>)) (\<lambda>execArgs.
     bindM (confineBlockSources (Uk_Block (Ms_GuestParams ms))) (\<lambda>blocks.
     bindM (buildUnikernelCommand D unikernel
              ((Ms_GuestParams ms)\<lparr>Uk_Net := netArgs\<lparr>Net_DNSServer := Ms_DNSServer ms\<rparr>, Uk_Block := blocks\<rparr>)) (\<lambda>cu.
     bindM (setupUser (Ms_User ms)) (\<lambda>_.
     bindM (controlSocketDir vmm (Ex_SocketPath execArgs)) (\<lambda>_.
     bindM (spawnProcess (Ms_PreStartCmd ms)) (\<lambda>_.
     bindM (vmm_BuildExecCmd (dp_arch D) vmm (execArgs\<lparr>Ex_Command := fst cu\<rparr>) (snd cu)) (\<lambda>execCmd.
       retM (vmm, execArgs\<lparr>Ex_Command := fst cu\<rparr>, execCmd))))))))))))"

lemma runMonitor_split:
  "runMonitor D ms =
     bindM (runSetup D ms) (\<lambda>(vmm, execArgs, execCmd).
       bindM (signalReady True) (\<lambda>_. execMonitor vmm execArgs execCmd))"
  by (simp add: runMonitor_def runSetup_def bindM_assoc Let_def case_prod_unfold)

definition silent :: "call \<Rightarrow> bool" where
  "silent c = (\<not> is_exec c \<and> (\<forall>n b. c \<noteq> Ipc (FdWrite n b)))"

lemma quiet_silent: "quiet c \<Longrightarrow> silent c"
  by (auto simp: silent_def is_exec_def)

lemma only_silent: "only quiet m \<Longrightarrow> only silent m"
  by (rule only_mono [where P = quiet]) (auto simp: quiet_silent)

lemma runSetup_silent: "only silent (runSetup D ms)"
proof -
  have "only silent (setupUser user)" for user
    unfolding setupUser_def by (auto simp: silent_def is_exec_def intro!: only_intros)
  then show ?thesis unfolding runSetup_def
    by (intro only_bindM only_liftM only_retM only_wrapM only_silent [OF only_quiet_os_Environ]
        only_silent [OF only_quiet_NewVMM] only_silent [OF only_quiet_SetupNet]
        only_silent [OF only_quiet_confineBootFiles] only_silent [OF only_quiet_confineBlockSources]
        only_silent [OF only_quiet_buildUnikernelCommand] only_silent [OF only_quiet_controlSocketDir]
        only_silent [OF only_quiet_spawnProcess] only_silent [OF only_quiet_vmm_BuildExecCmd])
qed

lemma sure_skip:
  assumes "only quiet m" "\<And>x. sure \<omega> (\<lambda>cs. cs = as) (f x)"
  shows "sure \<omega> (\<lambda>cs. cs = as) (bindM m f)"
  using sure_then [OF sure_only [OF only_any [OF assms(1)]] assms(2)] by simp

lemma sure_before:
  assumes "sure \<omega> (\<lambda>cs. cs = as) m" "\<And>x. only quiet (f x)"
  shows "sure \<omega> (\<lambda>cs. cs = as) (bindM m f)"
  using sure_then [OF assms(1) sure_only [OF only_any [OF assms(2)]]] by simp

lemma runSetup_sure: "sure \<omega> (\<lambda>cs. cs = userSteps (Ms_User ms)) (runSetup D ms)"
  unfolding runSetup_def
  by (intro sure_skip [OF only_quiet_os_Environ] sure_skip [OF only_liftM] sure_skip [OF only_quiet_NewVMM]
      sure_skip [OF only_wrapM [OF only_quiet_SetupNet]] sure_skip [OF only_quiet_confineBootFiles]
      sure_skip [OF only_quiet_confineBlockSources] sure_skip [OF only_quiet_buildUnikernelCommand]
      sure_before [OF setupUser_sure] only_intros)

lemma signalReady_run:
  "\<exists>r post. signalReady ok \<omega> t = (r, t @ Ipc (FdWrite ReadyPipeFD [if ok then readyOK else 1]) # post)"
  by (auto simp: signalReady_def bindM_run call_runs failSome_def split: option.split)

lemma only_any_signalReady: "only (\<lambda>_. True) (signalReady ok)"
  unfolding signalReady_def failSome_def by (intro only_intros) simp_all

lemma runMonitor_reports:
  "(\<exists>e ds. runMonitor D ms \<omega> t = (Inl e, t @ ds) \<and> list_all silent ds) \<or>
   (\<exists>r ds post. runMonitor D ms \<omega> t = (r, t @ ds @ Ipc (FdWrite ReadyPipeFD [readyOK]) # post) \<and>
      list_all silent ds \<and> performed \<omega> t (userSteps (Ms_User ms)) ds)"
proof -
  obtain r ds where run: "runSetup D ms \<omega> t = (r, t @ ds)" and ds: "list_all silent ds"
    using only_result [OF runSetup_silent] by blast
  show ?thesis
  proof (cases r)
    case (Inl e)
    then have "runMonitor D ms \<omega> t = (Inl e, t @ ds)" using run by (simp add: runMonitor_split bindM_run)
    then show ?thesis using ds by blast
  next
    case (Inr x)
    obtain vmm args cmd where x: "x = (vmm, args, cmd)" by (cases x)
    obtain cs es where "t @ ds = t @ es" "cs = userSteps (Ms_User ms)" "performed \<omega> t cs es"
      using runSetup_sure [of \<omega> ms D] run Inr unfolding sure_def by blast
    then have user: "performed \<omega> t (userSteps (Ms_User ms)) ds" by simp
    obtain s post where sig: "signalReady True \<omega> (t @ ds) = (s, (t @ ds) @ Ipc (FdWrite ReadyPipeFD [readyOK]) # post)"
      using signalReady_run [of True \<omega> "t @ ds"] by auto
    obtain s' more where "bindM (signalReady True) (\<lambda>_. execMonitor vmm args cmd) \<omega> (t @ ds)
        = (s', (t @ ds) @ Ipc (FdWrite ReadyPipeFD [readyOK]) # post @ more)"
    proof (cases s)
      case (Inl e)
      with sig that [of "Inl e" "[]"] show ?thesis by (simp add: bindM_run)
    next
      case (Inr u)
      from only_any_execMonitor obtain r' ds' where "execMonitor vmm args cmd \<omega> ((t @ ds) @ Ipc (FdWrite ReadyPipeFD [readyOK]) # post)
          = (r', ((t @ ds) @ Ipc (FdWrite ReadyPipeFD [readyOK]) # post) @ ds')"
        using only_result by blast
      with sig Inr that [of r' ds'] show ?thesis by (simp add: bindM_run)
    qed
    then have "runMonitor D ms \<omega> t = (s', t @ ds @ Ipc (FdWrite ReadyPipeFD [readyOK]) # post @ more)"
      using run Inr x by (simp add: runMonitor_split bindM_run)
    then show ?thesis using ds user by blast
  qed
qed

lemma silent_FdCloexec: "silent (Ipc (FdCloexec n))"
  by (simp add: silent_def is_exec_def)

lemma ExecMonitor_run:
  assumes "LoadMonitorSpec D ''/'' \<omega> [Ipc (FdCloexec ReadyPipeFD)] = (Inr ms, t)"
  shows "runM (ExecMonitor D) \<omega> = (case runMonitor D ms \<omega> t of
      (Inr _, t') \<Rightarrow> (Inr (), t')
    | (Inl e, t') \<Rightarrow> bindM (tryM (signalReady False)) (\<lambda>sig. failSome (errors_Join (Some e) (errOf sig))) \<omega> t')"
  using assms by (simp add: runM_def ExecMonitor_def bindM_run callU_run split: prod.splits sum.splits)


end
