(* ===== verification/Container_Props.thy ===== *)
theory Container_Props
  imports Samples Annotations_Props
begin

text \<open>
  The containers that the operations can reach, as a state machine: \<open>New\<close> starts it, and a step is
  an operation that succeeds or a later invocation that reads the state back from disk. What holds of
  all of them: the identity of the container, the configuration that was validated, and the settings
  of the runtime that created it.
\<close>

section \<open>Invariants of a machine\<close>

locale machine =
  fixes start :: "'s \<Rightarrow> bool" and step :: "'s \<Rightarrow> 's \<Rightarrow> bool" and inv :: "'s \<Rightarrow> bool"
  assumes start_inv: "start s \<Longrightarrow> inv s"
    and step_inv: "inv s \<Longrightarrow> step s s' \<Longrightarrow> inv s'"
begin

lemma always: "start s \<Longrightarrow> step\<^sup>*\<^sup>* s s' \<Longrightarrow> inv s'"
  by (rotate_tac, induction rule: rtranclp_induct) (auto intro: start_inv step_inv)

end

section \<open>The steps\<close>

text \<open>
  What \<open>Get\<close> relies on from outside: the file holds what was last written, the JSON decoder undoes
  the encoder on it, and ranging over a map visits every key once.
\<close>

definition readable :: "'v deps \<Rightarrow> host \<Rightarrow> Unikontainer \<Rightarrow> bool" where
  "readable D \<omega> u \<longleftrightarrow>
     (\<exists>data. dp_encState D (U_State u) = Inr data \<and> dp_decState D data = Inr (U_State u) \<and>
        (\<forall>t. \<omega> t (Fs (ReadFile (statePath u))) = RStr data)) \<and>
     enumerates (dp_keys D (St_Annotations (U_State u))) (St_Annotations (U_State u))"

inductive step :: "'v deps \<Rightarrow> Unikontainer \<Rightarrow> Unikontainer \<Rightarrow> bool" for D where
  prepared: "InitialSetup D u \<omega> t = (Inr u', t') \<Longrightarrow> step D u u'"
| created: "Create D u pid path \<omega> t = (Inr u', t') \<Longrightarrow> step D u u'"
| started: "SetRunningState D u \<omega> t = (Inr u', t') \<Longrightarrow> step D u u'"
| reload: "readable D \<omega> u \<Longrightarrow> Get D (St_ID (U_State u)) (U_RootDir u) \<omega> t = (Inr u', t') \<Longrightarrow> step D u u'"

inductive_cases step_cases: "step D u u'"

section \<open>What a step changes\<close>

text \<open>A container as another one with a new status, process and annotations of the specification.\<close>

definition saves :: "Unikontainer \<Rightarrow> Unikontainer \<Rightarrow> bool" where
  "saves u u' \<longleftrightarrow> (\<exists>status pid.
     u' = u\<lparr>U_State := (U_State u)\<lparr>St_Pid := pid, St_Status := status,
            St_Annotations := mergeAnnotations (S_Annotations (U_Spec u)) (St_Annotations (U_State u))\<rparr>\<rparr>
     \<and> status \<in> {St_Status (U_State u), StateCreating, StateCreated, StateRunning})"

lemma saveContainerState_result:
  "saveContainerState D u \<omega> t = (Inr u', t') \<Longrightarrow>
    u' = u\<lparr>U_State := (U_State u)\<lparr>St_Annotations :=
      mergeAnnotations (S_Annotations (U_Spec u)) (St_Annotations (U_State u))\<rparr>\<rparr>"
  by (auto simp: saveContainerState_def Let_def bindM_Inr_iff)

lemma saved_saves:
  "saveContainerState D (setStatus s (setPid p u)) \<omega> t = (Inr u', t') \<Longrightarrow>
    s \<in> {St_Status (U_State u), StateCreating, StateCreated, StateRunning} \<Longrightarrow> saves u u'"
  unfolding saves_def by (drule saveContainerState_result, intro exI [of _ s] exI [of _ p]) (simp add: setStatus_def setPid_def)

lemma setPid_same: "setPid (St_Pid (U_State u)) u = u"
  by (simp add: setPid_def)

lemmas saved_saves_status = saved_saves [where p = "St_Pid (U_State u)" and u = u for u, unfolded setPid_same]

lemma Create_saves: "Create D u pid path \<omega> t = (Inr u', t') \<Longrightarrow> saves u u'"
  by (auto simp: Create_def Let_def bindM_Inr_iff elim!: saved_saves)

lemma SetRunningState_saves: "SetRunningState D u \<omega> t = (Inr u', t') \<Longrightarrow> saves u u'"
  by (auto simp: SetRunningState_def elim!: saved_saves_status)

lemma InitialSetup_saves: "InitialSetup D u \<omega> t = (Inr u', t') \<Longrightarrow> saves u u'"
  by (auto simp: InitialSetup_def Let_def bindM_Inr_iff elim!: saved_saves_status)

text \<open>The ways a step can go: the container is saved, or it is read back.\<close>

lemma step_saves_or_loads:
  assumes "step D u u'"
  obtains "saves u u'"
    | \<omega> t t' where "readable D \<omega> u" "Get D (St_ID (U_State u)) (U_RootDir u) \<omega> t = (Inr u', t')"
  using assms by (auto elim!: step_cases dest: Create_saves SetRunningState_saves InitialSetup_saves)

lemma loaded_state:
  assumes "readable D \<omega> u" and base: "U_BaseDir u = filepath_Join [U_RootDir u, St_ID (U_State u)]"
    and "Get D (St_ID (U_State u)) (U_RootDir u) \<omega> t = (Inr u', t')"
  shows "U_State u' = U_State u \<and> U_BaseDir u' = U_BaseDir u \<and> U_RootDir u' = U_RootDir u \<and>
    S_Linux (U_Spec u') \<noteq> None \<and>
    (\<exists>ks. enumerates ks (St_Annotations (U_State u)) \<and> U_Cfg u' = UruncConfigFromMap ks ks (St_Annotations (U_State u)))"
proof -
  obtain data where d: "dp_decState D data = Inr (U_State u)" "\<And>t. \<omega> t (Fs (ReadFile (statePath u))) = RStr data"
    and ks: "enumerates (dp_keys D (St_Annotations (U_State u))) (St_Annotations (U_State u))"
    using assms(1) by (auto simp: readable_def)
  show ?thesis using assms(3) d ks
    by (auto simp: Get_def Let_def base [symmetric] loadUnikontainerState_def statePath_def bindM_Inr_iff callS_run
        split: if_splits)
qed

section \<open>Identity, validated configuration and status\<close>

text \<open>
  A container of the configuration \<open>c\<close>: its directory is named after it, its specification has the
  Linux section that the code dereferences, its status is one of those the code writes, and under the
  keys of urunc its annotations say what was validated and nothing else.
\<close>

definition container_of :: "UnikernelConfig \<Rightarrow> string \<Rightarrow> string \<Rightarrow> Unikontainer \<Rightarrow> bool" where
  "container_of c containerID rootDir u \<longleftrightarrow>
     St_ID (U_State u) = containerID \<and> U_RootDir u = rootDir \<and>
     U_BaseDir u = filepath_Join [rootDir, containerID] \<and>
     S_Linux (U_Spec u) \<noteq> None \<and>
     St_Status (U_State u) \<in> {StateCreating, StateCreated, StateRunning} \<and>
     (\<forall>k. HasPrefix k annotUruncPrefix \<longrightarrow> St_Annotations (U_State u) k = UnikernelConfig_Map c k)"

text \<open>The runtime's own settings are stored under keys of another kind.\<close>

lemma mapMonitor_other: "HasPrefix k annotUruncPrefix \<Longrightarrow> mapMonitor hv c m k = m k"
  by (auto simp: mapMonitor_def Let_def HasPrefix_iff annotUruncPrefix_def monPrefix_def)

lemma mapBin_other: "HasPrefix k annotUruncPrefix \<Longrightarrow> mapBin eb c m k = m k"
  by (auto simp: mapBin_def Let_def HasPrefix_iff annotUruncPrefix_def binPrefix_def)

lemma fold_other: "(\<And>x m. f x m k = m k) \<Longrightarrow> fold f xs m k = m k"
  by (induction xs arbitrary: m) auto

lemma UruncConfig_Map_other: "HasPrefix k annotUruncPrefix \<Longrightarrow> UruncConfig_Map hvs ebs p k = None"
  by (auto simp: UruncConfig_Map_def Let_def fold_other mapMonitor_other mapBin_other libcontainerKey_def
      vaccelKey_def HasPrefix_iff annotUruncPrefix_def)

lemma mergeAnnotations_own: "HasPrefix k annotUruncPrefix \<Longrightarrow> mergeAnnotations spec state k = state k"
  by (simp add: mergeAnnotations_def split: option.split)

lemma mergeAnnotations_keeps: "state k = Some v \<Longrightarrow> mergeAnnotations spec state k = Some v"
  by (simp add: mergeAnnotations_def)

text \<open>What \<open>New\<close> makes.\<close>

definition made :: "'v deps \<Rightarrow> UruncConfig \<Rightarrow> UnikernelConfig \<Rightarrow> string \<Rightarrow> string \<Rightarrow> Unikontainer \<Rightarrow> bool" where
  "made D cfg c containerID rootDir u \<longleftrightarrow> (\<exists>bundlePath spec. S_Linux spec \<noteq> None \<and>
     u = \<lparr>U_State = newState D spec containerID bundlePath c cfg, U_Spec = spec,
          U_BaseDir = filepath_Join [rootDir, containerID], U_RootDir = rootDir, U_Cfg = cfg\<rparr>)"

lemma New_made:
  assumes "New D bundlePath containerID rootDir cfg \<omega> t = (Inr u, t')"
  obtains c where "made D cfg c containerID rootDir u" "validateValues c = Inr ()"
  using assms by (auto simp: New_def bindM_Inr_iff made_def split: if_splits)

lemma saves_container_of: "container_of c i r u \<Longrightarrow> saves u u' \<Longrightarrow> container_of c i r u'"
  by (auto simp: container_of_def saves_def mergeAnnotations_own)

interpretation own: machine "made D cfg c i r" "step D" "container_of c i r" for D cfg c i r
proof
  show "container_of c i r u" if "made D cfg c i r u" for u
    using that by (auto simp: made_def container_of_def newState_def StateCreating_def map_add_def
        UruncConfig_Map_other)
  show "container_of c i r u'" if "container_of c i r u" "step D u u'" for u u'
    using that(2)
  proof (rule step_saves_or_loads)
    fix \<omega> t t'
    assume "readable D \<omega> u" "Get D (St_ID (U_State u)) (U_RootDir u) \<omega> t = (Inr u', t')"
    then show ?thesis using that(1) loaded_state [of D \<omega> u t u' t'] by (auto simp: container_of_def)
  qed (rule saves_container_of [OF that(1)])
qed

lemma own_annotation:
  "container_of c i r u \<Longrightarrow> HasPrefix k annotUruncPrefix \<Longrightarrow> annot_of u k = get (UnikernelConfig_Map c) k"
  by (simp add: container_of_def annot_of_def get_def)

lemma annot_of_fields:
  assumes "container_of c i r u"
  shows "annot_of u annotType = Uc_UnikernelType c" "annot_of u annotHypervisor = Uc_Hypervisor c"
    "annot_of u annotBinary = Uc_UnikernelBinary c" "annot_of u annotInitrd = Uc_Initrd c"
    "annot_of u annotSnapshot = Uc_Snapshot c" "annot_of u annotBlock = Uc_Block c"
    "annot_of u annotBlockMntPoint = Uc_BlkMntPoint c"
  using own_annotation [OF assms] get_Map_fields [of c] by (simp_all add: annotUruncPrefix_def HasPrefix_def annot_names)

text \<open>
  C6: whatever succeeds in the life of a container, in any order and any number of times, and whenever
  a later invocation reads it back, it stays the container that was created: its identifier, its state
  directory, the Linux section that the code dereferences, a status that the code knows, and as its
  binary, initrd, snapshot, block image and mount point paths that were checked to be harmless. The
  annotations of the specification, merged into the state each time it is saved, change none of them.
\<close>

theorem containers_keep_what_was_checked:
  assumes "New D bundlePath containerID rootDir cfg \<omega> t = (Inr u, t')" "(step D)\<^sup>*\<^sup>* u v"
  shows "St_ID (U_State v) = containerID \<and> U_BaseDir v = filepath_Join [rootDir, containerID]
    \<and> S_Linux (U_Spec v) \<noteq> None \<and> St_Status (U_State v) \<in> {StateCreating, StateCreated, StateRunning}
    \<and> (\<forall>k \<in> {annotBinary, annotInitrd, annotSnapshot, annotBlock, annotBlockMntPoint}.
          clean_image_path (annot_of v k) \<and> annot_of v k = annot_of u k)"
proof -
  obtain c where c: "made D cfg c containerID rootDir u" "validateValues c = Inr ()"
    using assms(1) by (rule New_made)
  note v = own.always [OF c(1) assms(2)] and u = own.start_inv [OF c(1)]
  have "\<forall>p \<in> {Uc_UnikernelBinary c, Uc_Initrd c, Uc_Snapshot c, Uc_Block c, Uc_BlkMntPoint c}. clean_image_path p"
    using c(2) validateAnnotationPathClean_ok unfolding validateValues_iff by blast
  then show ?thesis
    using v annot_of_fields [OF v] annot_of_fields [OF u] by (simp add: container_of_def)
qed

lemma sample_created:
  obtains u v t where "New image_deps ''/b'' ''c1'' ''/r'' sample_cfg sample_host [] = (Inr u, t)"
    "(step image_deps)\<^sup>*\<^sup>* u v" "St_Status (U_State v) = StateCreated"
proof -
  let ?m = "bindM (New image_deps ''/b'' ''c1'' ''/r'' sample_cfg) (\<lambda>u. bindM (Create image_deps u 7 []) (\<lambda>v.
    retM (u, v)))"
  have "case fst (?m sample_host []) of Inr (u, v) \<Rightarrow> St_Status (U_State v) = StateCreated | Inl _ \<Rightarrow> False"
    by code_simp
  then obtain u v t'' where "?m sample_host [] = (Inr (u, v), t'')" and st: "St_Status (U_State v) = StateCreated"
    by (cases "?m sample_host []") (auto split: sum.splits)
  then obtain t t' where "New image_deps ''/b'' ''c1'' ''/r'' sample_cfg sample_host [] = (Inr u, t)"
      "Create image_deps u 7 [] sample_host t = (Inr v, t')"
    by (auto simp: bindM_Inr_iff)
  then show ?thesis using that st by (blast intro: step.created)
qed

theorem containers_keep_what_was_checked_witness:
  "\<exists>v. St_Status (U_State v) = StateCreated \<and> St_ID (U_State v) = ''c1'' \<and> clean_image_path (annot_of v annotBinary)"
proof -
  obtain u v t where r: "New image_deps ''/b'' ''c1'' ''/r'' sample_cfg sample_host [] = (Inr u, t)"
    "(step image_deps)\<^sup>*\<^sup>* u v" "St_Status (U_State v) = StateCreated"
    by (rule sample_created)
  from containers_keep_what_was_checked [OF r(1,2)] r(3) show ?thesis by blast
qed

text \<open>
  C8: a container never names a guest or a monitor that the code does not have: at any point of its
  life the guest of its type can be made, and its monitor is one of the table, so making it fails only
  when the binary is not installed.
\<close>

theorem containers_name_implemented_types:
  assumes "New D bundlePath containerID rootDir cfg \<omega> t = (Inr u, t')" "(step D)\<^sup>*\<^sup>* u v"
  shows "(\<exists>uk. New_unikernel (annot_of v annotType) = Inr uk) \<and> vmmFactories (annot_of v annotHypervisor) \<noteq> None
    \<and> (\<forall>e. fst (NewVMM arch (annot_of v annotHypervisor) (Cfg_Monitors (U_Cfg v)) \<omega>' s) = Inl e \<longrightarrow>
          e = ErrVMMNotInstalled)"
proof -
  obtain c where c: "made D cfg c containerID rootDir u" "validateValues c = Inr ()"
    using assms(1) by (rule New_made)
  note v = own.always [OF c(1) assms(2)]
  show ?thesis using implemented_pair [OF c(2)] annot_of_fields [OF v] by simp
qed

theorem containers_name_implemented_types_witness:
  "\<exists>v. St_Status (U_State v) = StateCreated \<and> vmmFactories (annot_of v annotHypervisor) \<noteq> None"
proof -
  obtain u v t where r: "New image_deps ''/b'' ''c1'' ''/r'' sample_cfg sample_host [] = (Inr u, t)"
    "(step image_deps)\<^sup>*\<^sup>* u v" "St_Status (U_State v) = StateCreated"
    by (rule sample_created)
  from containers_name_implemented_types [OF r(1,2)] r(3) show ?thesis by blast
qed

section \<open>The settings of the runtime\<close>

text \<open>
  Reading back from a map that holds the entries of a monitor among others, whatever these are.
\<close>

lemma mset_split:
  assumes "distinct ks" "distinct xs" "set xs \<subseteq> set ks"
  shows "mset ks = mset (filter (\<lambda>k. k \<notin> set xs) ks @ xs)"
proof -
  have "distinct (filter (\<lambda>k. k \<notin> set xs) ks @ xs)" "set (filter (\<lambda>k. k \<notin> set xs) ks @ xs) = set ks"
    using assms by auto
  then show ?thesis using assms(1) set_eq_iff_mset_eq_distinct by blast
qed

lemma monitor_read_back:
  assumes "enumerates ks m" "dotless hv" "storable c"
    and "\<And>f. f \<in> set monFields \<Longrightarrow> m (monKey hv f) = Some (monFieldVal c f)"
  shows "fold (monitorStep m) ks ms hv = Some c"
proof -
  let ?xs = "map (monKey hv) monFields"
  have "distinct ?xs" using distinct_fields(1) by (simp add: distinct_map inj_on_def)
  moreover have "set ?xs \<subseteq> set ks" using assms(1,4) by (auto simp: enumerates_def)
  ultimately have "mset ks = mset (filter (\<lambda>k. k \<notin> set ?xs) ks @ ?xs)"
    using assms(1) by (intro mset_split) (auto simp: enumerates_def)
  then have "fold (monitorStep m) ks = fold (monitorStep m) (filter (\<lambda>k. k \<notin> set ?xs) ks @ ?xs)"
    by (rule fold_order [OF monitorStep_commute])
  then show ?thesis by (simp add: fold_fields [OF assms(2,3,4)])
qed

lemma bin_read_back:
  assumes "enumerates ks m" "dotless eb"
    and "\<And>f. f \<in> set binFields \<Longrightarrow> m (binKey eb f) = Some (binFieldVal c f)"
  shows "fold (binStep m) ks bs eb = Some c"
proof -
  let ?xs = "map (binKey eb) binFields"
  have "distinct ?xs" using distinct_fields(2) by (simp add: distinct_map inj_on_def)
  moreover have "set ?xs \<subseteq> set ks" using assms(1,3) by (auto simp: enumerates_def)
  ultimately have "mset ks = mset (filter (\<lambda>k. k \<notin> set ?xs) ks @ ?xs)"
    using assms(1) by (intro mset_split) (auto simp: enumerates_def)
  then have "fold (binStep m) ks = fold (binStep m) (filter (\<lambda>k. k \<notin> set ?xs) ks @ ?xs)"
    by (rule fold_order [OF binStep_commute])
  then show ?thesis by (simp add: fold_bin_fields [OF assms(2,3)])
qed

text \<open>A configuration that can be stored: names without a dot, amounts that are positive and fit an \<open>int\<close>.\<close>

definition storableConfig :: "'v deps \<Rightarrow> UruncConfig \<Rightarrow> bool" where
  "storableConfig D cfg \<longleftrightarrow>
     enumerates (dp_monitors D (Cfg_Monitors cfg)) (Cfg_Monitors cfg) \<and>
     enumerates (dp_extraBins D (Cfg_ExtraBins cfg)) (Cfg_ExtraBins cfg) \<and>
     (\<forall>hv \<in> dom (Cfg_Monitors cfg). dotless hv \<and> storable (monitorOf (Cfg_Monitors cfg) hv)) \<and>
     (\<forall>eb \<in> dom (Cfg_ExtraBins cfg). dotless eb)"

definition storedMap :: "'v deps \<Rightarrow> UruncConfig \<Rightarrow> annotations" where
  "storedMap D cfg = UruncConfig_Map (dp_monitors D (Cfg_Monitors cfg)) (dp_extraBins D (Cfg_ExtraBins cfg)) cfg"

text \<open>The settings of one configuration, as they stand in another.\<close>

definition settings_in :: "UruncConfig \<Rightarrow> UruncConfig \<Rightarrow> bool" where
  "settings_in cfg cfg' \<longleftrightarrow> Cfg_Runtime cfg' = Cfg_Runtime cfg \<and>
     Cfg_Monitors cfg \<subseteq>\<^sub>m Cfg_Monitors cfg' \<and> Cfg_ExtraBins cfg \<subseteq>\<^sub>m Cfg_ExtraBins cfg'"

lemma settings_read_back:
  assumes cfg: "storableConfig D cfg" and m: "storedMap D cfg \<subseteq>\<^sub>m m" and ks: "enumerates ks m"
  shows "settings_in cfg (UruncConfigFromMap ks ks m)"
proof -
  have d: "\<forall>hv \<in> set (dp_monitors D (Cfg_Monitors cfg)). dotless hv"
      "\<forall>eb \<in> set (dp_extraBins D (Cfg_ExtraBins cfg)). dotless eb"
    using cfg by (auto simp: storableConfig_def enumerates_def)
  note look = UruncConfig_Map_lookup [OF d, of cfg, folded storedMap_def]
  have at: "m k = Some v" if "storedMap D cfg k = Some v" for k v
    using m that by (metis domI map_le_def)
  have "runtimeFromMap m = Cfg_Runtime cfg"
    using at [of libcontainerKey] at [of vaccelKey]
    by (simp add: runtimeFromMap_def look key_kinds defaultRuntimeConfig_def)
      (simp add: libcontainerKey_def vaccelKey_def)
  moreover have "fold (monitorStep m) ks ms hv = Some c" if "Cfg_Monitors cfg hv = Some c" for hv c ms
  proof (rule monitor_read_back [OF ks])
    have hv: "hv \<in> set (dp_monitors D (Cfg_Monitors cfg))" "monitorOf (Cfg_Monitors cfg) hv = c"
      using cfg that by (auto simp: storableConfig_def enumerates_def monitorOf_def)
    then show "dotless hv" "storable c" using cfg d that by (auto simp: storableConfig_def)
    show "m (monKey hv f) = Some (monFieldVal c f)" if "f \<in> set monFields" for f
      using that hv d(1) dotless_fields(1) [OF that] keyParts_mon [of "monKey hv f" hv f]
      by (intro at) (simp add: look key_kinds dotless_def)
  qed
  moreover have "fold (binStep m) ks bs eb = Some c" if "Cfg_ExtraBins cfg eb = Some c" for eb c bs
  proof (rule bin_read_back [OF ks])
    have eb: "eb \<in> set (dp_extraBins D (Cfg_ExtraBins cfg))" "binOf (Cfg_ExtraBins cfg) eb = c"
      using cfg that by (auto simp: storableConfig_def enumerates_def binOf_def)
    then show "dotless eb" using d by simp
    show "m (binKey eb f) = Some (binFieldVal c f)" if "f \<in> set binFields" for f
      using that eb d(2) dotless_fields(2) [OF that] keyParts_bin [of "binKey eb f" eb f]
      by (intro at) (simp add: look key_kinds dotless_def)
  qed
  ultimately show ?thesis by (auto simp: settings_in_def UruncConfigFromMap_def map_le_def)
qed

text \<open>The machine again, with the settings as what holds.\<close>

definition settled :: "'v deps \<Rightarrow> UruncConfig \<Rightarrow> Unikontainer \<Rightarrow> bool" where
  "settled D cfg u \<longleftrightarrow> storedMap D cfg \<subseteq>\<^sub>m St_Annotations (U_State u) \<and>
     (storableConfig D cfg \<longrightarrow> settings_in cfg (U_Cfg u)) \<and>
     U_BaseDir u = filepath_Join [U_RootDir u, St_ID (U_State u)]"

lemma merge_map_le: "m \<subseteq>\<^sub>m state \<Longrightarrow> m \<subseteq>\<^sub>m mergeAnnotations spec state"
  by (fastforce simp: map_le_def dom_def mergeAnnotations_def split: option.split)

lemma saves_settled: "settled D cfg u \<Longrightarrow> saves u u' \<Longrightarrow> settled D cfg u'"
  by (auto simp: settled_def saves_def merge_map_le)

interpretation conf: machine "made D cfg c i r" "step D" "settled D cfg" for D cfg c i r
proof
  show "settled D cfg u" if "made D cfg c i r u" for u
    using that by (auto simp: made_def settled_def newState_def storedMap_def settings_in_def)
  show "settled D cfg u'" if "settled D cfg u" "step D u u'" for u u'
    using that(2)
  proof (rule step_saves_or_loads)
    fix \<omega> t t'
    assume "readable D \<omega> u" "Get D (St_ID (U_State u)) (U_RootDir u) \<omega> t = (Inr u', t')"
    then show ?thesis using that(1) loaded_state [of D \<omega> u t u' t'] settings_read_back [of D cfg]
      by (auto simp: settled_def)
  qed (rule saves_settled [OF that(1)])
qed

text \<open>
  C7: the settings of the runtime survive every save and every reload. Whatever annotations the
  specification brings along, a container read back by a later invocation has the runtime settings of
  the invocation that created it, and for every monitor and helper binary that this one had configured
  the very same entry, its binary path, data path, sizes and options included.
\<close>

theorem settings_survive_reload:
  assumes "New D bundlePath containerID rootDir cfg \<omega> t = (Inr u, t')" "(step D)\<^sup>*\<^sup>* u v" "storableConfig D cfg"
  shows "Cfg_Runtime (U_Cfg v) = Cfg_Runtime cfg \<and> Cfg_Monitors cfg \<subseteq>\<^sub>m Cfg_Monitors (U_Cfg v)
    \<and> Cfg_ExtraBins cfg \<subseteq>\<^sub>m Cfg_ExtraBins (U_Cfg v)"
proof -
  obtain c where "made D cfg c containerID rootDir u" using assms(1) by (rule New_made)
  from conf.always [OF this assms(2)] assms(3) show ?thesis by (simp add: settled_def settings_in_def)
qed

lemma finite_put: "finite (dom m) \<Longrightarrow> finite (dom (put k v m))"
  by (simp add: put_def)

lemma finite_UnikernelConfig_Map: "finite (dom (UnikernelConfig_Map c))"
  unfolding UnikernelConfig_Map_def Let_def by (intro finite_put) simp

lemma sample_storable: "storableConfig image_deps sample_cfg"
  by (auto simp: storableConfig_def image_deps_def sample_deps_def sample_cfg_def sample_mon_def defaultUruncConfig_def
      defaultExtraBinConfig_def enumerates_def dotless_def storable_def monitorOf_def zero_defs)

text \<open>A host and a decoder under which the container just made is read back.\<close>

lemma sample_reload:
  obtains D :: "unit deps" and u v t where "New D ''/b'' ''c1'' ''/r'' sample_cfg sample_host [] = (Inr u, t)" "step D u v"
    "storableConfig D sample_cfg" "Cfg_Log (U_Cfg v) = zeroLog"
proof -
  obtain u t where u: "New image_deps ''/b'' ''c1'' ''/r'' sample_cfg sample_host [] = (Inr u, t)"
    using sample_created by blast
  then obtain c where c: "made image_deps sample_cfg c ''c1'' ''/r'' u" "validateValues c = Inr ()" by (rule New_made)
  have "finite (dom (St_Annotations (U_State u)))"
    using c(1) dom_UruncConfig_Map [of "[''spt'']" "[''virtiofsd'']" sample_cfg] finite_UnikernelConfig_Map [of c]
    by (auto simp: made_def newState_def image_deps_def sample_deps_def dotless_def)
  then obtain ks where ks: "enumerates ks (St_Annotations (U_State u))"
    using finite_distinct_list unfolding enumerates_def by metis
  define D where "D = image_deps\<lparr>dp_encState := (\<lambda>_. Inr ''d''), dp_decState := (\<lambda>_. Inr (U_State u)), dp_keys := (\<lambda>_. ks)\<rparr>"
  have new: "New D ''/b'' ''c1'' ''/r'' sample_cfg sample_host [] = (Inr u, t)"
    using u by (simp add: D_def New_def newState_def cong: if_cong)
  have "get (St_Annotations (U_State u)) annotType \<noteq> []"
    using own.start_inv [OF c(1)] annot_of_fields(1) [of c "''c1''" "''/r''" u] c(2)
    by (auto simp: annot_of_def validateValues_iff supportedGuestMonitorPairs_def guest_names)
  moreover have "St_Bundle (U_State u) = ''/b''"
    using u by (auto simp: New_def newState_def bindM_Inr_iff split: if_splits)
  ultimately have "\<exists>v t'. Get D ''c1'' ''/r'' sample_host [] = (Inr v, t') \<and> Cfg_Log (U_Cfg v) = zeroLog"
    by (simp add: Get_def Let_def loadUnikontainerState_def bindM_run callS_run sample_host_def loadSpec_def
        filepath_Abs_def IsAbs_def sep_def D_def image_deps_def sample_deps_def sample_spec_def UruncConfigFromMap_def)
  then obtain v t' where v: "Get D ''c1'' ''/r'' sample_host [] = (Inr v, t')" "Cfg_Log (U_Cfg v) = zeroLog" by blast
  have "readable D sample_host u"
    using ks by (simp add: readable_def D_def image_deps_def sample_deps_def sample_host_def)
  moreover have "St_ID (U_State u) = ''c1''" "U_RootDir u = ''/r''"
    using c(1) by (auto simp: made_def newState_def)
  ultimately have "step D u v" using v(1) by (intro step.reload) auto
  moreover have "storableConfig D sample_cfg" using sample_storable by (simp add: storableConfig_def D_def)
  ultimately show ?thesis using that new v(2) by blast
qed

theorem settings_survive_reload_witness:
  "\<exists>v :: Unikontainer. Cfg_Log (U_Cfg v) = zeroLog \<and> Cfg_Monitors (U_Cfg v) ''spt'' = Some sample_mon"
proof -
  obtain D :: "unit deps" and u v t where r: "New D ''/b'' ''c1'' ''/r'' sample_cfg sample_host [] = (Inr u, t)" "step D u v"
    "storableConfig D sample_cfg" "Cfg_Log (U_Cfg v) = zeroLog"
    by (rule sample_reload)
  from settings_survive_reload [OF r(1) r_into_rtranclp [where r = "step D", OF r(2)] r(3)] r(4) show ?thesis
    by (auto simp: map_le_def sample_cfg_def)
qed

end
