(* ===== verification/Lifecycle_Props.thy ===== *)
theory Lifecycle_Props
  imports Footprint Samples Annotations_Props
begin

text \<open>
  The container through its life: what holds of every container that the operations can reach, what
  a later invocation of the runtime reads back, and what delete takes away.
\<close>

section \<open>Deleting\<close>

definition keeps :: "call \<Rightarrow> bool" where
  "keeps c = (\<forall>p. c \<noteq> Fs (RemoveAll p))"

lemma keeps_others [simp]:
  "keeps (Mnt m)" "keeps (Proc p)" "keeps (Ipc i)" "keeps (Net n)" "keeps (Lib l)" "keeps (Ird r)"
  "keeps (Fs (ReadFile s))" "keeps (Fs (Stat s))" "keeps (Fs (Lstat s))" "\<not> keeps (Fs (RemoveAll s))"
  by (simp_all add: keeps_def)

lemma only_keeps_isRunning: "only keeps (isRunning D u)"
  unfolding isRunning_def by (auto intro!: only_intros)

lemma only_keeps_destroyLibcontainer: "only keeps (destroyLibcontainer u)"
  unfolding destroyLibcontainer_def by (auto intro!: only_intros)

lemma only_keeps_loadMonitorResources: "only keeps (loadMonitorResources D b)"
  unfolding loadMonitorResources_def by (auto intro!: only_intros)

lemma only_keeps_setLoopAutoclear: "only keeps (setLoopAutoclear p b)"
  unfolding setLoopAutoclear_def Let_def by (intro only_intros) simp_all

lemma only_keeps_restoreBlockVolumes: "only keeps (restoreBlockVolumes bs)"
  unfolding restoreBlockVolumes_def restoreVolume_def Let_def
  by (intro only_intros only_keeps_setLoopAutoclear) simp_all

lemma only_keeps_iface_loop: "only keeps (iface_loop ls)"
  by (induction ls rule: iface_loop.induct; unfold iface_loop.simps; (intro only_intros)?) simp_all

lemma only_keeps_discoverContainerIface: "only keeps discoverContainerIface"
  unfolding discoverContainerIface_def by (intro only_intros only_keeps_iface_loop) simp_all

lemma only_keeps_cleanupTap: "only keeps (cleanupTap l)"
  unfolding cleanupTap_def deleteAllTCFilters_def deleteAllQDiscs_def deleteIngressQdisc_def deleteTapDevice_def
  by (intro only_intros only_keeps_discoverContainerIface) simp_all

lemma only_keeps_cleanup_loop: "only keeps (cleanup_loop ls e)"
  by (induction ls e rule: cleanup_loop.induct; unfold cleanup_loop.simps; (intro only_intros only_keeps_cleanupTap)?)
    simp_all

lemma only_keeps_CleanupAllUruncTaps: "only keeps CleanupAllUruncTaps"
  unfolding CleanupAllUruncTaps_def failSome_def by (intro only_intros only_keeps_cleanup_loop) simp_all

lemma only_keeps_cleanupNetwork: "only keeps (cleanupNetwork ns)"
  unfolding cleanupNetwork_def removeTapsInNetNs_def checkValidNsPath_def failSome_def Let_def
  by (intro only_intros only_keeps_CleanupAllUruncTaps) simp_all

definition monRootfsOf :: "Unikontainer \<Rightarrow> string" where
  "monRootfsOf u = filepath_Join [Clean (St_Bundle (U_State u)), MonitorRootfsDirName]"

text \<open>What delete does once the container is known not to run.\<close>

definition release :: "'v deps \<Rightarrow> Unikontainer \<Rightarrow> bool \<Rightarrow> unit prog" where
  "release D u force =
     bindM (if isLibcontainer u then destroyLibcontainer u else retM ()) (\<lambda>_.
     bindM (tryM (cleanupNetwork (L_Namespaces (linux_of u)))) (\<lambda>r.
     bindM (case r of
              Inr _ \<Rightarrow> retM ()
            | Inl e \<Rightarrow> (if \<not> force then failM (ErrorfW ''failed to cleanup network: %w'' [] e) else retM ())) (\<lambda>_.
     bindM (loadMonitorResources D (U_BaseDir u)) (\<lambda>res.
     bindM (ignoreM (restoreBlockVolumes (Mr_BlockArgs (fst res)))) (\<lambda>_.
     bindM (wrapM ''failed to remove the monitor rootfs %s: %w'' [monRootfsOf u] (callU (Fs (RemoveAll (monRootfsOf u))))) (\<lambda>_.
       callU (Fs (RemoveAll (U_BaseDir u)))))))))"

lemma Delete_release:
  "Delete D u force =
     bindM (isRunning D u) (\<lambda>running.
       if running then failM (Errorf ''cannot delete running container: %s'' [St_ID (U_State u)]) else release D u force)"
  unfolding Delete_def release_def monRootfsOf_def Let_def case_prod_unfold by (rule refl)

lemmas only_keeps =
  only_keeps_isRunning only_keeps_destroyLibcontainer only_keeps_cleanupNetwork
  only_keeps_loadMonitorResources only_keeps_restoreBlockVolumes

lemma release_own:
  "only (\<lambda>c. keeps c \<or> c = Fs (RemoveAll (monRootfsOf u)) \<or> c = Fs (RemoveAll (U_BaseDir u))) (release D u force)"
  unfolding release_def by (intro only_intros only_mono [OF only_keeps(2)] only_mono [OF only_keeps(3)]
      only_mono [OF only_keeps(4)] only_mono [OF only_keeps(5)]) simp_all

lemma release_order:
  assumes "U_BaseDir u \<noteq> monRootfsOf u"
  shows "guarded \<omega> (\<lambda>c. c = Fs (RemoveAll (U_BaseDir u))) (\<lambda>cs. cs = [Fs (RemoveAll (monRootfsOf u))]) (release D u force)"
proof -
  have k: "only (\<lambda>c. c \<noteq> Fs (RemoveAll (U_BaseDir u))) m" if "only keeps m" for m :: "'x prog"
    by (rule only_mono [OF that]) (auto simp: keeps_def)
  have last: "guarded \<omega> (\<lambda>c. c = Fs (RemoveAll (U_BaseDir u))) (\<lambda>cs. cs = [Fs (RemoveAll (monRootfsOf u))])
     (bindM (wrapM ''failed to remove the monitor rootfs %s: %w'' [monRootfsOf u] (callU (Fs (RemoveAll (monRootfsOf u)))))
        (\<lambda>_. callU (Fs (RemoveAll (U_BaseDir u)))))"
  proof (rule guarded_bindM [where B = "\<lambda>_ cs. cs = []"])
    show "only (\<lambda>c. c \<noteq> Fs (RemoveAll (U_BaseDir u)))
        (wrapM ''failed to remove the monitor rootfs %s: %w'' [monRootfsOf u] (callU (Fs (RemoveAll (monRootfsOf u)))))"
      using assms by (auto intro!: only_intros)
    show "sure \<omega> (\<lambda>cs. cs = [Fs (RemoveAll (monRootfsOf u))])
        (wrapM ''failed to remove the monitor rootfs %s: %w'' [monRootfsOf u] (callU (Fs (RemoveAll (monRootfsOf u)))))"
      by (intro sure_wrapM sure_callU)
    show "guarded \<omega> (\<lambda>c. c = Fs (RemoveAll (U_BaseDir u))) (\<lambda>cs. cs = []) (callU (Fs (RemoveAll (U_BaseDir u))))"
      by (rule guarded_none) (auto intro: only_intros)
  qed simp
  show ?thesis unfolding release_def
    by (intro guarded_skip last k only_intros only_keeps)
qed


definition gone_host :: host where
  "gone_host t c = (if c = Proc (Kill 7 0) then RErr (Errno ESRCH) else sample_host t c)"


end
