(* ===== verification/Rootfs_Props.thy ===== *)
theory Rootfs_Props
  imports Samples Vmm_Props
begin

text \<open>
  The choice of the guest's root file system, which mount of the host counts as a device, how
  often an unmount is tried, and whether \<open>/tmp\<close> has room for the memory of the guest.
\<close>

section \<open>The choice as a list of priorities\<close>

text \<open>
  What a guest can boot from, most preferred first, when each is offered on a host that gives the
  answers \<open>f\<close>, and what is handed to the guest for each.
\<close>

datatype guestRoot = InitrdRoot | ImageRoot | ContainerBlockRoot | VirtiofsRoot | PlanNineRoot | NoGuestRoot

definition priority :: "guestRoot list" where
  "priority = [InitrdRoot, ImageRoot, ContainerBlockRoot, VirtiofsRoot, PlanNineRoot, NoGuestRoot]"

text \<open>The order of the list as a linear order: what is preferred is less.\<close>

fun rank :: "guestRoot \<Rightarrow> nat" where
  "rank InitrdRoot = 0" | "rank ImageRoot = 1" | "rank ContainerBlockRoot = 2" | "rank VirtiofsRoot = 3"
| "rank PlanNineRoot = 4" | "rank NoGuestRoot = 5"

lemma rank_inject: "rank g = rank h \<longleftrightarrow> g = h"
  by (cases g; cases h; simp)

instantiation guestRoot :: linorder
begin

definition less_eq_guestRoot :: "guestRoot \<Rightarrow> guestRoot \<Rightarrow> bool" where
  "less_eq_guestRoot g h \<longleftrightarrow> rank g \<le> rank h"

definition less_guestRoot :: "guestRoot \<Rightarrow> guestRoot \<Rightarrow> bool" where
  "less_guestRoot g h \<longleftrightarrow> rank g < rank h"

instance
  by standard (auto simp: less_eq_guestRoot_def less_guestRoot_def rank_inject)

end

lemma priority_sorted: "sorted priority" "distinct priority" "set priority = UNIV"
proof -
  show "set priority = UNIV"
  proof (rule set_eqI)
    show "g \<in> set priority \<longleftrightarrow> g \<in> UNIV" for g by (cases g) (simp_all add: priority_def)
  qed
qed (simp_all add: priority_def less_eq_guestRoot_def)

text \<open>The first element of a sorted list that has a property is the least one that has it.\<close>

lemma find_sorted: "sorted xs \<Longrightarrow> find P xs = Some x \<Longrightarrow> P x \<and> (\<forall>y \<in> set xs. P y \<longrightarrow> (x::'a::linorder) \<le> y)"
  by (induction xs) (auto split: if_splits)

definition wantsContainerRoot :: "rootfsSelector \<Rightarrow> bool" where
  "wantsContainerRoot rs \<longleftrightarrow> ParseBool (get (rs_annot rs) annotMountRootfs) = Some True"

definition rootDevice :: "rootfsSelector \<Rightarrow> (call \<Rightarrow> reply) \<Rightarrow> BlockDevParams option" where
  "rootDevice rs f = (case f (Mnt GetMounts) of
      RMounts ms \<Rightarrow> (case findMountInfo ms (rs_cntrRootfs rs) of Inr d \<Rightarrow> Some d | Inl _ \<Rightarrow> None)
    | _ \<Rightarrow> None)"

fun offered :: "rootfsSelector \<Rightarrow> (call \<Rightarrow> reply) \<Rightarrow> guestRoot \<Rightarrow> bool" where
  "offered rs f InitrdRoot = (get (rs_annot rs) annotInitrd \<noteq> [])"
| "offered rs f ImageRoot = (get (rs_annot rs) annotBlock \<noteq> [] \<and> get (rs_annot rs) annotBlockMntPoint = ''/''
     \<and> uk_SupportsBlock (rs_unikernel rs))"
| "offered rs f ContainerBlockRoot = (wantsContainerRoot rs \<and> uk_SupportsBlock (rs_unikernel rs) \<and>
     (\<exists>d. rootDevice rs f = Some d \<and> uk_SupportsFS (rs_unikernel rs) (Blk_FsType d)))"
| "offered rs f VirtiofsRoot = (wantsContainerRoot rs \<and> uk_SupportsFS (rs_unikernel rs) ''virtiofs'' \<and>
     vmm_SupportsSharedfs (rs_vmm rs) ''virtio'' \<and> (\<exists>s. f (Fs (Stat (rs_vfsdPath rs))) = RStat s))"
| "offered rs f PlanNineRoot = (wantsContainerRoot rs \<and> uk_SupportsFS (rs_unikernel rs) ''9pfs'' \<and>
     vmm_SupportsSharedfs (rs_vmm rs) ''9p'')"
| "offered rs f NoGuestRoot = (\<not> wantsContainerRoot rs)"

fun rootType :: "guestRoot \<Rightarrow> string" where
  "rootType InitrdRoot = ''initrd''"
| "rootType ImageRoot = ''block''"
| "rootType ContainerBlockRoot = ''block''"
| "rootType VirtiofsRoot = ''virtiofs''"
| "rootType PlanNineRoot = ''9pfs''"
| "rootType NoGuestRoot = []"

fun rootPath :: "rootfsSelector \<Rightarrow> (call \<Rightarrow> reply) \<Rightarrow> guestRoot \<Rightarrow> string" where
  "rootPath rs f InitrdRoot = get (rs_annot rs) annotInitrd"
| "rootPath rs f ImageRoot = get (rs_annot rs) annotBlock"
| "rootPath rs f ContainerBlockRoot = Blk_Source (the (rootDevice rs f))"
| "rootPath rs f VirtiofsRoot = rs_cntrRootfs rs"
| "rootPath rs f PlanNineRoot = rs_cntrRootfs rs"
| "rootPath rs f NoGuestRoot = []"

definition handedOver :: "rootfsSelector \<Rightarrow> (call \<Rightarrow> reply) \<Rightarrow> guestRoot \<Rightarrow> RootfsParams" where
  "handedOver rs f g =
     \<lparr>Rfs_Type = rootType g, Rfs_Path = rootPath rs f g,
      Rfs_MountedPath = (if g = ImageRoot then [] else rs_cntrRootfs rs),
      Rfs_MonRootfs = filepath_Join [Clean (rs_bundle rs), MonitorRootfsDirName]\<rparr>"

lemma shouldMount_wants: "shouldMountContainerRootfs rs = wantsContainerRoot rs"
  by (auto simp: shouldMountContainerRootfs_def wantsContainerRoot_def Let_def ParseBool_def split: option.splits)

lemma fst_bindM:
  "fst (bindM m g \<omega> t) = (case fst (m \<omega> t) of Inl e \<Rightarrow> Inl e | Inr x \<Rightarrow> fst (g x \<omega> (snd (m \<omega> t))))"
  by (simp add: bindM_run split: prod.split sum.split)

lemma fileExists_const: "fst (fileExists p (\<lambda>_. f) t) = Inr (\<exists>s. f (Fs (Stat p)) = RStat s)"
  by (simp add: fileExists_def fst_bindM callStat_run split: reply.splits)

lemma tryVirtiofs_const:
  "wantsContainerRoot rs \<Longrightarrow> fst (tryVirtiofs rs (\<lambda>_. f) t) =
    Inr (if offered rs f VirtiofsRoot then Some (newRootfsResult ''virtiofs'' (rs_cntrRootfs rs) (rs_cntrRootfs rs)) else None)"
  by (simp add: tryVirtiofs_def fst_bindM fileExists_const)

lemma try9pfs_offered:
  "wantsContainerRoot rs \<Longrightarrow> try9pfs rs =
    (if offered rs f PlanNineRoot then Some (newRootfsResult ''9pfs'' (rs_cntrRootfs rs) (rs_cntrRootfs rs)) else None)"
  by (simp add: try9pfs_def)

lemma getMountInfo_const:
  "fst (getMountInfo (rs_cntrRootfs rs) (\<lambda>_. f) t) = Inr d \<longleftrightarrow> rootDevice rs f = Some d"
  by (auto simp: getMountInfo_def fst_bindM callMounts_run rootDevice_def split: reply.splits sum.splits)

lemma tryContainerBlockRootfs_const:
  assumes "wantsContainerRoot rs"
  shows "fst (tryContainerBlockRootfs rs (\<lambda>_. f) t) =
    Inr (if offered rs f ContainerBlockRoot
         then Some (newRootfsResult ''block'' (Blk_Source (the (rootDevice rs f))) (rs_cntrRootfs rs)) else None)"
proof (cases "fst (getMountInfo (rs_cntrRootfs rs) (\<lambda>_. f) t)")
  case (Inl e)
  then have "rootDevice rs f = None" using getMountInfo_const [of rs f t] by (cases "rootDevice rs f") auto
  then show ?thesis using Inl by (simp add: tryContainerBlockRootfs_def fst_bindM)
next
  case (Inr d)
  then show ?thesis using assms getMountInfo_const [of rs f t d] by (simp add: tryContainerBlockRootfs_def fst_bindM)
qed

lemmas const_results = tryContainerBlockRootfs_const tryVirtiofs_const fst_bindM

lemma handed_over_results:
  "switchMonRootfs (newRootfsResult ''initrd'' (get (rs_annot rs) annotInitrd) (rs_cntrRootfs rs)) (rs_bundle rs)
    = handedOver rs f InitrdRoot"
  "switchMonRootfs (newRootfsResult ''block'' (get (rs_annot rs) annotBlock) []) (rs_bundle rs) = handedOver rs f ImageRoot"
  "switchMonRootfs (newRootfsResult ''block'' (Blk_Source (the (rootDevice rs f))) (rs_cntrRootfs rs)) (rs_bundle rs)
    = handedOver rs f ContainerBlockRoot"
  "switchMonRootfs (newRootfsResult ''virtiofs'' (rs_cntrRootfs rs) (rs_cntrRootfs rs)) (rs_bundle rs)
    = handedOver rs f VirtiofsRoot"
  "switchMonRootfs (newRootfsResult ''9pfs'' (rs_cntrRootfs rs) (rs_cntrRootfs rs)) (rs_bundle rs)
    = handedOver rs f PlanNineRoot"
  "switchMonRootfs (newRootfsResult [] [] (rs_cntrRootfs rs)) (rs_bundle rs) = handedOver rs f NoGuestRoot"
  by (simp_all add: switchMonRootfs_def newRootfsResult_def handedOver_def zeroRootfs_def)

lemma tryContainerRootfs_const:
  "fst (tryContainerRootfs rs (\<lambda>_. f) t) =
    Inr (map_option (\<lambda>g. newRootfsResult (rootType g) (rootPath rs f g) (rs_cntrRootfs rs))
          (find (offered rs f) [ContainerBlockRoot, VirtiofsRoot, PlanNineRoot]))"
proof (cases "wantsContainerRoot rs")
  case True
  show ?thesis
    unfolding tryContainerRootfs_def tryContainerSharedFS_def shouldMount_wants fst_bindM
    by (simp add: True const_results try9pfs_offered [where f = f] del: offered.simps)
qed (simp add: tryContainerRootfs_def shouldMount_wants)

lemma selectRootfs_priority:
  "fst (runM (selectRootfs rs) (\<lambda>_. f)) =
    (case find (offered rs f) priority of
       Some g \<Rightarrow> Inr (handedOver rs f g)
     | None \<Rightarrow> Inl (Errorf ''can not use the container rootfs as the sandbox's guest rootfs through block or shared-fs'' []))"
proof -
  have i: "tryInitrd rs = (if offered rs f InitrdRoot
      then Some (newRootfsResult ''initrd'' (get (rs_annot rs) annotInitrd) (rs_cntrRootfs rs)) else None)"
    by (simp add: tryInitrd_def Let_def)
  have b: "tryExplicitBlock rs = (if offered rs f ImageRoot
      then Some (newRootfsResult ''block'' (get (rs_annot rs) annotBlock) []) else None)"
    by (auto simp: tryExplicitBlock_def Let_def)
  show ?thesis
    unfolding selectRootfs_def runM_def i b shouldMount_wants priority_def
    by (simp add: fst_bindM tryContainerRootfs_const handed_over_results [where f = f] del: offered.simps(1-5))
qed

text \<open>
  C14: the choice of the guest's root file system refines the list of priorities. On a host whose
  answers stay the same, \<open>selectRootfs\<close> takes the first of initrd, block image, device of the container,
  virtiofs, 9pfs and no root at all that is offered, whose conditions are those of the annotations,
  the guest, the monitor and the host; it hands over the path that belongs to it, always with the
  monitor's own root below the bundle, and fails exactly when none is offered, which takes an
  annotation that asks for the container's root.
\<close>

theorem root_choice_refines_priorities:
  "fst (runM (selectRootfs rs) (\<lambda>_. f)) =
    (case find (offered rs f) priority of
       Some g \<Rightarrow> Inr (handedOver rs f g)
     | None \<Rightarrow> Inl (Errorf ''can not use the container rootfs as the sandbox's guest rootfs through block or shared-fs'' []))"
  by (rule selectRootfs_priority)

text \<open>What is handed over is the least root on offer.\<close>

lemma chosen_root_is_least:
  assumes "fst (runM (selectRootfs rs) (\<lambda>_. f)) = Inr r"
  obtains g where "offered rs f g" "\<forall>h. offered rs f h \<longrightarrow> g \<le> h" "r = handedOver rs f g"
proof (cases "find (offered rs f) priority")
  case None
  then show ?thesis using assms selectRootfs_priority [of rs f] by simp
next
  case (Some g)
  then have "r = handedOver rs f g" using assms selectRootfs_priority [of rs f] by simp
  then show ?thesis using that find_sorted [OF priority_sorted(1) Some] priority_sorted(3) by blast
qed

section \<open>Which mount is a device\<close>

definition elsewhere :: "string \<Rightarrow> mount_entry \<Rightarrow> bool" where
  "elsewhere path x \<longleftrightarrow> mi_Mountpoint x \<noteq> path \<and> mi_FSType x \<noteq> mi_Source x"

lemma find_snoc: "find P (xs @ [x]) = (case find P xs of Some y \<Rightarrow> Some y | None \<Rightarrow> if P x then Some x else None)"
  by (induction xs) auto

lemma mountInfo_fold:
  "fold (mountInfoStep path) ms (b, S) =
    (case find (\<lambda>m. mi_Mountpoint m = path) (rev ms) of None \<Rightarrow> b | Some m \<Rightarrow> blockOf path m,
     S \<union> mi_Source ` set (filter (elsewhere path) ms))"
proof (induction ms arbitrary: b S)
  case (Cons m ms)
  then show ?case
    by (auto simp: mountInfoStep_def elsewhere_def find_snoc split: option.splits)
qed simp

text \<open>
  C40: a path stands for a block device when the last mount at it has a source that no mount at another
  path uses, where a file system that names itself as its source does not count. So a device is never
  taken from the host for a guest while it is still mounted elsewhere.
\<close>

theorem device_of_a_mount:
  "findMountInfo ms path =
    (case find (\<lambda>m. mi_Mountpoint m = path) (rev ms) of
       None \<Rightarrow> Inl ErrMountpoint
     | Some m \<Rightarrow>
         if mi_Source m = [] \<or> list_ex (\<lambda>x. elsewhere path x \<and> mi_Source x = mi_Source m) ms then Inl ErrMountpoint
         else Inr (zeroBlock\<lparr>Blk_Source := mi_Source m, Blk_FsType := mi_FSType m, Blk_MountPoint := path,
                     Blk_MountOptions := mi_Options m\<rparr>))"
  unfolding findMountInfo_def mountInfo_fold
  by (auto simp: blockOf_def zeroBlock_def list_ex_iff image_iff split: option.splits)

section \<open>How often an unmount is tried\<close>

text \<open>The calls of a number of failed attempts, and how one attempt is answered.\<close>

definition attempts :: "nat \<Rightarrow> string \<Rightarrow> call list" where
  "attempts k target = concat (replicate k [Mnt (Unmount target 0), Proc (Sleep 20000000)])"

definition answer :: "host \<Rightarrow> call list \<Rightarrow> string \<Rightarrow> nat \<Rightarrow> err + unit" where
  "answer \<omega> t target k = fst (callU (Mnt (Unmount target 0)) \<omega> (t @ attempts k target))"

lemma attempts_Suc: "attempts (Suc k) target = [Mnt (Unmount target 0), Proc (Sleep 20000000)] @ attempts k target"
  by (simp add: attempts_def)

lemma find_upt_Suc:
  "find P [0..<Suc n] = (if P 0 then Some 0 else map_option Suc (find (\<lambda>k. P (Suc k)) [0..<n]))"
proof -
  have "find P (map Suc xs) = map_option Suc (find (\<lambda>k. P (Suc k)) xs)" for xs by (induction xs) auto
  then show ?thesis by (simp add: upt_conv_Cons map_Suc_upt [symmetric] del: upt_Suc)
qed

lemma unmount_loop_result:
  "unmount_loop n target \<omega> t =
    (case find (\<lambda>k. answer \<omega> t target k \<noteq> Inl (Errno EBUSY)) [0..<n] of
       None \<Rightarrow> (Inl (ErrorfW ''failed to unmount target %s: %w'' [target] (Errno EBUSY)), t @ attempts n target)
     | Some k \<Rightarrow> (answer \<omega> t target k, t @ attempts k target @ [Mnt (Unmount target 0)]))"
proof (induction n arbitrary: t)
  case 0
  then show ?case by (simp add: attempts_def)
next
  case (Suc n)
  let ?c = "[Mnt (Unmount target 0), Proc (Sleep 20000000)]"
  have shift: "answer \<omega> (t @ ?c) target k = answer \<omega> t target (Suc k)" for k
    by (simp add: answer_def attempts_Suc)
  have first: "callU (Mnt (Unmount target 0)) \<omega> t = (answer \<omega> t target 0, t @ [Mnt (Unmount target 0)])"
    by (simp add: answer_def attempts_def callU_run)
  show ?case
  proof (cases "answer \<omega> t target 0 = Inl (Errno EBUSY)")
    case True
    have "unmount_loop (Suc n) target \<omega> t = unmount_loop n target \<omega> (t @ ?c)"
      using first True by (simp add: bindM_run ignoreM_def callU_run)
    then show ?thesis
      unfolding Suc.IH shift find_upt_Suc using True by (simp add: attempts_Suc split: option.split)
  next
    case False
    then show ?thesis using first
      by (cases "answer \<omega> t target 0") (auto simp: bindM_run find_upt_Suc attempts_def simp del: upt_Suc)
  qed
qed

text \<open>
  An unmount is tried at most ten times, 20 ms apart, and returns the answer to the first attempt
  that does not find the target busy: success, or its error as it is. Only when all ten find it busy it
  fails with that error wrapped. It calls nothing else.
\<close>

theorem unmount_tries_ten_times:
  "runM (unmount target) \<omega> =
    (case find (\<lambda>k. answer \<omega> [] target k \<noteq> Inl (Errno EBUSY)) [0..<10] of
       None \<Rightarrow> (Inl (ErrorfW ''failed to unmount target %s: %w'' [target] (Errno EBUSY)), attempts 10 target)
     | Some k \<Rightarrow> (answer \<omega> [] target k, attempts k target @ [Mnt (Unmount target 0)]))"
  unfolding runM_def unmount_def unmount_loop_result append_Nil by (rule refl)

section \<open>Room for the memory of the guest\<close>

text \<open>
  The file behind the memory of a guest with virtiofs is in \<open>/tmp\<close>, which has room for a megabyte more.
  A limit below one megabyte is replaced for the guest, but not for \<open>/tmp\<close>.
\<close>

lemma tmpfs_holds_guest_memory:
  assumes "sfsType \<noteq> ''9pfs''" "10 ^ 6 \<le> unat mem" "unat mem + 2 ^ 20 < 2 ^ 64"
  shows "\<exists>n g. chooseTmpfsSize sfsType mem = FormatUint n @ ''m'' \<and> BytesToStringMB mem = FormatUint g \<and> g < n"
proof -
  have "unat (mem + 1024 * 1024) = unat mem + 2 ^ 20"
    using assms(3) by (simp add: unat_word_ariths)
  moreover have "unat mem div 10 ^ 6 < (unat mem + 2 ^ 20) div 10 ^ 6"
    using div_le_mono [of "unat mem + 10 ^ 6" "unat mem + 2 ^ 20" "10 ^ 6"] by simp
  ultimately show ?thesis using assms by (auto simp: chooseTmpfsSize_def BytesToStringMB_eq)
qed

lemma tmpfs_for_a_small_limit:
  assumes "sfsType \<noteq> ''9pfs''" "unat mem < 951424"
  shows "chooseTmpfsSize sfsType mem = FormatUint 1 @ ''m'' \<and> BytesToStringMB mem = FormatUint 256"
proof -
  have "unat (mem + 1024 * 1024) = unat mem + 2 ^ 20"
    using assms(2) by (simp add: unat_word_ariths)
  moreover have "(unat mem + 2 ^ 20) div 10 ^ 6 = 1" using assms(2) by (simp add: div_nat_eqI)
  ultimately show ?thesis using assms by (simp add: chooseTmpfsSize_def BytesToStringMB_eq)
qed

end
