(* ===== verification/Nsenter_Props.thy ===== *)
theory Nsenter_Props
  imports Nsenter "HOL-Library.Code_Target_Nat"
begin

text \<open>
  The message for the process that enters the namespaces, read back: a reader of netlink attributes,
  and what it finds in a message that was written.
\<close>

section \<open>A reader of attributes\<close>

fun fromLittle :: "nat list \<Rightarrow> nat" where
  "fromLittle [] = 0"
| "fromLittle (b # bs) = b + 256 * fromLittle bs"

definition getUint :: "bool \<Rightarrow> nat list \<Rightarrow> nat" where
  "getUint big bs = fromLittle (if big then rev bs else bs)"

text \<open>Length, type and value of each attribute; the next one starts at a multiple of four bytes.\<close>

function readAttrs :: "bool \<Rightarrow> nat list \<Rightarrow> (nat \<times> nat list) list option" where
  "readAttrs big bs =
     (if bs = [] then Some []
      else
        let l = getUint big (take 2 bs); ty = getUint big (take 2 (drop 2 bs)); size = (l + 3) div 4 * 4
        in if l < 4 \<or> length bs < size then None
           else map_option (\<lambda>as. (ty, take (l - 4) (drop 4 bs)) # as) (readAttrs big (drop size bs)))"
  by pat_completeness auto
termination by (relation "measure (length \<circ> snd)") auto

declare readAttrs.simps [simp del]

lemma readAttrs_Nil [simp]: "readAttrs big [] = Some []"
  by (simp add: readAttrs.simps)

lemma length_little [simp]: "length (little n v) = n"
  by (induction n v rule: little.induct) auto

lemma fromLittle_little: "v < 256 ^ n \<Longrightarrow> fromLittle (little n v) = v"
proof (induction n v rule: little.induct)
  case (2 n v)
  then have "v div 256 < 256 ^ n" by (simp add: less_mult_imp_div_less)
  then show ?case using 2 by simp
qed simp

lemma length_putUint [simp]: "length (putUint big n v) = n"
  by (simp add: putUint_def)

lemma getUint_putUint: "v < 256 ^ n \<Longrightarrow> getUint big (putUint big n v) = v"
  by (simp add: getUint_def putUint_def fromLittle_little)

lemma readAttrs_one:
  assumes l: "l = 4 + length val" "l < 65536" and ty: "ty < 65536" and pad: "length pad = (l + 3) div 4 * 4 - l"
  shows "readAttrs big (putUint big 2 l @ putUint big 2 ty @ val @ pad @ rest) =
    map_option (\<lambda>as. (ty, val) # as) (readAttrs big rest)"
proof -
  let ?bs = "putUint big 2 l @ putUint big 2 ty @ val @ pad @ rest"
  have g: "getUint big (take 2 ?bs) = l" "getUint big (take 2 (drop 2 ?bs)) = ty"
    using l(2) ty getUint_putUint [of _ 2 big] by simp_all
  have "4 \<le> l" "l \<le> (l + 3) div 4 * 4" using l(1) by simp_all
  then have s: "drop ((l + 3) div 4 * 4) ?bs = rest" using l(1) pad by simp
  have "length ?bs = (l + 3) div 4 * 4 + length rest" using l(1) pad \<open>l \<le> (l + 3) div 4 * 4\<close> by simp
  moreover have "?bs \<noteq> []" by (metis append_is_Nil_conv length_putUint list.size(3) zero_neq_numeral)
  ultimately show ?thesis
    by (subst readAttrs.simps) (simp only: Let_def g s, use l(1) in simp)
qed

section \<open>What is written\<close>

lemma read_int32msg:
  assumes "im_Type msg < 65536"
  shows "readAttrs big (int32msg_Serialize big msg @ rest) =
    map_option (\<lambda>as. (im_Type msg, putUint big 4 (unat (im_Value msg))) # as) (readAttrs big rest)"
  using readAttrs_one [of 8 "putUint big 4 (unat (im_Value msg))" "im_Type msg" "[]" big rest] assms
  by (simp add: int32msg_Serialize_def int32msg_Len_def NLA_HDRLEN_def)

lemma read_bytemsg:
  assumes "bytemsg_Serialize big msg = Inr data" "bm_Type msg < 65536"
  shows "readAttrs big (data @ rest) =
    map_option (\<lambda>as. (bm_Type msg, map byte (bm_Value msg) @ [0]) # as) (readAttrs big rest)"
proof -
  let ?n = "length (bm_Value msg)"
  have n: "?n + 5 < 65536"
    using assms(1) by (simp add: bytemsg_Serialize_def Let_def bytemsg_Len_def NLA_HDRLEN_def split: if_splits)
  define k where "k = (?n + 8) div 4 * 4 - (?n + 5)"
  have z: "(?n + 8) div 4 * 4 - Suc (Suc (Suc (Suc ?n))) = Suc k" unfolding k_def by presburger
  have "data = putUint big 2 (?n + 5) @ putUint big 2 (bm_Type msg) @ (map byte (bm_Value msg) @ [0]) @ replicate k 0"
    using assms(1) n
    by (auto simp: bytemsg_Serialize_def Let_def bytemsg_Len_def NLA_HDRLEN_def NLA_ALIGNTO_def z add.commute
        split: if_splits)
  then show ?thesis
    using readAttrs_one [of "?n + 5" "map byte (bm_Value msg) @ [0]" "bm_Type msg" "replicate k 0" big rest] n assms(2)
    by (simp add: k_def add.commute)
qed

section \<open>What is asked for\<close>

text \<open>
  The flags of the namespaces to be created, and for each kind of namespace, in the order of the table,
  the tagged path of the last one to be joined.
\<close>

definition flagOf :: "OciNamespace \<Rightarrow> 32 word" where
  "flagOf ns = (if Ns_Path ns = [] then case map_of nsTable (Ns_Type ns) of None \<Rightarrow> 0 | Some (i, tag, flag) \<Rightarrow> flag else 0)"

definition wantedFlags :: "OciNamespace list \<Rightarrow> 32 word" where
  "wantedFlags nss = fold (\<lambda>ns f. f OR flagOf ns) nss 0"

definition slot :: "OciNamespace list \<Rightarrow> string \<times> nat \<times> string \<times> 32 word \<Rightarrow> string" where
  "slot nss row = (case row of (ty, i, tag, flag) \<Rightarrow>
     (case find (\<lambda>ns. Ns_Type ns = ty \<and> Ns_Path ns \<noteq> []) (rev nss) of None \<Rightarrow> [] | Some ns \<Rightarrow> tag @ Ns_Path ns))"

definition wantedPaths :: "OciNamespace list \<Rightarrow> string list" where
  "wantedPaths nss = filter (\<lambda>p. p \<noteq> []) (map (slot nss) nsTable)"

text \<open>What the loop has gathered after some of the namespaces.\<close>

definition gathered :: "OciNamespace list \<Rightarrow> nsInfo \<Rightarrow> bool" where
  "gathered nss s \<longleftrightarrow> ni_cloneFlags s = wantedFlags nss \<and> ni_nsPaths s = [] # map (slot nss) nsTable \<and>
     ni_writeFlags s = list_ex (\<lambda>ns. Ns_Path ns = []) nss \<and> ni_writePaths s = list_ex (\<lambda>ns. Ns_Path ns \<noteq> []) nss \<and>
     list_all (\<lambda>p. CHR '','' \<notin> set p) (ni_nsPaths s)"

lemma gathered_zero: "gathered [] zeroNsInfo"
  by (simp add: gathered_def zeroNsInfo_def wantedFlags_def slot_def nsTable_def numNS_def numeral_eq_Suc)

lemma checkValidNsPath_commaless: "checkValidNsPath p \<omega> t = (Inr u, t') \<Longrightarrow> CHR '','' \<notin> set p"
  by (auto simp: checkValidNsPath_def bindM_Inr_iff split: sum.splits if_splits)

lemma rows_of: "map_of nsTable ty = Some row \<Longrightarrow> (ty, row) \<in> set nsTable"
  by (rule map_of_SomeD)

lemma slot_snoc:
  "slot (nss @ [ns]) (ty, i, tag, flag) =
    (if Ns_Type ns = ty \<and> Ns_Path ns \<noteq> [] then tag @ Ns_Path ns else slot nss (ty, i, tag, flag))"
  by (simp add: slot_def)

lemma slots_snoc:
  assumes "Ns_Path ns \<noteq> []" "map_of nsTable (Ns_Type ns) = Some (i, tag, flag)"
  shows "([] # map (slot nss) nsTable)[i := tag @ Ns_Path ns] = [] # map (slot (nss @ [ns])) nsTable"
  using rows_of [OF assms(2)] assms(1) by (auto simp: nsTable_def slot_snoc numeral_eq_Suc)

lemma slots_same:
  assumes "Ns_Path ns = [] \<or> map_of nsTable (Ns_Type ns) = None"
  shows "map (slot (nss @ [ns])) nsTable = map (slot nss) nsTable"
proof (rule map_cong [OF refl])
  fix row assume "row \<in> set nsTable"
  moreover obtain ty i tag flag where "row = (ty, i, tag, flag)" by (cases row)
  ultimately show "slot (nss @ [ns]) row = slot nss row"
    using assms by (auto simp: slot_snoc map_of_eq_None_iff image_iff)
qed

lemma tags_commaless: "(ty, i, tag, flag) \<in> set nsTable \<Longrightarrow> CHR '','' \<notin> set tag"
  by (auto simp: nsTable_def)

lemma list_all_update: "list_all P xs \<Longrightarrow> P x \<Longrightarrow> list_all P (xs[i := x])"
  by (cases "i < length xs") (auto simp: list_all_length nth_list_update)

lemma gathered_step:
  assumes "gathered nss s" "nsStep ns s \<omega> t = (Inr s', t')"
  shows "gathered (nss @ [ns]) s'"
proof -
  obtain s1 where s1: "setNs ns s \<omega> t = (Inr s1, t')"
    and s': "s' = (if Ns_Path ns = [] then s1\<lparr>ni_writeFlags := True\<rparr> else s1\<lparr>ni_writePaths := True\<rparr>)"
    using assms(2) by (auto simp: nsStep_def bindM_Inr_iff)
  consider "map_of nsTable (Ns_Type ns) = None" | i tag flag where "map_of nsTable (Ns_Type ns) = Some (i, tag, flag)"
    by (cases "map_of nsTable (Ns_Type ns)") auto
  then show ?thesis
  proof cases
    case 1
    then have "s1 = s" using s1 by (simp add: setNs_def)
    then show ?thesis using assms(1) s' 1 slots_same [of ns nss]
      by (auto simp: gathered_def wantedFlags_def flagOf_def)
  next
    case 2
    show ?thesis
    proof (cases "Ns_Path ns = []")
      case True
      then have "s1 = s\<lparr>ni_cloneFlags := ni_cloneFlags s OR flag\<rparr>" using s1 2 by (simp add: setNs_def)
      then show ?thesis using assms(1) s' 2 True slots_same [of ns nss]
        by (auto simp: gathered_def wantedFlags_def flagOf_def)
    next
      case False
      then have e: "s1 = s\<lparr>ni_nsPaths := (ni_nsPaths s)[i := tag @ Ns_Path ns]\<rparr>" "CHR '','' \<notin> set (Ns_Path ns)"
        using s1 2 by (auto simp: setNs_def bindM_Inr_iff dest: checkValidNsPath_commaless)
      have "list_all (\<lambda>p. CHR '','' \<notin> set p) ((ni_nsPaths s)[i := tag @ Ns_Path ns])"
        using assms(1) e(2) tags_commaless [OF rows_of [OF 2]] unfolding gathered_def
        by (intro list_all_update) auto
      then show ?thesis using assms(1) s' e(1) False slots_snoc [OF False 2, of nss]
        by (auto simp: gathered_def wantedFlags_def flagOf_def)
    qed
  qed
qed

lemma gathered_loop:
  "gathered nss s \<Longrightarrow> ns_loop rest s \<omega> t = (Inr s', t') \<Longrightarrow> gathered (nss @ rest) s'"
proof (induction rest arbitrary: nss s t)
  case (Cons ns rest)
  then obtain s1 t1 where "nsStep ns s \<omega> t = (Inr s1, t1)" "ns_loop rest s1 \<omega> t1 = (Inr s', t')"
    by (auto simp: bindM_Inr_iff)
  then show ?case using Cons.IH [OF gathered_step [OF Cons.prems(1)]] by fastforce
qed simp

section \<open>Reading a message\<close>

text \<open>What a reader makes of the attributes: the clone flags and the paths, each if present.\<close>

definition readNsInfo :: "bool \<Rightarrow> nat list \<Rightarrow> (32 word option \<times> string list option) option" where
  "readNsInfo big data = map_option (\<lambda>as.
     (map_option (\<lambda>v. word_of_nat (getUint big v)) (map_of as cloneFlagsAttr),
      map_option (\<lambda>v. filter (\<lambda>p. p \<noteq> []) (Split (CHR '','') (map char_of (butlast v)))) (map_of as nsPathsAttr)))
     (readAttrs big data)"

lemma map_char_byte: "map (char_of \<circ> byte) s = s"
  by (induction s) (simp_all add: byte_def)

lemma split_paths:
  assumes "list_all (\<lambda>p. CHR '','' \<notin> set p) ps"
  shows "filter (\<lambda>p. p \<noteq> []) (Split (CHR '','') (nsBuf ps)) = filter (\<lambda>p. p \<noteq> []) ps"
proof (cases "filter (\<lambda>p. p \<noteq> []) ps = []")
  case False
  then have "Split (CHR '','') (nsBuf ps) = filter (\<lambda>p. p \<noteq> []) ps"
    unfolding nsBuf_def using assms by (intro Split_Join) (auto simp: list_all_iff)
  then show ?thesis by simp
qed (simp add: nsBuf_def)

lemma word_of_read: "word_of_nat (getUint big (putUint big 4 (unat (w :: 32 word)))) = w"
proof -
  have "unat w < 256 ^ 4" using unsigned_less [of w] by simp
  then show ?thesis by (simp add: getUint_putUint)
qed

lemma read_attributes:
  assumes "nsAttributes big s = Inr data" and c: "list_all (\<lambda>p. CHR '','' \<notin> set p) (ni_nsPaths s)"
  shows "readNsInfo big data =
    Some (if ni_writeFlags s then Some (ni_cloneFlags s) else None,
          if ni_writePaths s then Some (filter (\<lambda>p. p \<noteq> []) (ni_nsPaths s)) else None)"
proof -
  let ?f = "if ni_writeFlags s then int32msg_Serialize big \<lparr>im_Type = cloneFlagsAttr, im_Value = ni_cloneFlags s\<rparr> else []"
  have "\<exists>d. data = ?f @ d \<and> readAttrs big d = Some (if ni_writePaths s then [(nsPathsAttr, map byte (nsBuf (ni_nsPaths s)) @ [0])] else [])"
  proof (cases "ni_writePaths s")
    case True
    then obtain d where d: "bytemsg_Serialize big \<lparr>bm_Type = nsPathsAttr, bm_Value = nsBuf (ni_nsPaths s)\<rparr> = Inr d" "data = ?f @ d"
      using assms(1) by (auto simp: nsAttributes_def bindE_Inr_iff)
    then show ?thesis using read_bytemsg [OF d(1), of "[]"] True by (simp add: nsPathsAttr_def)
  qed (use assms(1) in \<open>simp add: nsAttributes_def\<close>)
  then obtain d where d: "data = ?f @ d"
    "readAttrs big d = Some (if ni_writePaths s then [(nsPathsAttr, map byte (nsBuf (ni_nsPaths s)) @ [0])] else [])" by blast
  have "readAttrs big data = Some (
      (if ni_writeFlags s then [(cloneFlagsAttr, putUint big 4 (unat (ni_cloneFlags s)))] else []) @
      (if ni_writePaths s then [(nsPathsAttr, map byte (nsBuf (ni_nsPaths s)) @ [0])] else []))"
    unfolding d(1) by (simp add: read_int32msg cloneFlagsAttr_def d(2))
  then show ?thesis
    by (simp add: readNsInfo_def cloneFlagsAttr_def nsPathsAttr_def word_of_read map_char_byte split_paths [OF c])
qed

text \<open>
  C15: the process that enters the namespaces gets what the specification asks for. Read as netlink
  attributes, in either byte order, the message holds the clone flags of exactly the namespaces that
  are to be created, if there are any, and the tagged paths of exactly those to be joined, in the order
  in which they have to be entered: one for each kind, the last one given. No path can forge another
  one, because a path with a comma is refused.
\<close>

theorem nsenter_message_roundtrip:
  assumes "fst (runM (FormatNsenterInfo header big nss) \<omega>) = Inr msg"
  shows "\<exists>data. msg = header initMsg data @ data \<and> readNsInfo big data =
    Some (if list_ex (\<lambda>ns. Ns_Path ns = []) nss then Some (wantedFlags nss) else None,
          if list_ex (\<lambda>ns. Ns_Path ns \<noteq> []) nss then Some (wantedPaths nss) else None)"
proof -
  obtain t' where "FormatNsenterInfo header big nss \<omega> [] = (Inr msg, t')"
    using assms by (cases "FormatNsenterInfo header big nss \<omega> []") (simp add: runM_def)
  then obtain s t data where s: "ns_loop nss zeroNsInfo \<omega> [] = (Inr s, t)" "nsAttributes big s = Inr data"
    "msg = header initMsg data @ data"
    by (auto simp: FormatNsenterInfo_def bindM_Inr_iff)
  have g: "gathered nss s" using gathered_loop [OF gathered_zero s(1)] by simp
  then have "list_all (\<lambda>p. CHR '','' \<notin> set p) (ni_nsPaths s)" unfolding gathered_def by blast
  from read_attributes [OF s(2) this] g show ?thesis
    using s(3) by (intro exI [of _ data]) (simp add: gathered_def wantedPaths_def)
qed

definition sample_namespaces :: "OciNamespace list" where
  "sample_namespaces = [\<lparr>Ns_Type = ''network'', Ns_Path = ''/n''\<rparr>, \<lparr>Ns_Type = ''mount'', Ns_Path = []\<rparr>,
     \<lparr>Ns_Type = ''ipc'', Ns_Path = ''/i''\<rparr>]"

definition sample_lstat :: host where
  "sample_lstat t c = RStat \<lparr>st_mode = 0, st_uid = 0, st_gid = 0, st_major = 0, st_minor = 0, st_size = 0, st_mtime = (0, 0)\<rparr>"

theorem nsenter_message_roundtrip_witness:
  "\<exists>data. readNsInfo False data = Some (Some 0x00020000, Some [''ipc:/i'', ''net:/n''])"
proof -
  have "case fst (runM (FormatNsenterInfo (\<lambda>_ _. []) False sample_namespaces) sample_lstat) of Inr _ \<Rightarrow> True | Inl _ \<Rightarrow> False"
    by code_simp
  then obtain msg where "fst (runM (FormatNsenterInfo (\<lambda>_ _. []) False sample_namespaces) sample_lstat) = Inr msg"
    by (auto split: sum.splits)
  from nsenter_message_roundtrip [OF this] show ?thesis
    by (simp add: sample_namespaces_def wantedFlags_def flagOf_def wantedPaths_def slot_def nsTable_def) blast
qed

end
