(* ===== verification/Cli_Props.thy ===== *)
theory Cli_Props
  imports Container_Props
begin

text \<open>
  The commands: where the state of the container that is named on the command line lies, which files
  of its image the monitor is given, and the command that never gets to its end.
\<close>

section \<open>Names of containers\<close>

lemma validateID_plain:
  assumes "validateID cid = Inr u"
  shows "plain_comp cid" "sep \<notin> set cid"
proof -
  have v: "cid \<noteq> []" "list_all id_char cid" "Clean (sep # cid) = sep # cid"
    using assms by (auto simp: validateID_def split: if_splits)
  have "\<not> id_char sep" by (simp add: id_char_def sep_def byte_def isDigit_def Let_def)
  then show s: "sep \<notin> set cid" using v(2) by (auto simp: list_all_iff)
  have "sep # cid \<noteq> ''.''" using v(1) by simp
  from Clean_fixed_comps [OF v(3) this] show "plain_comp cid"
    using v(1) by (simp add: comps_def Split_self [OF s] normal_comps_def)
qed

lemma Split_append: "Split d (a @ d # b) = Split d a @ Split d b"
  by (induction a) (auto split: list.splits)

text \<open>A plain name joined to an absolute path is one more component.\<close>

lemma join_plain:
  assumes "IsAbs root" "plain_comp c" "sep \<notin> set c"
  shows "filepath_Join [root, c] = (if Clean root = ''/'' then [] else Clean root) @ ''/'' @ c"
proof -
  let ?cs = "clean_comps True (Split sep root)"
  have ne: "root \<noteq> []" "c \<noteq> []" using assms by (auto simp: IsAbs_def plain_comp_def)
  have root: "Clean root = sep # Join ?cs [sep]" using assms(1) ne(1) by (simp add: Clean_def unsplit_def)
  have "IsAbs (root @ sep # c)" using assms(1) by (simp add: IsAbs_def)
  then have "filepath_Join [root, c] = sep # Join (clean_comps True (Split sep (root @ sep # c))) [sep]"
    using ne by (simp add: filepath_Join_def Clean_def unsplit_def)
  also have "clean_comps True (Split sep (root @ sep # c)) = ?cs @ [c]"
    using assms(2) by (simp add: Split_append Split_self [OF assms(3)] clean_comps_def clean_step_plain del: clean_step.simps)
  also have "sep # Join (?cs @ [c]) [sep] = (if Clean root = ''/'' then [] else Clean root) @ ''/'' @ c"
  proof (cases "?cs = []")
    case True
    then show ?thesis using root by (simp add: sep_def)
  next
    case False
    moreover have "Join ?cs [sep] \<noteq> []"
    proof -
      have "normal_comps True ?cs" by (rule clean_comps_normal)
      then have "unsplit False ?cs \<noteq> []"
        by (intro unsplit_nonempty) (simp add: normal_comps_def normal_rel_plain)
      then show ?thesis using False by (simp add: unsplit_def)
    qed
    ultimately show ?thesis using root by (simp add: Join_snoc sep_def)
  qed
  finally show ?thesis .
qed

lemma Get_dir: "fst (Get D cid root \<omega> t) = Inr u \<Longrightarrow> U_BaseDir u = filepath_Join [root, cid]"
  by (cases "Get D cid root \<omega> t") (auto simp: Get_def Let_def bindM_Inr_iff split: if_splits)

lemma New_dir: "fst (New D b cid root cfg \<omega> t) = Inr u \<Longrightarrow> U_BaseDir u = filepath_Join [root, cid]"
  by (cases "New D b cid root cfg \<omega> t") (auto simp: New_def bindM_Inr_iff split: if_splits)

lemma InitialSetup_dir: "InitialSetup D u \<omega> t = (Inr u', t') \<Longrightarrow> U_BaseDir u' = U_BaseDir u"
  by (auto simp: saves_def dest!: InitialSetup_saves)

lemma getUnikontainer_dir:
  "getUnikontainer D c \<omega> t = (Inr (Some u), t') \<Longrightarrow>
    validateID (firstArg c) = Inr () \<and> U_BaseDir u = filepath_Join [Cli_root c, firstArg c]"
  by (auto simp: getUnikontainer_def bindM_Inr_iff split: sum.splits if_splits intro: Get_dir)

lemma newUnikontainer_dir:
  assumes "newUnikontainer D c cfg \<omega> t = (Inr (Some u), t')"
  shows "validateID (firstArg c) = Inr () \<and> U_BaseDir u = filepath_Join [Cli_root c, firstArg c]"
proof -
  from assms obtain b r t1 t2 where v: "validateID (firstArg c) = Inr ()"
    and r: "r = fst (New D b (firstArg c) (Cli_root c) cfg \<omega> t1)"
    and n: "(case r of
        Inl e \<Rightarrow> (if errors_Is e ErrQueueProxy \<or> errors_Is e ErrNotUnikernel
                  then bindM (runcExec c) (\<lambda>_. retM None) else failM e)
      | Inr u \<Rightarrow> bindM (InitialSetup D u) (\<lambda>u. retM (Some u))) \<omega> t2 = (Inr (Some u), t')"
    unfolding newUnikontainer_def bindM_Inr_iff by auto
  show ?thesis
  proof (cases r)
    case (Inl e)
    then show ?thesis using n by (auto simp: bindM_Inr_iff split: if_splits)
  next
    case (Inr u0)
    then have "U_BaseDir u = U_BaseDir u0" using n by (auto simp: bindM_Inr_iff dest: InitialSetup_dir)
    then show ?thesis using v New_dir Inr r by metis
  qed
qed

text \<open>
  C16: a container keeps its state in a directory of its own, directly below the root directory. The
  identifier on the command line that passes the check is one plain path component, so for every
  command the state directory is the cleaned root directory with exactly this component behind it; no
  identifier reaches above the root or into the directory of another container.
\<close>

theorem state_directory_below_root:
  assumes "getUnikontainer D c \<omega> t = (Inr (Some u), t') \<or> newUnikontainer D c cfg \<omega> t = (Inr (Some u), t')"
    and "IsAbs (Cli_root c)"
  shows "U_BaseDir u = (if Clean (Cli_root c) = ''/'' then [] else Clean (Cli_root c)) @ ''/'' @ firstArg c
    \<and> sep \<notin> set (firstArg c) \<and> firstArg c \<noteq> [] \<and> firstArg c \<noteq> ''.'' \<and> firstArg c \<noteq> ''..''"
proof -
  have "validateID (firstArg c) = Inr ()" and b: "U_BaseDir u = filepath_Join [Cli_root c, firstArg c]"
    using assms(1) getUnikontainer_dir newUnikontainer_dir by blast+
  note p = validateID_plain [OF this(1)]
  show ?thesis using join_plain [OF assms(2) p] b p by (simp add: plain_comp_def)
qed

theorem state_directory_below_root_witness:
  "\<exists>u t. getUnikontainer sample_deps sample_command sample_host [] = (Inr (Some u), t) \<and> U_BaseDir u = ''/r/c1''"
proof -
  have "case fst (getUnikontainer sample_deps sample_command sample_host []) of Inr (Some u) \<Rightarrow> True | _ \<Rightarrow> False"
    by code_simp
  then obtain u t where r: "getUnikontainer sample_deps sample_command sample_host [] = (Inr (Some u), t)"
    by (cases "getUnikontainer sample_deps sample_command sample_host []") (auto split: sum.splits option.splits)
  have "Clean ''/r'' = ''/r''" by code_simp
  then show ?thesis using state_directory_below_root [OF disjI1 [OF r]] r
    by (simp add: sample_command_def firstArg_def sep_def)
qed

section \<open>Files of the image\<close>

text \<open>What \<open>SecureJoin\<close> promises: the path it gives lies below the root it was given.\<close>

definition within :: "string \<Rightarrow> string \<Rightarrow> bool" where
  "within root p \<longleftrightarrow> p = root \<or> HasPrefix p (root @ ''/'')"

definition confines :: "host \<Rightarrow> bool" where
  "confines \<omega> \<longleftrightarrow> (\<forall>t root p r. \<omega> t (Fs (SecureJoin root p)) = RStr r \<longrightarrow> within root r)"

definition confined :: "string \<Rightarrow> bool" where
  "confined p \<longleftrightarrow> p = [] \<or> within ContainerRootfsMountPath p \<and> allowedPathRe p"

lemma confineToContainerRootfs_confined:
  "confines \<omega> \<Longrightarrow> confineToContainerRootfs p \<omega> t = (Inr q, t') \<Longrightarrow> confined q \<and> (q = [] \<longleftrightarrow> p = [])"
  by (auto simp: confineToContainerRootfs_def bindM_Inr_iff callS_run confined_def confines_def allowedPathRe_def
      split: if_splits reply.splits)

text \<open>A block device whose image comes from an annotation is confined, any other is left as it is.\<close>

definition confined_block :: "BlockDevParams \<Rightarrow> BlockDevParams \<Rightarrow> bool" where
  "confined_block b b' \<longleftrightarrow> (if Blk_IsExplicit b then \<exists>p. confined p \<and> b' = b\<lparr>Blk_Source := p\<rparr> else b' = b)"

lemma confineBlockSources_confined:
  "confines \<omega> \<Longrightarrow> confineBlockSources bs \<omega> t = (Inr bs', t') \<Longrightarrow> list_all2 confined_block bs bs'"
proof (induction bs arbitrary: bs' t)
  case (Cons b bs)
  from Cons.prems(2) obtain b' t1 bs1 where b': "(if Blk_IsExplicit b
        then bindM (confineToContainerRootfs (Blk_Source b)) (\<lambda>s. retM (b\<lparr>Blk_Source := s\<rparr>)) else retM b) \<omega> t = (Inr b', t1)"
      "confineBlockSources bs \<omega> t1 = (Inr bs1, t')" "bs' = b' # bs1"
    by (auto simp: bindM_Inr_iff)
  then have "confined_block b b'"
    using confineToContainerRootfs_confined [OF Cons.prems(1)]
    by (cases "Blk_IsExplicit b") (simp_all add: bindM_Inr_iff confined_block_def, blast)
  then show ?case using Cons.IH [OF Cons.prems(1) b'(2)] b'(3) by simp
qed simp

text \<open>
  The monitor is only given files of the container's image. Whatever the annotations name, the
  kernel, initrd and snapshot on its command line and every block image that comes from an annotation
  are paths below the mount of the image made of plain characters, or are not given at all; the
  devices that the runtime has chosen itself and everything else are passed on unchanged.
\<close>

theorem boot_files_stay_in_image:
  assumes "confines \<omega>"
    and "confineBootFiles args \<omega> t = (Inr args', t')" "confineBlockSources blocks \<omega> t' = (Inr blocks', t'')"
  shows "confined (Ex_UnikernelPath args') \<and> confined (Ex_InitrdPath args') \<and> confined (Ex_SnapshotPath args')
    \<and> args'\<lparr>Ex_UnikernelPath := Ex_UnikernelPath args, Ex_InitrdPath := Ex_InitrdPath args,
             Ex_SnapshotPath := Ex_SnapshotPath args\<rparr> = args
    \<and> list_all2 confined_block blocks blocks'"
  using assms(2) confineBlockSources_confined [OF assms(1,3)]
  by (auto simp: confineBootFiles_def bindM_Inr_iff dest!: confineToContainerRootfs_confined [OF assms(1)])

definition joining_host :: host where
  "joining_host t c = (case c of Fs (SecureJoin a b) \<Rightarrow> RStr (a @ ''/'' @ b) | _ \<Rightarrow> ROk)"

theorem boot_files_stay_in_image_witness:
  "\<exists>args' :: ExecArgs. confined (Ex_UnikernelPath args') \<and> Ex_UnikernelPath args' = ''/cntrRootfs/k''"
proof -
  let ?args = "zeroExecArgs\<lparr>Ex_UnikernelPath := ''k''\<rparr>"
  have c: "confines joining_host" by (auto simp: confines_def joining_host_def within_def HasPrefix_iff)
  have j: "joining_host t (Fs (SecureJoin a b)) = RStr (a @ ''/'' @ b)" for t a b by (simp add: joining_host_def)
  have "allowedPathRe ''/cntrRootfs/k''" by code_simp
  then have r: "confineToContainerRootfs ''k'' joining_host t = (Inr ''/cntrRootfs/k'', t @ [Fs (SecureJoin ''/cntrRootfs'' ''k'')])" for t
    by (simp add: confineToContainerRootfs_def bindM_run callS_run j ContainerRootfsMountPath_def)
  have e: "confineToContainerRootfs [] joining_host t = (Inr [], t)" for t
    by (simp add: confineToContainerRootfs_def)
  have "\<exists>t'. confineBootFiles ?args joining_host [] = (Inr (zeroExecArgs\<lparr>Ex_UnikernelPath := ''/cntrRootfs/k''\<rparr>), t')"
    by (simp add: confineBootFiles_def bindM_run r e zeroExecArgs_def)
  then obtain t' where b: "confineBootFiles ?args joining_host [] = (Inr (zeroExecArgs\<lparr>Ex_UnikernelPath := ''/cntrRootfs/k''\<rparr>), t')" by blast
  have "confineBlockSources [] joining_host t' = (Inr [], t')" by simp
  from boot_files_stay_in_image [OF c b this] show ?thesis
    by (intro exI [of _ "zeroExecArgs\<lparr>Ex_UnikernelPath := ''/cntrRootfs/k''\<rparr>"]) simp
qed

section \<open>The command run\<close>



end
