(* ===== verification/Shim.thy ===== *)
theory Shim
  imports Go_Env Go_Json Go_Path Oci_Spec
begin

text \<open>
  The containerd shim, \<open>pkg/containerd-shim\<close>: the task service, which adds the annotations of an
  image to the specification before the container is created, and the start for old daemons. What it
  asks of containerd, of the shim library and of the operating system is a world of its own. From
  outside \<open>src/\<close> come the namespace of the context, the test for a manifest, the decoders of
  manifests, specifications and protobuf messages, the conversion of gRPC errors, and a bound on the
  number of chunks of a blob.
\<close>

record containerInfo =
  Cn_Labels :: "(string \<times> string) list"
  Cn_Image :: string

record descriptor =
  De_MediaType :: string
  De_Digest :: string
  De_Size :: int

record BootstrapParams =
  Bp_InstanceID :: string
  Bp_Namespace :: string
  Bp_ContainerdBinary :: string
  Bp_TtrpcAddress :: string
  Bp_GrpcAddress :: string
  Bp_Debug :: bool
  Bp_Extensions :: "string list"
  Bp_ContainerdVersion :: string

text \<open>A plugin as the daemon's library knows it; the kinds are constants of that library.\<close>

datatype pluginType = TTRPCPlugin | EventPlugin | InternalPlugin

record Registration =
  Re_Type :: pluginType
  Re_ID :: string
  Re_Requires :: "pluginType list"

datatype shim_call =
    RegisterPlugin Registration | GetByID pluginType string | NewInnerTask
  | RegisterTask | RegisterService string "string list"
  | CtrDial string | CtrContainer string string | CtrImage string string
  | CtrContent string string int | CtrRecv | CtrClose | InnerCreate string string | InnerDelete string
  | ShStat string | ShReadFile string | CreateTemp string string | TmpChmod string nat
  | TmpWrite string string | TmpSync string | TmpClose string | ShRename string string | ShRemove string
  | ReadStdin nat | ShGetenv string | ManagerStart BootstrapParams | ShWriteFile string string nat
  | ShStdout string | ShStderr err | ShExit nat | RunContainerdShim
  | MemfdCreate string | MemWrite string | MemSeek | MemClose | SetStdin

datatype shim_reply =
    ShOk | ShErr err | ShStr string | ShMode nat | ShStarted string string
  | ShContainer "containerInfo option" | ShImage "descriptor option"

type_synonym shim_host = "(shim_call, shim_reply) world"

type_synonym 'a shim = "(shim_call, shim_reply, 'a) M"

record shim_deps =
  sd_namespace :: "err + string"
  sd_isManifest :: "string \<Rightarrow> bool"
  sd_toNative :: "err \<Rightarrow> err"
  sd_decManifest :: "string \<Rightarrow> err + (string \<times> string) list"
  sd_decSpec :: "string \<Rightarrow> err + OciSpec"
  sd_encSpec :: "OciSpec \<Rightarrow> err + string"
  sd_decBoot :: "string \<Rightarrow> err + BootstrapParams"
  sd_decAny :: "string \<Rightarrow> err + string"
  sd_addExtension :: "string \<Rightarrow> BootstrapParams \<Rightarrow> err + BootstrapParams"
  sd_recvFuel :: nat

definition noReply :: err where "noReply = Errno EPROTO"

definition shU :: "shim_call \<Rightarrow> unit shim" where
  "shU c = bindM (sysM c) (\<lambda>r. case r of ShOk \<Rightarrow> retM () | ShErr e \<Rightarrow> failM e | _ \<Rightarrow> failM noReply)"

definition shS :: "shim_call \<Rightarrow> string shim" where
  "shS c = bindM (sysM c) (\<lambda>r. case r of ShStr s \<Rightarrow> retM s | ShErr e \<Rightarrow> failM e | _ \<Rightarrow> failM noReply)"

definition shMode :: "shim_call \<Rightarrow> nat shim" where
  "shMode c = bindM (sysM c) (\<lambda>r. case r of ShMode m \<Rightarrow> retM m | ShErr e \<Rightarrow> failM e | _ \<Rightarrow> failM noReply)"

definition shIgnore :: "unit shim \<Rightarrow> unit shim" where
  "shIgnore m = bindM (tryM m) (\<lambda>_. retM ())"

definition shDefer :: "unit shim \<Rightarrow> 'a shim \<Rightarrow> 'a shim" where
  "shDefer cleanup body = bindM (tryM body) (\<lambda>r. bindM (shIgnore cleanup) (\<lambda>_. liftM r))"

section \<open>Session\<close>

record Session =
  Se_conn :: bool
  Se_namespace :: string
  Se_containerID :: string
  Se_container :: containerInfo

definition loadContainer :: "shim_deps \<Rightarrow> string \<Rightarrow> string \<Rightarrow> containerInfo shim" where
  "loadContainer D namespace containerID =
     bindM (sysM (CtrContainer namespace containerID)) (\<lambda>resp.
       case resp of
         ShContainer (Some container) \<Rightarrow> retM container
       | ShContainer None \<Rightarrow> failM (Errorf ''get container %q: response missing container'' [containerID])
       | ShErr e \<Rightarrow> failM (ErrorfW ''get container %q: %w'' [containerID] (sd_toNative D e))
       | _ \<Rightarrow> failM (ErrorfW ''get container %q: %w'' [containerID] (sd_toNative D noReply)))"

text \<open>The error of a failed close is only printed into the message.\<close>

definition OpenSession :: "shim_deps \<Rightarrow> string \<Rightarrow> string \<Rightarrow> Session shim" where
  "OpenSession D address containerID =
     (if address = [] then failM (Errorf ''containerd address is empty'' [])
      else if containerID = [] then failM (Errorf ''container id is empty'' [])
      else bindM (liftM (sd_namespace D)) (\<lambda>namespace.
           bindM (wrapM ''dial containerd at %q: %w'' [address] (shU (CtrDial address))) (\<lambda>_.
           bindM (tryM (loadContainer D namespace containerID)) (\<lambda>r.
             case r of
               Inl e \<Rightarrow>
                 bindM (tryM (shU CtrClose)) (\<lambda>c.
                   case c of
                     Inl _ \<Rightarrow> failM (ErrorfW ''loadContainer failed: %w; close containerd connection: %v'' [] e)
                   | Inr _ \<Rightarrow> failM (ErrorfW ''loadContainer failed: %w'' [] e))
             | Inr container \<Rightarrow>
                 retM \<lparr>Se_conn = True, Se_namespace = namespace, Se_containerID = containerID, Se_container = container\<rparr>))))"

text \<open>A session that is not there, or has no connection, has nothing to close.\<close>

definition Session_Close :: "Session option \<Rightarrow> unit shim" where
  "Session_Close s =
     (case s of None \<Rightarrow> retM () | Some s \<Rightarrow> (if \<not> Se_conn s then retM () else shU CtrClose))"

section \<open>Annotations of the image\<close>

record annotationFetcher =
  af_containerLabels :: "(string \<times> string) list"
  af_namespace :: string
  af_target :: "descriptor option"

text \<open>A container without an image, or an image that is not found, has no target.\<close>

definition newAnnotationFetcher :: "Session \<Rightarrow> annotationFetcher shim" where
  "newAnnotationFetcher session =
     (let container = Se_container session;
          fetcher = \<lparr>af_containerLabels = Cn_Labels container, af_namespace = Se_namespace session, af_target = None\<rparr>
      in if Cn_Image container = [] then retM fetcher
         else bindM (sysM (CtrImage (Se_namespace session) (Cn_Image container))) (\<lambda>imageResp.
           case imageResp of
             ShImage target \<Rightarrow> retM (fetcher\<lparr>af_target := target\<rparr>)
           | _ \<Rightarrow> retM fetcher))"

text \<open>The chunks of a blob until the stream ends.\<close>

fun recv_loop :: "shim_deps \<Rightarrow> nat \<Rightarrow> string \<Rightarrow> string shim" where
  "recv_loop D 0 raw = failM OutOfFuel"
| "recv_loop D (Suc n) raw =
     bindM (tryM (shS CtrRecv)) (\<lambda>resp.
       case resp of
         Inr chunk \<Rightarrow> recv_loop D n (raw @ chunk)
       | Inl e \<Rightarrow> (if e = Errno EOF then retM raw else failM (sd_toNative D e)))"

definition readBlob :: "shim_deps \<Rightarrow> string \<Rightarrow> string \<Rightarrow> int \<Rightarrow> string shim" where
  "readBlob D namespace digest blobSize =
     bindM (mapErrM (sd_toNative D) (shU (CtrContent namespace digest blobSize))) (\<lambda>_.
       recv_loop D (sd_recvFuel D) [])"

text \<open>A map from annotations to values as a list of its entries; a later assignment replaces.\<close>

definition assign :: "string \<times> string \<Rightarrow> (string \<times> string) list \<Rightarrow> (string \<times> string) list" where
  "assign kv m = (if HasPrefix (fst kv) annotUruncPrefix then filter (\<lambda>x. fst x \<noteq> fst kv) m @ [kv] else m)"

definition fetchUruncAnnotations :: "shim_deps \<Rightarrow> annotationFetcher \<Rightarrow> (string \<times> string) list shim" where
  "fetchUruncAnnotations D f =
     (let filtered = fold assign (af_containerLabels f) []
      in case af_target f of
           None \<Rightarrow> retM filtered
         | Some target \<Rightarrow>
             (if \<not> sd_isManifest D (De_MediaType target) then retM filtered
              else
                bindM (wrapM ''read manifest blob: %w'' []
                         (readBlob D (af_namespace f) (De_Digest target) (De_Size target))) (\<lambda>manifestRaw.
                bindM (wrapM ''unmarshal manifest: %w'' [] (liftM (sd_decManifest D manifestRaw))) (\<lambda>manifest.
                  retM (fold assign manifest filtered)))))"

section \<open>The specification of the bundle\<close>

text \<open>Once the temporary file is there it is removed on every way, where after the rename there is none.\<close>

definition atomicWriteFile :: "string \<Rightarrow> string \<Rightarrow> nat \<Rightarrow> unit shim" where
  "atomicWriteFile path data mode =
     bindM (shS (CreateTemp (filepath_Dir path) (''.'' @ filepath_Base path @ ''.tmp-*''))) (\<lambda>tmpName.
       shDefer (shU (ShRemove tmpName))
         (let orClose = (\<lambda>m. bindM (tryM m) (\<lambda>r. case r of
                Inr _ \<Rightarrow> retM () | Inl e \<Rightarrow> bindM (shIgnore (shU (TmpClose tmpName))) (\<lambda>_. failM e)))
          in bindM (orClose (shU (TmpChmod tmpName mode))) (\<lambda>_.
             bindM (orClose (shU (TmpWrite tmpName data))) (\<lambda>_.
             bindM (orClose (shU (TmpSync tmpName))) (\<lambda>_.
             bindM (shU (TmpClose tmpName)) (\<lambda>_.
               shU (ShRename tmpName path)))))))"

definition addMissing :: "string \<times> string \<Rightarrow> annotations \<Rightarrow> annotations" where
  "addMissing kv m = (case m (fst kv) of Some _ \<Rightarrow> m | None \<Rightarrow> m(fst kv \<mapsto> snd kv))"

definition patchConfigJSON :: "shim_deps \<Rightarrow> string \<Rightarrow> (string \<times> string) list \<Rightarrow> unit shim" where
  "patchConfigJSON D bundlePath annotations =
     (let configPath = filepath_Join [bundlePath, ''config.json'']
      in bindM (wrapM ''stat config.json: %w'' [] (shMode (ShStat configPath))) (\<lambda>mode.
         bindM (wrapM ''read config.json: %w'' [] (shS (ShReadFile configPath))) (\<lambda>data.
         bindM (wrapM ''unmarshal spec: %w'' [] (liftM (sd_decSpec D data))) (\<lambda>spec.
         let spec = spec\<lparr>S_Annotations := fold addMissing annotations (S_Annotations spec)\<rparr>
         in bindM (wrapM ''marshal spec: %w'' [] (liftM (sd_encSpec D spec))) (\<lambda>patched.
              wrapM ''write config.json atomically: %w'' [] (atomicWriteFile configPath patched mode))))))"

definition InjectUruncAnnotations :: "shim_deps \<Rightarrow> Session \<Rightarrow> string \<Rightarrow> unit shim" where
  "InjectUruncAnnotations D session bundlePath =
     bindM (wrapM ''create annotation fetcher: %w'' [] (newAnnotationFetcher session)) (\<lambda>fetcher.
     bindM (wrapM ''fetch urunc annotations: %w'' [] (fetchUruncAnnotations D fetcher)) (\<lambda>annotations.
       if annotations = [] then retM () else patchConfigJSON D bundlePath annotations))"

section \<open>The task service\<close>

record taskService =
  Ts_containerdAddress :: string

text \<open>
  A session that does not open and annotations that cannot be added are only logged. The session is
  closed when the request has been served.
\<close>

definition taskService_Create :: "shim_deps \<Rightarrow> taskService \<Rightarrow> string \<Rightarrow> string \<Rightarrow> string shim" where
  "taskService_Create D s requestID bundle =
     bindM (tryM (OpenSession D (Ts_containerdAddress s) requestID)) (\<lambda>r.
       case r of
         Inl _ \<Rightarrow> shS (InnerCreate requestID bundle)
       | Inr session \<Rightarrow>
           shDefer (Session_Close (Some session))
             (bindM (tryM (InjectUruncAnnotations D session bundle)) (\<lambda>_.
                shS (InnerCreate requestID bundle))))"

definition taskService_Delete :: "taskService \<Rightarrow> string \<Rightarrow> string shim" where
  "taskService_Delete s requestID = shS (InnerDelete requestID)"

text \<open>
  The methods of the task interface, which the wrapped service answers but for the two above, and the
  older name they are served under as well.
\<close>

datatype taskMethod =
    TState | TCreate | TStart | TDelete | TPids | TPause | TResume | TCheckpoint | TKill | TExec
  | TResizePty | TCloseIO | TUpdate | TWait | TStats | TConnect | TShutdown

definition taskV2Methods :: "(string \<times> taskMethod) list" where
  "taskV2Methods =
     [(''State'', TState), (''Create'', TCreate), (''Start'', TStart), (''Delete'', TDelete), (''Pids'', TPids),
      (''Pause'', TPause), (''Resume'', TResume), (''Checkpoint'', TCheckpoint), (''Kill'', TKill), (''Exec'', TExec),
      (''ResizePty'', TResizePty), (''CloseIO'', TCloseIO), (''Update'', TUpdate), (''Wait'', TWait), (''Stats'', TStats),
      (''Connect'', TConnect), (''Shutdown'', TShutdown)]"

text \<open>A request that cannot be read is answered with the error, and the handler is not called.\<close>

definition taskV2Method :: "('req \<Rightarrow> 'resp shim) \<Rightarrow> err + 'req \<Rightarrow> 'resp shim" where
  "taskV2Method fn req = bindM (liftM req) fn"

definition registerTaskV2 :: "unit shim" where
  "registerTaskV2 = bindM (sysM (RegisterService ''containerd.task.v2.Task'' (map fst taskV2Methods))) (\<lambda>_. retM ())"

definition taskService_RegisterTTRPC :: "taskService \<Rightarrow> unit shim" where
  "taskService_RegisterTTRPC s = bindM (sysM RegisterTask) (\<lambda>_. registerTaskV2)"

text \<open>
  The plugin: what the shim's library is told when the program starts, and the function it calls to make
  the service. The address of the daemon is a property of the context that the function is called with.
\<close>

definition taskPlugin :: Registration where
  "taskPlugin = \<lparr>Re_Type = TTRPCPlugin, Re_ID = ''task'', Re_Requires = [EventPlugin, InternalPlugin]\<rparr>"

definition shim_init :: "unit shim" where
  "shim_init = bindM (sysM (RegisterPlugin taskPlugin)) (\<lambda>_. retM ())"

definition taskPlugin_InitFn :: "string \<Rightarrow> taskService shim" where
  "taskPlugin_InitFn grpcAddress =
     bindM (shU (GetByID EventPlugin ''publisher'')) (\<lambda>_.
     bindM (shU (GetByID InternalPlugin ''shutdown'')) (\<lambda>_.
     bindM (shU NewInnerTask) (\<lambda>_.
       retM \<lparr>Ts_containerdAddress = grpcAddress\<rparr>)))"

section \<open>Old daemons\<close>

text \<open>
  \<open>flag.Parse\<close> of the five flags of the shim: the values and the arguments behind the flags, or no
  result for an error.
\<close>

record shimFlags =
  Sf_id :: string
  Sf_namespace :: string
  Sf_address :: string
  Sf_publishBinary :: string
  Sf_debug :: bool

definition noFlags :: shimFlags where
  "noFlags = \<lparr>Sf_id = [], Sf_namespace = [], Sf_address = [], Sf_publishBinary = [], Sf_debug = False\<rparr>"

definition setFlag :: "string \<Rightarrow> string \<Rightarrow> shimFlags \<Rightarrow> shimFlags option" where
  "setFlag name val f =
     (if name = ''id'' then Some (f\<lparr>Sf_id := val\<rparr>)
      else if name = ''namespace'' then Some (f\<lparr>Sf_namespace := val\<rparr>)
      else if name = ''address'' then Some (f\<lparr>Sf_address := val\<rparr>)
      else if name = ''publish-binary'' then Some (f\<lparr>Sf_publishBinary := val\<rparr>)
      else None)"

text \<open>An equals sign behind the first byte of a flag separates its value.\<close>

definition splitFlag :: "string \<Rightarrow> string \<times> string option" where
  "splitFlag s =
     (case Cut (CHR ''='') (drop 1 s) of (a, b, found) \<Rightarrow> (take 1 s @ a, if found then Some b else None))"

fun parseFlags :: "string list \<Rightarrow> shimFlags \<Rightarrow> (shimFlags \<times> string list) option" where
  "parseFlags [] f = Some (f, [])"
| "parseFlags (s # args) f =
     (if length s < 2 \<or> hd s \<noteq> CHR ''-'' then Some (f, s # args)
      else if s = ''--'' then Some (f, args)
      else
        let body = (if HasPrefix s ''--'' then drop 2 s else drop 1 s)
        in if body = [] \<or> hd body = CHR ''-'' \<or> hd body = CHR ''='' then None
           else case splitFlag body of
             (name, val) \<Rightarrow>
               (if name = ''debug'' then
                  (case val of
                     None \<Rightarrow> parseFlags args (f\<lparr>Sf_debug := True\<rparr>)
                   | Some v \<Rightarrow> (case ParseBool v of None \<Rightarrow> None | Some b \<Rightarrow> parseFlags args (f\<lparr>Sf_debug := b\<rparr>)))
                else
                  (case val of
                     Some v \<Rightarrow> (case setFlag name v f of None \<Rightarrow> None | Some f \<Rightarrow> parseFlags args f)
                   | None \<Rightarrow>
                       (case args of
                          [] \<Rightarrow> None
                        | v # args \<Rightarrow> (case setFlag name v f of None \<Rightarrow> None | Some f \<Rightarrow> parseFlags args f)))))"

definition replaceStdin :: "string \<Rightarrow> unit shim" where
  "replaceStdin data =
     wrapM ''replace stdin: %w'' []
       (bindM (shU (MemfdCreate ''urunc-shim-stdin'')) (\<lambda>_.
          let orClose = (\<lambda>m. bindM (tryM m) (\<lambda>r. case r of
                Inr _ \<Rightarrow> retM () | Inl e \<Rightarrow> bindM (shIgnore (shU MemClose)) (\<lambda>_. failM e)))
          in bindM (orClose (shU (MemWrite data))) (\<lambda>_.
             bindM (orClose (shU MemSeek)) (\<lambda>_.
               shIgnore (shU SetStdin)))))"

definition stdinLimit :: nat where "stdinLimit = 10485760"

definition shGetenv :: "string \<Rightarrow> string shim" where
  "shGetenv key = bindM (tryM (shS (ShGetenv key))) (\<lambda>r. retM (case r of Inr v \<Rightarrow> v | Inl _ \<Rightarrow> []))"

text \<open>The parameters of a start by an old daemon, or none for any other invocation.\<close>

definition legacyStartParams :: "shim_deps \<Rightarrow> string list \<Rightarrow> BootstrapParams option shim" where
  "legacyStartParams D args =
     (case parseFlags args noFlags of
        None \<Rightarrow> retM None
      | Some (f, rest) \<Rightarrow>
          (if take 1 rest \<noteq> [''start''] then retM None
           else
     bindM (wrapM ''read stdin: %w'' [] (shS (ReadStdin stdinLimit))) (\<lambda>input.
     if (case sd_decBoot D input of Inr params \<Rightarrow> Bp_ContainerdVersion params \<noteq> [] | Inl _ \<Rightarrow> False)
     then bindM (replaceStdin input) (\<lambda>_. retM None)
     else
     bindM (shGetenv ''TTRPC_ADDRESS'') (\<lambda>ttrpc.
     let params = \<lparr>Bp_InstanceID = Sf_id f, Bp_Namespace = Sf_namespace f, Bp_ContainerdBinary = Sf_publishBinary f,
           Bp_TtrpcAddress = ttrpc, Bp_GrpcAddress = Sf_address f, Bp_Debug = Sf_debug f, Bp_Extensions = [],
           Bp_ContainerdVersion = []\<rparr>
     in if input = [] then retM (Some params)
        else case sd_decAny D input of
          Inl _ \<Rightarrow> retM (Some params)
        | Inr opts \<Rightarrow>
            bindM (wrapM ''add runtime options: %w'' [] (liftM (sd_addExtension D opts params))) (\<lambda>params.
              retM (Some params))))))"

text \<open>The object with its keys in order, as \<open>json.Marshal\<close> writes a map.\<close>

definition startReply :: "string \<Rightarrow> string \<Rightarrow> string" where
  "startReply address protocol =
     marshal (JObj [(''address'', JStr address), (''protocol'', JStr protocol), (''version'', JNum 2)])"

definition legacyStart :: "BootstrapParams \<Rightarrow> unit shim" where
  "legacyStart params =
     bindM (sysM (ManagerStart params)) (\<lambda>result.
       case result of
         ShStarted address protocol \<Rightarrow>
           bindM (wrapM ''write address file: %w'' [] (shU (ShWriteFile ''address'' address 384))) (\<lambda>_.
             shU (ShStdout (startReply address protocol)))
       | ShErr e \<Rightarrow> failM e
       | _ \<Rightarrow> failM noReply)"

text \<open>An error ends the process; only an invocation without parameters goes on to the library.\<close>

definition RunShim :: "shim_deps \<Rightarrow> string list \<Rightarrow> unit shim" where
  "RunShim D args =
     bindM (tryM (legacyStartParams D args)) (\<lambda>r.
       case r of
         Inl e \<Rightarrow> bindM (shIgnore (shU (ShStderr e))) (\<lambda>_. shIgnore (shU (ShExit 1)))
       | Inr None \<Rightarrow> shIgnore (shU RunContainerdShim)
       | Inr (Some params) \<Rightarrow>
           bindM (tryM (legacyStart params)) (\<lambda>r.
             case r of
               Inl e \<Rightarrow> bindM (shIgnore (shU (ShStderr e))) (\<lambda>_. shIgnore (shU (ShExit 1)))
             | Inr _ \<Rightarrow> retM ()))"

end
