(* ===== verification/Shim_Props.thy ===== *)
theory Shim_Props
  imports Shim Samples
begin

text \<open>
  The task service of the shim: whatever goes wrong on the way, a create request reaches the runtime,
  and the annotations it adds to the specification never replace one that is there.
\<close>

section \<open>Annotations\<close>

definition latest :: "(string \<times> string) list \<Rightarrow> string \<Rightarrow> string option" where
  "latest kvs k = (if HasPrefix k annotUruncPrefix then map_of (rev kvs) k else None)"

lemma map_of_snoc: "map_of (m @ [(k', v)]) k = (case map_of m k of Some w \<Rightarrow> Some w | None \<Rightarrow> if k = k' then Some v else None)"
  by (induction m) auto

lemma map_of_assign:
  "map_of (assign kv m) k = (if k = fst kv \<and> HasPrefix k annotUruncPrefix then Some (snd kv) else map_of m k)"
proof -
  have f: "map_of (filter (\<lambda>x. fst x \<noteq> k') m) k = (if k = k' then None else map_of m k)" for k' k
    by (induction m) auto
  obtain k' v where "kv = (k', v)" by (cases kv)
  then show ?thesis by (auto simp: assign_def map_add_def f split: option.splits)
qed

lemma map_of_fold_assign:
  "map_of (fold assign kvs m) k = (case latest kvs k of Some v \<Rightarrow> Some v | None \<Rightarrow> map_of m k)"
  by (induction kvs arbitrary: m) (auto simp: map_of_assign latest_def map_of_snoc split: option.splits)

lemma distinct_assign: "distinct (map fst m) \<Longrightarrow> distinct (map fst (assign kv m))"
  by (induction m) (auto simp: assign_def distinct_map_filter)

lemma distinct_fold_assign: "distinct (map fst m) \<Longrightarrow> distinct (map fst (fold assign kvs m))"
  by (induction kvs arbitrary: m) (auto simp: distinct_assign)

lemma fold_addMissing:
  "distinct (map fst kvs) \<Longrightarrow>
    fold addMissing kvs m k = (case m k of Some v \<Rightarrow> Some v | None \<Rightarrow> map_of kvs k)"
proof (induction kvs arbitrary: m)
  case (Cons kv kvs)
  then have "map_of kvs (fst kv) = None" by (auto simp: map_of_eq_None_iff)
  then show ?case using Cons by (auto simp: addMissing_def split: option.splits)
qed (simp split: option.split)

lemma fetched:
  assumes "fetchUruncAnnotations D f \<omega> t = (Inr as, t')"
  shows "\<exists>manifest. as = fold assign manifest (fold assign (af_containerLabels f) []) \<and>
    (manifest = [] \<or> (\<exists>target raw. af_target f = Some target \<and> sd_isManifest D (De_MediaType target) \<and>
      sd_decManifest D raw = Inr manifest))"
proof -
  have "as = fold assign [] (fold assign (af_containerLabels f) []) \<or> (\<exists>target raw manifest.
      af_target f = Some target \<and> sd_isManifest D (De_MediaType target) \<and> sd_decManifest D raw = Inr manifest \<and>
      as = fold assign manifest (fold assign (af_containerLabels f) []))"
    using assms by (auto simp: fetchUruncAnnotations_def Let_def bindM_Inr_iff split: option.splits if_splits)
  then show ?thesis
  proof
    assume "as = fold assign [] (fold assign (af_containerLabels f) [])"
    then show ?thesis by blast
  qed blast
qed


definition sample_shim :: shim_deps where
  "sample_shim = \<lparr>sd_namespace = Inr ''k8s.io'', sd_isManifest = (\<lambda>m. m = ''manifest''), sd_toNative = (\<lambda>e. e),
     sd_decManifest = (\<lambda>_. Inr [(annotType, ''linux''), (''other'', ''x'')]), sd_decSpec = (\<lambda>_. Inl noReply),
     sd_encSpec = (\<lambda>_. Inr []), sd_decBoot = (\<lambda>_. Inl noReply), sd_decAny = (\<lambda>_. Inl noReply),
     sd_addExtension = (\<lambda>_ p. Inr p), sd_recvFuel = 2\<rparr>"

definition sample_fetcher :: annotationFetcher where
  "sample_fetcher = \<lparr>af_containerLabels = [(annotType, ''mirage''), (annotHypervisor, ''qemu'')], af_namespace = ''k8s.io'',
     af_target = Some \<lparr>De_MediaType = ''manifest'', De_Digest = ''d'', De_Size = 1\<rparr>\<rparr>"

definition sample_stream :: shim_host where
  "sample_stream t c = (if c = CtrRecv then (if CtrRecv \<in> set t then ShErr (Errno EOF) else ShStr ''{}'') else ShOk)"


section \<open>Create\<close>

definition not_inner :: "shim_call \<Rightarrow> bool" where
  "not_inner c = (\<forall>i b. c \<noteq> InnerCreate i b)"

lemma not_inner_simps [simp]:
  "not_inner (CtrDial s)" "not_inner (CtrContainer s s')" "not_inner (CtrImage s s')" "not_inner (CtrContent s s' n)"
  "not_inner CtrRecv" "not_inner CtrClose" "not_inner (ShStat s)" "not_inner (ShReadFile s)"
  "not_inner (CreateTemp s s')" "not_inner (TmpChmod s m)" "not_inner (TmpWrite s s')" "not_inner (TmpSync s)"
  "not_inner (TmpClose s)" "not_inner (ShRename s s')" "not_inner (ShRemove s)"
  by (simp_all add: not_inner_def)

lemma only_sh [only_intros]: "P c \<Longrightarrow> only P (shU c)" "P c \<Longrightarrow> only P (shS c)" "P c \<Longrightarrow> only P (shMode c)"
  unfolding shU_def shS_def shMode_def by (auto intro!: only_intros split: shim_reply.split)

lemma only_shIgnore [only_intros]: "only P m \<Longrightarrow> only P (shIgnore m)"
  unfolding shIgnore_def by (intro only_intros)

lemma only_shDefer [only_intros]: "only P c \<Longrightarrow> only P m \<Longrightarrow> only P (shDefer c m)"
  unfolding shDefer_def by (intro only_intros)

lemma only_inner_OpenSession: "only not_inner (OpenSession D a i)"
  unfolding OpenSession_def loadContainer_def by (auto intro!: only_intros split: shim_reply.split option.split)

lemma only_inner_recv_loop: "only not_inner (recv_loop D n raw)"
  by (induction D n raw rule: recv_loop.induct; unfold recv_loop.simps; (intro only_intros)?) simp_all

lemma only_inner_fetch: "only not_inner (fetchUruncAnnotations D f)"
  unfolding fetchUruncAnnotations_def readBlob_def Let_def by (intro only_intros only_inner_recv_loop) simp_all

lemma only_inner_atomicWriteFile: "only not_inner (atomicWriteFile p d m)"
  unfolding atomicWriteFile_def Let_def by (intro only_intros) simp_all

lemma only_inner_patch: "only not_inner (patchConfigJSON D b as)"
  unfolding patchConfigJSON_def Let_def by (intro only_intros only_inner_atomicWriteFile) simp_all

lemma only_inner_fetcher: "only not_inner (newAnnotationFetcher s)"
  unfolding newAnnotationFetcher_def Let_def by (auto intro!: only_intros split: shim_reply.split)

lemma only_inner_inject: "only not_inner (InjectUruncAnnotations D s b)"
  unfolding InjectUruncAnnotations_def by (intro only_intros only_inner_fetcher only_inner_fetch only_inner_patch)

lemma only_inner_close: "only not_inner (Session_Close s)"
  unfolding Session_Close_def by (auto intro!: only_intros split: option.split)

text \<open>
  C38: a create request reaches the runtime exactly once, with the identifier and the bundle of the
  request, and its answer is the answer of the service, whether or not a session could be opened, the
  image be found or the specification be patched.
\<close>

theorem create_always_forwards:
  "\<exists>pre post. snd (runM (taskService_Create D s i bundle) \<omega>) = pre @ InnerCreate i bundle # post \<and>
     list_all not_inner pre \<and> list_all not_inner post \<and>
     fst (runM (taskService_Create D s i bundle) \<omega>) = fst (shS (InnerCreate i bundle) \<omega> pre)"
proof -
  have inner: "snd (shS (InnerCreate i bundle) \<omega> t) = t @ [InnerCreate i bundle]" for t
    by (simp add: shS_def bindM_run split: shim_reply.split)
  obtain r ds where o1: "OpenSession D (Ts_containerdAddress s) i \<omega> [] = (r, ds)" "list_all not_inner ds"
    using only_result [OF only_inner_OpenSession, of D "Ts_containerdAddress s" i \<omega> "[]"] by auto
  show ?thesis
  proof (cases r)
    case (Inl e)
    then have "runM (taskService_Create D s i bundle) \<omega> = shS (InnerCreate i bundle) \<omega> ds"
      using o1(1) by (simp add: taskService_Create_def runM_def bindM_run)
    then show ?thesis using o1(2) inner by (intro exI [of _ ds] exI [of _ "[]"]) simp
  next
    case (Inr session)
    obtain r' es where o2: "InjectUruncAnnotations D session bundle \<omega> ds = (r', ds @ es)" "list_all not_inner es"
      using only_result [OF only_inner_inject] by blast
    obtain r'' cs where close: "Session_Close (Some session) \<omega> ((ds @ es) @ [InnerCreate i bundle]) =
        (r'', ((ds @ es) @ [InnerCreate i bundle]) @ cs)" "list_all not_inner cs"
      using only_result [OF only_inner_close] by blast
    have "snd (runM (taskService_Create D s i bundle) \<omega>) = (ds @ es) @ InnerCreate i bundle # cs"
      and "fst (runM (taskService_Create D s i bundle) \<omega>) = fst (shS (InnerCreate i bundle) \<omega> (ds @ es))"
      using o1(1) o2(1) Inr inner [of "ds @ es"] close(1)
      by (simp_all add: taskService_Create_def runM_def bindM_run shDefer_def shIgnore_def)
    then show ?thesis using o1(2) o2(2) close(2) by (intro exI [of _ "ds @ es"] exI [of _ cs]) simp
  qed
qed

text \<open>A connection that was made to the daemon is closed again, whatever happens in between.\<close>

lemma OpenSession_closes:
  assumes "OpenSession D address i \<omega> [] = (r, t)"
  shows "case r of Inr s \<Rightarrow> Se_conn s | Inl _ \<Rightarrow> CtrDial a \<in> set t \<longrightarrow> \<omega> [] (CtrDial a) = ShOk \<longrightarrow> CtrClose \<in> set t"
  using assms
  by (cases "sd_namespace D")
    (auto simp: OpenSession_def loadContainer_def bindM_run shU_def split: if_splits sum.splits shim_reply.splits option.splits prod.splits)

lemma create_closes_connection:
  assumes "CtrDial a \<in> set (snd (runM (taskService_Create D s i bundle) \<omega>))" "\<omega> [] (CtrDial a) = ShOk"
  shows "CtrClose \<in> set (snd (runM (taskService_Create D s i bundle) \<omega>))"
proof -
  obtain r ds where o: "OpenSession D (Ts_containerdAddress s) i \<omega> [] = (r, ds)" by fastforce
  have inner: "snd (shS (InnerCreate i bundle) \<omega> t) = t @ [InnerCreate i bundle]" for t
    by (simp add: shS_def bindM_run split: shim_reply.split)
  show ?thesis
  proof (cases r)
    case (Inl e)
    then have "snd (runM (taskService_Create D s i bundle) \<omega>) = ds @ [InnerCreate i bundle]"
      using o inner by (simp add: taskService_Create_def runM_def bindM_run)
    then show ?thesis using assms OpenSession_closes [OF o, of a] Inl by simp
  next
    case (Inr session)
    have close: "snd (shU CtrClose \<omega> t) = t @ [CtrClose]" for t
      by (simp add: shU_def bindM_run split: shim_reply.split)
    have "Se_conn session" using OpenSession_closes [OF o] Inr by simp
    then show ?thesis using o Inr close
      by (simp add: taskService_Create_def runM_def bindM_run shDefer_def shIgnore_def Session_Close_def)
  qed
qed

text \<open>Registering gives the service under both names of the interface, the older one with every method.\<close>

lemma RegisterTTRPC_serves_both:
  "runM (taskService_RegisterTTRPC s) \<omega> = (Inr (), [RegisterTask, RegisterService ''containerd.task.v2.Task'' (map fst taskV2Methods)])"
  by (simp add: taskService_RegisterTTRPC_def registerTaskV2_def runM_def bindM_run sysM_def)

text \<open>The service is only made when both plugins it requires and the service it wraps are there.\<close>

lemma taskPlugin_InitFn_needs:
  "taskPlugin_InitFn addr \<omega> t = (Inr s, t') \<longleftrightarrow>
     s = \<lparr>Ts_containerdAddress = addr\<rparr> \<and> t' = t @ [GetByID EventPlugin ''publisher'', GetByID InternalPlugin ''shutdown'', NewInnerTask] \<and>
     (\<forall>n < 3. \<omega> (take (length t + n) t') (t' ! (length t + n)) = ShOk)"
  by (auto simp: taskPlugin_InitFn_def bindM_run shU_def numeral_3_eq_3 less_Suc_eq nth_append split: shim_reply.splits)

text \<open>The older interface serves every method, under one name each.\<close>

lemma taskV2_complete: "set (map snd taskV2Methods) = UNIV" "distinct (map fst taskV2Methods)" "distinct (map snd taskV2Methods)"
proof -
  have "m \<in> set (map snd taskV2Methods)" for m by (cases m) (simp_all add: taskV2Methods_def)
  then show "set (map snd taskV2Methods) = UNIV" by blast
qed code_simp+

section \<open>The specification is replaced as a whole\<close>

text \<open>The calls that change a file by its name, and a run of calls that all succeed.\<close>

fun changes_file :: "shim_call \<Rightarrow> bool" where
  "changes_file (ShRename a b) = True"
| "changes_file (ShRemove a) = True"
| "changes_file (ShWriteFile a d m) = True"
| "changes_file _ = False"

fun succeed :: "shim_host \<Rightarrow> shim_call list \<Rightarrow> shim_call list \<Rightarrow> bool" where
  "succeed \<omega> t [] = True"
| "succeed \<omega> t (c # cs) = (\<omega> t c = ShOk \<and> succeed \<omega> (t @ [c]) cs)"

text \<open>
  A file is only moved to \<open>path\<close> when it is the temporary file of the calls in front, written whole,
  flushed and closed, and only removed when it is such a temporary file.
\<close>

fun put_in_place :: "shim_host \<Rightarrow> string \<Rightarrow> string \<Rightarrow> nat \<Rightarrow> shim_call list \<Rightarrow> shim_call \<Rightarrow> bool" where
  "put_in_place \<omega> path data mode t (ShRename tmp target) =
     (\<exists>pat. target = path \<and>
       (let new = CreateTemp (filepath_Dir path) pat; steps = [TmpChmod tmp mode, TmpWrite tmp data, TmpSync tmp, TmpClose tmp]
        in \<exists>h. t = h @ new # steps \<and> \<omega> h new = ShStr tmp \<and> succeed \<omega> (h @ [new]) steps))"
| "put_in_place \<omega> path data mode t (ShRemove tmp) =
     (\<exists>h pat q. t = h @ CreateTemp (filepath_Dir path) pat # q \<and> \<omega> h (CreateTemp (filepath_Dir path) pat) = ShStr tmp)"
| "put_in_place \<omega> path data mode t _ = False"

lemma sh_Inr:
  "shU c \<omega> t = (Inr x, t') \<longleftrightarrow> \<omega> t c = ShOk \<and> t' = t @ [c]"
  "shS c \<omega> t = (Inr s, t') \<longleftrightarrow> \<omega> t c = ShStr s \<and> t' = t @ [c]"
  "shMode c \<omega> t = (Inr n, t') \<longleftrightarrow> \<omega> t c = ShMode n \<and> t' = t @ [c]"
  unfolding shU_def shS_def shMode_def by (auto simp: bindM_run split: shim_reply.split)

definition orClose :: "shim_call \<Rightarrow> unit shim \<Rightarrow> unit shim" where
  "orClose close m = bindM (tryM m) (\<lambda>r. case r of Inr _ \<Rightarrow> retM () | Inl e \<Rightarrow> bindM (shIgnore (shU close)) (\<lambda>_. failM e))"

lemma orClose_Inr: "orClose close (shU c) \<omega> t = (Inr x, t') \<longleftrightarrow> \<omega> t c = ShOk \<and> t' = t @ [c]"
  unfolding orClose_def by (auto simp: bindM_run shIgnore_def shU_def split: sum.split shim_reply.split)

lemma only_orClose: "P close \<Longrightarrow> P c \<Longrightarrow> only P (orClose close (shU c))"
  unfolding orClose_def by (intro only_intros)

lemma behind_shDefer:
  assumes "behind \<omega> t C R m" "\<And>ds. behind \<omega> (t @ ds) C R c"
  shows "behind \<omega> t C R (shDefer c m)"
  unfolding shDefer_def shIgnore_def
  by (intro behind_bindM behind_tryM assms) (auto intro!: behind_only only_intros behind_bindM behind_tryM assms)

lemma behind_shU: "(C c \<Longrightarrow> R t c) \<Longrightarrow> behind \<omega> t C R (shU c)"
  unfolding shU_def by (rule behind_bindM [OF behind_sysM]) (auto intro!: behind_only only_intros split: shim_reply.split)

lemma behind_Session_Close: "behind \<omega> t changes_file R (Session_Close s)"
  unfolding Session_Close_def by (auto intro!: behind_only only_intros only_sh split: option.split)

lemma behind_atomicWriteFile:
  "behind \<omega> t changes_file (put_in_place \<omega> path data mode) (atomicWriteFile path data mode)"
proof -
  let ?new = "CreateTemp (filepath_Dir path) (''.'' @ filepath_Base path @ ''.tmp-*'')"
  let ?cs = "\<lambda>tmp. [TmpChmod tmp mode, TmpWrite tmp data, TmpSync tmp, TmpClose tmp]"
  show ?thesis
    unfolding atomicWriteFile_def Let_def orClose_def [symmetric]
    by (intro behind_skip behind_shDefer behind_shU only_sh only_orClose)
      (auto simp: sh_Inr orClose_Inr Let_def)
qed

text \<open>What the calls in front of \<open>t\<close> read of the configuration, and what is to be written.\<close>

definition patched_config :: "shim_deps \<Rightarrow> shim_host \<Rightarrow> string \<Rightarrow> shim_call list \<Rightarrow> string \<Rightarrow> nat \<Rightarrow> bool" where
  "patched_config D \<omega> path t new mode \<longleftrightarrow>
     (\<exists>h old spec as. t = h @ [ShStat path, ShReadFile path] \<and> \<omega> h (ShStat path) = ShMode mode \<and>
        \<omega> (h @ [ShStat path]) (ShReadFile path) = ShStr old \<and> sd_decSpec D old = Inr spec \<and>
        sd_encSpec D (spec\<lparr>S_Annotations := fold addMissing as (S_Annotations spec)\<rparr>) = Inr new)"

lemma wrapM_Inr: "wrapM fmt as m \<omega> t = (Inr x, t') \<longleftrightarrow> m \<omega> t = (Inr x, t')"
  by (cases "m \<omega> t"; cases "fst (m \<omega> t)") (auto simp: wrapM_def)

definition config_patch :: "shim_deps \<Rightarrow> shim_host \<Rightarrow> string \<Rightarrow> shim_call list \<Rightarrow> shim_call \<Rightarrow> bool" where
  "config_patch D \<omega> path t c \<longleftrightarrow>
     (\<exists>r q new mode. t = r @ q \<and> patched_config D \<omega> path r new mode \<and> put_in_place \<omega> path new mode t c)"

lemma behind_patchConfigJSON:
  "behind \<omega> t changes_file (config_patch D \<omega> (filepath_Join [bundle, ''config.json''])) (patchConfigJSON D bundle as)"
proof -
  let ?path = "filepath_Join [bundle, ''config.json'']"
  have "behind \<omega> (h @ [ShStat ?path, ShReadFile ?path]) changes_file (config_patch D \<omega> ?path) (atomicWriteFile ?path new mode)"
    if "\<omega> h (ShStat ?path) = ShMode mode" "\<omega> (h @ [ShStat ?path]) (ShReadFile ?path) = ShStr old"
      "sd_decSpec D old = Inr spec" "sd_encSpec D (spec\<lparr>S_Annotations := fold addMissing as (S_Annotations spec)\<rparr>) = Inr new"
    for h new mode old spec
  proof -
    have "patched_config D \<omega> ?path (h @ [ShStat ?path, ShReadFile ?path]) new mode"
      unfolding patched_config_def using that by blast
    then show ?thesis by (intro behind_mono [OF behind_atomicWriteFile]) (unfold config_patch_def, blast)
  qed
  then show ?thesis
    unfolding patchConfigJSON_def Let_def
    by (intro behind_skip behind_wrapM only_intros) (auto simp: wrapM_Inr sh_Inr simp del: wrapM_run)
qed

lemma only_no_change:
  "only (\<lambda>c. \<not> changes_file c) (OpenSession D a i)"
  "only (\<lambda>c. \<not> changes_file c) (fetchUruncAnnotations D f)"
  "only (\<lambda>c. \<not> changes_file c) (newAnnotationFetcher s)"
proof -
  have recv: "only (\<lambda>c. \<not> changes_file c) (recv_loop D n raw)" for n raw
    by (induction D n raw rule: recv_loop.induct; unfold recv_loop.simps; (intro only_intros)?) simp_all
  show "only (\<lambda>c. \<not> changes_file c) (OpenSession D a i)"
    unfolding OpenSession_def loadContainer_def by (auto intro!: only_intros split: shim_reply.split option.split)
  show "only (\<lambda>c. \<not> changes_file c) (fetchUruncAnnotations D f)"
    unfolding fetchUruncAnnotations_def readBlob_def Let_def by (intro only_intros recv) simp_all
  show "only (\<lambda>c. \<not> changes_file c) (newAnnotationFetcher s)"
    unfolding newAnnotationFetcher_def Let_def by (auto intro!: only_intros split: shim_reply.split)
qed

lemma behind_InjectUruncAnnotations:
  "behind \<omega> t changes_file (config_patch D \<omega> (filepath_Join [bundle, ''config.json''])) (InjectUruncAnnotations D s bundle)"
  unfolding InjectUruncAnnotations_def
  by (intro behind_skip only_wrapM only_no_change) (simp add: behind_patchConfigJSON behind_only only_retM)

text \<open>
  C13: in a create request served by the shim the specification of the bundle is replaced as a whole or
  not at all. The only file that is moved is moved to \<open>config.json\<close> of the bundle; directly in front of
  it a temporary file has been made in the same directory, given the mode of \<open>config.json\<close>, written,
  flushed and closed without an error, and what was written encodes the specification as it had just
  been read, with annotations added to the missing ones. The only file that is removed is the temporary
  one, and no file is written by its name.
\<close>

theorem config_replaced_whole:
  assumes "snd (runM (taskService_Create D s i bundle) \<omega>) = pre @ c # post" "changes_file c"
  shows "\<exists>path read rest new mode. path = filepath_Join [bundle, ''config.json''] \<and> pre = read @ rest \<and>
     patched_config D \<omega> path read new mode \<and> put_in_place \<omega> path new mode pre c"
proof -
  have b: "behind \<omega> [] changes_file (config_patch D \<omega> (filepath_Join [bundle, ''config.json'']))
     (taskService_Create D s i bundle)"
    unfolding taskService_Create_def
  proof (rule behind_skip)
    show "behind \<omega> ([] @ ds) changes_file (config_patch D \<omega> (filepath_Join [bundle, ''config.json'']))
       (case r of Inl _ \<Rightarrow> shS (InnerCreate i bundle)
        | Inr session \<Rightarrow> shDefer (Session_Close (Some session)) (bindM (tryM (InjectUruncAnnotations D session bundle))
            (\<lambda>_. shS (InnerCreate i bundle))))" for r ds
    proof (cases r)
      case (Inr session)
      have "behind \<omega> t changes_file R (shS (InnerCreate i bundle))" for t R 
        by (intro behind_only only_sh) simp
      then have "behind \<omega> t changes_file (config_patch D \<omega> (filepath_Join [bundle, ''config.json'']))
          (bindM (tryM (InjectUruncAnnotations D session bundle)) (\<lambda>_. shS (InnerCreate i bundle)))" for t
        by (intro behind_bindM [OF behind_tryM] behind_InjectUruncAnnotations)
      then show ?thesis unfolding Inr sum.case by (intro behind_shDefer behind_Session_Close)
    next
      case (Inl e)
      then show ?thesis by (simp add: behind_only only_sh)
    qed
  qed (intro only_tryM only_no_change)
  from behind_run [OF b assms] show ?thesis unfolding config_patch_def by blast
qed

definition patch_shim :: shim_deps where
  "patch_shim = sample_shim\<lparr>sd_decSpec := \<lambda>_. Inr sample_spec,
     sd_encSpec := \<lambda>spec. Inr (case S_Annotations spec annotType of Some v \<Rightarrow> ''type: '' @ v | None \<Rightarrow> [])\<rparr>"

definition patch_host :: shim_host where
  "patch_host t c =
     (case c of
        CtrContainer n i \<Rightarrow> ShContainer (Some \<lparr>Cn_Labels = [(annotType, ''linux'')], Cn_Image = []\<rparr>)
      | ShStat p \<Rightarrow> ShMode 420
      | ShReadFile p \<Rightarrow> ShStr ''{}''
      | CreateTemp d p \<Rightarrow> ShStr (d @ ''/'' @ p)
      | InnerCreate i b \<Rightarrow> ShStr ''pid''
      | _ \<Rightarrow> ShOk)"

theorem config_replaced_whole_witness:
  "\<exists>pre tmp post. snd (runM (taskService_Create patch_shim \<lparr>Ts_containerdAddress = ''sock''\<rparr> ''c1'' ''/b'') patch_host) =
       pre @ ShRename tmp ''/b/config.json'' # post \<and>
     TmpWrite tmp ''type: linux'' \<in> set pre \<and>
     put_in_place patch_host ''/b/config.json'' ''type: linux'' 420 pre (ShRename tmp ''/b/config.json'')"
proof -
  let ?tmp = "''/b/.config.json.tmp-*''"
  let ?pre = "[CtrDial ''sock'', CtrContainer ''k8s.io'' ''c1'', ShStat ''/b/config.json'', ShReadFile ''/b/config.json'',
     CreateTemp ''/b'' ''.config.json.tmp-*'', TmpChmod ?tmp 420, TmpWrite ?tmp ''type: linux'', TmpSync ?tmp, TmpClose ?tmp]"
  have path: "filepath_Join [''/b'', ''config.json''] = ''/b/config.json''" by code_simp
  have run: "snd (runM (taskService_Create patch_shim \<lparr>Ts_containerdAddress = ''sock''\<rparr> ''c1'' ''/b'') patch_host) =
      ?pre @ ShRename ?tmp ''/b/config.json'' # [ShRemove ?tmp, InnerCreate ''c1'' ''/b'', CtrClose]"
    by code_simp
  obtain read rest new mode where r: "?pre = read @ rest" "patched_config patch_shim patch_host ''/b/config.json'' read new mode"
    "put_in_place patch_host ''/b/config.json'' new mode ?pre (ShRename ?tmp ''/b/config.json'')"
    using config_replaced_whole [OF run] unfolding path changes_file.simps by blast
  then have "new = ''type: linux'' \<and> mode = 420" by (auto simp: Let_def)
  then have "put_in_place patch_host ''/b/config.json'' ''type: linux'' 420 ?pre (ShRename ?tmp ''/b/config.json'')"
    using r(3) by blast
  moreover have "TmpWrite ?tmp ''type: linux'' \<in> set ?pre" by simp
  ultimately show ?thesis using run by blast
qed

end
