(* ===== verification/Logging.thy ===== *)
theory Logging
  imports Go_Env Go_Json Go_Strconv
begin

text \<open>
  What the runtime writes about itself: the time stamps of \<open>internal/metrics\<close>, the set-up of the
  logger in \<open>cmd/urunc/main.go\<close>, and the log lines that create forwards from the reexec process
  (\<open>cmd/urunc/log_forward.go\<close>), and how an error ends the program. The logging packages are outside: an entry that is handed to one is a
  value, a level is the number logrus gives it (panic is 0, trace is 6), and the parser of level names,
  the JSON codec of an entry and the lines that are read from the pipe are arguments.
\<close>

section \<open>Time stamps\<close>

record TimestampMeta =
  Tm_ID :: nat
  Tm_LegacyID :: string
  Tm_Name :: string
  Tm_Order :: int

definition timestampNames :: "string list" where
  "timestampNames =
     [''CR.invoked'', ''CR.unikontainer_created'', ''CR.initial_setup'', ''CR.start_reexec'', ''RX.create_invoked'',
      ''RX.close_pipes_and_setup_base'', ''CR.received_pids'', ''CR.hooks_executed'', ''CR.sent_ack'',
      ''RX.received_ack'', ''CR.terminated'', ''ST.invoked'', ''ST.unikontainer_created'', ''ST.sent_start_msg'',
      ''RX.received_start_msg'', ''RX.joined_netns'', ''RX.network_setup_completed'', ''RX.disk_setup_completed'',
      ''RX.execve_hypervisor'']"

definition timestampIDs :: "string list" where
  "timestampIDs =
     [''TS00'', ''TS01'', ''TS02'', ''TS03'', ''TS04'', ''TS05'', ''TS06'', ''TS07'', ''TS08'', ''TS09'', ''TS10'',
      ''TS11'', ''TS12'', ''TS13'', ''TS14'', ''TS15'', ''TS16'', ''TS17'', ''TS18'']"

definition TimestampCount :: nat where "TimestampCount = 19"

definition Timestamps :: "TimestampMeta list" where
  "Timestamps = map (\<lambda>i. \<lparr>Tm_ID = i, Tm_LegacyID = timestampIDs ! i, Tm_Name = timestampNames ! i, Tm_Order = int i\<rparr>)
     [0..<TimestampCount]"

datatype field = FStr string | FInt int

datatype Writer = ZerologMetrics string | MockWriter

type_synonym event = "(string \<times> field) list"

text \<open>The event that a writer logs, if it does.\<close>

fun Capture :: "Writer \<Rightarrow> nat \<Rightarrow> event option" where
  "Capture MockWriter i = None"
| "Capture (ZerologMetrics containerID) i =
     (if i \<ge> TimestampCount then
        Some [(''containerID'', FStr containerID), (''timestampID_invalid'', FInt (int i)),
              (''message'', FStr ''invalid timestamp ID'')]
      else
        let meta = Timestamps ! i
        in Some [(''containerID'', FStr containerID), (''timestampID'', FStr (Tm_LegacyID meta)),
                 (''timestampName'', FStr (Tm_Name meta)), (''timestampOrder'', FInt (Tm_Order meta))])"

fun SetLoggerContainerID :: "Writer \<Rightarrow> string \<Rightarrow> Writer" where
  "SetLoggerContainerID (ZerologMetrics old) containerID = ZerologMetrics containerID"
| "SetLoggerContainerID MockWriter containerID = MockWriter"

text \<open>The result of opening the target is an argument; without a file nothing is logged.\<close>

definition NewZerologMetrics :: "(string \<Rightarrow> err + unit) \<Rightarrow> bool \<Rightarrow> string \<Rightarrow> string \<Rightarrow> Writer \<times> err option" where
  "NewZerologMetrics openFile enabled target containerID =
     (if enabled then
        (case openFile target of
           Inl e \<Rightarrow> (MockWriter, Some (ErrorfW ''failed to open metrics file %s: %w'' [target] e))
         | Inr _ \<Rightarrow> (ZerologMetrics containerID, None))
      else (MockWriter, None))"

section \<open>The logger\<close>

datatype formatter = TextFormatter | PrettyTextFormatter | JSONFormatter | StructuredJSON | ForwardText

record logger =
  Lg_Level :: int
  Lg_ReportCaller :: bool
  Lg_Formatter :: formatter
  Lg_Syslog :: bool
  Lg_Output :: "string option"

definition debugLevel :: int where "debugLevel = 5"

definition getLogLevel :: "(string \<Rightarrow> err + int) \<Rightarrow> string \<Rightarrow> string \<Rightarrow> err + int" where
  "getLogLevel parseLevel levelStr fallback =
     (let levelStr = (if levelStr = [] then fallback else levelStr)
      in case parseLevel levelStr of Inr level \<Rightarrow> Inr level | Inl _ \<Rightarrow> parseLevel fallback)"

definition configLogrus ::
    "(string \<Rightarrow> err + int) \<Rightarrow> err + unit \<Rightarrow> (string \<Rightarrow> err + unit) \<Rightarrow> bool \<Rightarrow> string \<Rightarrow> string \<Rightarrow> string \<Rightarrow> bool
      \<Rightarrow> logger \<Rightarrow> err + logger" where
  "configLogrus parseLevel syslogHook openFile debug logFormat logFile cfgLevel cfgSyslog lg =
     bindE (getLogLevel parseLevel (if debug then ''debug'' else ''info'') ''info'') (\<lambda>cliLogLevel.
     bindE (getLogLevel parseLevel cfgLevel ''info'') (\<lambda>cfgLogLevel.
     let logLevel = max cfgLogLevel cliLogLevel;
         lg = lg\<lparr>Lg_Level := logLevel\<rparr>;
         lg = (if logLevel \<ge> debugLevel then lg\<lparr>Lg_ReportCaller := True, Lg_Formatter := PrettyTextFormatter\<rparr> else lg)
     in bindE (if cfgSyslog then bindE syslogHook (\<lambda>_. Inr (lg\<lparr>Lg_Syslog := True\<rparr>)) else Inr lg) (\<lambda>lg.
        bindE (if logFormat = [] \<or> logFormat = ''text'' then Inr lg
               else if logFormat = ''json'' then Inr (lg\<lparr>Lg_Formatter := JSONFormatter\<rparr>)
               else Inl (Errorf ''invalid log-format: %s'' [logFormat])) (\<lambda>lg.
          if logFile = [] then Inr lg
          else bindE (openFile logFile) (\<lambda>_. Inr (lg\<lparr>Lg_Output := Some logFile\<rparr>))))))"

section \<open>Forwarded lines\<close>

definition word_char :: "char \<Rightarrow> bool" where
  "word_char c = (isAlnum c \<or> c = CHR ''_'' \<or> c = CHR ''-'')"

text \<open>
  The regular expression for the lines of nsenter, \<open>name[pid]: text\<close>, which matches a line in at most
  one way: the name with the pid, and the text.
\<close>

definition msgRegex :: "string \<Rightarrow> (string \<times> string) option" where
  "msgRegex s =
     (let name = takeWhile word_char s; r = drop (length name) s
      in if name = [] \<or> r = [] \<or> hd r \<noteq> CHR ''['' then None
         else
           let digits = takeWhile isDigit (tl r); r' = drop (length digits) (tl r)
           in if digits = [] \<or> \<not> HasPrefix r' '']: '' then None
              else
                let msg = drop 3 r'
                in if msg = [] \<or> NL \<in> set msg then None
                   else Some (name @ ''['' @ digits @ '']'', msg))"

text \<open>The fields of an entry, the later ones of a name replacing the earlier.\<close>

record entry =
  En_Data :: "(string \<times> json) list"
  En_Time :: string
  En_Level :: string
  En_Message :: string

definition setField :: "string \<Rightarrow> json \<Rightarrow> (string \<times> json) list \<Rightarrow> (string \<times> json) list" where
  "setField k v m = filter (\<lambda>x. fst x \<noteq> k) m @ [(k, v)]"

definition structuredFields :: "entry \<Rightarrow> (string \<times> json) list" where
  "structuredFields e =
     (let d = setField ''level'' (JStr (En_Level e)) (setField ''time'' (JStr (En_Time e)) (En_Data e))
      in case msgRegex (En_Message e) of
           Some (subsystem, msg) \<Rightarrow> setField ''msg'' (JStr msg) (setField ''subsystem'' (JStr subsystem) d)
         | None \<Rightarrow> setField ''msg'' (JStr (En_Message e)) d)"

definition StructuredJSONFormatter_Format ::
    "((string \<times> json) list \<Rightarrow> err + string) \<Rightarrow> entry \<Rightarrow> err + string" where
  "StructuredJSONFormatter_Format encode e = encode (structuredFields e)"

text \<open>What is logged for a line: the entry it holds, or that it could not be decoded.\<close>

datatype logged = Forwarded int string | Undecodable string err | CloseFailed err

definition processEntry :: "(string \<Rightarrow> err + (int \<times> string)) \<Rightarrow> string \<Rightarrow> logged list" where
  "processEntry decode text =
     (if text = [] then []
      else case decode text of
             Inl e \<Rightarrow> [Undecodable text e]
           | Inr (level, msg) \<Rightarrow> [Forwarded level msg])"

definition forwardLogger :: "logger \<Rightarrow> logger" where
  "forwardLogger lg =
     lg\<lparr>Lg_ReportCaller := False,
        Lg_Formatter := (if Lg_Formatter lg = JSONFormatter then StructuredJSON else ForwardText)\<rparr>"

text \<open>
  The lines of the pipe in order, the end of the pipe, and the error that ended the reading, which is
  the result. The logger is a copy only when callers are reported, so otherwise the standard logger
  keeps the formatter.
\<close>

definition ForwardLogs ::
    "(string \<Rightarrow> err + (int \<times> string)) \<Rightarrow> string list \<times> err option \<Rightarrow> err option \<Rightarrow> logger
      \<Rightarrow> logged list \<times> err option \<times> logger" where
  "ForwardLogs decode scanned closed lg =
     (concat (map (processEntry decode) (fst scanned)) @ (case closed of None \<Rightarrow> [] | Some e \<Rightarrow> [CloseFailed e]),
      snd scanned,
      if Lg_ReportCaller lg then lg else forwardLogger lg)"

section \<open>The end of the program\<close>

text \<open>
  An error of a command goes to the logger, and to the standard error unless the logger writes there;
  then the program exits. What the cli package prints goes the same way, to the writer it had before.
\<close>

datatype farewell = LogError string | PrintStderr string | CliWrite string | ExitWith nat

definition logrusToStderr :: "logger \<Rightarrow> bool" where
  "logrusToStderr lg = (Lg_Output lg = None)"

definition fatalWithCode :: "logger \<Rightarrow> string \<Rightarrow> nat \<Rightarrow> farewell list" where
  "fatalWithCode lg e ret =
     [LogError e] @ (if logrusToStderr lg then [] else [PrintStderr e]) @ [ExitWith ret]"

definition fatal :: "logger \<Rightarrow> string \<Rightarrow> farewell list" where
  "fatal lg e = fatalWithCode lg e 1"

definition FatalWriter_Write :: "logger \<Rightarrow> string \<Rightarrow> farewell list" where
  "FatalWriter_Write lg p = [LogError p] @ (if logrusToStderr lg then [] else [CliWrite p])"

section \<open>What is written\<close>

text \<open>The table of time stamps is indexed by their numbers.\<close>

lemma Timestamps_index:
  "i < TimestampCount \<Longrightarrow> Tm_ID (Timestamps ! i) = i \<and> Tm_Order (Timestamps ! i) = int i"
  by (simp add: Timestamps_def)

text \<open>Lines are forwarded in their order, and none is lost but empty ones.\<close>

lemma ForwardLogs_keeps:
  assumes "\<forall>l \<in> set ls. l \<noteq> [] \<longrightarrow> decode l = Inr (lev l, msg l)"
  shows "fst (ForwardLogs decode (ls, e) None lg) = map (\<lambda>l. Forwarded (lev l) (msg l)) (filter (\<lambda>l. l \<noteq> []) ls)"
  using assms by (induction ls) (auto simp: ForwardLogs_def processEntry_def)

text \<open>
  Wherever the log goes, an error that ends the program is on the standard error once, and the program
  ends with status 1 behind it.
\<close>

definition on_stderr :: "logger \<Rightarrow> farewell \<Rightarrow> bool" where
  "on_stderr lg f = (case f of LogError e \<Rightarrow> Lg_Output lg = None | PrintStderr e \<Rightarrow> True | _ \<Rightarrow> False)"

lemma fatal_is_seen:
  "length (filter (on_stderr lg) (fatal lg e)) = 1 \<and> last (fatal lg e) = ExitWith 1"
  by (simp add: fatal_def fatalWithCode_def logrusToStderr_def on_stderr_def)

end
