(* ===== verification/Handshake.thy ===== *)
theory Handshake
  imports Exec_Props
begin

text \<open>
  The three processes of a container together: create, the process that becomes the monitor, and
  start. They meet only in a socket pair, two sockets and a pipe, so their histories are those of
  three worlds, and what is assumed of the kernel is that a read gives a piece of something that was
  written at the other end.
\<close>

section \<open>Channels\<close>

definition delivered ::
    "(call \<Rightarrow> string option) \<Rightarrow> (call \<Rightarrow> reply \<Rightarrow> string option) \<Rightarrow> host \<Rightarrow> call list \<Rightarrow> call list \<Rightarrow> bool" where
  "delivered says takes \<omega> there here \<longleftrightarrow>
     (\<forall>pre c post s. here = pre @ c # post \<longrightarrow> takes c (\<omega> pre c) = Some s \<longrightarrow>
        (\<exists>d \<in> set there. \<exists>m. says d = Some m \<and> HasPrefix m s))"

text \<open>A program that waits for a message at its end of a channel.\<close>

locale channel =
  fixes says :: "call \<Rightarrow> string option" and takes :: "call \<Rightarrow> reply \<Rightarrow> string option"
    and message :: string and await :: "unit prog"
  assumes await_takes: "yields \<omega> (\<lambda>c r. takes c r = Some message) await"
begin

lemma behind:
  assumes "only (\<lambda>c. \<not> C c) await" "\<And>x. only (\<lambda>_. True) (f x)"
  shows "awaits \<omega> C (\<lambda>c r. takes c r = Some message) (bindM (wrapM fmt as await) f)"
  by (rule awaits_behind [OF only_wrapM [OF assms(1)] yields_wrapM [OF await_takes] assms(2)])

lemma said:
  assumes "met \<omega> (\<lambda>c r. takes c r = Some message) [] pre" "delivered says takes \<omega> there pre"
  obtains d m where "d \<in> set there" "says d = Some m" "HasPrefix m message"
proof -
  from assms(1) obtain p c q where "pre = p @ c # q" "takes c (\<omega> p c) = Some message"
    unfolding met_def by auto
  then show ?thesis using assms(2) that unfolding delivered_def by blast
qed

end

fun socketSays :: "call \<Rightarrow> string option" where
  "socketSays (Ipc (ConnWrite m)) = Some m"
| "socketSays _ = None"

fun socketTakes :: "call \<Rightarrow> reply \<Rightarrow> string option" where
  "socketTakes (Ipc (ConnRead n)) (RStr s) = Some (take n s)"
| "socketTakes _ _ = None"

fun pipeSays :: "call \<Rightarrow> string option" where
  "pipeSays (Ipc (FdWrite n b)) = (if n = ReadyPipeFD then Some (map char_of b) else None)"
| "pipeSays _ = None"

fun pipeTakes :: "call \<Rightarrow> reply \<Rightarrow> string option" where
  "pipeTakes (Ipc FifoRead) (RRead s None) = Some s"
| "pipeTakes _ _ = None"

lemma socketSays_iff: "socketSays d = Some m \<longleftrightarrow> d = Ipc (ConnWrite m)"
  by (cases d rule: socketSays.cases) auto

lemma pipeSays_iff: "pipeSays d = Some m \<longleftrightarrow> (\<exists>b. d = Ipc (FdWrite ReadyPipeFD b) \<and> m = map char_of b)"
  by (cases d rule: pipeSays.cases) auto

interpretation socket: channel socketSays socketTakes m "AwaitMessage m" for m
proof
  fix \<omega>
  show "yields \<omega> (\<lambda>c r. socketTakes c r = Some m) (AwaitMessage m)"
    unfolding yields_def
  proof (intro allI impI)
    fix t x t'
    assume "AwaitMessage m \<omega> t = (Inr x, t')"
    then obtain s where s: "\<omega> (t @ [Ipc Accept]) (Ipc (ConnRead (length m))) = RStr s" "take (length m) s = m"
      and t': "t' = t @ [Ipc Accept, Ipc (ConnRead (length m)), Ipc ConnClose]"
      by (auto simp: AwaitMessage_def bindM_run deferM_run call_runs Let_def split: reply.splits if_splits)
    then show "\<exists>ds. t' = t @ ds \<and> met \<omega> (\<lambda>c r. socketTakes c r = Some m) t ds"
      unfolding met_def
      by (intro exI [of _ "[Ipc Accept, Ipc (ConnRead (length m)), Ipc ConnClose]"] conjI
          exI [of _ "[Ipc Accept]"] exI [of _ "Ipc (ConnRead (length m))"] exI [of _ "[Ipc ConnClose]"]) simp_all
  qed
qed

interpretation pipe: channel pipeSays pipeTakes "[char_of readyOK]" awaitReadyPipe
proof
  fix \<omega>
  show "yields \<omega> (\<lambda>c r. pipeTakes c r = Some [char_of readyOK]) awaitReadyPipe"
    unfolding yields_def
  proof (intro allI impI)
    fix t x t'
    assume "awaitReadyPipe \<omega> t = (Inr x, t')"
    then obtain s where s: "\<omega> t (Ipc FifoRead) = RRead s None" "length s = 1" "byte (hd s) = readyOK"
      and t': "t' = t @ [Ipc FifoRead]"
      by (auto simp: awaitReadyPipe_def bindM_run callRead_run split: reply.splits if_splits option.splits)
    then obtain a where "s = [a]" "of_char a = readyOK" by (cases s) (auto simp: byte_def)
    then have "s = [char_of readyOK]" by (metis char_of_char)
    then show "\<exists>ds. t' = t @ ds \<and> met \<omega> (\<lambda>c r. pipeTakes c r = Some [char_of readyOK]) t ds"
      using s t' unfolding met_def
      by (intro exI [of _ "[Ipc FifoRead]"] conjI exI [of _ "[]"] exI [of _ "Ipc FifoRead"]) simp_all
  qed
qed

section \<open>Start\<close>

definition is_write :: "call \<Rightarrow> bool" where
  "is_write c = (case c of Fs (WriteFile _ _ _) \<Rightarrow> True | _ \<Rightarrow> False)"

definition heard_success :: "call \<Rightarrow> reply \<Rightarrow> bool" where
  "heard_success c r \<longleftrightarrow> socketTakes c r = Some StartSuccess \<or> pipeTakes c r = Some [char_of readyOK]"

lemma no_write [simp]:
  "\<not> is_write (Ipc i)" "\<not> is_write (Lib l)" "\<not> is_write (Proc q)" "\<not> is_write (Fs (ReadFile p))"
  "\<not> is_write (Fs (Remove p))" "is_write (Fs (WriteFile p d n))"
  by (simp_all add: is_write_def)

lemma no_write_loadSpec: "only (\<lambda>c. \<not> is_write c) (loadSpec dec b)"
  unfolding loadSpec_def filepath_Abs_def by (auto intro!: only_intros)

lemma no_write_getUnikontainer: "only (\<lambda>c. \<not> is_write c) (getUnikontainer D c)"
  unfolding getUnikontainer_def Get_def loadUnikontainerState_def runcExec_def os_Environ_def Let_def
  by (intro only_intros no_write_loadSpec) simp_all

lemma no_write_listener: "only (\<lambda>c. \<not> is_write c) (CreateListener u b)" "only (\<lambda>c. \<not> is_write c) (DestroyListener u b)"
  unfolding CreateListener_def DestroyListener_def openReadReadyPipe_def closeReadReadyPipe_def createListener_def
    removeIfPresent_def Let_def
  by (intro only_intros; simp)+

lemma no_write_release: "only (\<lambda>c. \<not> is_write c) (startMonitorInit u)" "only (\<lambda>c. \<not> is_write c) (startReexec u)"
  unfolding startMonitorInit_def startReexec_def CreateConn_def DestroyConn_def SendMessage_def failSome_def Let_def
  by (intro only_intros; simp)+

lemma no_write_await: "only (\<lambda>c. \<not> is_write c) (AwaitMessage m)" "only (\<lambda>c. \<not> is_write c) awaitReadyPipe"
  unfolding AwaitMessage_def awaitReadyPipe_def Let_def by (intro only_intros; simp)+

lemma running_behind_success:
  assumes "\<And>x. only (\<lambda>_. True) (f x)"
  shows "awaits \<omega> is_write heard_success (bindM (wrapM fmt as (AwaitMsg u StartSuccess)) f)"
proof (cases "isLibcontainer u")
  case True
  then show ?thesis
    using awaits_mono [OF pipe.behind [OF no_write_await(2) assms]] by (simp add: AwaitMsg_def heard_success_def)
next
  case False
  then show ?thesis
    using awaits_mono [OF socket.behind [OF no_write_await(1) assms]] by (simp add: AwaitMsg_def heard_success_def)
qed

lemma only_any_ExecuteHooks: "only (\<lambda>_. True) (ExecuteHooks D u n)"
  by (rule only_any [OF only_quiet_ExecuteHooks])

lemma startContainer_awaits: "awaits \<omega> is_write heard_success (startContainer D u)"
  unfolding startContainer_def deferM_def
proof (intro running_behind_success awaits_bindM awaits_tryM)
  show "only (\<lambda>_. True) (bindM (wrapM ''failed to set the state as running for container: %w'' [] (SetRunningState D u))
      (\<lambda>u. ExecuteHooks D u ''Poststart''))"
    unfolding SetRunningState_def saveContainerState_def Let_def
    by (intro only_intros only_any_ExecuteHooks) simp_all
qed (auto intro!: awaits_only only_intros no_write_listener no_write_release)

lemma startUnikontainer_awaits: "awaits \<omega> is_write heard_success (startUnikontainer D c)"
  unfolding startUnikontainer_def
  by (intro awaits_skip awaits_case_option awaits_retM no_write_getUnikontainer startContainer_awaits)

section \<open>The process that becomes the monitor\<close>

lemma quiet_sockets:
  "only quiet (CreateListener u b)" "only quiet (DestroyListener u b)" "only quiet (CreateConn u b)"
  "only quiet (DestroyConn u b)" "only quiet (AwaitMsg u m)"
  unfolding CreateListener_def DestroyListener_def CreateConn_def DestroyConn_def AwaitMsg_def openReadReadyPipe_def
    closeReadReadyPipe_def createListener_def removeIfPresent_def AwaitMessage_def awaitReadyPipe_def Let_def
  by (intro only_intros; simp)+

lemma quiet_failSome: "only quiet (failSome e)"
  unfolding failSome_def by (intro only_intros)

lemma quiet_fdFromEnv: "only quiet (fdFromEnv key)"
  unfolding fdFromEnv_def os_Getenv_def by (intro only_intros) simp_all

text \<open>Apart from runc, to which a foreign container is handed over, reading a container is quiet.\<close>

definition is_talk :: "call \<Rightarrow> bool" where
  "is_talk c = ((\<exists>m. c = Ipc (ConnWrite m)) \<or> (\<exists>n b. c = Ipc (FdWrite n b)))"

lemma getUnikontainer_no_talk: "only (\<lambda>c. \<not> is_talk c) (getUnikontainer D c)"
  unfolding getUnikontainer_def Get_def loadUnikontainerState_def runcExec_def os_Environ_def loadSpec_def
    filepath_Abs_def Let_def is_talk_def
  by (intro only_intros) simp_all

lemma getUnikontainer_no_success: "only (\<lambda>c. \<not> is_success c) (getUnikontainer D c)"
  by (rule only_mono [OF getUnikontainer_no_talk]) (auto simp: is_talk_def is_success_def)

lemma reexecContainer_success: "guarded \<omega> is_success (execSteps u []) (reexecContainer D u)"
proof -
  have "only (\<lambda>c. \<not> is_success c) (SendMessage StartErr)"
    by (rule only_SendMessage) (simp add: is_success_def StartErr_def StartSuccess_def)
  then have fail: "guarded \<omega> is_success S (case x of Inr _ \<Rightarrow> retM () | Inl e \<Rightarrow>
       deferM (DestroyConn u FromReexec)
         (bindM (tryM (SendMessage StartErr)) (\<lambda>sockErr. failSome (errors_Join (Some e) (errOf sockErr)))))" for S and x :: "err + unit"
    by (intro guarded_only only_intros success.only_unseen [OF quiet_sockets(4)] success.only_unseen [OF quiet_failSome])
  have "guarded \<omega> is_success (\<lambda>cs. cs = []) (bindM (SendMessage StartSuccess) (\<lambda>_. execMonitor vmm args cmd))" for vmm args cmd
    by (intro guarded_none only_bindM only_SendMessage only_any_execMonitor) simp_all
  note exec = guarded_then [OF guarded_tryM [OF success.Exec_steps [OF this]] fail]
  show ?thesis unfolding reexecContainer_def
    by (intro exec success.skip only_wrapM only_tryM quiet_sockets only_quiet_ExecuteHooks only_case_sum quiet_failSome only_retM)
qed

text \<open>The container that the reexec process has read back and goes on with.\<close>

definition loads :: "'v deps \<Rightarrow> cliCommand \<Rightarrow> host \<Rightarrow> Unikontainer \<Rightarrow> bool" where
  "loads D c \<omega> u = (\<exists>t t'. getUnikontainer D c \<omega> t = (Inr (Some u), t'))"

lemma reexec_success:
  "guarded \<omega> is_success (\<lambda>cs. \<exists>u. loads D c \<omega> u \<and> execSteps u [] cs) (reexecUnikontainer D c)"
proof -
  have g: "guarded \<omega> is_success (\<lambda>cs. \<exists>u. loads D c \<omega> u \<and> execSteps u [] cs)
      (bindM (getUnikontainer D c) (\<lambda>r. case r of None \<Rightarrow> retM () | Some u \<Rightarrow> reexecContainer D u))"
  proof (rule guarded_then [OF guarded_only [OF getUnikontainer_no_success]])
    fix t r t' assume r: "getUnikontainer D c \<omega> t = (Inr r, t')"
    show "guarded \<omega> is_success (\<lambda>cs. \<exists>u. loads D c \<omega> u \<and> execSteps u [] cs)
        (case r of None \<Rightarrow> retM () | Some u \<Rightarrow> reexecContainer D u)"
      using r by (cases r)
        (auto simp: loads_def intro: guarded_only only_retM intro!: guarded_mono [OF reexecContainer_success])
  qed
  show ?thesis unfolding reexecUnikontainer_def Let_def
    by (intro g guarded_if guarded_failM success.skip quiet_fdFromEnv only_intros) simp_all
qed

text \<open>All that the two kinds of process ever send.\<close>

definition off_script :: "string list \<Rightarrow> nat list list \<Rightarrow> call \<Rightarrow> bool" where
  "off_script ms bs c = ((\<exists>m. c = Ipc (ConnWrite m) \<and> m \<notin> set ms) \<or> (\<exists>n b. c = Ipc (FdWrite n b) \<and> b \<notin> set bs))"

interpretation off_script: watched "off_script ms bs" for ms bs
  by unfold_locales (auto simp: off_script_def userCall_def)

lemma talk_off_script: "only (\<lambda>c. \<not> is_talk c) m \<Longrightarrow> only (\<lambda>c. \<not> off_script ms bs c) m"
  by (erule only_mono) (auto simp: is_talk_def off_script_def)

lemma execMonitor_no_talk: "only (\<lambda>c. \<not> off_script ms bs c) (execMonitor vmm args cmd)"
  unfolding execMonitor_def
  by (intro only_intros off_script.only_unseen [OF only_quiet_vmm_PreExec]) (simp_all add: off_script_def)

lemma SendMessage_script: "m \<in> set ms \<Longrightarrow> only (\<lambda>c. \<not> off_script ms bs c) (SendMessage m)"
  by (rule only_SendMessage) (simp add: off_script_def)

lemma reexecContainer_script: "only (\<lambda>c. \<not> off_script [StartSuccess, StartErr] [] c) (reexecContainer D u)"
  unfolding reexecContainer_def
  by (intro only_bindM only_case_sum only_tryM only_wrapM only_retM only_deferM off_script.Exec_never SendMessage_script
      execMonitor_no_talk off_script.only_unseen [OF only_quiet_ExecuteHooks]
      quiet_sockets [THEN off_script.only_unseen] off_script.only_unseen [OF quiet_failSome]) simp_all

lemma reexec_script: "only (\<lambda>c. \<not> off_script [StartSuccess, StartErr] [] c) (reexecUnikontainer D c)"
  unfolding reexecUnikontainer_def Let_def
  by (intro only_bindM only_if only_case_option only_retM only_failM only_wrapM only_calls reexecContainer_script
      off_script.only_unseen [OF quiet_fdFromEnv] talk_off_script [OF getUnikontainer_no_talk])
    (simp_all add: off_script_def)

lemma signalReady_script:
  "[if ok then readyOK else 1] \<in> set bs \<Longrightarrow> only (\<lambda>c. \<not> off_script ms bs c) (signalReady ok)"
  unfolding signalReady_def failSome_def by (intro only_intros) (simp_all add: off_script_def)

lemma runSetup_no_talk: "only (\<lambda>c. \<not> off_script ms bs c) (runSetup D s)"
  unfolding runSetup_def
  by (intro only_bindM only_liftM only_retM only_wrapM off_script.user_unseen
      off_script.only_unseen [OF only_quiet_os_Environ] off_script.only_unseen [OF only_quiet_NewVMM]
      off_script.only_unseen [OF only_quiet_SetupNet] off_script.only_unseen [OF only_quiet_confineBootFiles]
      off_script.only_unseen [OF only_quiet_confineBlockSources]
      off_script.only_unseen [OF only_quiet_buildUnikernelCommand]
      off_script.only_unseen [OF only_quiet_controlSocketDir] off_script.only_unseen [OF only_quiet_spawnProcess]
      off_script.only_unseen [OF only_quiet_vmm_BuildExecCmd])

lemma monitor_script: "only (\<lambda>c. \<not> off_script [] [[readyOK], [1]] c) (ExecMonitor D)"
  unfolding ExecMonitor_def runMonitor_split
  by (intro only_bindM only_case_sum only_case_prod only_tryM only_retM only_failM only_ignoreM only_calls
      runSetup_no_talk signalReady_script execMonitor_no_talk off_script.only_unseen [OF quiet_failSome]
      off_script.only_unseen [OF only_quiet_LoadMonitorSpec])
    (simp_all add: off_script_def)

text \<open>The report over the pipe comes after the change of the user.\<close>

definition is_ready :: "call \<Rightarrow> bool" where
  "is_ready c = (c = Ipc (FdWrite ReadyPipeFD [readyOK]))"

lemma ready_off_script: "only (\<lambda>c. \<not> off_script ms bs c) m \<Longrightarrow> [readyOK] \<notin> set bs \<Longrightarrow> only (\<lambda>c. \<not> is_ready c) m"
  by (erule only_mono) (auto simp: is_ready_def off_script_def)

definition reads_spec :: "'v deps \<Rightarrow> host \<Rightarrow> monitorSpec \<Rightarrow> bool" where
  "reads_spec D \<omega> ms = (\<exists>t t'. LoadMonitorSpec D ''/'' \<omega> t = (Inr ms, t'))"

lemma runMonitor_ready: "guarded \<omega> is_ready (\<lambda>cs. cs = userSteps (Ms_User ms)) (runMonitor D ms)"
  unfolding runMonitor_split
proof (rule guarded_bindM [OF ready_off_script [OF runSetup_no_talk [where bs = "[]"]] runSetup_sure, where B = "\<lambda>_ cs. cs = []"])
  show "guarded \<omega> is_ready (\<lambda>cs. cs = [])
      (case x of (vmm, execArgs, execCmd) \<Rightarrow> bindM (signalReady True) (\<lambda>_. execMonitor vmm execArgs execCmd))" for x
    by (cases x) (auto intro!: guarded_none only_bindM only_any_signalReady only_any_execMonitor)
qed auto

lemma monitor_ready:
  "guarded \<omega> is_ready (\<lambda>cs. \<exists>ms. reads_spec D \<omega> ms \<and> cs = userSteps (Ms_User ms)) (ExecMonitor D)"
proof -
  let ?S = "\<lambda>cs. \<exists>ms. reads_spec D \<omega> ms \<and> cs = userSteps (Ms_User ms)"
  have fail: "only (\<lambda>c. \<not> is_ready c) (bindM (tryM (signalReady False)) f)"
    if "\<And>x. only (\<lambda>c. \<not> off_script [] [[1]] c) (f x)" for f :: "_ \<Rightarrow> unit prog"
    by (rule ready_off_script [of "[]" "[[1]]"], intro only_bindM only_tryM signalReady_script that)
      (simp_all add: readyOK_def)
  have run: "guarded \<omega> is_ready ?S (bindM (tryM (runMonitor D ms)) (\<lambda>r. case r of
         Inr _ \<Rightarrow> retM ()
       | Inl e \<Rightarrow> bindM (tryM (signalReady False)) (\<lambda>sig. failSome (errors_Join (Some e) (errOf sig)))))"
    if "reads_spec D \<omega> ms" for ms
  proof (rule guarded_then)
    show "guarded \<omega> is_ready ?S (tryM (runMonitor D ms))"
      using that by (intro guarded_tryM guarded_mono [OF runMonitor_ready]) auto
    show "guarded \<omega> is_ready ?S (case r of Inr _ \<Rightarrow> retM ()
       | Inl e \<Rightarrow> bindM (tryM (signalReady False)) (\<lambda>sig. failSome (errors_Join (Some e) (errOf sig))))" for r
      by (intro guarded_only only_case_sum fail only_retM off_script.only_unseen [OF quiet_failSome])
  qed
  have c: "only (\<lambda>c. \<not> is_ready c) (ignoreM (callU (Ipc (FdCloexec n))))" for n
    by (intro only_intros) (simp add: is_ready_def)
  have l: "only (\<lambda>c. \<not> is_ready c) (tryM (LoadMonitorSpec D ''/''))"
    by (rule only_mono [OF only_tryM [OF only_quiet_LoadMonitorSpec]]) (auto simp: is_ready_def)
  show ?thesis unfolding ExecMonitor_def
  proof (intro guarded_skip [OF c], rule guarded_then [OF guarded_only [OF l]])
    fix t r t' assume r: "tryM (LoadMonitorSpec D ''/'') \<omega> t = (Inr r, t')"
    show "guarded \<omega> is_ready ?S (case r of
         Inl e \<Rightarrow> bindM (tryM (signalReady False)) (\<lambda>_. failM (ErrorfW ''failed to read the monitor spec: %w'' [] e))
       | Inr ms \<Rightarrow> bindM (tryM (runMonitor D ms)) (\<lambda>r. case r of
             Inr _ \<Rightarrow> retM ()
           | Inl e \<Rightarrow> bindM (tryM (signalReady False)) (\<lambda>sig. failSome (errors_Join (Some e) (errOf sig)))))"
    proof (cases r)
      case (Inl e)
      then show ?thesis by (auto intro!: guarded_only fail only_failM)
    next
      case (Inr ms)
      then have "LoadMonitorSpec D ''/'' \<omega> t = (Inr ms, t')" using r by (cases "LoadMonitorSpec D ''/'' \<omega> t") auto
      then have "reads_spec D \<omega> ms" unfolding reads_spec_def by blast
      from run [OF this] show ?thesis by (simp only: Inr sum.case)
    qed
  qed
qed

section \<open>A running container is a confined one\<close>

text \<open>What start has read so far was written by the other process.\<close>

definition linked :: "host \<Rightarrow> call list \<Rightarrow> call list \<Rightarrow> bool" where
  "linked \<omega> there here \<longleftrightarrow>
     delivered socketSays socketTakes \<omega> there here \<and> delivered pipeSays pipeTakes \<omega> there here"

lemma prefix_of_messages:
  "HasPrefix m StartSuccess \<Longrightarrow> m \<in> {StartSuccess, StartErr} \<Longrightarrow> m = StartSuccess"
  by (auto simp: HasPrefix_def StartSuccess_def StartErr_def)

lemma prefix_of_reports:
  "HasPrefix (map char_of b) [char_of readyOK] \<Longrightarrow> b \<in> {[readyOK], [1]} \<Longrightarrow> b = [readyOK]"
  by (auto simp: HasPrefix_def readyOK_def)

text \<open>Success heard at one end is the report of success made at the other.\<close>

lemma heard_reexec:
  assumes "met \<omega> heard_success [] pre" "linked \<omega> (snd (runM (reexecUnikontainer D c) \<omega>')) pre"
  shows "Ipc (ConnWrite StartSuccess) \<in> set (snd (runM (reexecUnikontainer D c) \<omega>'))"
proof -
  let ?h = "snd (runM (reexecUnikontainer D c) \<omega>')"
  have script: "\<not> off_script [StartSuccess, StartErr] [] d" if "d \<in> set ?h" for d
    using only_run [OF reexec_script that] .
  from assms(1) consider "met \<omega> (\<lambda>c r. socketTakes c r = Some StartSuccess) [] pre"
    | "met \<omega> (\<lambda>c r. pipeTakes c r = Some [char_of readyOK]) [] pre"
    unfolding met_def heard_success_def by blast
  then show ?thesis
  proof cases
    case 1
    then obtain d m where d: "d \<in> set ?h" "socketSays d = Some m" "HasPrefix m StartSuccess"
      using assms(2) unfolding linked_def by (metis socket.said)
    then have "m \<in> {StartSuccess, StartErr}" using script [OF d(1)] by (auto simp: off_script_def socketSays_iff)
    then show ?thesis using d prefix_of_messages socketSays_iff by metis
  next
    case 2
    then obtain d m where d: "d \<in> set ?h" "pipeSays d = Some m"
      using assms(2) unfolding linked_def by (metis pipe.said)
    then show ?thesis using script [OF d(1)] by (auto simp: off_script_def pipeSays_iff)
  qed
qed

lemma heard_monitor:
  assumes "met \<omega> heard_success [] pre" "linked \<omega> (snd (runM (ExecMonitor D) \<omega>')) pre"
  shows "Ipc (FdWrite ReadyPipeFD [readyOK]) \<in> set (snd (runM (ExecMonitor D) \<omega>'))"
proof -
  let ?h = "snd (runM (ExecMonitor D) \<omega>')"
  have script: "\<not> off_script [] [[readyOK], [1]] d" if "d \<in> set ?h" for d
    using only_run [OF monitor_script that] .
  from assms(1) consider "met \<omega> (\<lambda>c r. socketTakes c r = Some StartSuccess) [] pre"
    | "met \<omega> (\<lambda>c r. pipeTakes c r = Some [char_of readyOK]) [] pre"
    unfolding met_def heard_success_def by blast
  then show ?thesis
  proof cases
    case 1
    then obtain d m where d: "d \<in> set ?h" "socketSays d = Some m"
      using assms(2) unfolding linked_def by (metis socket.said)
    then show ?thesis using script [OF d(1)] by (auto simp: off_script_def socketSays_iff)
  next
    case 2
    then obtain d m where d: "d \<in> set ?h" "pipeSays d = Some m" "HasPrefix m [char_of readyOK]"
      using assms(2) unfolding linked_def by (metis pipe.said)
    then obtain b where b: "d = Ipc (FdWrite ReadyPipeFD b)" "m = map char_of b" by (auto simp: pipeSays_iff)
    moreover have "b \<in> {[readyOK], [1]}" using script [OF d(1)] b by (auto simp: off_script_def)
    ultimately show ?thesis using d prefix_of_reports by metis
  qed
qed

text \<open>
  C3: a container is recorded as running only when its monitor is confined. When start writes the
  state, the process it has heard from has reported the success of its set-up, and at that point it
  had, in this order and without an error: in the reexec process, entered the root file system of the
  monitor, made it its root and taken on the user of the container it had read back; in the
  libcontainer mode, where runc's library has done the confinement, taken on the user of the
  specification it had read.
\<close>

theorem running_means_confined:
  assumes "snd (runM (startUnikontainer D c) \<omega>) = pre @ Fs (WriteFile path data mode) # post"
    and "monitor = reexecUnikontainer D' c' \<or> monitor = ExecMonitor D'"
    and "linked \<omega> (snd (runM monitor \<omega>')) pre"
  shows "\<exists>before report after. snd (runM monitor \<omega>') = before @ report # after \<and>
    (report = Ipc (ConnWrite StartSuccess) \<and>
       (\<exists>u root pivot. loads D' c' \<omega>' u \<and> root \<noteq> [] \<and>
          performed \<omega>' [] (rootSteps root pivot @ userSteps (P_User (S_Process (U_Spec u)))) before)
     \<or> report = Ipc (FdWrite ReadyPipeFD [readyOK]) \<and>
       (\<exists>ms. reads_spec D' \<omega>' ms \<and> performed \<omega>' [] (userSteps (Ms_User ms)) before))"
proof -
  have heard: "met \<omega> heard_success [] pre"
    by (rule awaits_run [OF startUnikontainer_awaits assms(1)]) simp
  from assms(2) show ?thesis
  proof (elim disjE)
    assume m: "monitor = reexecUnikontainer D' c'"
    then obtain q r where h: "snd (runM monitor \<omega>') = q @ Ipc (ConnWrite StartSuccess) # r"
      using heard_reexec [OF heard] assms(3) by (metis split_list)
    then have "\<exists>cs. (\<exists>u. loads D' c' \<omega>' u \<and> execSteps u [] cs) \<and> performed \<omega>' [] cs q"
      using m by (intro guarded_run [OF reexec_success]) (auto simp: is_success_def)
    then show ?thesis unfolding execSteps_def using h by (intro exI [of _ q] exI) auto
  next
    assume m: "monitor = ExecMonitor D'"
    then obtain q r where h: "snd (runM monitor \<omega>') = q @ Ipc (FdWrite ReadyPipeFD [readyOK]) # r"
      using heard_monitor [OF heard] assms(3) by (metis split_list)
    then have "\<exists>cs. (\<exists>ms. reads_spec D' \<omega>' ms \<and> cs = userSteps (Ms_User ms)) \<and> performed \<omega>' [] cs q"
      using m by (intro guarded_run [OF monitor_ready]) (auto simp: is_ready_def)
    then show ?thesis using h by (intro exI [of _ q] exI) auto
  qed
qed

lemma HasPrefix_take: "HasPrefix m (take n m)"
  by (simp add: HasPrefix_def min_def)

lemma sample_linked:
  assumes "Ipc (ConnWrite message) \<in> set there" "\<And>t n. \<omega> t (Ipc (ConnRead n)) = RStr message"
    and "\<And>t. \<omega> t (Ipc FifoRead) = ROk"
  shows "linked \<omega> there here"
proof -
  have p: "pipeTakes c (\<omega> t c) = None" for t c
    using assms(3) by (cases "(c, \<omega> t c)" rule: pipeTakes.cases) auto
  have "socketTakes c (\<omega> t c) = Some s \<Longrightarrow> HasPrefix message s" for t c s
    using assms(2) by (cases "(c, \<omega> t c)" rule: socketTakes.cases) (auto simp: HasPrefix_take)
  moreover have "socketSays (Ipc (ConnWrite message)) = Some message" by simp
  ultimately show ?thesis using assms(1) p unfolding linked_def delivered_def by (metis option.distinct(1))
qed

theorem running_means_confined_witness:
  "\<exists>before after u root pivot.
     snd (runM (reexecUnikontainer sample_deps sample_command) reexec_host) =
       before @ Ipc (ConnWrite StartSuccess) # after \<and>
     loads sample_deps sample_command reexec_host u \<and> root \<noteq> [] \<and>
     performed reexec_host [] (rootSteps root pivot @ userSteps (P_User (S_Process (U_Spec u)))) before"
proof -
  let ?m = "reexecUnikontainer sample_deps sample_command"
  let ?h = "snd (runM ?m reexec_host)" and ?s = "snd (runM (startUnikontainer sample_deps sample_command) start_host)"
  have "list_ex (\<lambda>c. c = Ipc (ConnWrite StartSuccess)) ?h" by code_simp
  then have said: "Ipc (ConnWrite StartSuccess) \<in> set ?h" by (auto simp: list_ex_iff)
  have "list_ex is_write ?s" by code_simp
  then obtain w where "w \<in> set ?s" "is_write w" by (auto simp: list_ex_iff)
  then obtain path data mode where "Fs (WriteFile path data mode) \<in> set ?s"
    by (auto simp: is_write_def split: call.splits fs_call.splits)
  then obtain pre post where "?s = pre @ Fs (WriteFile path data mode) # post" by (metis split_list)
  moreover have "linked start_host ?h pre" for pre
    by (rule sample_linked [OF said]) (simp_all add: start_host_def sample_host_def StartSuccess_def)
  ultimately have "\<exists>before report after. ?h = before @ report # after \<and>
    (report = Ipc (ConnWrite StartSuccess) \<and>
       (\<exists>u root pivot. loads sample_deps sample_command reexec_host u \<and> root \<noteq> [] \<and>
          performed reexec_host [] (rootSteps root pivot @ userSteps (P_User (S_Process (U_Spec u)))) before)
     \<or> report = Ipc (FdWrite ReadyPipeFD [readyOK]) \<and>
       (\<exists>ms. reads_spec sample_deps reexec_host ms \<and> performed reexec_host [] (userSteps (Ms_User ms)) before))"
    by (intro running_means_confined [OF _ disjI1 [OF refl]])
  then
  obtain before report after where h: "?h = before @ report # after"
    and r: "report = Ipc (ConnWrite StartSuccess) \<and>
       (\<exists>u root pivot. loads sample_deps sample_command reexec_host u \<and> root \<noteq> [] \<and>
          performed reexec_host [] (rootSteps root pivot @ userSteps (P_User (S_Process (U_Spec u)))) before)
     \<or> report = Ipc (FdWrite ReadyPipeFD [readyOK])"
    by blast
  have "report \<in> set ?h" by (simp add: h)
  from only_run [OF reexec_script this] show ?thesis using h r by (auto simp: off_script_def)
qed

section \<open>The monitor waits for create and for start\<close>

text \<open>The socket pair between create and the process it has started.\<close>

fun initSays :: "call \<Rightarrow> string option" where
  "initSays (Lib (InitWrite m)) = Some m"
| "initSays _ = None"

fun initTakes :: "call \<Rightarrow> reply \<Rightarrow> string option" where
  "initTakes (Lib (FileRead fd n)) (RStr s) = Some (take n s)"
| "initTakes _ _ = None"

text \<open>Calls that change what the process is: its root, its user, and its report.\<close>

definition is_change :: "call \<Rightarrow> bool" where
  "is_change c = (userCall c \<or> (case c of Proc (Chroot _) \<Rightarrow> True | Proc (PivotRoot _ _) \<Rightarrow> True
      | Ipc (ConnWrite _) \<Rightarrow> True | _ \<Rightarrow> False))"

lemma no_change [simp]:
  "\<not> is_change (Fs f)" "\<not> is_change (Lib l)" "\<not> is_change (Ipc Accept)" "\<not> is_change (Ipc (ConnRead n))"
  "\<not> is_change (Ipc ConnClose)" "\<not> is_change (Ipc FifoRead)" "\<not> is_change (Ipc (FifoOpen s))"
  "\<not> is_change (Ipc FifoClose)" "\<not> is_change (Ipc (Listen s))" "\<not> is_change (Ipc (ListenerClose s))"
  "\<not> is_change (Ipc (Dial s))" "\<not> is_change (Proc (RunHook s a b d x))" "\<not> is_change (Proc Environ)"
  "\<not> is_change (Proc Getwd)" "\<not> is_change (Proc (Getenv s))" "\<not> is_change (Proc (LookPath s))"
  "\<not> is_change (Proc (Exec s a b))" "\<not> is_change (Proc Now)" "\<not> is_change (Proc (Kill i j))"
  by (simp_all add: is_change_def userCall_def)

lemma no_change_hooks: "only (\<lambda>c. \<not> is_change c) (ExecuteHooks D u n)"
  unfolding ExecuteHooks_def executeHook_def Let_def by (intro only_intros; simp)

lemma no_change_await: "only (\<lambda>c. \<not> is_change c) (AwaitMsg u m)"
  unfolding AwaitMsg_def AwaitMessage_def awaitReadyPipe_def Let_def by (intro only_intros; simp)

lemma no_change_listener: "only (\<lambda>c. \<not> is_change c) (CreateListener u b)" "only (\<lambda>c. \<not> is_change c) (DestroyListener u b)"
  unfolding CreateListener_def DestroyListener_def openReadReadyPipe_def closeReadReadyPipe_def createListener_def
    removeIfPresent_def Let_def
  by (intro only_intros; simp)+

lemma no_change_get: "only (\<lambda>c. \<not> is_change c) (getUnikontainer D c)"
  unfolding getUnikontainer_def Get_def loadUnikontainerState_def runcExec_def os_Environ_def loadSpec_def
    filepath_Abs_def Let_def
  by (intro only_intros) simp_all

lemma no_change_env: "only (\<lambda>c. \<not> is_change c) (fdFromEnv key)"
  unfolding fdFromEnv_def os_Getenv_def by (intro only_intros) simp_all

text \<open>The wait for the message of start, whose socket is taken away before its outcome counts.\<close>

definition heard_start :: "call \<Rightarrow> reply \<Rightarrow> bool" where
  "heard_start c r \<longleftrightarrow> socketTakes c r = Some StartExecve \<or> pipeTakes c r = Some [char_of readyOK]"

lemma AwaitMsg_yields: "yields \<omega> heard_start (AwaitMsg u StartExecve)"
  using socket.await_takes [of \<omega> StartExecve] pipe.await_takes [of \<omega>]
  unfolding AwaitMsg_def yields_def met_def heard_start_def by (cases "isLibcontainer u") (simp, meson)+

lemma yields_try:
  assumes m: "yields \<omega> G m" and clean: "only (\<lambda>_. True) clean"
    and fail: "\<And>e r t. \<exists>e' t'. f (Inl e) r \<omega> t = (Inl e', t')" and ok: "\<And>x r. only (\<lambda>_. True) (f (Inr x) r)"
  shows "yields \<omega> G (bindM (tryM m) (\<lambda>a. bindM (tryM clean) (f a)))"
  unfolding yields_def
proof (intro allI impI)
  fix t x t'
  assume run: "bindM (tryM m) (\<lambda>a. bindM (tryM clean) (f a)) \<omega> t = (Inr x, t')"
  obtain a t1 where a: "m \<omega> t = (a, t1)" by (cases "m \<omega> t")
  obtain r ds where r: "clean \<omega> t1 = (r, t1 @ ds)" using only_result [OF clean] by blast
  from run a r have f: "f a r \<omega> (t1 @ ds) = (Inr x, t')" by (simp add: bindM_run)
  show "\<exists>ds. t' = t @ ds \<and> met \<omega> G t ds"
  proof (cases a)
    case (Inl e)
    then show ?thesis using f fail [of e r "t1 @ ds"] by auto
  next
    case (Inr y)
    then obtain cs where cs: "t1 = t @ cs" "met \<omega> G t cs" using m a unfolding yields_def by blast
    obtain r' es where "f a r \<omega> (t1 @ ds) = (r', (t1 @ ds) @ es)" using only_result [OF ok] Inr by blast
    then show ?thesis using f cs met_more by (intro exI [of _ "cs @ ds @ es"]) simp
  qed
qed

lemma only_any_Exec: "only (\<lambda>_. True) (Exec_monitor D u)"
  by (rule only_any [OF off_script.Exec_never [of "[StartSuccess]" "[]"]])
    (intro only_bindM SendMessage_script execMonitor_no_talk, simp)

lemma reexecContainer_awaits: "awaits \<omega> is_change heard_start (reexecContainer D u)"
proof -
  let ?wait = "bindM (tryM (wrapM ''error waiting START message: %w'' [] (AwaitMsg u StartExecve))) (\<lambda>await.
     bindM (tryM (wrapM ''error destroying listener on reexec socket: %w'' [] (DestroyListener u FromReexec))) (\<lambda>clean.
     case await of Inl e \<Rightarrow> failSome (errors_Join (Some e) (errOf clean)) | Inr _ \<Rightarrow> retM ()))"
  let ?rest = "bindM (wrapM ''error creating connection to urunc socket: %w'' [] (CreateConn u FromReexec)) (\<lambda>_.
     bindM (tryM (Exec_monitor D u)) (\<lambda>r.
       case r of
         Inr _ \<Rightarrow> retM ()
       | Inl e \<Rightarrow>
           deferM (DestroyConn u FromReexec)
             (bindM (tryM (SendMessage StartErr)) (\<lambda>sockErr.
                failSome (errors_Join (Some e) (errOf sockErr))))))"
  have "\<exists>e' t'. failSome (errors_Join (Some e) r) \<omega> t = (Inl e', t')" for e r and t :: "call list"
    by (cases r) (auto simp: failSome_def)
  then have y: "yields \<omega> heard_start ?wait"
    by (intro yields_try yields_wrapM AwaitMsg_yields only_wrapM only_any [OF no_change_listener(2)]) (simp_all add: only_retM)
  have quiet: "only (\<lambda>c. \<not> is_change c) ?wait"
    unfolding failSome_def by (intro only_bindM only_tryM only_wrapM only_case_sum only_case_option only_failM only_retM
        no_change_await no_change_listener)
  have "only (\<lambda>_. True) ?rest"
    unfolding CreateConn_def DestroyConn_def failSome_def Let_def
    by (intro only_bindM only_tryM only_wrapM only_case_sum only_case_option only_deferM only_failM only_retM only_calls
        only_any_Exec only_SendMessage) simp_all
  note tail = awaits_behind [OF quiet y this, unfolded bindM_assoc]
  show ?thesis unfolding reexecContainer_def
    by (intro tail awaits_skip only_wrapM no_change_hooks no_change_listener)
qed

lemma reexec_awaits_start: "awaits \<omega> is_change heard_start (reexecUnikontainer D c)"
  unfolding reexecUnikontainer_def Let_def
  by (intro awaits_skip awaits_if awaits_case_option awaits_failM awaits_retM reexecContainer_awaits
      no_change_env no_change_get only_wrapM only_calls) simp_all

definition heard_create :: "call \<Rightarrow> reply \<Rightarrow> bool" where
  "heard_create c r \<longleftrightarrow> initTakes c r = Some AckReexec"

lemma only_any_reexecContainer: "only (\<lambda>_. True) (reexecContainer D u)"
  by (rule only_any [OF reexecContainer_script])

lemma reexec_awaits_create: "awaits \<omega> is_change heard_create (reexecUnikontainer D c)"
proof -
  let ?read = "\<lambda>fd. wrapM ''failed to read from init socket: %w'' [] (callS (Lib (FileRead fd (length AckReexec))))"
  let ?rest = "\<lambda>fd buf. if take (length AckReexec) buf \<noteq> AckReexec
      then failM (Errorf ''received unexpected message: %s'' [take (length AckReexec) buf])
      else bindM (wrapM ''close init pipe: %w'' [] (callU (Lib (NewFileClose fd)))) (\<lambda>_.
           bindM (getUnikontainer D c) (\<lambda>r. case r of None \<Rightarrow> retM () | Some u \<Rightarrow> reexecContainer D u))"
  have "awaits \<omega> is_change heard_create (bindM (?read fd) (?rest fd))" for fd
    unfolding awaits_def
  proof (intro allI)
    fix t
    let ?c = "Lib (FileRead fd (length AckReexec))"
    show "\<exists>ds. snd (bindM (?read fd) (?rest fd) \<omega> t) = t @ ds \<and>
        (\<forall>pre c post. ds = pre @ c # post \<longrightarrow> is_change c \<longrightarrow> met \<omega> heard_create t pre)"
    proof (cases "\<exists>s. \<omega> t ?c = RStr s \<and> take (length AckReexec) s = AckReexec")
      case True
      then obtain s where s: "\<omega> t ?c = RStr s" "take (length AckReexec) s = AckReexec" by blast
      have "only (\<lambda>_. True) (?rest fd s)"
        by (intro only_if only_failM only_bindM only_wrapM only_calls only_any [OF no_change_get] only_case_option only_retM
            only_any_reexecContainer) simp_all
      then obtain r es where "?rest fd s \<omega> (t @ [?c]) = (r, (t @ [?c]) @ es)" using only_result by blast
      then have "snd (bindM (?read fd) (?rest fd) \<omega> t) = t @ ?c # es"
        using s by (simp add: bindM_run callS_run)
      moreover have "met \<omega> heard_create t pre" if "?c # es = pre @ d # post" "is_change d" for pre d post
      proof -
        from that obtain q where "pre = ?c # q" by (cases pre) auto
        then show ?thesis using s unfolding met_def
          by (intro exI [of _ "[]"] exI [of _ ?c] exI [of _ q]) (simp add: heard_create_def)
      qed
      ultimately show ?thesis by (intro exI [of _ "?c # es"]) simp
    next
      case False
      then have "snd (bindM (?read fd) (?rest fd) \<omega> t) = t @ [?c]"
        by (auto simp: bindM_run callS_run split: reply.splits)
      then show ?thesis by (intro exI [of _ "[?c]"]) (auto simp: Cons_eq_append_conv)
    qed
  qed
  note read = this
  show ?thesis unfolding reexecUnikontainer_def Let_def
    by (intro read awaits_skip no_change_env only_wrapM only_calls) simp_all
qed

text \<open>What start sends, and what create has done when it sends its message.\<close>

lemma start_script: "only (\<lambda>c. \<not> off_script [StartExecve] [] c) (startUnikontainer D c)"
proof -
  have release: "only (\<lambda>c. \<not> off_script [StartExecve] [] c) (startReexec u)"
    "only (\<lambda>c. \<not> off_script [StartExecve] [] c) (startMonitorInit u)" for u
    unfolding startReexec_def startMonitorInit_def
    by (intro only_bindM only_tryM only_wrapM only_calls SendMessage_script
        quiet_sockets [THEN off_script.only_unseen] off_script.only_unseen [OF quiet_failSome]; simp add: off_script_def)+
  have running: "only quiet (SetRunningState D u)" for u
    unfolding SetRunningState_def saveContainerState_def Let_def by (intro only_intros) simp_all
  have "only (\<lambda>c. \<not> off_script [StartExecve] [] c) (startContainer D u)" for u
    unfolding startContainer_def
    by (intro only_bindM only_deferM only_if only_wrapM release off_script.only_unseen [OF running]
        off_script.only_unseen [OF only_quiet_ExecuteHooks] quiet_sockets [THEN off_script.only_unseen])
  then show ?thesis unfolding startUnikontainer_def
    by (intro only_bindM only_case_option only_retM talk_off_script [OF getUnikontainer_no_talk])
qed

definition is_ack :: "call \<Rightarrow> bool" where
  "is_ack c = (case c of Lib (InitWrite _) \<Rightarrow> True | _ \<Rightarrow> False)"

lemma no_ack [simp]:
  "\<not> is_ack (Fs f)" "\<not> is_ack (Proc q)" "\<not> is_ack (Lib (SockPair s))" "\<not> is_ack (Lib ParentClose)" "\<not> is_ack (Lib PipeNew)"
  "\<not> is_ack (Lib (StartReexec a e b))" "\<not> is_ack (Lib PtyClose)" "\<not> is_ack (Lib PtyName)" "\<not> is_ack (Lib (ConsoleDial s))"
  "\<not> is_ack (Lib ConsoleClose)" "\<not> is_ack (Lib (ConsoleSend s))" "\<not> is_ack (Lib ChildClose)" "\<not> is_ack (Lib LogClose)"
  "\<not> is_ack (Lib (InitCopy n))" "\<not> is_ack (Lib NsenterPids)" "\<not> is_ack (Lib (WaitPid i))" "\<not> is_ack (Lib WaitReexec)"
  "\<not> is_ack (Lib ReexecWait)" "\<not> is_ack (Lib WaitLogs)"
  by (simp_all add: is_ack_def)

text \<open>The state that create records: the process that is to become the monitor, not yet running.\<close>

definition createdState :: "Unikontainer \<Rightarrow> int \<Rightarrow> OciState" where
  "createdState u pid = (U_State u)\<lparr>St_Pid := pid, St_Status := StateCreated,
     St_Annotations := mergeAnnotations (S_Annotations (U_Spec u)) (St_Annotations (U_State u))\<rparr>"

definition recorded :: "'v deps \<Rightarrow> Unikontainer \<Rightarrow> call list \<Rightarrow> bool" where
  "recorded D u cs \<longleftrightarrow> (\<exists>pid data. dp_encState D (createdState u pid) = Inr data \<and>
     cs = [Fs (WriteFile (statePath u) data 420)])"

lemma sure_failM: "sure \<omega> S (failM e)"
  by (simp add: sure_def)

lemma Create_sure: "sure \<omega> (recorded D u) (Create D u pid path)"
proof -
  have "sure \<omega> (recorded D u) (saveContainerState D (setStatus StateCreated (setPid pid u)))"
  proof (cases "dp_encState D (createdState u pid)")
    case (Inl e)
    then show ?thesis
      by (simp add: saveContainerState_def Let_def setStatus_def setPid_def createdState_def sure_failM)
  next
    case (Inr data)
    have eq: "saveContainerState D (setStatus StateCreated (setPid pid u)) =
        bindM (callU (Fs (WriteFile (statePath u) data 420))) (\<lambda>_. retM (u\<lparr>U_State := createdState u pid\<rparr>))"
      using Inr by (simp add: saveContainerState_def Let_def setStatus_def setPid_def createdState_def statePath_def)
    have "sure \<omega> (\<lambda>cs. cs = [Fs (WriteFile (statePath u) data 420)] @ [])
        (saveContainerState D (setStatus StateCreated (setPid pid u)))"
      unfolding eq by (intro sure_then sure_callU sure_only only_retM)
    then show ?thesis by (rule sure_mono) (use Inr in \<open>auto simp: recorded_def\<close>)
  qed
  moreover have "only (\<lambda>_. True) (writePidFile p pid)" for p
    unfolding writePidFile_def Let_def by (intro only_intros) simp_all
  ultimately show ?thesis unfolding Create_def Let_def
    by (intro sure_bindM [OF sure_only]) auto
qed

lemma finishCreate_guarded: "guarded \<omega> is_ack (recorded D u) (finishCreate D c u pid)"
  unfolding finishCreate_def
proof (rule guarded_bindM [OF _ Create_sure, where B = "\<lambda>_ cs. cs = []"])
  show "only (\<lambda>c. \<not> is_ack c) (Create D u pid (Cli_pidFile c))"
    unfolding Create_def writePidFile_def saveContainerState_def Let_def by (intro only_intros) simp_all
  show "guarded \<omega> is_ack (\<lambda>cs. cs = []) (bindM
      (wrapM ''failed to execute CreateRuntime hooks: %w'' [] (ExecuteHooks D v ''CreateRuntime''))
      (\<lambda>_. wrapM ''failed to send ACK to reexec process: %w'' [] (callU (Lib (InitWrite AckReexec)))))" for v
    by (intro guarded_none only_bindM only_wrapM only_any_ExecuteHooks only_calls) simp_all
qed auto

lemma guarded_closeM:
  assumes "guarded \<omega> C S m" "only (\<lambda>c. \<not> C c) cleanup"
  shows "guarded \<omega> C S (closeM fmt cleanup m)"
  unfolding closeM_def
  by (rule guarded_then [OF guarded_tryM [OF assms(1)]])
    (intro guarded_only only_bindM only_tryM only_wrapM only_case_sum only_failM only_liftM assms(2))

lemma guarded_deferM:
  assumes "guarded \<omega> C S m" "only (\<lambda>c. \<not> C c) cleanup"
  shows "guarded \<omega> C S (deferM cleanup m)"
  unfolding deferM_def
  by (rule guarded_then [OF guarded_tryM [OF assms(1)]])
    (intro guarded_only only_bindM only_ignoreM only_liftM assms(2))

lemma only_no_ack_info: "only (\<lambda>c. \<not> is_ack c) (FormatNsenterInfo h b ns)"
proof -
  have "only (\<lambda>c. \<not> is_ack c) (ns_loop ns s)" for s
    by (induction ns arbitrary: s; unfold ns_loop.simps nsStep_def setNs_def checkValidNsPath_def Let_def; (intro only_intros)?; simp)
  then show ?thesis unfolding FormatNsenterInfo_def by (intro only_intros)
qed

lemma createProcess_guarded: "guarded \<omega> is_ack (recorded D u) (createProcess D c u)"
proof -
  have "only (\<lambda>c. \<not> is_ack c) handleNsenterRet"
    unfolding handleNsenterRet_def by (intro only_intros) simp_all
  moreover have "only (\<lambda>c. \<not> is_ack c) (createReexecCmd c)"
    unfolding createReexecCmd_def os_Environ_def by (intro only_intros) simp_all
  ultimately show ?thesis
    unfolding createProcess_def withReexec_def
    by (intro guarded_skip guarded_closeM guarded_deferM guarded_case_prod guarded_if finishCreate_guarded
        only_no_ack_info only_tryM only_wrapM only_calls) simp_all
qed

lemma createProcess_acks: "only (\<lambda>c. is_ack c \<longrightarrow> c = Lib (InitWrite AckReexec)) (createProcess D c u)"
proof -
  have m: "only (\<lambda>c. is_ack c \<longrightarrow> c = Lib (InitWrite AckReexec)) m" if "only (\<lambda>c. \<not> is_ack c) m" for m :: "'x prog"
    by (rule only_mono [OF that]) simp
  have "only (\<lambda>c. is_ack c \<longrightarrow> c = Lib (InitWrite AckReexec)) (finishCreate D c u pid)" for pid
    unfolding finishCreate_def Create_def writePidFile_def saveContainerState_def ExecuteHooks_def executeHook_def Let_def
    by (intro only_intros) simp_all
  then show ?thesis
    unfolding createProcess_def withReexec_def closeM_def handleNsenterRet_def createReexecCmd_def os_Environ_def
    by (intro m [OF only_no_ack_info] only_intros) simp_all
qed



end
