(* ===== verification/Create_Props.thy ===== *)
theory Create_Props
  imports Cli Samples Call_Order Footprint "HOL-Library.Sublist"
begin

text \<open>
  What create does when it fails in the libcontainer mode: the steps it has taken so far are taken back
  in the reverse order, and only then.
\<close>

section \<open>What a failure takes back\<close>

text \<open>
  \<open>undone \<omega> C cs m\<close>: when \<open>m\<close> fails in the world \<open>\<omega>\<close>, every granted call of the kind \<open>C\<close> is followed by the
  calls \<open>cs\<close>, in this order.
\<close>

definition undone :: "host \<Rightarrow> (call \<Rightarrow> bool) \<Rightarrow> call list \<Rightarrow> 'a prog \<Rightarrow> bool" where
  "undone \<omega> C cs m \<longleftrightarrow>
     (\<forall>t e t'. m \<omega> t = (Inl e, t') \<longrightarrow>
        (\<exists>ds. t' = t @ ds \<and> (\<forall>p c q. ds = p @ c # q \<longrightarrow> C c \<longrightarrow> \<omega> (t @ p) c = ROk \<longrightarrow> subseq cs q)))"

lemma undone_run:
  assumes "undone \<omega> C cs m" "runM m \<omega> = (Inl e, p @ c # q)" "C c" "\<omega> p c = ROk"
  shows "subseq cs q"
proof -
  have "\<exists>ds. p @ c # q = [] @ ds \<and> (\<forall>p c q. ds = p @ c # q \<longrightarrow> C c \<longrightarrow> \<omega> ([] @ p) c = ROk \<longrightarrow> subseq cs q)"
    using assms(1,2) unfolding undone_def runM_def by blast
  then show ?thesis using assms(3,4) by simp
qed

lemma undone_only: "only (\<lambda>c. \<not> C c) m \<Longrightarrow> undone \<omega> C cs m"
  unfolding undone_def
proof (intro allI impI)
  fix t e t'
  assume "only (\<lambda>c. \<not> C c) m" "m \<omega> t = (Inl e, t')"
  then obtain ds where "t' = t @ ds" "list_all (\<lambda>c. \<not> C c) ds" by (meson only_append)
  then show "\<exists>ds. t' = t @ ds \<and> (\<forall>p c q. ds = p @ c # q \<longrightarrow> C c \<longrightarrow> \<omega> (t @ p) c = ROk \<longrightarrow> subseq cs q)"
    by (auto simp: list_all_iff)
qed

text \<open>A step that makes no call of the kind, in front of one that is undone.\<close>

lemma undone_skip:
  assumes m: "only (\<lambda>c. \<not> C c) m" and f: "\<And>x. undone \<omega> C cs (f x)"
  shows "undone \<omega> C cs (bindM m f)"
  unfolding undone_def
proof (intro allI impI)
  fix t e t'
  assume run: "bindM m f \<omega> t = (Inl e, t')"
  obtain r ds where r: "m \<omega> t = (r, t @ ds)" and ds: "list_all (\<lambda>c. \<not> C c) ds" using only_result [OF m] by blast
  show "\<exists>ds. t' = t @ ds \<and> (\<forall>p c q. ds = p @ c # q \<longrightarrow> C c \<longrightarrow> \<omega> (t @ p) c = ROk \<longrightarrow> subseq cs q)"
  proof (cases r)
    case (Inl e)
    then show ?thesis using r ds run by (auto simp: bindM_run list_all_iff)
  next
    case (Inr x)
    then have "f x \<omega> (t @ ds) = (Inl e, t')" using run r by (simp add: bindM_run)
    then obtain es where es: "t' = (t @ ds) @ es"
      "\<And>p c q. es = p @ c # q \<Longrightarrow> C c \<Longrightarrow> \<omega> ((t @ ds) @ p) c = ROk \<Longrightarrow> subseq cs q"
      using f unfolding undone_def by blast
    have "subseq cs q" if eq: "ds @ es = p @ c # q" and C: "C c" "\<omega> (t @ p) c = ROk" for p c q
    proof -
      from split_after [OF eq ds] C obtain p' where "p = ds @ p'" "es = p' @ c # q" by blast
      then show ?thesis using es(2) C by simp
    qed
    then show ?thesis using es(1) by (intro exI [of _ "ds @ es"]) simp
  qed
qed

text \<open>The calls that a cleanup makes in every course of the world.\<close>

definition always :: "host \<Rightarrow> call list \<Rightarrow> 'a prog \<Rightarrow> bool" where
  "always \<omega> cs m \<longleftrightarrow> (\<forall>t. \<exists>ds. snd (m \<omega> t) = t @ ds \<and> subseq cs ds)"

lemma cleanup_calls:
  assumes "always \<omega> bs m" "only P m"
  obtains es where "snd (m \<omega> s) = s @ es" "subseq bs es" "list_all P es"
proof -
  from assms(1) obtain es where es: "snd (m \<omega> s) = s @ es" "subseq bs es" unfolding always_def by blast
  moreover have "list_all P es" using onlyD [OF assms(2), of \<omega> s] es(1) by simp
  ultimately show thesis by (rule that)
qed

lemma always_callU: "always \<omega> [c] (callU c)"
  unfolding always_def by (auto simp: callU_run)

lemma always_then: "always \<omega> as m \<Longrightarrow> always \<omega> bs n \<Longrightarrow> always \<omega> (as @ bs) (bindM (tryM m) (\<lambda>_. n))"
  unfolding always_def
proof (intro allI)
  fix t
  assume m: "\<forall>t. \<exists>ds. snd (m \<omega> t) = t @ ds \<and> subseq as ds" and n: "\<forall>t. \<exists>ds. snd (n \<omega> t) = t @ ds \<and> subseq bs ds"
  obtain ds where ds: "snd (m \<omega> t) = t @ ds" "subseq as ds" using m by blast
  obtain es where "snd (n \<omega> (t @ ds)) = (t @ ds) @ es" "subseq bs es" using n by blast
  with ds show "\<exists>ds. snd (bindM (tryM m) (\<lambda>_. n) \<omega> t) = t @ ds \<and> subseq (as @ bs) ds"
    by (intro exI [of _ "ds @ es"]) (simp add: bindM_run list_emb_append_mono [of "(=)"])
qed

lemma onErrM_Inl_iff: "onErrM cleanup m \<omega> t = (Inl e, t') \<longleftrightarrow> (\<exists>s. m \<omega> t = (Inl e, s) \<and> t' = snd (cleanup \<omega> s))"
  unfolding onErrM_def by (cases "m \<omega> t"; cases "fst (m \<omega> t)") (auto simp: bindM_run)

text \<open>A cleanup on failure comes behind what the failure has taken back already.\<close>

lemma undone_onErrM:
  assumes m: "undone \<omega> C as m" and c: "always \<omega> bs cleanup" "only (\<lambda>c. \<not> C c) cleanup"
  shows "undone \<omega> C (as @ bs) (onErrM cleanup m)"
  unfolding undone_def
proof (intro allI impI)
  fix t e t'
  assume "onErrM cleanup m \<omega> t = (Inl e, t')"
  then obtain s where s: "m \<omega> t = (Inl e, s)" "t' = snd (cleanup \<omega> s)" unfolding onErrM_Inl_iff by blast
  obtain ds where ds: "s = t @ ds" "\<And>p c q. ds = p @ c # q \<Longrightarrow> C c \<Longrightarrow> \<omega> (t @ p) c = ROk \<Longrightarrow> subseq as q"
    using m s(1) unfolding undone_def by blast
  obtain es where es: "t' = s @ es" "subseq bs es" "list_all (\<lambda>c. \<not> C c) es"
    unfolding s(2) by (rule cleanup_calls [OF c])
  have "subseq (as @ bs) q" if eq: "ds @ es = p @ c # q" and C: "C c" "\<omega> (t @ p) c = ROk" for p c q
    using eq
  proof (cases rule: split_sequence)
    case (first q')
    then show ?thesis using ds(2) [OF first C] es(2) eq by (auto intro: list_emb_append_mono)
  next
    case (second p')
    then show ?thesis using es(3) C(1) by (auto simp: list_all_iff)
  qed
  then show "\<exists>ds. t' = t @ ds \<and> (\<forall>p c q. ds = p @ c # q \<longrightarrow> C c \<longrightarrow> \<omega> (t @ p) c = ROk \<longrightarrow> subseq (as @ bs) q)"
    using ds(1) es(1) by (intro exI [of _ "ds @ es"]) simp
qed

text \<open>A call of the kind itself, with its cleanup behind it.\<close>

lemma undone_call:
  fixes body :: "'a prog"
  assumes body: "only (\<lambda>c. \<not> C c) body" and c: "always \<omega> cs cleanup" "only (\<lambda>c. \<not> C c) cleanup"
  shows "undone \<omega> C cs (bindM (wrapM fmt as (callU c)) (\<lambda>_. onErrM cleanup body))"
  unfolding undone_def
proof (intro allI impI)
  fix t e t'
  assume run: "bindM (wrapM fmt as (callU c)) (\<lambda>_. onErrM cleanup body) \<omega> t = (Inl e, t')"
  show "\<exists>ds. t' = t @ ds \<and> (\<forall>p c q. ds = p @ c # q \<longrightarrow> C c \<longrightarrow> \<omega> (t @ p) c = ROk \<longrightarrow> subseq cs q)"
  proof (cases "\<omega> t c = ROk")
    case True
    then have "onErrM cleanup body \<omega> (t @ [c]) = (Inl e, t')" using run by (simp add: bindM_run callU_run)
    then obtain s where s: "body \<omega> (t @ [c]) = (Inl e, s)" "t' = snd (cleanup \<omega> s)" unfolding onErrM_Inl_iff by blast
    obtain ds where ds: "s = (t @ [c]) @ ds" "list_all (\<lambda>c. \<not> C c) ds" using onlyD [OF body, of \<omega> "t @ [c]"] s(1) by auto
    obtain es where es: "t' = s @ es" "subseq cs es" "list_all (\<lambda>c. \<not> C c) es"
      unfolding s(2) by (rule cleanup_calls [OF c])
    have "subseq cs q" if "c # ds @ es = p @ d # q" "C d" for p d q
    proof (cases p)
      case Nil
      then show ?thesis using that list_emb_append2 [OF es(2), of ds] by auto
    next
      case (Cons x p')
      then have "d \<in> set (ds @ es)" using that by auto
      then show ?thesis using ds(2) es(3) that(2) by (auto simp: list_all_iff)
    qed
    then show ?thesis using ds(1) es(1) by (intro exI [of _ "c # ds @ es"]) auto
  next
    case False
    then have "t' = t @ [c]" using run by (auto simp: bindM_run callU_run split: reply.splits)
    then show ?thesis using False by (auto simp: Cons_eq_append_conv)
  qed
qed

lemma undone_deferM:
  assumes m: "undone \<omega> C cs m" and c: "only (\<lambda>c. \<not> C c) cleanup"
  shows "undone \<omega> C cs (deferM cleanup m)"
  unfolding undone_def
proof (intro allI impI)
  fix t e t'
  assume "deferM cleanup m \<omega> t = (Inl e, t')"
  then obtain s where s: "m \<omega> t = (Inl e, s)" "t' = snd (cleanup \<omega> s)"
    by (cases "m \<omega> t") (auto simp: deferM_run)
  obtain ds where ds: "s = t @ ds" "\<And>p c q. ds = p @ c # q \<Longrightarrow> C c \<Longrightarrow> \<omega> (t @ p) c = ROk \<Longrightarrow> subseq cs q"
    using m s(1) unfolding undone_def by blast
  obtain es where es: "t' = s @ es" "list_all (\<lambda>c. \<not> C c) es" using onlyD [OF c, of \<omega> s] s(2) by blast
  have "subseq cs q" if eq: "ds @ es = p @ c # q" and C: "C c" "\<omega> (t @ p) c = ROk" for p c q
    using eq
  proof (cases rule: split_sequence)
    case (first q')
    then show ?thesis using ds(2) [OF first C] eq by (auto intro: list_emb_append2 subseq_order.trans)
  next
    case (second p')
    then show ?thesis using es(2) C(1) by (auto simp: list_all_iff)
  qed
  then show "\<exists>ds. t' = t @ ds \<and> (\<forall>p c q. ds = p @ c # q \<longrightarrow> C c \<longrightarrow> \<omega> (t @ p) c = ROk \<longrightarrow> subseq cs q)"
    using ds(1) es(1) by (intro exI [of _ "ds @ es"]) simp
qed

section \<open>The container of the monitor\<close>

definition creates :: "call \<Rightarrow> bool" where
  "creates c \<longleftrightarrow> (\<exists>r i config. c = Lib (LibCreate r i config))"

definition starts :: "call \<Rightarrow> bool" where
  "starts c \<longleftrightarrow> (\<exists>p. c = Lib (LibStart p))"

definition takes_back :: "call \<Rightarrow> bool" where
  "takes_back c \<longleftrightarrow> c \<in> {Lib LibDestroy, Lib LibKillInit, Lib LibWaitInit}"

text \<open>A call that neither makes nor takes back anything of the container.\<close>

definition plain :: "call \<Rightarrow> bool" where
  "plain c \<longleftrightarrow> \<not> creates c \<and> \<not> starts c \<and> \<not> takes_back c"

lemma plain_simps [simp]:
  "plain (Fs f)" "plain (Proc p)" "plain (Ird x)" "plain (Ipc y)" "plain (Lib LibState)"
  "plain (Lib (ConsoleDial s))" "plain (Lib ConsoleClose)" "plain (Lib ConsoleFile)"
  by (simp_all add: plain_def creates_def starts_def takes_back_def)

lemma creates_starts [simp]:
  "\<not> creates (Lib LibDestroy)" "\<not> creates (Lib LibKillInit)" "\<not> creates (Lib LibWaitInit)"
  "\<not> starts (Lib LibDestroy)" "\<not> starts (Lib LibKillInit)" "\<not> starts (Lib LibWaitInit)"
  "\<not> creates (Lib (LibStart p))" "\<not> starts (Lib (LibCreate r i config))"
  "\<not> takes_back (Lib (LibStart p))" "\<not> takes_back (Lib (LibCreate r i config))"
  by (simp_all add: creates_def starts_def takes_back_def)

lemma only_onErrM [only_intros]: "only P c \<Longrightarrow> only P m \<Longrightarrow> only P (onErrM c m)"
  unfolding onErrM_def by (intro only_intros)

lemma plain_parts:
  "only plain (BuildContainerConfig D s i b g)" "only plain (CreateReadyPipe b)" "only plain (monitorProcess D c u f)"
proof -
  have res: "only plain (loadMonitorResources D b)" for b
    unfolding loadMonitorResources_def by (intro only_intros) simp
  show "only plain (BuildContainerConfig D s i b g)" unfolding BuildContainerConfig_def by (intro only_intros res)
  show "only plain (CreateReadyPipe b)"
    unfolding CreateReadyPipe_def removeIfPresent_def Let_def by (intro only_intros; simp)
  have env: "only plain os_Environ" unfolding os_Environ_def by (intro only_intros) simp
  have caps: "only plain (MonitorCapabilities D s b)" for s b unfolding MonitorCapabilities_def by (intro only_intros res)
  show "only plain (monitorProcess D c u f)"
    unfolding monitorProcess_def Let_def by (intro only_intros caps env; simp)
qed

lemma plain_Create: "only plain (Create D u pid pf)"
  unfolding Create_def writePidFile_def saveContainerState_def Let_def by (intro only_intros) simp_all

lemma only_if_plain: "only plain m \<Longrightarrow> (\<And>c. plain c \<Longrightarrow> \<not> C c) \<Longrightarrow> only (\<lambda>c. \<not> C c) m"
  by (erule only_mono) blast

lemma not_plain: "plain c \<Longrightarrow> \<not> creates c" "plain c \<Longrightarrow> \<not> starts c" "plain c \<Longrightarrow> \<not> takes_back c"
  by (simp_all add: plain_def)

text \<open>The process is killed and waited for before the container goes.\<close>

lemma started_is_reaped: "undone \<omega> starts [Lib LibKillInit, Lib LibWaitInit] (startInContainer D c u process)"
  unfolding startInContainer_def
proof (rule undone_call)
  show "always \<omega> [Lib LibKillInit, Lib LibWaitInit] (bindM (tryM (callU (Lib LibKillInit))) (\<lambda>_. callU (Lib LibWaitInit)))"
    using always_then [OF always_callU always_callU] by simp
qed (intro only_intros only_if_plain [OF plain_Create]; simp add: not_plain)+

lemma created_is_destroyed: "undone \<omega> creates [Lib LibDestroy] (createContainer D c u)"
  unfolding createContainer_def
  by (intro undone_skip undone_call always_callU only_if_plain [OF plain_parts(1)])
    (auto intro!: only_intros only_if_plain [OF plain_Create] only_if_plain [OF plain_parts(2)] only_if_plain [OF plain_parts(3)]
      simp: not_plain startInContainer_def)

lemma reaped_before_destroyed:
  "undone \<omega> starts ([Lib LibKillInit, Lib LibWaitInit] @ [Lib LibDestroy]) (createContainer D c u)"
  unfolding createContainer_def
  by (intro undone_skip undone_onErrM undone_deferM started_is_reaped always_callU only_if_plain [OF plain_parts(1)]
      only_if_plain [OF plain_parts(2)] only_if_plain [OF plain_parts(3)])
    (auto intro!: only_intros simp: not_plain)

text \<open>A success takes nothing back.\<close>

definition succeeds_with :: "host \<Rightarrow> (call \<Rightarrow> bool) \<Rightarrow> 'a prog \<Rightarrow> bool" where
  "succeeds_with \<omega> P m \<longleftrightarrow> (\<forall>t x t'. m \<omega> t = (Inr x, t') \<longrightarrow> (\<exists>ds. t' = t @ ds \<and> list_all P ds))"

lemma succeeds_only: "only P m \<Longrightarrow> succeeds_with \<omega> P m"
  unfolding succeeds_with_def by (meson only_append)

lemma succeeds_bindM:
  "succeeds_with \<omega> P m \<Longrightarrow> (\<And>x. succeeds_with \<omega> P (f x)) \<Longrightarrow> succeeds_with \<omega> P (bindM m f)"
  unfolding succeeds_with_def by (fastforce simp: bindM_Inr_iff)

lemma succeeds_onErrM: "succeeds_with \<omega> P m \<Longrightarrow> succeeds_with \<omega> P (onErrM cleanup m)"
  unfolding succeeds_with_def onErrM_def
proof (intro allI impI)
  fix t x t'
  assume m: "\<forall>t x t'. m \<omega> t = (Inr x, t') \<longrightarrow> (\<exists>ds. t' = t @ ds \<and> list_all P ds)"
    and run: "bindM (tryM m) (\<lambda>r. case r of Inr x \<Rightarrow> retM x | Inl e \<Rightarrow> bindM (ignoreM cleanup) (\<lambda>_. failM e)) \<omega> t = (Inr x, t')"
  have "m \<omega> t = (Inr x, t')" using run by (cases "m \<omega> t"; cases "fst (m \<omega> t)") (auto simp: bindM_run)
  then show "\<exists>ds. t' = t @ ds \<and> list_all P ds" using m by blast
qed

lemma succeeds_deferM:
  assumes m: "succeeds_with \<omega> P m" and c: "only P cleanup"
  shows "succeeds_with \<omega> P (deferM cleanup m)"
  unfolding succeeds_with_def
proof (intro allI impI)
  fix t x t'
  assume "deferM cleanup m \<omega> t = (Inr x, t')"
  then obtain s where s: "m \<omega> t = (Inr x, s)" "t' = snd (cleanup \<omega> s)" by (cases "m \<omega> t") (auto simp: deferM_run)
  obtain ds where "s = t @ ds" "list_all P ds" using m s(1) unfolding succeeds_with_def by blast
  moreover obtain es where "t' = s @ es" "list_all P es" using onlyD [OF c, of \<omega> s] s(2) by blast
  ultimately show "\<exists>ds. t' = t @ ds \<and> list_all P ds" by (intro exI [of _ "ds @ es"]) simp
qed

lemma success_keeps: "succeeds_with \<omega> (\<lambda>c. \<not> takes_back c) (createContainer D c u)"
  unfolding createContainer_def startInContainer_def
  by (intro succeeds_bindM succeeds_onErrM succeeds_deferM succeeds_only only_if_plain [OF plain_parts(1)]
      only_if_plain [OF plain_parts(2)] only_if_plain [OF plain_parts(3)] only_if_plain [OF plain_Create] only_intros)
    (simp_all add: not_plain)

text \<open>
  C10: in the libcontainer mode a create that fails leaves no container behind, and one that succeeds
  keeps it. Whatever step fails, a container that was made is destroyed afterwards, and an init process
  that was started is first killed and waited for. A create that succeeds does none of this.
\<close>

theorem failed_create_leaves_no_container:
  assumes "runM (createContainer D c u) \<omega> = (r, pre @ Lib call # post)" "\<omega> pre (Lib call) = ROk"
  shows "(case r of Inl _ \<Rightarrow> True | Inr _ \<Rightarrow> \<forall>d \<in> set post. d \<notin> {Lib LibKillInit, Lib LibWaitInit, Lib LibDestroy}) \<and>
    (case (r, call) of
       (Inl _, LibCreate root cid config) \<Rightarrow> Lib LibDestroy \<in> set post
     | (Inl _, LibStart process) \<Rightarrow> subseq [Lib LibKillInit, Lib LibWaitInit, Lib LibDestroy] post
     | _ \<Rightarrow> True)"
proof (cases r)
  case (Inl e)
  note run = assms(1) [unfolded Inl]
  have "Lib LibDestroy \<in> set post" if "creates (Lib call)"
    using undone_run [OF created_is_destroyed run that assms(2)] by (simp add: subseq_singleton_left)
  moreover have "subseq [Lib LibKillInit, Lib LibWaitInit, Lib LibDestroy] post" if "starts (Lib call)"
    using undone_run [OF reaped_before_destroyed run that assms(2)] by simp
  ultimately show ?thesis using Inl by (auto simp: creates_def starts_def split: lib_call.split)
next
  case (Inr x)
  then have "list_all (\<lambda>c. \<not> takes_back c) (pre @ Lib call # post)"
    using assms(1) success_keeps [of \<omega> D c u] unfolding succeeds_with_def runM_def by fastforce
  then show ?thesis using Inr by (auto simp: list_all_iff takes_back_def)
qed

text \<open>A host on which the state of the started container cannot be read.\<close>

definition lib_deps :: "unit deps" where
  "lib_deps = sample_deps\<lparr>dp_specconv := (\<lambda>_ _ _. Inr \<lparr>lc_Seccomp = True, lc_DeviceRules = [], lc_Hooks = [], lc_Other = []\<rparr>)\<rparr>"

definition lib_host :: host where
  "lib_host t c = (case c of
      Proc Environ \<Rightarrow> RStrs [] | Lib LibState \<Rightarrow> RErr (Errno EINVAL) | _ \<Rightarrow> sample_host t c)"

theorem failed_create_leaves_no_container_witness:
  "\<exists>e pre process post. runM (createContainer lib_deps sample_command sample_container) lib_host =
       (Inl e, pre @ Lib (LibStart process) # post) \<and>
     subseq [Lib LibKillInit, Lib LibWaitInit, Lib LibDestroy] post"
proof -
  let ?run = "runM (createContainer lib_deps sample_command sample_container) lib_host"
  let ?process = "case snd ?run ! 7 of Lib (LibStart p) \<Rightarrow> p"
  have run: "fst ?run = Inl (ErrorfW ''failed to read the monitor's container state: %w'' [] (Errno EINVAL))"
    "snd ?run = take 7 (snd ?run) @ Lib (LibStart ?process) # drop 8 (snd ?run)"
    by code_simp+
  have ok: "lib_host (take 7 (snd ?run)) (Lib (LibStart ?process)) = ROk" by (simp add: lib_host_def sample_host_def)
  have "?run = (Inl (ErrorfW ''failed to read the monitor's container state: %w'' [] (Errno EINVAL)),
      take 7 (snd ?run) @ Lib (LibStart ?process) # drop 8 (snd ?run))"
    using run by (metis prod.collapse)
  moreover from failed_create_leaves_no_container [OF this ok]
  have "subseq [Lib LibKillInit, Lib LibWaitInit, Lib LibDestroy] (drop 8 (snd ?run))" by simp
  ultimately show ?thesis by blast
qed

end
