(* ===== verification/Network_Props.thy ===== *)
theory Network_Props
  imports Samples Call_Order
begin

text \<open>
  What delete does to the network: it enters the namespace of the container, takes away the tap devices
  that the set-up has made, with their filters and queueing disciplines, and goes back.
\<close>

section \<open>The names of tap devices\<close>

lemma takeWhile_digits:
  "list_all isDigit ds \<Longrightarrow> \<not> isDigit c \<Longrightarrow> takeWhile isDigit (ds @ c # s) = ds"
  by (induction ds) auto

lemma tapName_eq: "tapName s = ''tap'' @ s @ ''_urunc''"
  by (simp add: tapName_def DefaultTap_def)

text \<open>The cleanup knows every name that the set-up can give.\<close>

lemma tapRe_tapName: "tapRe (tapName (Itoa (int n)))"
proof -
  have ds: "list_all isDigit (FormatUint n)" "FormatUint n \<noteq> []"
    by simp_all
  have "takeWhile isDigit (FormatUint n @ ''_urunc'') = FormatUint n"
    using takeWhile_digits [OF ds(1), of "CHR ''_''" "''urunc''"] by (simp add: isDigit_def byte_def)
  then show ?thesis using ds by (simp add: tapRe_def tapName_eq Itoa_def HasPrefix_def Let_def numeral_eq_Suc)
qed

section \<open>The cleanup\<close>

text \<open>Calls that take nothing away, and the calls of a cleanup: devices only by their names, no change of namespace.\<close>

definition harmless :: "call \<Rightarrow> bool" where
  "harmless c = (case c of
      Net (LinkDel _) \<Rightarrow> False | Net (LinkSetDown _) \<Rightarrow> False | Net (QdiscDel _) \<Rightarrow> False | Net (FilterDel _) \<Rightarrow> False
    | _ \<Rightarrow> True)"

definition own_removal :: "call \<Rightarrow> bool" where
  "own_removal c = (case c of
      Net (LinkDel l) \<Rightarrow> tapRe (lk_Name l) | Net (LinkSetDown l) \<Rightarrow> tapRe (lk_Name l) | Net (Setns _) \<Rightarrow> False | _ \<Rightarrow> True)"

lemma own_discover: "only own_removal discoverContainerIface"
proof -
  have "only own_removal (iface_loop ls)" for ls
    by (induction ls rule: iface_loop.induct; unfold iface_loop.simps; (intro only_intros)?) (simp_all add: own_removal_def)
  then show ?thesis unfolding discoverContainerIface_def by (intro only_intros) (simp_all add: own_removal_def)
qed

lemma own_cleanupTap: "tapRe (lk_Name l) \<Longrightarrow> only own_removal (cleanupTap l)"
  unfolding cleanupTap_def deleteAllTCFilters_def deleteAllQDiscs_def deleteIngressQdisc_def deleteTapDevice_def
  by (intro only_intros own_discover) (simp_all add: own_removal_def)

lemma own_cleanup_loop: "only own_removal (cleanup_loop ls e)"
  by (induction ls e rule: cleanup_loop.induct; unfold cleanup_loop.simps; (intro only_intros own_cleanupTap)?) simp_all

lemma own_CleanupAllUruncTaps: "only own_removal CleanupAllUruncTaps"
  unfolding CleanupAllUruncTaps_def failSome_def
  by (intro only_intros own_cleanup_loop) (simp_all add: own_removal_def)

definition in_namespace :: "host \<Rightarrow> call list \<Rightarrow> string \<Rightarrow> call list \<Rightarrow> bool" where
  "in_namespace \<omega> t path ds \<longleftrightarrow> (\<exists>enter own leave.
     ds = enter @ Net (Setns path) # own @ Net (Setns selfNetNs) # leave \<and>
     \<omega> (t @ enter) (Net (Setns path)) = ROk \<and> list_all harmless (enter @ leave) \<and> list_all own_removal own)"

text \<open>The steps in the namespace of the container, behind the change into it.\<close>

lemma removeTaps_inside:
  "\<exists>own. snd (bindM (tryM CleanupAllUruncTaps) (\<lambda>r.
       bindM (tryM (wrapM fmt [] (callU (Net (Setns selfNetNs))))) (\<lambda>b.
         failSome (errors_Join (errOf r) (errOf b)))) \<omega> t) = t @ own @ [Net (Setns selfNetNs)] \<and> list_all own_removal own"
proof -
  obtain r own where "CleanupAllUruncTaps \<omega> t = (r, t @ own)" "list_all own_removal own"
    using only_result [OF own_CleanupAllUruncTaps] by blast
  then show ?thesis
    by (intro exI [of _ own]) (simp add: bindM_run callU_run failSome_def split: option.split)
qed

lemma removeTaps_cases:
  "\<exists>ds. snd (removeTapsInNetNs path \<omega> t) = t @ ds \<and> (list_all harmless ds \<or> in_namespace \<omega> t path ds)"
proof -
  let ?self = "Net (OpenNs selfNetNs)" and ?ns = "Net (OpenNs path)" and ?set = "Net (Setns path)"
  let ?t = "t @ [?self, ?ns]"
  obtain own where own: "snd (bindM (tryM CleanupAllUruncTaps) (\<lambda>r.
       bindM (tryM (wrapM ''error returning to the original network namespace: %w'' [] (callU (Net (Setns selfNetNs))))) (\<lambda>b.
         failSome (errors_Join (errOf r) (errOf b)))) \<omega> (?t @ [?set])) = (?t @ [?set]) @ own @ [Net (Setns selfNetNs)]"
    "list_all own_removal own"
    using removeTaps_inside [where t = "?t @ [?set]"] by blast
  show ?thesis
  proof (cases "\<omega> t ?self = ROk \<and> \<omega> (t @ [?self]) ?ns = ROk \<and> \<omega> ?t ?set = ROk")
    case True
    have "snd (removeTapsInNetNs path \<omega> t) = t @ [?self, ?ns] @ ?set # own @ Net (Setns selfNetNs) #
        [Net (CloseNs path), Net (CloseNs selfNetNs)]"
      using True own(1) by (simp add: removeTapsInNetNs_def bindM_run deferM_run callU_run)
    moreover have "in_namespace \<omega> t path ([?self, ?ns] @ ?set # own @ Net (Setns selfNetNs) #
        [Net (CloseNs path), Net (CloseNs selfNetNs)])"
      unfolding in_namespace_def using True own(2)
      by (intro exI [of _ "[?self, ?ns]"] exI [of _ own] exI [of _ "[Net (CloseNs path), Net (CloseNs selfNetNs)]"])
        (simp add: harmless_def)
    ultimately show ?thesis by blast
  next
    case False
    then have "\<exists>ds. snd (removeTapsInNetNs path \<omega> t) = t @ ds \<and> list_all harmless ds"
      by (auto simp: removeTapsInNetNs_def bindM_run deferM_run callU_run harmless_def split: reply.splits)
    then show ?thesis by blast
  qed
qed

definition network_path :: "OciNamespace list \<Rightarrow> string" where
  "network_path ns = (case find (\<lambda>n. Ns_Type n = ''network'') ns of None \<Rightarrow> [] | Some n \<Rightarrow> Ns_Path n)"


definition tap_host :: host where
  "tap_host t c = (case c of
      Net LinkList \<Rightarrow> RLinks [Some \<lparr>lk_Name = ''eth0'', lk_Index = 1, lk_Loopback = False, lk_MTU = 1500, lk_MAC = []\<rparr>,
        Some \<lparr>lk_Name = ''tap0_urunc'', lk_Index = 2, lk_Loopback = False, lk_MTU = 1500, lk_MAC = []\<rparr>]
    | Fs (Lstat p) \<Rightarrow> RStat \<lparr>st_mode = 0, st_uid = 0, st_gid = 0, st_major = 0, st_minor = 0, st_size = 0, st_mtime = (0, 0)\<rparr>
    | _ \<Rightarrow> sample_host t c)"


end
