(* ===== verification/Volumes_Props.thy ===== *)
theory Volumes_Props
  imports Blocks Samples Call_Order
begin

text \<open>
  Volumes: the mounts of the host that create takes away, so that their devices can be given to the
  guest, are those that delete puts back.
\<close>

section \<open>Taking volumes\<close>

definition is_unmount :: "call \<Rightarrow> bool" where
  "is_unmount c \<longleftrightarrow> (\<exists>target f. c = Mnt (Unmount target f))"

lemma is_unmount_simps [simp]:
  "is_unmount (Mnt (Unmount target f))" "\<not> is_unmount (Mnt GetMounts)" "\<not> is_unmount (Fs x)" "\<not> is_unmount (Ird y)"
  "\<not> is_unmount (Mnt (LoopStat s))" "\<not> is_unmount (Mnt (LoopSetFlags s n))" "\<not> is_unmount (Proc a)"
  by (simp_all add: is_unmount_def)

text \<open>What is known of the mount at \<open>target\<close> from a list of mounts that was read earlier.\<close>

definition read_before :: "host \<Rightarrow> call list \<Rightarrow> call list \<Rightarrow> string \<Rightarrow> BlockDevParams \<Rightarrow> bool" where
  "read_before \<omega> t p target d \<longleftrightarrow>
     (\<exists>entries p1 p2. p = p1 @ Mnt GetMounts # p2 \<and> \<omega> (t @ p1) (Mnt GetMounts) = RMounts entries \<and>
        findMountInfo entries target = Inr d)"

lemma read_before_later: "read_before \<omega> (t @ ds) p target d \<Longrightarrow> read_before \<omega> t (ds @ p) target d"
  unfolding read_before_def by (metis append.assoc)

text \<open>The volume that stands for the mount.\<close>

definition volume_of :: "BlockDevParams \<Rightarrow> string \<Rightarrow> BlockDevParams \<Rightarrow> bool" where
  "volume_of d target v \<longleftrightarrow> Blk_HostMountPoint v = target \<and> Blk_Source v = Blk_Source d \<and>
     Blk_FsType v = Blk_FsType d \<and> Blk_MountOptions v = Blk_MountOptions d"

definition taken :: "host \<Rightarrow> Unikernel \<Rightarrow> BlockDevParams list \<Rightarrow> call list \<Rightarrow> call list \<Rightarrow> bool" where
  "taken \<omega> uk vols t ds \<longleftrightarrow>
     (\<forall>p target f q. ds = p @ Mnt (Unmount target f) # q \<longrightarrow> \<omega> (t @ p) (Mnt (Unmount target f)) = ROk \<longrightarrow>
        (\<exists>d v. v \<in> set vols \<and> volume_of d target v \<and> uk_SupportsFS uk (Blk_FsType d) \<and> read_before \<omega> t p target d))"

lemma taken_quiet: "list_all (\<lambda>c. \<not> is_unmount c) ds \<Longrightarrow> taken \<omega> uk vols t ds"
  unfolding taken_def by (auto simp: list_all_iff)

lemma taken_later:
  assumes "list_all (\<lambda>c. \<not> is_unmount c) as" "taken \<omega> uk vols (t @ as) ds"
  shows "taken \<omega> uk vols t (as @ ds)"
  unfolding taken_def
proof (intro allI impI)
  fix p target f q
  assume eq: "as @ ds = p @ Mnt (Unmount target f) # q" and ok: "\<omega> (t @ p) (Mnt (Unmount target f)) = ROk"
  obtain p' where p': "p = as @ p'" "ds = p' @ Mnt (Unmount target f) # q"
    using split_after [OF eq assms(1)] by auto
  then obtain d v where "v \<in> set vols" "volume_of d target v" "uk_SupportsFS uk (Blk_FsType d)" "read_before \<omega> (t @ as) p' target d"
    using assms(2) ok unfolding taken_def by (metis append.assoc)
  then show "\<exists>d v. v \<in> set vols \<and> volume_of d target v \<and> uk_SupportsFS uk (Blk_FsType d) \<and> read_before \<omega> t p target d"
    using read_before_later p'(1) by blast
qed

lemma only_unmount_loop: "only (\<lambda>c. c = Mnt (Unmount target 0) \<or> \<not> is_unmount c) (unmount_loop n target)"
proof (induction n)
  case (Suc n)
  then show ?case unfolding unmount_loop.simps by (intro only_intros) simp_all
qed (unfold unmount_loop.simps, rule only_failM)

lemma only_setLoopAutoclear: "only (\<lambda>c. \<not> is_unmount c) (setLoopAutoclear dev b)"
  unfolding setLoopAutoclear_def Let_def by (intro only_intros; simp)

lemma getMountInfo_run:
  "getMountInfo path \<omega> t = (r, t') \<Longrightarrow> t' = t @ [Mnt GetMounts] \<and>
     (\<forall>d. r = Inr d \<longrightarrow> (\<exists>entries. \<omega> t (Mnt GetMounts) = RMounts entries \<and> findMountInfo entries path = Inr d))"
  by (auto simp: getMountInfo_def bindM_run callMounts_run split: reply.splits sum.splits)

lemma findMountInfo_path: "findMountInfo entries path = Inr d \<Longrightarrow> Blk_MountPoint d = path"
proof -
  have inv: "\<forall>e s. fold (mountInfoStep path) entries (b, s0) = (e, s) \<longrightarrow>
      (Blk_Source b = [] \<or> Blk_MountPoint b = path) \<longrightarrow> (Blk_Source e = [] \<or> Blk_MountPoint e = path)" for b s0
    by (induction entries arbitrary: b s0) (auto simp: mountInfoStep_def blockOf_def)
  assume "findMountInfo entries path = Inr d"
  then show ?thesis using inv [of zeroBlock "{}"]
    by (auto simp: findMountInfo_def zeroBlock_def split: prod.splits if_splits)
qed

text \<open>One volume: the mounts are read, the mount is taken away, and the other volumes follow.\<close>

lemma taken_here:
  assumes as: "list_all (\<lambda>c. \<not> is_unmount c) as"
    and us: "list_all (\<lambda>c. c = Mnt (Unmount target 0) \<or> \<not> is_unmount c) us"
    and d: "\<omega> t (Mnt GetMounts) = RMounts entries" "findMountInfo entries target = Inr d"
    and v: "volume_of d target v" "uk_SupportsFS uk (Blk_FsType d)"
    and rs: "taken \<omega> uk vols (t @ Mnt GetMounts # as @ us) rs"
  shows "taken \<omega> uk (v # vols) t (Mnt GetMounts # as @ us @ rs)"
  unfolding taken_def
proof (intro allI impI)
  fix p target' f q
  assume eq: "Mnt GetMounts # as @ us @ rs = p @ Mnt (Unmount target' f) # q"
    and ok: "\<omega> (t @ p) (Mnt (Unmount target' f)) = ROk"
  have "list_all (\<lambda>c. \<not> is_unmount c) (Mnt GetMounts # as)" using as by simp
  moreover have "(Mnt GetMounts # as) @ (us @ rs) = p @ Mnt (Unmount target' f) # q" using eq by simp
  ultimately obtain p' where p': "p = (Mnt GetMounts # as) @ p'" "us @ rs = p' @ Mnt (Unmount target' f) # q"
    using split_after by (metis is_unmount_simps(1))
  from p'(2)
  show "\<exists>d' v'. v' \<in> set (v # vols) \<and> volume_of d' target' v' \<and> uk_SupportsFS uk (Blk_FsType d') \<and> read_before \<omega> t p target' d'"
  proof (cases rule: split_sequence)
    case (first q')
    then have "target' = target" using us by (auto simp: is_unmount_def)
    moreover have "read_before \<omega> t p target d"
      unfolding read_before_def using d p'(1) by (intro exI [of _ entries] exI [of _ "[]"] exI [of _ "as @ p'"]) simp
    ultimately show ?thesis using v by auto
  next
    case (second p'')
    then have "p = (Mnt GetMounts # as @ us) @ p''" using p'(1) by simp
    moreover obtain d' v' where "v' \<in> set vols" "volume_of d' target' v'" "uk_SupportsFS uk (Blk_FsType d')"
      "read_before \<omega> (t @ Mnt GetMounts # as @ us) p'' target' d'"
      using rs second(2) ok calculation unfolding taken_def by (metis append.assoc)
    ultimately show ?thesis using read_before_later by (metis list.set_intros(2))
  qed
qed

lemma volumes_are_taken:
  "volumes_loop i ms uk \<omega> t = (Inr vols, t') \<Longrightarrow> \<exists>ds. t' = t @ ds \<and> taken \<omega> uk vols t ds"
proof (induction ms arbitrary: i t vols t')
  case Nil
  then show ?case by (auto simp: taken_def)
next
  case (Cons m ms)
  let ?g = "getMountInfo (M_Source m)"
  obtain r where g: "?g \<omega> t = (r, t @ [Mnt GetMounts])"
    using getMountInfo_run by (metis surj_pair)
  have quiet: "list_all (\<lambda>c. \<not> is_unmount c) [Mnt GetMounts]" by simp
  show ?case
  proof (cases "\<exists>d. r = Inr d \<and> uk_SupportsFS uk (Blk_FsType d)")
    case False
    then have "volumes_loop (Suc i) ms uk \<omega> (t @ [Mnt GetMounts]) = (Inr vols, t')"
      using Cons.prems g by (auto simp: bindM_run split: sum.splits if_splits)
    then obtain ds where "t' = (t @ [Mnt GetMounts]) @ ds" "taken \<omega> uk vols (t @ [Mnt GetMounts]) ds"
      using Cons.IH by blast
    then show ?thesis using taken_later [OF quiet] by (intro exI [of _ "[Mnt GetMounts] @ ds"]) simp
  next
    case True
    then obtain d where d: "r = Inr d" "uk_SupportsFS uk (Blk_FsType d)" by blast
    have mp: "Blk_MountPoint d = M_Source m"
      and e: "\<exists>entries. \<omega> t (Mnt GetMounts) = RMounts entries \<and> findMountInfo entries (M_Source m) = Inr d"
      using getMountInfo_run [OF g] d(1) findMountInfo_path by auto
    let ?t1 = "t @ [Mnt GetMounts]"
    let ?vol = "\<lambda>cleared. d\<lparr>Blk_LoopAutoclear := cleared, Blk_ID := ''vol'' @ FormatUint i,
      Blk_HostMountPoint := Blk_MountPoint d, Blk_MountPoint := M_Destination m, Blk_IsExplicit := False\<rparr>"
    have "bindM (setLoopAutoclear (Blk_Source d) False) (\<lambda>cleared. bindM (unmount (Blk_MountPoint d)) (\<lambda>_.
        bindM (volumes_loop (Suc i) ms uk) (\<lambda>blkImgs. retM (?vol cleared # blkImgs)))) \<omega> ?t1 = (Inr vols, t')"
      using Cons.prems g d by (simp add: bindM_run)
    then obtain cleared t2 where c: "setLoopAutoclear (Blk_Source d) False \<omega> ?t1 = (Inr cleared, t2)"
      and run2: "bindM (unmount (Blk_MountPoint d)) (\<lambda>_. bindM (volumes_loop (Suc i) ms uk) (\<lambda>blkImgs.
          retM (?vol cleared # blkImgs))) \<omega> t2 = (Inr vols, t')"
      unfolding bindM_Inr_iff [of "setLoopAutoclear (Blk_Source d) False"] by blast
    obtain as where as: "t2 = ?t1 @ as" "list_all (\<lambda>c. \<not> is_unmount c) as"
      using onlyD [OF only_setLoopAutoclear, of "Blk_Source d" False \<omega> ?t1] c by auto
    obtain t3 where u: "unmount (Blk_MountPoint d) \<omega> t2 = (Inr (), t3)"
      using run2 unfolding bindM_Inr_iff [of "unmount (Blk_MountPoint d)"] by auto
    obtain us where us: "t3 = t2 @ us" "list_all (\<lambda>c. c = Mnt (Unmount (M_Source m) 0) \<or> \<not> is_unmount c) us"
      using onlyD [OF only_unmount_loop, of 10 "M_Source m" \<omega> t2] u unfolding unmount_def mp by auto
    obtain vs where vs: "volumes_loop (Suc i) ms uk \<omega> t3 = (Inr vs, t')"
      "vols = ?vol cleared # vs"
      using run2 u by (auto simp: bindM_Inr_iff)
    obtain rs where rs: "t' = t3 @ rs" "taken \<omega> uk vs t3 rs" using Cons.IH [OF vs(1)] by blast
    have "t' = t @ Mnt GetMounts # as @ us @ rs" using rs(1) us(1) as(1) by simp
    moreover have "taken \<omega> uk vols t (Mnt GetMounts # as @ us @ rs)"
      unfolding vs(2) using e by (elim exE conjE) (rule taken_here [OF as(2) us(2)],
        use d(2) mp rs(2) us(1) as(1) in \<open>auto simp: volume_of_def\<close>)
    ultimately show ?thesis by blast
  qed
qed

section \<open>Giving them back\<close>

text \<open>The flags of a remount, from the options that the list of mounts shows.\<close>

definition remount_flags :: "BlockDevParams \<Rightarrow> nat" where
  "remount_flags d = unat (fold vfsOptionStep (Split (CHR '','') (Blk_MountOptions d)) 0)"

text \<open>Something is mounted at the target again: it was there, or the device of \<open>d\<close> has been mounted.\<close>

definition given_back :: "string \<Rightarrow> BlockDevParams \<Rightarrow> call \<Rightarrow> reply \<Rightarrow> bool" where
  "given_back target d c r \<longleftrightarrow>
     c = Mnt (Mounted target) \<and> r = RBool True \<or>
     c = Mnt (Mount (Blk_Source d) target (Blk_FsType d) (remount_flags d) []) \<and> r = ROk"

lemma restoreVolume_gives:
  assumes "restoreVolume v \<omega> s = (Inr x, s')" "Blk_HostMountPoint v \<noteq> []"
  shows "\<exists>es. s' = s @ es \<and> met \<omega> (given_back (Blk_HostMountPoint v) v) s es"
proof -
  let ?mp = "Blk_HostMountPoint v"
  let ?m = "Mnt (Mount (Blk_Source v) ?mp (Blk_FsType v) (remount_flags v) [])"
  obtain b where b: "\<omega> s (Mnt (Mounted ?mp)) = RBool b"
    using assms by (auto simp: restoreVolume_def bindM_run callB_run split: reply.splits)
  show ?thesis
  proof (cases b)
    case True
    then have "s' = s @ [Mnt (Mounted ?mp)]" using assms b by (simp add: restoreVolume_def bindM_run callB_run)
    then show ?thesis using b True
      by (intro exI [of _ "[Mnt (Mounted ?mp)]"]) (auto simp: met_def given_back_def Cons_eq_append_conv)
  next
    case False
    let ?rest = "if Blk_LoopAutoclear v then bindM (setLoopAutoclear (Blk_Source v) True) (\<lambda>_. retM ()) else retM ()"
    have ok: "\<omega> (s @ [Mnt (Mounted ?mp)]) ?m = ROk" and run: "?rest \<omega> (s @ [Mnt (Mounted ?mp), ?m]) = (Inr x, s')"
      using assms b False
      by (auto simp: restoreVolume_def bindM_run callB_run callU_run remount_flags_def Let_def split: reply.splits)
    have "only (\<lambda>_. True) ?rest" by (intro only_intros only_any [OF only_setLoopAutoclear])
    then obtain es where es: "s' = (s @ [Mnt (Mounted ?mp), ?m]) @ es" using onlyD run by (metis snd_conv)
    have "met \<omega> (given_back ?mp v) s ([Mnt (Mounted ?mp), ?m] @ es)"
      unfolding met_def using ok by (intro exI [of _ "[Mnt (Mounted ?mp)]"] exI [of _ ?m] exI [of _ es])
        (simp add: given_back_def)
    then show ?thesis using es by auto
  qed
qed

lemma only_restoreVolume: "only (\<lambda>_. True) (restoreVolume v)"
  unfolding restoreVolume_def Let_def
  by (intro only_intros only_any [OF only_setLoopAutoclear]) simp_all

lemma restoreBlockVolumes_gives:
  "restoreBlockVolumes vs \<omega> s = (Inr x, s') \<Longrightarrow> v \<in> set vs \<Longrightarrow> Blk_HostMountPoint v \<noteq> [] \<Longrightarrow>
     \<exists>es. s' = s @ es \<and> met \<omega> (given_back (Blk_HostMountPoint v) v) s es"
  unfolding restoreBlockVolumes_def
proof (induction vs arbitrary: s x)
  case (Cons w vs)
  then obtain y s1 where w: "restoreVolume w \<omega> s = (Inr y, s1)" and vs: "forM vs restoreVolume \<omega> s1 = (Inr x, s')"
    by (auto simp: bindM_Inr_iff)
  have "only (\<lambda>_. True) (forM vs restoreVolume)" by (intro only_intros only_restoreVolume)
  then obtain es where es: "s' = s1 @ es" using onlyD vs by (metis snd_conv)
  obtain ds where ds: "s1 = s @ ds" using onlyD [OF only_restoreVolume, of w \<omega> s] w by auto
  show ?case
  proof (cases "v = w")
    case True
    then show ?thesis using restoreVolume_gives [OF w] Cons.prems(3) es met_more by fastforce
  next
    case False
    then have "v \<in> set vs" using Cons.prems(2) by simp
    then obtain es' where "s' = s1 @ es'" "met \<omega> (given_back (Blk_HostMountPoint v) v) s1 es'"
      using Cons.IH [OF vs] Cons.prems(3) by blast
    then show ?thesis using ds met_later by (intro exI [of _ "ds @ es'"]) simp
  qed
qed simp

text \<open>
  C11: what create takes from the host, delete gives back. When the volumes of a container have been
  collected, every mount that was taken away was one whose device the guest can use, known from a list
  of mounts read before; and when the volumes are restored, in whatever later state of the world,
  without an error, then for each of them either something is mounted there or the same device has been
  mounted at the same place with the same file system and the flags of its options.
\<close>

theorem volumes_are_given_back:
  assumes "getBlockVolumes ms uk \<omega> t = (Inr vols, t @ ds)" "restoreBlockVolumes vols \<omega>' s = (Inr (), s @ es)"
    and "ds = p @ Mnt (Unmount target f) # q" "\<omega> (t @ p) (Mnt (Unmount target f)) = ROk" "target \<noteq> []"
  shows "\<exists>d. uk_SupportsFS uk (Blk_FsType d) \<and> read_before \<omega> t p target d \<and> met \<omega>' (given_back target d) s es"
proof -
  have "taken \<omega> uk vols t ds" using volumes_are_taken assms(1) unfolding getBlockVolumes_def by blast
  then obtain d v where d: "v \<in> set vols" "volume_of d target v" "uk_SupportsFS uk (Blk_FsType d)" "read_before \<omega> t p target d"
    using assms(3,4) unfolding taken_def by blast
  then have "met \<omega>' (given_back target v) s es"
    using restoreBlockVolumes_gives [OF assms(2) d(1)] assms(5) by (auto simp: volume_of_def)
  moreover have "given_back target v = given_back target d"
    using d(2) by (auto simp: given_back_def remount_flags_def volume_of_def fun_eq_iff)
  ultimately show ?thesis using d by auto
qed

text \<open>A volume on a loop device, and a host that has it mounted until it is taken away.\<close>

definition volume_host :: host where
  "volume_host t c = (case c of
      Mnt GetMounts \<Rightarrow> RMounts [\<lparr>mi_Mountpoint = ''/v'', mi_Source = ''/dev/sdb'', mi_FSType = ''ext4'', mi_Options = ''ro,noexec''\<rparr>]
    | Mnt (Mounted p) \<Rightarrow> RBool False
    | Fs (Stat p) \<Rightarrow> RErr (Errno ENOENT)
    | _ \<Rightarrow> ROk)"

definition volume_mounts :: "OciMount list" where
  "volume_mounts = [\<lparr>M_Destination = ''/data'', M_Type = ''bind'', M_Source = ''/v'', M_Options = []\<rparr>]"

theorem volumes_are_given_back_witness:
  "\<exists>vols d es. fst (getBlockVolumes volume_mounts (ULinux newLinux) volume_host []) = Inr vols \<and>
     restoreBlockVolumes vols volume_host [] = (Inr (), es) \<and> Blk_Source d = ''/dev/sdb'' \<and>
     met volume_host (given_back ''/v'' d) [] es \<and> Mnt (Mount ''/dev/sdb'' ''/v'' ''ext4'' 9 []) \<in> set es"
proof -
  let ?ms = volume_mounts
  let ?vols = "case fst (getBlockVolumes ?ms (ULinux newLinux) volume_host []) of Inr vols \<Rightarrow> vols"
  let ?as = "[Mnt GetMounts, Fs (Stat ''/sys/class/block/sdb/loop'')]"
  let ?es = "[Mnt (Mounted ''/v''), Mnt (Mount ''/dev/sdb'' ''/v'' ''ext4'' 9 [])]"
  have g0: "fst (getBlockVolumes ?ms (ULinux newLinux) volume_host []) = Inr ?vols"
    "snd (getBlockVolumes ?ms (ULinux newLinux) volume_host []) = ?as @ Mnt (Unmount ''/v'' 0) # []"
    by code_simp+
  then have g: "getBlockVolumes ?ms (ULinux newLinux) volume_host [] = (Inr ?vols, [] @ (?as @ Mnt (Unmount ''/v'' 0) # []))"
    by (metis prod.collapse append_Nil)
  have "fst (restoreBlockVolumes ?vols volume_host []) = Inr ()" "snd (restoreBlockVolumes ?vols volume_host []) = ?es"
    by code_simp+
  then have r: "restoreBlockVolumes ?vols volume_host [] = (Inr (), [] @ ?es)" by (metis prod.collapse append_Nil)
  have "volume_host ([] @ ?as) (Mnt (Unmount ''/v'' 0)) = ROk" by (simp add: volume_host_def)
  then obtain d where d: "read_before volume_host [] ?as ''/v'' d" "met volume_host (given_back ''/v'' d) [] ?es"
    using volumes_are_given_back [OF g r refl] by auto
  have "Blk_Source d = ''/dev/sdb''"
    using d(1) by (auto simp: read_before_def Cons_eq_append_conv volume_host_def findMountInfo_def mountInfoStep_def blockOf_def
        zeroBlock_def)
  then show ?thesis using g0(1) r [unfolded append_Nil] d(2)
    by (intro exI [of _ ?vols] exI [of _ d] exI [of _ ?es] conjI) (assumption | simp only: list.set_intros)+
qed

text \<open>
  A collection that fails says nothing of the mounts it has taken away already, and its caller ends the
  create with the error before anything is saved for delete: they stay away. Here the list of mounts
  cannot be read for a second volume.
\<close>

definition failing_host :: host where
  "failing_host t c =
     (if c = Mnt GetMounts \<and> Mnt (Unmount ''/v'' 0) \<in> set t then RErr (Errno ENOENT) else volume_host t c)"

theorem failed_collection_loses_volumes:
  "\<exists>e. runM (getBlockVolumes (volume_mounts @ volume_mounts) (ULinux newLinux)) failing_host =
     (Inl e, [Mnt GetMounts, Fs (Stat ''/sys/class/block/sdb/loop''), Mnt (Unmount ''/v'' 0), Mnt GetMounts])"
proof -
  let ?run = "runM (getBlockVolumes (volume_mounts @ volume_mounts) (ULinux newLinux)) failing_host"
  have "fst ?run = Inl (ErrorfW ''failed to read mountinfo: %w'' [] (Errno ENOENT))"
    "snd ?run = [Mnt GetMounts, Fs (Stat ''/sys/class/block/sdb/loop''), Mnt (Unmount ''/v'' 0), Mnt GetMounts]"
    by code_simp+
  then show ?thesis by (metis prod.collapse)
qed

end
