(* ===== verification/Cli_Flags.thy ===== *)
theory Cli_Flags
  imports Cli
begin

text \<open>
  The flags and commands that urunc declares to the cli package, \<open>cmd/urunc\<close>, and the command lines
  that it builds for itself: create starts the process that becomes the monitor as another invocation
  of urunc, so what it passes has to be what the tables declare. The reading of a command line is the
  package's; help texts are left out.
\<close>

section \<open>The tables\<close>

datatype flagKind = BoolFlag | StringFlag string

record cliFlag =
  Fl_Name :: string
  Fl_Aliases :: "string list"
  Fl_Kind :: flagKind

record cliDecl =
  Cd_Name :: string
  Cd_Hidden :: bool
  Cd_Flags :: "cliFlag list"

abbreviation boolFlag :: "string \<Rightarrow> string list \<Rightarrow> cliFlag" where
  "boolFlag name aliases \<equiv> \<lparr>Fl_Name = name, Fl_Aliases = aliases, Fl_Kind = BoolFlag\<rparr>"

abbreviation stringFlag :: "string \<Rightarrow> string list \<Rightarrow> string \<Rightarrow> cliFlag" where
  "stringFlag name aliases val \<equiv> \<lparr>Fl_Name = name, Fl_Aliases = aliases, Fl_Kind = StringFlag val\<rparr>"

definition createDecl :: cliDecl where
  "createDecl = \<lparr>Cd_Name = ''create'', Cd_Hidden = False, Cd_Flags =
     [stringFlag ''bundle'' [''b''] [], stringFlag ''console-socket'' [] [], stringFlag ''pid-file'' [] [],
      boolFlag ''reexec'' []]\<rparr>"

definition deleteDecl :: cliDecl where
  "deleteDecl = \<lparr>Cd_Name = ''delete'', Cd_Hidden = False, Cd_Flags = [boolFlag ''force'' [''f'']]\<rparr>"

definition killDecl :: cliDecl where
  "killDecl = \<lparr>Cd_Name = ''kill'', Cd_Hidden = False, Cd_Flags = [boolFlag ''all'' [''a'']]\<rparr>"

definition monitorDecl :: cliDecl where
  "monitorDecl = \<lparr>Cd_Name = monitorArgv, Cd_Hidden = True, Cd_Flags = []\<rparr>"

definition runDecl :: cliDecl where
  "runDecl = \<lparr>Cd_Name = ''run'', Cd_Hidden = False, Cd_Flags =
     [stringFlag ''bundle'' [''b''] [], stringFlag ''console-socket'' [] [], stringFlag ''pid-file'' [] []]\<rparr>"

definition psDecl :: cliDecl where
  "psDecl = \<lparr>Cd_Name = ''ps'', Cd_Hidden = False, Cd_Flags = [stringFlag ''format'' [''f''] ''table'']\<rparr>"

definition startDecl :: cliDecl where
  "startDecl = \<lparr>Cd_Name = ''start'', Cd_Hidden = False, Cd_Flags = []\<rparr>"

definition globalFlags :: "cliFlag list" where
  "globalFlags =
     [boolFlag ''debug'' [], stringFlag ''log'' [] [], stringFlag ''log-format'' [] ''text'',
      stringFlag ''root'' [] ''/run/urunc'', boolFlag ''systemd-cgroup'' [], stringFlag ''rootless'' [] ''auto'']"

definition uruncCommands :: "cliDecl list" where
  "uruncCommands = [createDecl, deleteDecl, killDecl, monitorDecl, runDecl, psDecl, startDecl]"

section \<open>Well-formed command lines\<close>

text \<open>\<open>flagged fs args rest\<close>: the arguments \<open>args\<close> are flags of \<open>fs\<close>, each with the value it needs, and \<open>rest\<close>.\<close>

inductive flagged :: "cliFlag list \<Rightarrow> string list \<Rightarrow> string list \<Rightarrow> bool" for fs where
  no_flag: "flagged fs rest rest"
| bool_flag: "f \<in> set fs \<Longrightarrow> Fl_Kind f = BoolFlag \<Longrightarrow> flagged fs args rest \<Longrightarrow> flagged fs ((''--'' @ Fl_Name f) # args) rest"
| string_flag: "f \<in> set fs \<Longrightarrow> Fl_Kind f = StringFlag d \<Longrightarrow> flagged fs args rest \<Longrightarrow>
    flagged fs ((''--'' @ Fl_Name f) # v # args) rest"

text \<open>No two flags of a command, nor a flag of a command and a global one, share a name or an alias.\<close>

definition flagNames :: "cliFlag list \<Rightarrow> string list" where
  "flagNames fs = concat (map (\<lambda>f. Fl_Name f # Fl_Aliases f) fs)"

lemma flags_distinct: "\<forall>d \<in> set uruncCommands. distinct (flagNames (globalFlags @ Cd_Flags d))"
  by code_simp

lemma commands_distinct: "distinct (map Cd_Name uruncCommands)"
  by code_simp

text \<open>
  What create starts as the monitor process is the command \<open>monitor\<close> with global flags in front, and the
  flag it appends for the reexec process is one that create declares.
\<close>

lemma monitor_command_line:
  "\<exists>args. buildMonitorArgs logLevel cid logFormat = ''/proc/self/exe'' # args \<and> flagged globalFlags args [Cd_Name monitorDecl, cid]"
proof -
  let ?rest = "[Cd_Name monitorDecl, cid]"
  have f: "flagged globalFlags (if logFormat \<noteq> [] then [''--log-format'', logFormat] @ ?rest else ?rest) ?rest"
    using flagged.string_flag [of "stringFlag ''log-format'' [] ''text''" globalFlags "''text''" ?rest ?rest logFormat]
    by (auto simp: globalFlags_def intro: flagged.no_flag)
  have "flagged globalFlags ((if logLevel \<ge> 5 then [''--debug''] else []) @
      (if logFormat \<noteq> [] then [''--log-format'', logFormat] @ ?rest else ?rest)) ?rest"
    using flagged.bool_flag [of "boolFlag ''debug'' []" globalFlags, OF _ _ f] f by (auto simp: globalFlags_def)
  then show ?thesis by (auto simp: buildMonitorArgs_def monitorDecl_def split: if_splits)
qed

lemma reexec_command_line:
  assumes "fst (createReexecCmd c \<omega> t) = Inr (argv, env)"
  shows "argv = Cli_argv c @ [''--reexec''] \<and> boolFlag ''reexec'' [] \<in> set (Cd_Flags createDecl)"
  using assms by (auto simp: createReexecCmd_def createDecl_def os_Environ_def bindM_run split: sum.splits prod.splits)

end
