(* ===== verification/Guest_Devices.thy ===== *)
theory Guest_Devices
  imports Guests Cli_Props Exec_Props
begin

text \<open>
  Which files a guest has its monitor open as block devices: the interface of a guest as far as block
  devices go, its laws for every guest, and what follows for the process that becomes the monitor.
\<close>

section \<open>The interface\<close>

text \<open>The file that an argument for a block device names, in the two forms the guests use.\<close>

definition opens :: "MonitorBlockArgs \<Rightarrow> string \<Rightarrow> bool" where
  "opens b src \<longleftrightarrow> Mb_ExactArgs b = [] \<and> Mb_Path b = src \<or>
     Mb_Path b = [] \<and> (\<exists>dev i. Mb_ExactArgs b = [''-device'', dev, ''-drive'', ''format=raw,if=none,id='' @ i @ '',file='' @ src])"

lemma opens_plain: "opens \<lparr>Mb_ID = i, Mb_Path = p, Mb_ExactArgs = []\<rparr> p"
  by (simp add: opens_def)

lemma opens_drive:
  "opens \<lparr>Mb_ID = i, Mb_Path = [],
     Mb_ExactArgs = [''-device'', dev, ''-drive'', ''format=raw,if=none,id='' @ j @ '',file='' @ p]\<rparr> p"
  by (auto simp: opens_def)

lemma opens_mmio: "opens \<lparr>Mb_ID = i, Mb_Path = [], Mb_ExactArgs = qemuMMIOBlock j p\<rparr> p"
  unfolding qemuMMIOBlock_def by (rule opens_drive)

text \<open>What a guest has been given: its block devices, the file it writes itself, or nothing.\<close>

definition given :: "UnikernelParams \<Rightarrow> string set" where
  "given d = insert [] (insert urunitConfPath (set (map Blk_Source (Uk_Block d))))"

locale block_guest =
  fixes fresh :: "'g \<Rightarrow> bool"
    and init :: "UnikernelParams \<Rightarrow> 'g \<Rightarrow> (err option \<times> 'g) prog"
    and blockCli :: "'g \<Rightarrow> MonitorBlockArgs list"
    and supportsBlock :: "'g \<Rightarrow> bool"
    and supportsFS :: "'g \<Rightarrow> string \<Rightarrow> bool"
  assumes init_blocks: "fresh n \<Longrightarrow> init d n \<omega> t = (Inr (e, g), t') \<Longrightarrow> b \<in> set (blockCli g) \<Longrightarrow> \<exists>src \<in> given d. opens b src"
    and init_keeps: "init d n \<omega> t = (Inr (e, g), t') \<Longrightarrow> supportsBlock g = supportsBlock n \<and> supportsFS g = supportsFS n"
    and unsupported: "\<not> supportsBlock g \<Longrightarrow> blockCli g = []"
begin

text \<open>A guest without block devices has none opened, whatever it was given.\<close>

lemma without_blocks: "\<not> supportsBlock n \<Longrightarrow> init d n \<omega> t = (Inr (e, g), t') \<Longrightarrow> blockCli g = []"
  using init_keeps unsupported by blast

text \<open>The first law for a guest that is one of several kinds.\<close>

lemma of_kind:
  assumes "\<exists>g'. g = K g' \<and> init d n \<omega> t = (Inr (e, g'), t')" "fresh n" "\<And>g'. cli (K g') = blockCli g'" "b \<in> set (cli g)"
  shows "\<exists>src \<in> given d. opens b src"
  using assms init_blocks by metis

text \<open>Behind the confinement, a file is one of the image, a device that the runtime chose, or the guest's own.\<close>

lemma confined_blocks:
  assumes "confines \<omega>" "confineBlockSources blocks \<omega> s = (Inr blocks', s')"
    and "fresh n" "init (d\<lparr>Uk_Block := blocks'\<rparr>) n \<omega> t = (Inr (e, g), t')" "b \<in> set (blockCli g)"
  shows "\<exists>src. opens b src \<and> (src = urunitConfPath \<or> confined src \<or> (\<exists>v \<in> set blocks. \<not> Blk_IsExplicit v \<and> src = Blk_Source v))"
proof -
  obtain src where src: "src \<in> given (d\<lparr>Uk_Block := blocks'\<rparr>)" "opens b src" using init_blocks [OF assms(3,4,5)] by blast
  have "confined []" by (simp add: confined_def)
  moreover have "confined (Blk_Source v') \<or> (\<exists>v \<in> set blocks. \<not> Blk_IsExplicit v \<and> Blk_Source v' = Blk_Source v)"
    if "v' \<in> set blocks'" for v'
  proof -
    obtain v where "v \<in> set blocks" "confined_block v v'"
      using confineBlockSources_confined [OF assms(1,2)] \<open>v' \<in> set blocks'\<close> by (metis list_all2_conv_all_nth in_set_conv_nth)
    then show ?thesis by (auto simp: confined_block_def split: if_splits)
  qed
  ultimately show ?thesis using src unfolding given_def by auto
qed

end

section \<open>The guests\<close>

lemmas guest_block_defs =
  Hermit_MonitorBlockCli_def Mewz_MonitorBlockCli_def Unikraft_MonitorBlockCli_def Mirage_MonitorBlockCli_def
  Rumprun_MonitorBlockCli_def Linux_MonitorBlockCli_def FreeBSD_MonitorBlockCli_def
  Hermit_SupportsBlock_def Mewz_SupportsBlock_def Unikraft_SupportsBlock_def Mirage_SupportsBlock_def
  Rumprun_SupportsBlock_def Linux_SupportsBlock_def FreeBSD_SupportsBlock_def
  Hermit_SupportsFS_def Mewz_SupportsFS_def Unikraft_SupportsFS_def Mirage_SupportsFS_def
  Rumprun_SupportsFS_def Linux_SupportsFS_def FreeBSD_SupportsFS_def

text \<open>The guests that fill themselves in without a call.\<close>

interpretation hermit: block_guest "\<lambda>g. g = newHermit" "\<lambda>d g. retM (Hermit_Init d g)" Hermit_MonitorBlockCli Hermit_SupportsBlock Hermit_SupportsFS
  by unfold_locales (auto simp: guest_block_defs)

interpretation mewz: block_guest "\<lambda>g. g = newMewz" "\<lambda>d g. retM (Mewz_Init d g)" Mewz_MonitorBlockCli Mewz_SupportsBlock Mewz_SupportsFS
  by unfold_locales (auto simp: guest_block_defs)

interpretation unikraft: block_guest "\<lambda>g. g = newUnikraft" "\<lambda>d g. retM (Unikraft_Init V d g)" Unikraft_MonitorBlockCli Unikraft_SupportsBlock Unikraft_SupportsFS
  by unfold_locales (auto simp: guest_block_defs)

lemma Mirage_Init_blocks:
  "snd (Mirage_Init d newMirage) = g \<Longrightarrow> v \<in> set (Mirage_Block g) \<Longrightarrow> MirageBlock_HostPath v \<in> set (map Blk_Source (Uk_Block d))"
  by (auto simp: Mirage_Init_def newMirage_def Let_def split: sum.splits if_splits)

interpretation mirage: block_guest "\<lambda>g. g = newMirage" "\<lambda>d g. retM (Mirage_Init d g)" Mirage_MonitorBlockCli Mirage_SupportsBlock Mirage_SupportsFS
proof
  fix n and d :: UnikernelParams and \<omega> :: host and t t' e g b
  assume n: "n = newMirage" and i': "retM (Mirage_Init d n) \<omega> t = (Inr (e, g), t')" and b: "b \<in> set (Mirage_MonitorBlockCli g)"
  note i = i' [unfolded n]
  obtain v vs where v: "Mirage_Block g = v # vs" using b by (cases "Mirage_Block g") (auto simp: Mirage_MonitorBlockCli_def)
  then have "b = \<lparr>Mb_ID = Mirage_blkDevName g, Mb_Path = MirageBlock_HostPath v, Mb_ExactArgs = []\<rparr>"
    using b by (auto simp: Mirage_MonitorBlockCli_def split: if_splits)
  moreover have "snd (Mirage_Init d newMirage) = g" using i by simp
  ultimately show "\<exists>src \<in> given d. opens b src"
    using Mirage_Init_blocks [of d g v] v by (intro bexI [of _ "MirageBlock_HostPath v"]) (auto simp: opens_def given_def)
qed (auto simp: guest_block_defs)

lemma Rumprun_Init_blocks:
  "RumprunBlk_HostPath (Rumprun_Blk (snd (Rumprun_Init d newRumprun))) \<in> insert [] (set (map Blk_Source (Uk_Block d)))"
  by (auto simp: Rumprun_Init_def newRumprun_def Rumprun_initBlk_def Let_def split: sum.splits if_splits list.splits)

interpretation rumprun: block_guest "\<lambda>g. g = newRumprun" "\<lambda>d g. retM (Rumprun_Init d g)" Rumprun_MonitorBlockCli Rumprun_SupportsBlock Rumprun_SupportsFS
proof
  fix n and d :: UnikernelParams and \<omega> :: host and t t' e g b
  assume n: "n = newRumprun" and i': "retM (Rumprun_Init d n) \<omega> t = (Inr (e, g), t')" and b: "b \<in> set (Rumprun_MonitorBlockCli g)"
  note i = i' [unfolded n]
  from b have "opens b (RumprunBlk_HostPath (Rumprun_Blk g))" by (auto simp: Rumprun_MonitorBlockCli_def opens_def split: if_splits)
  moreover have "snd (Rumprun_Init d newRumprun) = g" using i by simp
  ultimately show "\<exists>src \<in> given d. opens b src"
    using Rumprun_Init_blocks [of d] by (intro bexI [of _ "RumprunBlk_HostPath (Rumprun_Blk g)"]) (auto simp: given_def)
qed (auto simp: guest_block_defs)

text \<open>The two that may write a file of their own first.\<close>

lemma parseCmdLine_blocks: "parseCmdLine cs l = Inr l' \<Longrightarrow> Linux_Blk l' = Linux_Blk l"
  by (auto simp: parseCmdLine_def Let_def split: if_splits list.splits)

lemma Linux_Init_blocks:
  "Linux_Init d l \<omega> t = (Inr (e, g), t') \<Longrightarrow> Linux_Blk g \<in> {Linux_Blk l, Uk_Block d}"
  by (auto simp: Linux_Init_def bindM_run Let_def parseCmdLine_blocks split: sum.splits if_splits)

interpretation linux: block_guest "\<lambda>g. g = newLinux" Linux_Init Linux_MonitorBlockCli Linux_SupportsBlock Linux_SupportsFS
proof
  fix n and d :: UnikernelParams and \<omega> :: host and t t' e g b
  assume n: "n = newLinux" and i': "Linux_Init d n \<omega> t = (Inr (e, g), t')" and b: "b \<in> set (Linux_MonitorBlockCli g)"
  note i = i' [unfolded n]
  from b have "\<exists>v \<in> set (Linux_Blk g). opens b (Blk_Source v)"
    by (auto simp: Linux_MonitorBlockCli_def split: if_splits intro: opens_plain opens_drive [simplified])
  then obtain v where "v \<in> set (Linux_Blk g)" "opens b (Blk_Source v)" by blast
  moreover have "set (Linux_Blk g) \<subseteq> set (Uk_Block d)" using Linux_Init_blocks [OF i] by (auto simp: newLinux_def)
  ultimately show "\<exists>src \<in> given d. opens b src" by (intro bexI [of _ "Blk_Source v"]) (auto simp: given_def)
qed (auto simp: guest_block_defs)

lemma FreeBSD_Init_blocks: "FreeBSD_Init d f \<omega> t = (Inr (e, g), t') \<Longrightarrow> FreeBSD_Block g = Uk_Block d"
  by (auto simp: FreeBSD_Init_def FreeBSD_fill_def bindM_run Let_def split: sum.splits if_splits list.splits)

interpretation freebsd: block_guest "\<lambda>g. g = newFreeBSD" FreeBSD_Init FreeBSD_MonitorBlockCli FreeBSD_SupportsBlock FreeBSD_SupportsFS
proof
  fix n and d :: UnikernelParams and \<omega> :: host and t t' e g b
  assume n: "n = newFreeBSD" and i': "FreeBSD_Init d n \<omega> t = (Inr (e, g), t')" and b: "b \<in> set (FreeBSD_MonitorBlockCli g)"
  note i = i' [unfolded n]
  from b have "opens b urunitConfPath \<or> (\<exists>v \<in> set (FreeBSD_Block g). opens b (Blk_Source v))"
    by (auto simp: FreeBSD_MonitorBlockCli_def Let_def split: if_splits intro: opens_plain opens_mmio)
  then show "\<exists>src \<in> given d. opens b src" using FreeBSD_Init_blocks [OF i] by (auto simp: given_def)
qed (auto simp: guest_block_defs)

text \<open>All of them behind the interface of the code.\<close>

lemma New_unikernel_fresh:
  "New_unikernel name = Inr n \<Longrightarrow> n \<in> {URumprun newRumprun, UUnikraft newUnikraft, UMirage newMirage, UMewz newMewz,
     ULinux newLinux, UHermit newHermit, UFreeBSD newFreeBSD}"
  by (auto simp: New_unikernel_def split: if_splits)

text \<open>A guest stays one of its kind, and is filled in as its kind does it.\<close>

lemma uk_Init_kind:
  assumes "uk_Init V d n \<omega> t = (Inr (e, g), t')"
  shows "case n of
      URumprun r \<Rightarrow> \<exists>g'. g = URumprun g' \<and> retM (Rumprun_Init d r) \<omega> t = (Inr (e, g'), t')
    | UUnikraft r \<Rightarrow> \<exists>g'. g = UUnikraft g' \<and> retM (Unikraft_Init V d r) \<omega> t = (Inr (e, g'), t')
    | UMirage r \<Rightarrow> \<exists>g'. g = UMirage g' \<and> retM (Mirage_Init d r) \<omega> t = (Inr (e, g'), t')
    | UMewz r \<Rightarrow> \<exists>g'. g = UMewz g' \<and> retM (Mewz_Init d r) \<omega> t = (Inr (e, g'), t')
    | ULinux r \<Rightarrow> \<exists>g'. g = ULinux g' \<and> Linux_Init d r \<omega> t = (Inr (e, g'), t')
    | UHermit r \<Rightarrow> \<exists>g'. g = UHermit g' \<and> retM (Hermit_Init d r) \<omega> t = (Inr (e, g'), t')
    | UFreeBSD r \<Rightarrow> \<exists>g'. g = UFreeBSD g' \<and> FreeBSD_Init d r \<omega> t = (Inr (e, g'), t')"
  using assms by (cases n) (auto simp: map_prod_def bindM_Inr_iff split: prod.splits)

interpretation guests: block_guest "\<lambda>n. \<exists>name. New_unikernel name = Inr n" "uk_Init V" uk_MonitorBlockCli uk_SupportsBlock uk_SupportsFS
proof
  fix n d and \<omega> :: host and t t' e g b
  assume n: "\<exists>name. New_unikernel name = Inr n" and i: "uk_Init V d n \<omega> t = (Inr (e, g), t')"
    and b: "b \<in> set (uk_MonitorBlockCli g)"
  obtain name where "New_unikernel name = Inr n" using n by blast
  note k = uk_Init_kind [OF i]
  from New_unikernel_fresh [OF \<open>New_unikernel name = Inr n\<close>]
  show "\<exists>src \<in> given d. opens b src"
  proof (elim insertE emptyE)
    show ?thesis if "n = URumprun newRumprun"
      by (rule rumprun.of_kind [where cli = uk_MonitorBlockCli and K = URumprun, OF k [unfolded that Unikernel.case] refl _ b]) simp
    show ?thesis if "n = UUnikraft newUnikraft"
      by (rule unikraft.of_kind [where cli = uk_MonitorBlockCli and K = UUnikraft, OF k [unfolded that Unikernel.case] refl _ b]) simp
    show ?thesis if "n = UMirage newMirage"
      by (rule mirage.of_kind [where cli = uk_MonitorBlockCli and K = UMirage, OF k [unfolded that Unikernel.case] refl _ b]) simp
    show ?thesis if "n = UMewz newMewz"
      by (rule mewz.of_kind [where cli = uk_MonitorBlockCli and K = UMewz, OF k [unfolded that Unikernel.case] refl _ b]) simp
    show ?thesis if "n = ULinux newLinux"
      by (rule linux.of_kind [where cli = uk_MonitorBlockCli and K = ULinux, OF k [unfolded that Unikernel.case] refl _ b]) simp
    show ?thesis if "n = UHermit newHermit"
      by (rule hermit.of_kind [where cli = uk_MonitorBlockCli and K = UHermit, OF k [unfolded that Unikernel.case] refl _ b]) simp
    show ?thesis if "n = UFreeBSD newFreeBSD"
      by (rule freebsd.of_kind [where cli = uk_MonitorBlockCli and K = UFreeBSD, OF k [unfolded that Unikernel.case] refl _ b]) simp
  qed
next
  fix d n and \<omega> :: host and t t' e g
  assume i: "uk_Init V d n \<omega> t = (Inr (e, g), t')"
  show "uk_SupportsBlock g = uk_SupportsBlock n \<and> uk_SupportsFS g = uk_SupportsFS n"
    using uk_Init_kind [OF i] by (auto simp: guest_block_defs fun_eq_iff split: Unikernel.splits)
next
  fix g
  show "\<not> uk_SupportsBlock g \<Longrightarrow> uk_MonitorBlockCli g = []" by (cases g) (simp_all add: guest_block_defs)
qed

section \<open>The command line of the monitor\<close>

text \<open>
  A call that becomes the monitor, with a command line built from boot files of the image and from a
  guest that has only the devices \<open>blocks\<close> opened: as they are when the runtime has chosen them, and
  confined to the image when they come from an annotation.
\<close>

definition opens_only :: "BlockDevParams list \<Rightarrow> Unikernel \<Rightarrow> bool" where
  "opens_only blocks uk \<longleftrightarrow>
     (\<forall>b \<in> set (uk_MonitorBlockCli uk). \<exists>src. opens b src \<and>
        (src = urunitConfPath \<or> confined src \<or> (\<exists>v \<in> set blocks. \<not> Blk_IsExplicit v \<and> src = Blk_Source v)))"

definition boot_confined :: "ExecArgs \<Rightarrow> bool" where
  "boot_confined args \<longleftrightarrow> confined (Ex_UnikernelPath args) \<and> confined (Ex_InitrdPath args) \<and> confined (Ex_SnapshotPath args)"

definition built :: "'v deps \<Rightarrow> host \<Rightarrow> BlockDevParams list \<Rightarrow> call \<Rightarrow> bool" where
  "built D \<omega> blocks c \<longleftrightarrow>
     (\<exists>vmm args uk cmd h h'. c = Proc (Exec (vmm_Path vmm) cmd (Ex_Environment args)) \<and>
        vmm_BuildExecCmd (dp_arch D) vmm args uk \<omega> h = (Inr cmd, h') \<and> boot_confined args \<and> opens_only blocks uk)"

lemma unseen: "only quiet m \<Longrightarrow> (\<And>x ds. m \<omega> t = (Inr x, t @ ds) \<Longrightarrow> behind \<omega> (t @ ds) is_exec R (f x)) \<Longrightarrow>
    behind \<omega> t is_exec R (bindM m f)"
  by (rule behind_skip [OF exec.only_unseen])

lemma confineBootFiles_confined:
  assumes "confines \<omega>" "confineBootFiles args \<omega> t = (Inr args', t')"
  shows "boot_confined args'"
  using assms(2)
  by (auto simp: confineBootFiles_def bindM_Inr_iff boot_confined_def dest!: confineToContainerRootfs_confined [OF assms(1)])

lemma built_guest:
  assumes "confines \<omega>" "New_unikernel name = Inr n" "confineBlockSources blocks \<omega> s = (Inr blocks', s')"
    and "buildUnikernelCommand D n (d\<lparr>Uk_Block := blocks'\<rparr>) \<omega> t = (Inr (cmd, uk), t')"
  shows "opens_only blocks uk"
proof -
  obtain e t1 where "uk_Init (dp_versions D) (d\<lparr>Uk_Block := blocks'\<rparr>) n \<omega> t = (Inr (e, uk), t1)"
    using assms(4) by (auto simp: buildUnikernelCommand_def bindM_Inr_iff)
  then show ?thesis
    unfolding opens_only_def using guests.confined_blocks [OF assms(1,3)] assms(2) by blast
qed

lemma execMonitor_built:
  assumes "vmm_BuildExecCmd (dp_arch D) vmm args uk \<omega> h = (Inr cmd, h')" "boot_confined args" "opens_only blocks uk"
  shows "behind \<omega> t is_exec (\<lambda>_. built D \<omega> blocks) (execMonitor vmm args cmd)"
proof -
  have "built D \<omega> blocks (Proc (Exec (vmm_Path vmm) cmd (Ex_Environment args)))"
    unfolding built_def using assms by blast
  then show ?thesis
    unfolding execMonitor_def callU_def
    by (intro unseen [OF only_quiet_vmm_PreExec] behind_bindM [OF behind_sysM] behind_only)
      (auto intro!: only_intros split: reply.split)
qed

lemma execInRoot_built:
  assumes "confines \<omega>" "New_unikernel name = Inr n"
  shows "behind \<omega> t is_exec (\<lambda>_. built D \<omega> (Uk_Block guest)) (execInRoot D u monRes vmm n args guest)"
  unfolding execInRoot_def Let_def
proof (rule unseen [OF only_quiet_confineBootFiles], rule unseen [OF only_quiet_confineBlockSources],
    rule unseen [OF only_quiet_buildUnikernelCommand])
  fix args' ds blocks' es x gs
  assume boot: "confineBootFiles args \<omega> t = (Inr args', t @ ds)"
    and blocks: "confineBlockSources (Uk_Block guest) \<omega> (t @ ds) = (Inr blocks', (t @ ds) @ es)"
    and cmd: "buildUnikernelCommand D n (guest\<lparr>Uk_Block := blocks'\<rparr>) \<omega> ((t @ ds) @ es) = (Inr x, ((t @ ds) @ es) @ gs)"
  obtain c uk where x: "x = (c, uk)" by (cases x)
  have "opens_only (Uk_Block guest) uk" using built_guest [OF assms blocks cmd [unfolded x]] .
  moreover have "boot_confined (args'\<lparr>Ex_Command := c\<rparr>)"
    using confineBootFiles_confined [OF assms(1) boot] by (simp add: boot_confined_def)
  ultimately show "behind \<omega> (((t @ ds) @ es) @ gs) is_exec (\<lambda>_. built D \<omega> (Uk_Block guest))
      (case x of (cmd, unikernel) \<Rightarrow>
         bindM (setupUser (P_User (S_Process (U_Spec u)))) (\<lambda>_.
         bindM (controlSocketDir vmm (Ex_SocketPath (args'\<lparr>Ex_Command := cmd\<rparr>))) (\<lambda>_.
         bindM (ExecuteHooks D u ''StartContainer'') (\<lambda>_.
         bindM (spawnProcess (Mr_PreStartCmd monRes)) (\<lambda>_.
         bindM (vmm_BuildExecCmd (dp_arch D) vmm (args'\<lparr>Ex_Command := cmd\<rparr>) unikernel) (\<lambda>execCmd.
         bindM (SendMessage StartSuccess) (\<lambda>_.
           execMonitor vmm (args'\<lparr>Ex_Command := cmd\<rparr>) execCmd)))))))"
    unfolding x prod.case
    by (intro behind_skip [OF exec.user_unseen] unseen [OF only_quiet_controlSocketDir] unseen [OF only_quiet_ExecuteHooks]
        unseen [OF only_quiet_spawnProcess] unseen [OF only_quiet_vmm_BuildExecCmd]
        behind_skip [OF only_SendMessage] execMonitor_built) (simp_all add: is_exec_def)
qed

lemma setupVAccel_blocks: "setupVAccel u r args d \<omega> t = (Inr (args', d'), t') \<Longrightarrow> Uk_Block d' = Uk_Block d"
  by (auto simp: setupVAccel_def bindM_Inr_iff Let_def split: prod.splits if_splits)

lemma buildMonitorSpec_blocks:
  "buildMonitorSpec u r monRes \<omega> t = (Inr ms, t') \<Longrightarrow> Uk_Block (Ms_GuestParams ms) = Mr_BlockArgs monRes"
  by (auto simp: buildMonitorSpec_def monitorGuestParams_def bindM_Inr_iff Let_def)

text \<open>The block devices that were stored when the container was created.\<close>

definition stored_blocks :: "'v deps \<Rightarrow> host \<Rightarrow> Unikontainer \<Rightarrow> call list \<Rightarrow> BlockDevParams list \<Rightarrow> bool" where
  "stored_blocks D \<omega> u t blocks \<longleftrightarrow>
     (\<exists>h rest data. t = h @ Fs (ReadFile (filepath_Join [U_BaseDir u, monitorFilename])) # rest \<and>
        \<omega> h (Fs (ReadFile (filepath_Join [U_BaseDir u, monitorFilename]))) = RStr data \<and>
        blocks = Mr_BlockArgs (fst (dp_decRes D data)))"

lemma stored_blocks_later: "stored_blocks D \<omega> u t blocks \<Longrightarrow> stored_blocks D \<omega> u (t @ ds) blocks"
  unfolding stored_blocks_def by fastforce

lemma loadMonitorResources_stored:
  "loadMonitorResources D (U_BaseDir u) \<omega> t = (Inr (monRes, None), t') \<Longrightarrow> stored_blocks D \<omega> u t' (Mr_BlockArgs monRes)"
  by (auto simp: loadMonitorResources_def bindM_run callS_run stored_blocks_def split: reply.splits)

lemma Exec_built:
  assumes "confines \<omega>"
  shows "behind \<omega> t is_exec (\<lambda>pre c. \<exists>blocks. stored_blocks D \<omega> u pre blocks \<and> built D \<omega> blocks c) (Exec_monitor D u)"
  unfolding Exec_monitor_def
proof (rule unseen [OF only_quiet_loadMonitorResources], goal_cases)
  case (1 x ds)
  obtain monRes err where x: "x = (monRes, err)" by (cases x)
  show ?case
  proof (cases err)
    case None
    have stored: "stored_blocks D \<omega> u (t @ ds) (Mr_BlockArgs monRes)"
      using loadMonitorResources_stored 1 x None by blast
    have stored_later: "stored_blocks D \<omega> u (t @ ds @ es) (Mr_BlockArgs monRes)" for es
      using stored_blocks_later [OF stored, of es] by simp
    have go: "behind \<omega> h is_exec (\<lambda>pre c. \<exists>blocks. stored_blocks D \<omega> u pre blocks \<and> built D \<omega> blocks c)
        (execInRoot D u monRes vmm n args d)"
      if "stored_blocks D \<omega> u h (Mr_BlockArgs monRes)" "New_unikernel name = Inr n" "Uk_Block d = Mr_BlockArgs monRes"
      for h name n vmm args d
      using execInRoot_built [OF assms that(2)] by (rule behind_mono) (use that stored_blocks_later in metis)
    show ?thesis
      unfolding x prod.case None option.case Let_def
      by (simp only: bindM_retM, intro behind_if behind_only [OF only_failM] unseen [OF only_quiet_buildMonitorSpec]
          unseen [OF only_liftM] unseen [OF only_quiet_NewVMM] unseen [OF only_quiet_SetupNet]
          unseen [OF only_quiet_setupMonitorRootfs] unseen [OF only_quiet_setupVAccel] behind_case_prod
          unseen [OF only_quiet_usesPivot] unseen [OF only_quiet_changeRoot] go)
        (auto dest!: setupVAccel_blocks buildMonitorSpec_blocks intro: stored_later)
  next
    case (Some e)
    then show ?thesis unfolding x prod.case by (simp only: option.case bindM_failM) (rule behind_only [OF only_failM])
  qed
qed

text \<open>The same in the libcontainer mode, where the devices are those of the specification that create wrote.\<close>

definition spec_blocks :: "'v deps \<Rightarrow> host \<Rightarrow> call list \<Rightarrow> BlockDevParams list \<Rightarrow> bool" where
  "spec_blocks D \<omega> t blocks \<longleftrightarrow>
     (\<exists>h rest data ms. t = h @ Fs (ReadFile (filepath_Join [''/'', monitorSpecFilename])) # rest \<and>
        \<omega> h (Fs (ReadFile (filepath_Join [''/'', monitorSpecFilename]))) = RStr data \<and>
        dp_decMon D data = Inr ms \<and> blocks = Uk_Block (Ms_GuestParams ms))"

lemma LoadMonitorSpec_stored:
  "LoadMonitorSpec D ''/'' \<omega> t = (Inr ms, t') \<Longrightarrow> spec_blocks D \<omega> (t' @ ds) (Uk_Block (Ms_GuestParams ms))"
  unfolding spec_blocks_def LoadMonitorSpec_def
  by (rule exI [of _ t], rule exI [of _ ds]) (auto simp: bindM_run callS_run split: reply.splits sum.splits)

lemma only_exec_signalReady: "only (\<lambda>c. \<not> is_exec c) (signalReady ok)"
  unfolding signalReady_def failSome_def by (intro only_intros) (simp_all add: is_exec_def)

lemma runMonitor_built:
  assumes "confines \<omega>"
  shows "behind \<omega> t is_exec (\<lambda>_. built D \<omega> (Uk_Block (Ms_GuestParams ms))) (runMonitor D ms)"
  unfolding runMonitor_def Let_def
  by (intro unseen [OF only_quiet_os_Environ] unseen [OF only_liftM] unseen [OF only_quiet_NewVMM]
      unseen [OF only_wrapM [OF only_quiet_SetupNet]] unseen [OF only_quiet_confineBootFiles]
      unseen [OF only_quiet_confineBlockSources] unseen [OF only_quiet_buildUnikernelCommand] behind_case_prod
      behind_skip [OF exec.user_unseen] unseen [OF only_quiet_controlSocketDir] unseen [OF only_quiet_spawnProcess]
      unseen [OF only_quiet_vmm_BuildExecCmd] behind_skip [OF only_exec_signalReady] execMonitor_built)
    (auto dest!: confineBootFiles_confined [OF assms] built_guest [OF assms] simp: boot_confined_def)

lemma ExecMonitor_built:
  assumes "confines \<omega>"
  shows "behind \<omega> t is_exec (\<lambda>pre c. \<exists>blocks. spec_blocks D \<omega> pre blocks \<and> built D \<omega> blocks c) (ExecMonitor D)"
proof -
  let ?R = "\<lambda>pre c. \<exists>blocks. spec_blocks D \<omega> pre blocks \<and> built D \<omega> blocks c"
  have loaded: "behind \<omega> (h @ ds) is_exec ?R (runMonitor D ms)"
    if "LoadMonitorSpec D ''/'' \<omega> s = (Inr ms, h)" for h ds s ms
    using runMonitor_built [OF assms] by (rule behind_mono) (use LoadMonitorSpec_stored [OF that] in fastforce)
  have after: "only (\<lambda>c. \<not> is_exec c) (case r of Inr _ \<Rightarrow> retM ()
       | Inl e \<Rightarrow> bindM (tryM (signalReady False)) (\<lambda>sig. failSome (errors_Join (Some e) (errOf sig))))" for r
    unfolding failSome_def by (intro only_case_sum only_intros only_exec_signalReady)
  have quiet: "only quiet (ignoreM (callU (Ipc (FdCloexec n))))" "only quiet (LoadMonitorSpec D ''/'')" for n
    unfolding LoadMonitorSpec_def by (intro only_intros; simp)+
  show ?thesis unfolding ExecMonitor_def
  proof (rule unseen [OF quiet(1)], rule unseen [OF only_tryM [OF quiet(2)]], goal_cases)
    case (1 x ds r es)
    show ?case
    proof (cases r)
      case (Inl e)
      then show ?thesis
        by (simp only: sum.case) (intro behind_only only_intros only_exec_signalReady)
    next
      case (Inr ms)
      then have "LoadMonitorSpec D ''/'' \<omega> (t @ ds) = (Inr ms, (t @ ds) @ es)"
        using 1(2) by (cases "LoadMonitorSpec D ''/'' \<omega> (t @ ds)") auto
      then have "behind \<omega> ((t @ ds) @ es) is_exec ?R (runMonitor D ms)" using loaded [of _ ms _ "[]"] by simp
      then show ?thesis unfolding Inr sum.case by (intro behind_bindM behind_tryM behind_only [OF after])
    qed
  qed
qed

text \<open>
  C2: the process becomes the monitor only with a command line that is made of what belongs to the
  container. In both modes, under a \<open>SecureJoin\<close> that keeps its promise, the kernel, the initrd and the
  snapshot are files of the image or not given, and every block device that the monitor is told to open
  is one that create chose and stored on the host for this container, or a file of the image, or the
  configuration that the guest has written itself.
\<close>

theorem monitor_command_from_container:
  assumes "confines \<omega>" "m = Exec_monitor D u \<or> m = ExecMonitor D"
    and "snd (runM m \<omega>) = pre @ Proc (Exec path argv env) # post"
  shows "\<exists>blocks. (stored_blocks D \<omega> u pre blocks \<or> spec_blocks D \<omega> pre blocks) \<and> built D \<omega> blocks (Proc (Exec path argv env))"
proof -
  have e: "is_exec (Proc (Exec path argv env))" by (simp add: is_exec_def)
  from assms(2) show ?thesis
  proof
    assume "m = Exec_monitor D u"
    from behind_run [OF Exec_built [OF assms(1)] assms(3) [unfolded this] e] show ?thesis by blast
  next
    assume "m = ExecMonitor D"
    from behind_run [OF ExecMonitor_built [OF assms(1)] assms(3) [unfolded this] e] show ?thesis by blast
  qed
qed

theorem monitor_command_from_container_witness:
  "\<exists>pre path argv env post blocks.
     snd (runM (Exec_monitor sample_deps sample_container) sample_host) = pre @ Proc (Exec path argv env) # post \<and>
     built sample_deps sample_host blocks (Proc (Exec path argv env))"
proof -
  let ?h = "snd (runM (Exec_monitor sample_deps sample_container) sample_host)"
  have c: "confines sample_host" by (auto simp: confines_def sample_host_def within_def HasPrefix_iff)
  have "list_ex (\<lambda>c. case c of Proc (Exec _ _ _) \<Rightarrow> True | _ \<Rightarrow> False) ?h" by code_simp
  then obtain c where "c \<in> set ?h" and "case c of Proc (Exec _ _ _) \<Rightarrow> True | _ \<Rightarrow> False"
    by (auto simp: list_ex_iff)
  then obtain path argv env where "Proc (Exec path argv env) \<in> set ?h"
    by (auto split: call.splits proc_call.splits)
  then obtain pre post where h: "?h = pre @ Proc (Exec path argv env) # post" by (auto dest: split_list)
  have "\<exists>blocks. (stored_blocks sample_deps sample_host sample_container pre blocks \<or>
        spec_blocks sample_deps sample_host pre blocks) \<and> built sample_deps sample_host blocks (Proc (Exec path argv env))"
    by (rule monitor_command_from_container [OF c disjI1 [OF refl] h])
  then show ?thesis using h by blast
qed

end
