(* ===== verification/Test_Config.thy ===== *)
theory Test_Config
  imports Annotations_Props Monitor_Env
begin

text \<open>
  The unit tests of the configuration, replayed on the model: the tables of \<open>annotations_test.go\<close>,
  \<open>vaccel_test.go\<close> and \<open>utils_test.go\<close> under \<open>pkg/unikontainers\<close>. Each lemma is named after the test it
  stands for, has its cases, and says that the definitions give what the test expects of the code.
\<close>

section \<open>\<open>annotations_test.go\<close>\<close>

text \<open>An error that mentions something in its arguments.\<close>

fun mentions :: "string \<Rightarrow> err \<Rightarrow> bool" where
  "mentions key (Errorf fmt as) = (key \<in> set as)"
| "mentions key (ErrorfW fmt as e) = (key \<in> set as \<or> mentions key e)"
| "mentions key (ErrorfV fmt as e) = (key \<in> set as \<or> mentions key e)"
| "mentions key _ = False"

fun rejects :: "string \<Rightarrow> err + 'a \<Rightarrow> bool" where
  "rejects key (Inl e) = mentions key e"
| "rejects key (Inr _) = False"

lemma TestGetConfigFromSpec:
  "validate (getConfigFromSpec [annotType \<mapsto> ''type1'', annotBinary \<mapsto> ''binary1'', annotHypervisor \<mapsto> ''hypervisor1'']) = Inr ()"
  "rejects annotType (validate (getConfigFromSpec Map.empty))"
  "rejects annotHypervisor (validate (getConfigFromSpec [annotType \<mapsto> ''type1'']))"
  by (simp_all add: getConfigFromSpec_def get_def validate_def missingField_def annot_names)

text \<open>The valid set of annotations, as a configuration.\<close>

definition validConf :: UnikernelConfig where
  "validConf = getConfigFromSpec
     [annotType \<mapsto> UnikraftUnikernel, annotHypervisor \<mapsto> QemuVmm, annotBinary \<mapsto> ''/unikernel/app.unikraft'']"

lemma validConf_eq:
  "validConf = \<lparr>Uc_UnikernelType = ''unikraft'', Uc_UnikernelVersion = [], Uc_UnikernelBinary = ''/unikernel/app.unikraft'',
     Uc_Hypervisor = ''qemu'', Uc_Initrd = [], Uc_Snapshot = [], Uc_Block = [], Uc_BlkMntPoint = [], Uc_MountRootfs = [],
     Uc_NetDev = [], Uc_BlkDev = [], Uc_HyperlightPorts = [], Uc_VAccel = [], Uc_RPCAddress = []\<rparr>"
  by (simp add: validConf_def getConfigFromSpec_def get_def annot_names vmm_names guest_names)

lemma empty_fields:
  "validateAnnotationPathClean key [] r = Inr ()" "validateSolo5DevName key [] = Inr ()"
  "validateHyperlightPorts monitor [] = Inr ()"
  by (simp_all add: validateAnnotationPathClean_def validateSolo5DevName_def validateHyperlightPorts_def)

lemma validConf_binary: "validateAnnotationPathClean key ''/unikernel/app.unikraft'' True = Inr ()"
  by (simp add: path_eval)

text \<open>With the rest of the set valid, what becomes of a value is what the check of its field says.\<close>

lemma validate_one:
  "validateValues (validConf\<lparr>Uc_UnikernelBinary := v\<rparr>) = validateAnnotationPathClean annotBinary v True"
  "validateValues (validConf\<lparr>Uc_Initrd := v\<rparr>) = validateAnnotationPathClean annotInitrd v True"
  "validateValues (validConf\<lparr>Uc_Block := v\<rparr>) = validateAnnotationPathClean annotBlock v True"
  "validateValues (validConf\<lparr>Uc_BlkMntPoint := v\<rparr>) = validateAnnotationPathClean annotBlockMntPoint v False"
  "validateValues (validConf\<lparr>Uc_NetDev := v\<rparr>) = validateSolo5DevName annotNetDev v"
  "validateValues (validConf\<lparr>Uc_BlkDev := v\<rparr>) = validateSolo5DevName annotBlkDev v"
  "validateValues (validConf\<lparr>Uc_UnikernelVersion := v\<rparr>) = failIf (length v > maxAnnotationValueLen) (tooLong annotVersion)"
  by (simp_all add: validConf_eq validateValues_def empty_fields validConf_binary validateSnapshot_def
      validateVAccelValues_def supportedGuestMonitorPairs_def vmm_names guest_names maxAnnotationValueLen_def
      bindE_def failIf_def split: sum.split)


lemmas field_eval = validate_one path_eval validateSolo5DevName_def solo5DevNameRe_def failIf_def

lemma TestValidateValues_accepts:
  "validateValues (validConf\<lparr>Uc_UnikernelBinary := ''/unikernel/app-v2.0_x86_64.hvt''\<rparr>) = Inr ()"
  "validateValues (validConf\<lparr>Uc_UnikernelBinary := ''unikernel/app''\<rparr>) = Inr ()"
  "validateValues (validConf\<lparr>Uc_Block := ''/data/block.img''\<rparr>) = Inr ()"
  "validateValues (validConf\<lparr>Uc_BlkMntPoint := ''/''\<rparr>) = Inr ()"
  "validateValues (validConf\<lparr>Uc_BlkMntPoint := ''relative/path''\<rparr>) = Inr ()"
  "validateValues (validConf\<lparr>Uc_UnikernelVersion := ''not.a.version''\<rparr>) = Inr ()"
  "validateValues (validConf\<lparr>Uc_NetDev := ''management''\<rparr>) = Inr ()"
  by (simp_all add: field_eval)

lemma TestValidateValues_rejects:
  "v \<in> {''.'', ''/'', ''../up'', ''-rf'', ''hello there'', ''/bin/a;b'', ''/unikernel/app=x'', ''/unikernel/app+v2''} \<Longrightarrow>
     rejects annotBinary (validateValues (validConf\<lparr>Uc_UnikernelBinary := v\<rparr>))"
  "v \<in> {''/'', ''/unikernel/../../data'', ''/unikernel/./initrd'', ''/unikernel/initrd:1''} \<Longrightarrow>
     rejects annotInitrd (validateValues (validConf\<lparr>Uc_Initrd := v\<rparr>))"
  "v \<in> {''/'', ''/data/block.img/'', ''/x/`a`'', ''/data/block.img,readonly=on''} \<Longrightarrow>
     rejects annotBlock (validateValues (validConf\<lparr>Uc_Block := v\<rparr>))"
  "v \<in> {''.'', ''/mnt/../data'', ''/mnt/my data''} \<Longrightarrow>
     rejects annotBlockMntPoint (validateValues (validConf\<lparr>Uc_BlkMntPoint := v\<rparr>))"
  "v \<in> {''net 0'', ''net-0''} \<Longrightarrow> rejects annotNetDev (validateValues (validConf\<lparr>Uc_NetDev := v\<rparr>))"
  "rejects annotBlkDev (validateValues (validConf\<lparr>Uc_BlkDev := ''blk_0''\<rparr>))"
  by ((elim insertE emptyE)?; simp add: field_eval)+

lemma long_path:
  assumes "2 < n"
  shows "validateAnnotationPathClean key (CHR ''/'' # replicate n (CHR ''a'')) True =
     (if maxAnnotationValueLen < Suc n then Inl (tooLong key) else Inr ())"
proof -
  have "replicate n (CHR ''a'') \<noteq> ''.''" "replicate n (CHR ''a'') \<noteq> ''..''"
    using assms by (auto dest!: arg_cong [where f = length])
  then have "Clean (CHR ''/'' # replicate n (CHR ''a'')) = CHR ''/'' # replicate n (CHR ''a'')"
    using Clean_unsplit [of True "[replicate n (CHR ''a'')]"] assms
    by (simp add: unsplit_def normal_comps_def plain_comp_def sep_def)
  moreover have "allowedPathRe (CHR ''/'' # replicate n (CHR ''a''))"
    by (simp add: allowedPathRe_def list_all_iff char_class_defs)
  ultimately show ?thesis using assms by (simp add: validateAnnotationPathClean_def HasPrefix_def)
qed

lemma TestValidateValuesLength:
  "validateValues (validConf\<lparr>Uc_UnikernelBinary := CHR ''/'' # replicate 4095 (CHR ''a'')\<rparr>) = Inr ()"
  "rejects annotBinary (validateValues (validConf\<lparr>Uc_UnikernelBinary := CHR ''/'' # replicate 4096 (CHR ''a'')\<rparr>))"
  "rejects annotVersion (validateValues (validConf\<lparr>Uc_UnikernelVersion := replicate 4097 (CHR ''1'')\<rparr>))"
  using long_path [of 4095] long_path [of 4096]
  by (simp_all add: validate_one maxAnnotationValueLen_def tooLong_def failIf_def)

text \<open>Pairs of a monitor and a guest.\<close>

definition paired :: "string \<Rightarrow> string \<Rightarrow> UnikernelConfig" where
  "paired monitor guest = validConf\<lparr>Uc_Hypervisor := monitor, Uc_UnikernelType := guest\<rparr>"

lemma TestValidateValuesGuestMonitorPairs_accepts:
  "(monitor, guest) \<in> set supportedGuestMonitorPairs \<Longrightarrow> validateValues (paired monitor guest) = Inr ()"
  by (simp add: paired_def validConf_eq validateValues_iff empty_fields validConf_binary validateSnapshot_def
      validateVAccelValues_def maxAnnotationValueLen_def)

lemma TestValidateValuesGuestMonitorPairs_rejects:
  "(monitor, guest) \<in> {(''QEMU'', UnikraftUnikernel), ('' qemu'', UnikraftUnikernel), (''bhyve'', UnikraftUnikernel),
      (QemuVmm, ''Unikraft''), (QemuVmm, ''glueOS''), (FirecrackerVmm, MirageUnikernel), (QemuVmm, RumprunUnikernel),
      (HvtVmm, MewzUnikernel), (HedgeVmm, UnikraftUnikernel)} \<Longrightarrow>
   rejects monitor (validateValues (paired monitor guest)) \<and> rejects guest (validateValues (paired monitor guest))"
  by (elim insertE emptyE) (simp_all add: paired_def validConf_eq validateValues_def supportedGuestMonitorPairs_def
      vmm_names guest_names HedgeVmm_def failIf_def)


text \<open>The snapshot replaces the binary and the initrd, and only one monitor resumes it.\<close>

definition hyperlightConf :: UnikernelConfig where
  "hyperlightConf = validConf\<lparr>Uc_Hypervisor := HyperlightVmm, Uc_UnikernelBinary := []\<rparr>"

lemmas conf_eval = hyperlightConf_def validConf_eq validateValues_def supportedGuestMonitorPairs_def vmm_names guest_names
  validateSnapshot_def failIf_def empty_fields validConf_binary maxAnnotationValueLen_def

lemma TestValidateUnikernelBinaryRequirement:
  "rejects annotBinary (validate (validConf\<lparr>Uc_UnikernelBinary := []\<rparr>))"
  "rejects annotBinary (validate (validConf\<lparr>Uc_Hypervisor := FirecrackerVmm, Uc_UnikernelBinary := []\<rparr>))"
  "validate validConf = Inr ()" "validate hyperlightConf = Inr ()"
  "validate (hyperlightConf\<lparr>Uc_UnikernelBinary := ''/unikernel/kernel''\<rparr>) = Inr ()"
  by (simp_all add: validate_def missingField_def conf_eval)

lemma TestValidateValuesSnapshot:
  "validateValues (hyperlightConf\<lparr>Uc_Snapshot := ''/unikernel/snapshot''\<rparr>) = Inr ()"
  "rejects annotSnapshot (validateValues (hyperlightConf\<lparr>Uc_Snapshot := ''/unikernel/snapshot'', Uc_Initrd := ''/unikernel/initrd.cpio''\<rparr>))"
  "rejects annotSnapshot (validateValues (hyperlightConf\<lparr>Uc_Snapshot := ''/unikernel/snapshot'', Uc_UnikernelBinary := ''/unikernel/kernel''\<rparr>))"
  "rejects annotSnapshot (validateValues (validConf\<lparr>Uc_Snapshot := ''/unikernel/snapshot''\<rparr>))"
  "rejects annotSnapshot (validateValues (validConf\<lparr>Uc_Hypervisor := FirecrackerVmm, Uc_Snapshot := ''/unikernel/snapshot''\<rparr>))"
  "rejects annotSnapshot (validateValues (hyperlightConf\<lparr>Uc_Snapshot := ''../snapshot''\<rparr>))"
  by (simp_all add: conf_eval validateVAccelValues_def) (simp_all add: path_eval)

lemma initrd_path: "validateAnnotationPathClean key ''/unikernel/initrd.cpio'' True = Inr ()"
  by (simp add: path_eval)

lemma validate_ports:
  "validateValues (hyperlightConf\<lparr>Uc_Initrd := ''/unikernel/initrd.cpio'', Uc_HyperlightPorts := v\<rparr>) = validateHyperlightPorts HyperlightVmm v"
  "validateValues (validConf\<lparr>Uc_HyperlightPorts := v\<rparr>) = validateHyperlightPorts QemuVmm v"
  by (simp_all add: conf_eval initrd_path validateVAccelValues_def bindE_def split: sum.split)

lemmas ports_eval = validateHyperlightPorts_def hyperlightPortsRe_def port_digits_def isDigit_def byte_def port_item_def
  atoi0_def Atoi_def parse_digits_def digits_val_def digit_val_def char_class_defs maxAnnotationValueLen_def
  vmm_names

lemma TestValidateValuesHyperlightPorts_accepts:
  "validateHyperlightPorts HyperlightVmm ''8080'' = Inr ()"
  "validateHyperlightPorts HyperlightVmm ''80,443,8000-8100'' = Inr ()"
  "validateHyperlightPorts HyperlightVmm ''1-65535'' = Inr ()"
  by (simp_all add: ports_eval)

lemma TestValidateValuesHyperlightPorts_rejects:
  "rejects annotHyperlightPorts (validateHyperlightPorts HyperlightVmm ''0'')"
  "rejects annotHyperlightPorts (validateHyperlightPorts HyperlightVmm ''65536'')"
  "rejects annotHyperlightPorts (validateHyperlightPorts HyperlightVmm ''8100-8000'')"
  "rejects annotHyperlightPorts (validateHyperlightPorts HyperlightVmm ''80,'')"
  "rejects annotHyperlightPorts (validateHyperlightPorts HyperlightVmm ''all'')"
  "rejects annotHyperlightPorts (validateHyperlightPorts HyperlightVmm ''none'')"
  "rejects annotHyperlightPorts (validateHyperlightPorts HyperlightVmm ''http'')"
  "rejects annotHyperlightPorts (validateHyperlightPorts QemuVmm ''8080'')"
  by (simp_all add: ports_eval)

text \<open>vAccel: the address has to be one of the monitor.\<close>

definition vaccelConf :: "string \<Rightarrow> string \<Rightarrow> string \<Rightarrow> UnikernelConfig" where
  "vaccelConf monitor vAccel address = validConf\<lparr>Uc_Hypervisor := monitor, Uc_UnikernelType := LinuxUnikernel,
     Uc_VAccel := vAccel, Uc_RPCAddress := address\<rparr>"

lemma validate_vaccel:
  "monitor \<in> {QemuVmm, FirecrackerVmm, CloudHypervisorVmm} \<Longrightarrow>
     validateValues (vaccelConf monitor vAccel address) = validateVAccelValues (vaccelConf monitor vAccel address)"
  by (elim insertE emptyE) (simp_all add: vaccelConf_def conf_eval)

lemmas address_eval = vaccelConf_def validConf_eq vmm_names vaccel_eval unix_address_def vAccelUnixScheme_def
  sockName_def sock_comp_def

lemma TestValidateValuesVAccel_accepts:
  "address \<in> {''vsock://2:1234'', ''vsock://2:1'', ''vsock://2:65535''} \<Longrightarrow> validateVAccelValues (vaccelConf QemuVmm ''vsock'' address) = Inr ()"
  "address \<in> {''unix:///tmp/vaccel.sock_1234'', ''unix:///var/run/urunc/vaccel.sock_5678'', ''unix:///run/my-vaccel_dir/vaccel.sock_1''} \<Longrightarrow>
     validateVAccelValues (vaccelConf FirecrackerVmm ''vsock'' address) = Inr ()"
  "validateVAccelValues (vaccelConf QemuVmm [] []) = Inr ()"
  by ((elim insertE emptyE)?; simp add: address_eval)+

lemma TestValidateValuesVAccel_rejects:
  "(monitor, vAccel, address) \<in>
     {(QemuVmm, ''vSock'', ''vsock://2:1234''), (QemuVmm, '' '', ''vsock://2:1234''), (QemuVmm, ''vsock'', []),
      (CloudHypervisorVmm, ''vsock'', ''vsock://2:1234''), (QemuVmm, ''vsock'', ''vsock://3:1234''),
      (QemuVmm, ''vsock'', ''vsock://2:0''), (QemuVmm, ''vsock'', ''vsock://2:65536''),
      (QemuVmm, ''vsock'', ''vsock://2:01234''), (QemuVmm, ''vsock'', ''vsock://2:99999999999''),
      (QemuVmm, ''vsock'', ''vsock://2:''), (QemuVmm, ''vsock'', ''vsock://invalid''),
      (QemuVmm, ''vsock'', ''unix:///tmp/vaccel.sock_1234''), (FirecrackerVmm, ''vsock'', ''vsock://2:1234''),
      (FirecrackerVmm, ''vsock'', ''unix:///tmp/test.sock''), (FirecrackerVmm, ''vsock'', ''unix://tmp/vaccel.sock_1''),
      (FirecrackerVmm, ''vsock'', ''unix:///vaccel.sock_1''), (FirecrackerVmm, ''vsock'', ''unix:///tmp/../other/vaccel.sock_1''),
      (FirecrackerVmm, ''vsock'', ''unix:///tmp/./vaccel.sock_1''), (FirecrackerVmm, ''vsock'', ''unix:///tmp/my dir/vaccel.sock_1''),
      (FirecrackerVmm, ''vsock'', ''unix:///tmp/a;b/vaccel.sock_1''), (FirecrackerVmm, ''vsock'', ''unix:///tmp//vaccel.sock_1''),
      (QemuVmm, [], ''vsock://2:1234'')} \<Longrightarrow>
   validateVAccelValues (vaccelConf monitor vAccel address) \<noteq> Inr ()"
  by (elim insertE emptyE; simp add: address_eval)

text \<open>A configuration from \<open>urunc.json\<close> takes the settings of vAccel, and the ports if it has any, from the specification.\<close>

lemma TestGetUnikernelConfigVAccelFromJSONFallback:
  "mergeRuntime [annotVAccel \<mapsto> ''vsock'', annotRPCAddress \<mapsto> ''vsock://2:1234''] conf =
     conf\<lparr>Uc_VAccel := ''vsock'', Uc_RPCAddress := ''vsock://2:1234''\<rparr>"
  by (simp add: mergeRuntime_def get_def annot_names)

lemma TestGetUnikernelConfigHyperlightPortsFromJSONFallback:
  "Uc_HyperlightPorts (mergeRuntime [annotHyperlightPorts \<mapsto> ''9000-9100''] (conf\<lparr>Uc_HyperlightPorts := ''8080''\<rparr>)) = ''9000-9100''"
  "Uc_HyperlightPorts (mergeRuntime Map.empty (conf\<lparr>Uc_HyperlightPorts := ''8080''\<rparr>)) = ''8080''"
  "Uc_HyperlightPorts (mergeRuntime Map.empty (conf\<lparr>Uc_HyperlightPorts := []\<rparr>)) = []"
  by (simp_all add: mergeRuntime_def get_def annot_names)

section \<open>\<open>vaccel_test.go\<close>\<close>

lemma TestIdToGuestCID: "idToGuestCID [] = 3" "idToGuestCID ''container123'' = 49"
  by (simp_all add: idToGuestCID_def byte_def rune_val_def)

lemma TestIsValidVSockAddress_accepts:
  "isValidVSockAddress ''vsock://2:1234'' ''qemu'' = Inr ([], ''vsock://2:1234'')"
  "isValidVSockAddress ''unix:///tmp/vaccel.sock_1234'' ''firecracker'' = Inr (''/tmp/vaccel.sock_1234'', ''vsock://2:1234'')"
  "isValidVSockAddress ''unix:///var/run/urunc/vaccel.sock_5678'' ''firecracker'' =
     Inr (''/var/run/urunc/vaccel.sock_5678'', ''vsock://2:5678'')"
  by (simp_all add: isValidVSockAddress_def address_eval)

lemma TestIsValidVSockAddress_rejects:
  "(address, monitor) \<in>
     {(''vsock://3:1234'', ''qemu''), (''vsock://2:'', ''qemu''), (''vsock://invalid'', ''qemu''),
      (''http://localhost:1234'', ''qemu''), ([], ''qemu''), (''unix:///tmp/test.sock'', ''firecracker''),
      (''/tmp/vaccel.sock_1234'', ''firecracker''), (''vsock://2:1234'', ''kvm'')} \<Longrightarrow>
   \<exists>e. isValidVSockAddress address monitor = Inl e"
  by (elim insertE emptyE; simp add: isValidVSockAddress_def address_eval)

lemma TestResolveVAccelConfig:
  "snd (snd (snd (resolveVAccelConfig ''qemu'' Map.empty))) = Some ErrVAccelDisabled"
  "snd (snd (snd (resolveVAccelConfig ''qemu'' [annotVAccel \<mapsto> ''vsock'']))) \<notin> {None, Some ErrVAccelDisabled}"
  "snd (snd (snd (resolveVAccelConfig ''qemu'' [annotVAccel \<mapsto> ''vsock'', annotRPCAddress \<mapsto> ''invalid-address'']))) \<notin>
     {None, Some ErrVAccelDisabled}"
  "resolveVAccelConfig ''qemu'' [annotVAccel \<mapsto> ''vsock'', annotRPCAddress \<mapsto> ''vsock://2:1234''] =
     (''vsock'', [], ''vsock://2:1234'', None)"
  by (simp_all add: resolveVAccelConfig_def get_def annot_names isValidVSockAddress_def address_eval)

lemma TestCheckVAccelSocket:
  "fst (checkVAccelSocket path (\<lambda>_ _. RStat st) t) = Inr () \<longleftrightarrow> st_type st = Sock"
  "fst (checkVAccelSocket path (\<lambda>_ _. RErr e) t) \<noteq> Inr ()"
  by (simp_all add: checkVAccelSocket_def bindM_run callStat_def)

section \<open>\<open>utils_test.go\<close>\<close>

lemma TestRemovePreservesOrder: "remove_at [''a'', ''b'', ''c'', ''d''] 0 = [''b'', ''c'', ''d'']"
  by (simp add: remove_at_def)

lemma TestFindNS:
  "fst (findNS [\<lparr>Ns_Type = ''network'', Ns_Path = ''/dummy/path''\<rparr>] ''mount'' \<omega> t) \<notin> {Inr p, Inl ErrNotExistingNS}"
  "fst (findNS [\<lparr>Ns_Type = ''mount'', Ns_Path = []\<rparr>] ''mount'' (\<lambda>_ _. RErr (Errno ENOENT)) t) = Inl ErrNotExistingNS"
  "fst (findNS [\<lparr>Ns_Type = ''mount'', Ns_Path = ''/ns''\<rparr>] ''mount'' (\<lambda>_ _. RStat st) t) = Inr ''/ns''"
  by (simp_all add: bindM_run checkValidNsPath_def callStat_def)

lemma digit_chars:
  "digit_char 0 = CHR ''0''" "digit_char 1 = CHR ''1''" "digit_char (Suc 0) = CHR ''1''" "digit_char 2 = CHR ''2''"
  "digit_char 6 = CHR ''6''" "digit_char 8 = CHR ''8''" "digit_char 9 = CHR ''9''"
  by code_simp+

lemmas address_line_eval = usable_nameserver_def Fields_def leading_space_def byte_def ParseIP_def parseIPv4Fields_def v4_field_def
  isDigit_def digits_val_def digit_val_def v4InV6Prefix_def To4_def dotted_def

lemma TestGetDNSServer:
  "Split NL (''nameserver 10.96.0.10'' @ [NL]) = [''nameserver 10.96.0.10'', []]"
  "first_nameserver [''nameserver 10.96.0.10'', []] = ''10.96.0.10''"
  "first_nameserver [''search svc.cluster.local'', ''nameserver 10.96.0.10'', ''nameserver 8.8.4.4'', ''options ndots:5'', []] = ''10.96.0.10''"
  "first_nameserver [''# nameserver 1.1.1.1'', [], ''   nameserver'' @ CHR 0x09 # ''192.168.1.1  '', []] = ''192.168.1.1''"
  "first_nameserver [''nameserver 127.0.0.11'', ''nameserver 1.1.1.1'', []] = ''1.1.1.1''"
  "first_nameserver [''nameserver'', ''nameserver not-an-ip'', ''nameserver 1.1.1.1'', []] = ''1.1.1.1''"
  "first_nameserver [''search svc.cluster.local'', ''nameserver 127.0.0.53'', []] = []"
  by (simp_all add: address_line_eval NL_def FormatUint.simps digit_chars)

lemma TestGetDNSServer_IPv6:
  "first_nameserver [''nameserver fd00::1'', ''nameserver 1.1.1.1'', []] = ''1.1.1.1''"
proof -
  have "v6_loop [] None ''fd00::1'' = Some ([253, 0, 0, 1], Some 2, [])"
    by (simp add: v6_loop.simps [of "[]"] v6_loop.simps [of "[253, 0]"] v6_group_def hex_val_def isHex_def isDigit_def byte_def)
  then have "ParseIP ''fd00::1'' = [253, 0, 0, 0, 0, 0, 0, 0, 0, 0, 0, 0, 0, 0, 0, 1]"
    by (simp add: ParseIP_def parseIPv6_def numeral_eq_Suc)
  then have "To4 (ParseIP ''fd00::1'') = []" by (simp add: To4_def v4InV6Prefix_def)
  then have "usable_nameserver ''nameserver fd00::1'' = None"
    by (simp add: usable_nameserver_def Fields_def leading_space_def byte_def)
  moreover have "first_nameserver [''nameserver 1.1.1.1'', []] = ''1.1.1.1''"
    by (simp add: address_line_eval FormatUint.simps digit_chars)
  ultimately show ?thesis by (simp only: first_nameserver.simps option.case)
qed

lemma TestResolvConfMount:
  "map_option M_Source (resolvConfMount
     [\<lparr>M_Destination = ''/etc/resolv.conf'', M_Type = [], M_Source = ''/engine/resolv.conf'', M_Options = []\<rparr>,
      \<lparr>M_Destination = ''/etc/hosts'', M_Type = [], M_Source = ''/engine/hosts'', M_Options = []\<rparr>,
      \<lparr>M_Destination = ''/etc/resolv.conf/'', M_Type = [], M_Source = ''/user/resolv.conf'', M_Options = []\<rparr>]) = Some ''/user/resolv.conf''"
  "resolvConfMount [\<lparr>M_Destination = ''/etc/hosts'', M_Type = [], M_Source = ''/engine/hosts'', M_Options = []\<rparr>] = None"
  by code_simp+

end
