(* ===== verification/Test_Monitors.thy ===== *)
theory Test_Monitors
  imports Guests_Props Vmm_Props
begin

text \<open>
  The unit tests of the monitors and of the guests, replayed on the model: the tables of the test files
  under \<open>pkg/unikontainers/hypervisors\<close> and \<open>pkg/unikontainers/unikernels\<close>. Each lemma is named after the
  test it stands for. Where a test looks for some arguments in the command line, the lemma gives the
  whole command line. The tests drive the monitors with a guest that answers every question with
  nothing; here that is a Unikraft guest that has not been told its monitor.
\<close>

section \<open>Monitors\<close>

abbreviation fakeUnikernel :: Unikernel where "fakeUnikernel \<equiv> UUnikraft newUnikraft"

definition testQemu :: Qemu where
  "testQemu = \<lparr>qemu_binaryPath = ''/usr/bin/qemu-system-x86_64'', qemu_binary = QemuBinary, qemu_vhost = False\<rparr>"

definition testArgs :: ExecArgs where
  "testArgs = zeroExecArgs\<lparr>Ex_UnikernelPath := ''/rootfs/unikernel.bin'', Ex_Command := ''init=/bin/sh''\<rparr>"

lemmas fake_answers = newUnikraft_def Unikraft_MonitorNetCli_def Unikraft_MonitorBlockCli_def
  Unikraft_MonitorSharedfsCli_def Unikraft_MonitorCli_def hyperlightMonitor_def

lemma defaultMemory: "BytesToStringMB 0 = ''256''"
  by code_simp

lemma customMemory: "BytesToStringMB 512000000 = ''512''"
  by code_simp

lemma numbers: "Itoa 1500 = ''1500''" "Itoa 42 = ''42''" "FormatUint 4 = ''4''"
  by code_simp+

lemmas qemu_eval = Qemu_BuildExecCmd_def qemu_machine_def qemu_net_def qemu_sharedfs_def qemu_tail_def testQemu_def
  testArgs_def zero_defs defaultMemory customMemory fake_answers

definition qemuHead :: "string \<Rightarrow> string list" where
  "qemuHead mem = [''/usr/bin/qemu-system-x86_64'', ''-m'', mem, ''-L'', ''/usr/share/qemu'', ''-cpu'', ''host'', ''-enable-kvm'',
     ''-display'', ''none'', ''-vga'', ''none'', ''-serial'', ''stdio'', ''-monitor'', ''null'']"

definition qemuTail :: "string list \<Rightarrow> string list" where
  "qemuTail extra = [''-kernel'', ''/rootfs/unikernel.bin'', ''-nic'', ''none''] @ extra @ [''-append'', ''init=/bin/sh'']"

lemma TestQemuBuildExecCmd_options:
  "Qemu_BuildExecCmd ''amd64'' testQemu testArgs fakeUnikernel = Inr (qemuHead ''256M'' @ qemuTail [])"
  "Qemu_BuildExecCmd ''arm64'' testQemu testArgs fakeUnikernel = Inr (qemuHead ''256M'' @ [''-M'', ''virt''] @ qemuTail [])"
  "Qemu_BuildExecCmd ''amd64'' testQemu (testArgs\<lparr>Ex_SocketPath := ''/run/urunc/q.sock''\<rparr>) fakeUnikernel =
     Inr (qemuHead ''256M'' @ [''-qmp'', ''unix:/run/urunc/q.sock,server=on,wait=off''] @ qemuTail [])"
  "Qemu_BuildExecCmd ''amd64'' testQemu (testArgs\<lparr>Ex_MemSizeB := 512 * 1000 * 1000\<rparr>) fakeUnikernel =
     Inr (qemuHead ''512M'' @ qemuTail [])"
  "Qemu_BuildExecCmd ''amd64'' testQemu (testArgs\<lparr>Ex_VCPUs := 4\<rparr>) fakeUnikernel = Inr (qemuHead ''256M'' @ [''-smp'', ''4''] @ qemuTail [])"
  "Qemu_BuildExecCmd ''amd64'' testQemu (testArgs\<lparr>Ex_Seccomp := True\<rparr>) fakeUnikernel =
     Inr (qemuHead ''256M'' @ [''--sandbox'', ''on,obsolete=deny,elevateprivileges=deny,spawn=deny,resourcecontrol=deny''] @ qemuTail [])"
  "Qemu_BuildExecCmd ''amd64'' testQemu (testArgs\<lparr>Ex_InitrdPath := ''/rootfs/initrd.img''\<rparr>) fakeUnikernel =
     Inr (qemuHead ''256M'' @ qemuTail [''-initrd'', ''/rootfs/initrd.img''])"
  "Qemu_BuildExecCmd ''amd64'' testQemu (testArgs\<lparr>Ex_Sharedfs := \<lparr>Sfs_Type = ''9pfs'', Sfs_Path = ''/srv/share''\<rparr>\<rparr>) fakeUnikernel =
     Inr (qemuHead ''256M'' @ qemuTail [])"
  "Qemu_BuildExecCmd ''amd64'' testQemu (testArgs\<lparr>Ex_Sharedfs := \<lparr>Sfs_Type = ''virtiofs'', Sfs_Path = ''/srv/share''\<rparr>\<rparr>) fakeUnikernel =
     Inr (qemuHead ''256M'' @ qemuTail [''-object'', ''memory-backend-file,id=mem,size=256M,mem-path=/tmp,share=on'',
       ''-numa'', ''node,memdev=mem'', ''-chardev'', ''socket,id=char0,path=/tmp/vhostqemu'',
       ''-device'', ''vhost-user-fs-pci,queue-size=1024,chardev=char0,tag=fs0''])"
  by (simp_all add: qemu_eval qemuHead_def qemuTail_def numbers)

text \<open>The network, and what a guest adds: a Mirage guest has answers of its own for the network and the blocks.\<close>

lemma TestQemuBuildExecCmd_network:
  "qemu_net ''amd64'' testQemu (zeroNet\<lparr>Net_TapDev := ''tap0'', Net_MAC := ''52:54:00:12:34:56'', Net_MTU := 1500\<rparr>) fakeUnikernel =
     [''-netdev'', ''tap,id=net0,script=no,downscript=no,ifname=tap0'',
      ''-device'', ''virtio-net-pci,netdev=net0,host_mtu=1500,mac=52:54:00:12:34:56'']"
  "qemu_net ''amd64'' (testQemu\<lparr>qemu_vhost := True\<rparr>)
       (zeroNet\<lparr>Net_TapDev := ''tap0'', Net_MAC := ''aa:bb:cc:dd:ee:ff'', Net_MTU := 1500\<rparr>) fakeUnikernel =
     [''-netdev'', ''tap,id=net0,script=no,downscript=no,ifname=tap0,vhost=on'',
      ''-device'', ''virtio-net-pci,netdev=net0,host_mtu=1500,mac=aa:bb:cc:dd:ee:ff'']"
  by (simp_all add: qemu_eval numbers)

lemma TestQemuBuildExecCmd_blocks:
  "qemu_blocks [\<lparr>Mb_ID = ''data0'', Mb_Path = ''/disks/data0.img'', Mb_ExactArgs = []\<rparr>] =
     [''-device'', ''virtio-blk-pci,serial=data0,drive=data0,scsi=off'', ''-drive'', ''format=raw,if=none,id=data0,file=/disks/data0.img'']"
  "qemu_blocks [\<lparr>Mb_ID = [], Mb_Path = [], Mb_ExactArgs = [''-hda'', ''/custom/disk.img'']\<rparr>] = [''-hda'', ''/custom/disk.img'']"
  by simp_all

lemma TestQemuBuildExecCmd_tail:
  "qemu_tail testArgs (zeroCliArgs\<lparr>Cli_ExtraInitrd := ''/extra/initrd.cpio''\<rparr>) = [''-initrd'', ''/extra/initrd.cpio'', ''-append'', ''init=/bin/sh'']"
  "qemu_tail testArgs (zeroCliArgs\<lparr>Cli_OtherArgs := [''-nographic'', ''-no-reboot'']\<rparr>) =
     [''-nographic'', ''-no-reboot'', ''-append'', ''init=/bin/sh'']"
  "qemu_tail (testArgs\<lparr>Ex_VAccelType := ''vsock'', Ex_VSockDevID := 42\<rparr>) zeroCliArgs =
     [''-device'', ''vhost-vsock-pci,id=vhost-vsock-pci0,guest-cid=42'', ''-append'', ''init=/bin/sh'']"
  by (simp_all add: qemu_eval numbers)

text \<open>Whatever the path of the kernel and the command are, each stays one argument.\<close>

lemma TestQemuUnikernelPathIsAlwaysOneArgvElement:
  "\<exists>pre. Qemu_BuildExecCmd arch testQemu (zeroExecArgs\<lparr>Ex_UnikernelPath := path, Ex_MemSizeB := m\<rparr>) fakeUnikernel =
     Inr (pre @ [''-kernel'', path, ''-nic'', ''none'', ''-append'', []]) \<and> ''-fsdev'' \<notin> set pre \<and> ''-device'' \<notin> set pre"
proof -
  have "hd (FormatUint n @ ''M'') \<noteq> CHR ''-''" for n
    using set_FormatUint [of "hd (FormatUint n)" n] isDigit_not_sign by auto
  then have mem: "BytesToStringMB m @ ''M'' \<notin> {''-fsdev'', ''-device''}"
    by (auto simp: BytesToStringMB_def Let_def dest: arg_cong [where f = hd])
  show ?thesis
    by (rule exI [of _ "butlast (butlast (qemu_machine arch testQemu (zeroExecArgs\<lparr>Ex_UnikernelPath := path, Ex_MemSizeB := m\<rparr>)))"])
      (use mem in \<open>auto simp: qemu_eval butlast_append\<close>)
qed

lemma TestQemuGuestCommandIsASingleAppendValue:
  "\<exists>pre. Qemu_BuildExecCmd arch q args uk = Inr (pre @ [''-append'', Ex_Command args])"
  by (simp add: Qemu_BuildExecCmd_def qemu_tail_def)

text \<open>The two tenders.\<close>

lemma TestSolo5BuildExecCmd:
  "HVT_BuildExecCmd ''amd64'' \<lparr>hvt_binaryPath = ''/usr/bin/solo5-hvt'', hvt_binary = HvtBinary\<rparr> (testArgs\<lparr>Ex_Command := []\<rparr>) fakeUnikernel =
     Inr [''/usr/bin/solo5-hvt'', ''--mem=256'', ''--'', ''/rootfs/unikernel.bin'']"
  "SPT_BuildExecCmd ''amd64'' \<lparr>spt_binaryPath = ''/usr/bin/solo5-spt'', spt_binary = SptBinary\<rparr>
       (testArgs\<lparr>Ex_Command := [], Ex_MemSizeB := 512 * 1000 * 1000\<rparr>) fakeUnikernel =
     Inr [''/usr/bin/solo5-spt'', ''--mem=512'', ''--'', ''/rootfs/unikernel.bin'']"
  "solo5_blocks [\<lparr>Mb_ID = ''data0'', Mb_Path = ''/disks/data0.img'', Mb_ExactArgs = []\<rparr>, \<lparr>Mb_ID = ''empty'', Mb_Path = [], Mb_ExactArgs = []\<rparr>] [] =
     [''--block:data0=/disks/data0.img'']"
  by (simp_all add: HVT_BuildExecCmd_eq SPT_BuildExecCmd_eq solo5_options_def testArgs_def zero_defs defaultMemory customMemory fake_answers)

lemma TestSolo5OneElement:
  "\<exists>pre. HVT_BuildExecCmd arch h args fakeUnikernel = Inr (pre @ ''--'' # Ex_UnikernelPath args # (if Ex_Command args \<noteq> [] then [Ex_Command args] else []))"
  "\<exists>pre. SPT_BuildExecCmd arch s args fakeUnikernel = Inr (pre @ ''--'' # Ex_UnikernelPath args # (if Ex_Command args \<noteq> [] then [Ex_Command args] else []))"
  by (auto simp: HVT_BuildExecCmd_eq SPT_BuildExecCmd_eq)

text \<open>Firecracker and Cloud Hypervisor: the control socket.\<close>

lemma TestFirecrackerBuildExecCmdSocket:
  "take 3 (fc_args \<lparr>fc_binaryPath = ''/usr/bin/firecracker'', fc_binary = FirecrackerBinary\<rparr> (testArgs\<lparr>Ex_SocketPath := ''/run/urunc/fc.sock''\<rparr>)) =
     [''/usr/bin/firecracker'', ''--api-sock'', ''/run/urunc/fc.sock'']"
  "take 3 (fc_args \<lparr>fc_binaryPath = ''/usr/bin/firecracker'', fc_binary = FirecrackerBinary\<rparr> testArgs) =
     [''/usr/bin/firecracker'', ''--no-api'', ''--config-file'']"
  "''--config-file'' \<in> set (fc_args fc args)"
  by (simp_all add: fc_args_def Firecracker_Path_def testArgs_def zero_defs)

lemma TestCloudHypervisorBuildExecCmdSocket:
  "take 3 (ch_machine \<lparr>ch_binaryPath = ''/usr/bin/cloud-hypervisor'', ch_binary = CloudHypervisorBinary\<rparr> (testArgs\<lparr>Ex_SocketPath := ''/run/urunc/ch.sock''\<rparr>)) =
     [''/usr/bin/cloud-hypervisor'', ''--api-socket'', ''path=/run/urunc/ch.sock'']"
  "take 2 (ch_machine \<lparr>ch_binaryPath = ''/usr/bin/cloud-hypervisor'', ch_binary = CloudHypervisorBinary\<rparr> testArgs) =
     [''/usr/bin/cloud-hypervisor'', ''--memory'']"
  by (simp_all add: ch_machine_def testArgs_def zero_defs)

text \<open>Hyperlight.\<close>

definition testHyperlight :: Hyperlight where
  "testHyperlight = \<lparr>hl_binaryPath = ''hluk'', hl_binary = HyperlightBinary\<rparr>"

definition hlGuest :: "string \<Rightarrow> string list \<Rightarrow> Unikernel" where
  "hlGuest command env = UUnikraft (newUnikraft\<lparr>Unikraft_Monitor := ''hyperlight-unikraft'', Unikraft_Command := command, Unikraft_Env := env\<rparr>)"

lemma scratch: "bytesToMiB 268435456 = 256" "bytesToMiB 536870912 = 512" "bytesToMiB 1024 = 0" "bytesToMiB 0 = 0"
  "FormatUint 256 = ''256''" "FormatUint 512 = ''512''"
  by code_simp+

lemmas hl_eval = Let_def Hyperlight_BuildExecCmd_def testHyperlight_def hlGuest_def netArgs_def portArgs_def scratch zero_defs fake_answers
  ResolvConfPath_def

abbreviation hlRun :: "ExecArgs \<Rightarrow> Unikernel \<Rightarrow> err + string list" where "hlRun \<equiv> Hyperlight_BuildExecCmd testHyperlight"

lemma TestHyperlightBuildExecCmd_boot:
  "hlRun (zeroExecArgs\<lparr>Ex_UnikernelPath := ''/unikernel/kernel'', Ex_InitrdPath := ''/i.cpio'', Ex_MemSizeB := 1024 * 1024 * 256\<rparr>) fakeUnikernel =
     Inr [''hluk'', ''run'', ''--kernel'', ''/unikernel/kernel'', ''--initrd'', ''/i.cpio'', ''--scratch-mb'', ''256'']"
  "hlRun (zeroExecArgs\<lparr>Ex_InitrdPath := ''/i.cpio''\<rparr>) fakeUnikernel = Inr [''hluk'', ''run'', ''--initrd'', ''/i.cpio'']"
  "hlRun (zeroExecArgs\<lparr>Ex_InitrdPath := ''/i.cpio'', Ex_MemSizeB := 1024\<rparr>) fakeUnikernel = Inr [''hluk'', ''run'', ''--initrd'', ''/i.cpio'']"
  "hlRun (zeroExecArgs\<lparr>Ex_InitrdPath := ''/i.cpio'', Ex_MemSizeB := 1024 * 1024 * 512\<rparr>) (hlGuest ''/entrypoint.py --fast'' []) =
     Inr [''hluk'', ''run'', ''--initrd'', ''/i.cpio'', ''--scratch-mb'', ''512'', ''--guest-exec=/entrypoint.py --fast'']"
  "hlRun (zeroExecArgs\<lparr>Ex_InitrdPath := ''/i.cpio'', Ex_Net := zeroNet\<lparr>Net_IP := ''10.244.1.7''\<rparr>\<rparr>) (hlGuest ''/entrypoint.py'' []) =
     Inr [''hluk'', ''run'', ''--initrd'', ''/i.cpio'', ''--net'', ''--port=all'', ''--guest-exec=/entrypoint.py'']"
  "hlRun (zeroExecArgs\<lparr>Ex_InitrdPath := ''/i.cpio'', Ex_Net := zeroNet\<lparr>Net_IP := ''10.244.1.7''\<rparr>, Ex_Ports := ''8080,9000-9100''\<rparr>) fakeUnikernel =
     Inr [''hluk'', ''run'', ''--initrd'', ''/i.cpio'', ''--net'', ''--port=8080'', ''--port=9000-9100'']"
  "hlRun (zeroExecArgs\<lparr>Ex_InitrdPath := ''/i.cpio'', Ex_ResolvConf := True\<rparr>) fakeUnikernel = Inr [''hluk'', ''run'', ''--initrd'', ''/i.cpio'']"
  "hlRun (zeroExecArgs\<lparr>Ex_UnikernelPath := ''/unikernel/kernel'', Ex_MemSizeB := 1024 * 1024 * 256\<rparr>) fakeUnikernel = Inl ErrHyperlightNoInitrd"
  by (simp_all add: hl_eval)

lemma TestHyperlightBuildExecCmd_snapshot:
  "hlRun (zeroExecArgs\<lparr>Ex_UnikernelPath := ''/k'', Ex_InitrdPath := ''/i.cpio'', Ex_SnapshotPath := ''/s'', Ex_MemSizeB := m\<rparr>) fakeUnikernel =
     Inr [''hluk'', ''snapshot'', ''run'', ''/s'']"
  "hlRun (zeroExecArgs\<lparr>Ex_SnapshotPath := ''/s''\<rparr>) (hlGuest ''/entrypoint.py'' [''FOO=bar'']) =
     Inr [''hluk'', ''snapshot'', ''run'', ''/s'', ''--guest-exec=/entrypoint.py'', ''--env=FOO=bar'']"
  "hlRun (zeroExecArgs\<lparr>Ex_SnapshotPath := ''/s'', Ex_Net := zeroNet\<lparr>Net_IP := ''10.244.1.7''\<rparr>, Ex_ResolvConf := True\<rparr>) fakeUnikernel =
     Inr [''hluk'', ''snapshot'', ''run'', ''/s'', ''--net'', ''--port=all'', ''--resolv-conf=/etc/resolv.conf'']"
  "hlRun (zeroExecArgs\<lparr>Ex_SnapshotPath := ''/s'', Ex_Net := zeroNet\<lparr>Net_IP := ''10.244.1.7''\<rparr>, Ex_Ports := ''8080'', Ex_ResolvConf := True\<rparr>) fakeUnikernel =
     Inr [''hluk'', ''snapshot'', ''run'', ''/s'', ''--net'', ''--port=8080'', ''--resolv-conf=/etc/resolv.conf'']"
  by (simp_all add: hl_eval)

text \<open>What the monitors support, and their signals.\<close>

lemma TestHyperlightUsesTUNTAP: "vmm_UsesTUNTAP v \<longleftrightarrow> (\<forall>h. v \<noteq> VHyperlight h)"
  by (cases v) (simp_all add: Hyperlight_UsesTUNTAP_def Qemu_UsesTUNTAP_def Firecracker_UsesTUNTAP_def CloudHypervisor_UsesTUNTAP_def
      HVT_UsesTUNTAP_def SPT_UsesTUNTAP_def Hedge_UsesTUNTAP_def)

lemma TestSupportsControlSocket:
  "vmm_SupportsControlSocket v \<longleftrightarrow> (case v of VQemu _ \<Rightarrow> True | VFirecracker _ \<Rightarrow> True | VCloudHypervisor _ \<Rightarrow> True | _ \<Rightarrow> False)"
  by (cases v) (simp_all add: Hyperlight_SupportsControlSocket_def Qemu_SupportsControlSocket_def Firecracker_SupportsControlSocket_def
      CloudHypervisor_SupportsControlSocket_def HVT_SupportsControlSocket_def SPT_SupportsControlSocket_def Hedge_SupportsControlSocket_def)

lemma TestBytesToMiB:
  "bytesToMiB (1024 * 1024 - 1) = 0" "bytesToMiB (1024 * 1024) = 1" "bytesToMiB (2 * (1024 * 1024)) = 2"
  "bytesToMiB (1024 * 1024 + 1024 * 512) = 1" "bytesToMiB (1024 * (1024 * 1024)) = 1024"
  "bytesToMB (1000 * 1000 - 1) = 0" "bytesToMB (1000 * 1000) = 1" "bytesToMB (1000 * 1000 + 500 * 1000) = 1" "bytesToMB (1024 * (1000 * 1000)) = 1024"
  by (simp_all add: bytesToMiB_def bytesToMB_def)

lemma TestVMMSignalStopRefuseInvalidPid:
  "pid \<in> {-1, 0} \<Longrightarrow> \<exists>e. vmm_Signal fuel v pid sig \<omega> t = (Inl e, t)" "pid \<in> {-1, 0} \<Longrightarrow> \<exists>e. vmm_Stop fuel v pid \<omega> t = (Inl e, t)"
  by (cases v; auto simp: vmm_signal_defs signalProcess_def killProcess_def  Hedge_Stop_def vmm_stop_defs)+

lemma TestVMMFactory:
  "vmmFactories QemuVmm = Some (b, mk) \<Longrightarrow> mk n p vhost = VQemu \<lparr>qemu_binaryPath = p, qemu_binary = n, qemu_vhost = vhost\<rparr>"
  "vmmFactories SptVmm = Some (b, mk) \<Longrightarrow> mk n p vhost = VSPT \<lparr>spt_binaryPath = p, spt_binary = n\<rparr>"
  by (auto simp: vmmFactories_def vmm_names)

section \<open>Guests\<close>

lemma TestMewzCommandString:
  "Mewz_CommandString newMewz = Inr []"
  "Mewz_CommandString (newMewz\<lparr>Mewz_Net := \<lparr>MewzNet_Address = ''10.0.0.2'', MewzNet_Mask = 24, MewzNet_Gateway = ''10.0.0.1''\<rparr>\<rparr>) =
     Inr ''ip=10.0.0.2/24 gateway=10.0.0.1''"
  by code_simp+

lemma prefix_lengths: "subnetMaskToCIDR ''255.255.255.240'' = Inr 28" "subnetMaskToCIDR ''255.255.255.0'' = Inr 24"
proof -
  have "prefix_mask 28 = ''255.255.255.240''" "prefix_mask 24 = ''255.255.255.0''"
    by (simp_all add: prefix_mask_def mask_octet_def FormatUint.simps digit_char_def char_of_def bit_nat_def)
  then show "subnetMaskToCIDR ''255.255.255.240'' = Inr 28" "subnetMaskToCIDR ''255.255.255.0'' = Inr 24"
    using subnetMaskToCIDR_prefix_mask [of 28] subnetMaskToCIDR_prefix_mask [of 24] by simp_all
qed

lemma prefix_length_digits: "Itoa 28 = ''28''" "Itoa 24 = ''24''"
  by (simp_all add: Itoa_def FormatUint.simps digit_char_def char_of_def bit_nat_def)

lemma TestMirageInitSubnetMask:
  "Mirage_Net (snd (Mirage_Init (zeroParams\<lparr>Uk_Net := zeroNet\<lparr>Net_IP := ''10.0.0.1'', Net_Mask := ''255.255.255.240'', Net_Gateway := ''10.0.0.14''\<rparr>\<rparr>) newMirage)) =
     \<lparr>MirageNet_Address = ''--ipv4=10.0.0.1/28'', MirageNet_Gateway = ''--ipv4-gateway=10.0.0.14''\<rparr>"
  "Mirage_Net (snd (Mirage_Init (zeroParams\<lparr>Uk_Net := zeroNet\<lparr>Net_IP := ''192.168.1.5'', Net_Mask := ''255.255.255.0'', Net_Gateway := ''192.168.1.1''\<rparr>\<rparr>) newMirage)) =
     \<lparr>MirageNet_Address = ''--ipv4=192.168.1.5/24'', MirageNet_Gateway = ''--ipv4-gateway=192.168.1.1''\<rparr>"
  "Mirage_Net (snd (Mirage_Init zeroParams newMirage)) = Mirage_Net newMirage"
  by (simp_all add: Mirage_Init_def Mirage_netOptions_def zero_defs prefix_lengths prefix_length_digits)

lemma TestMirageDevNames:
  "Mirage_MonitorNetCli (snd (Mirage_Init (zeroParams\<lparr>Uk_Monitor := ''hvt'', Uk_NetDevName := ''management''\<rparr>) newMirage)) ''tap0'' ''aa:bb:cc:dd:ee:ff'' =
     [''--net:management=tap0'', ''--net-mac:management=aa:bb:cc:dd:ee:ff'']"
  "Mirage_MonitorNetCli (snd (Mirage_Init (zeroParams\<lparr>Uk_Monitor := ''hvt''\<rparr>) newMirage)) ''tap0'' ''aa:bb:cc:dd:ee:ff'' =
     [''--net:service=tap0'', ''--net-mac:service=aa:bb:cc:dd:ee:ff'']"
  "Mirage_MonitorBlockCli (snd (Mirage_Init (zeroParams\<lparr>Uk_Monitor := ''hvt'', Uk_BlkDevName := ''database'', Uk_Block := [zeroBlock\<lparr>Blk_Source := ''/img''\<rparr>]\<rparr>) newMirage)) =
     [\<lparr>Mb_ID = ''database'', Mb_Path = ''/img'', Mb_ExactArgs = []\<rparr>]"
  "Mirage_MonitorBlockCli (snd (Mirage_Init (zeroParams\<lparr>Uk_Monitor := ''hvt'', Uk_Block := [zeroBlock\<lparr>Blk_Source := ''/img''\<rparr>]\<rparr>) newMirage)) =
     [\<lparr>Mb_ID = ''storage'', Mb_Path = ''/img'', Mb_ExactArgs = []\<rparr>]"
  by code_simp+

lemma TestUnikraftMonitorCli:
  "Unikraft_MonitorCli (newUnikraft\<lparr>Unikraft_Monitor := ''qemu'', Unikraft_Command := ''/app --flag'', Unikraft_Env := [''FOO=bar'']\<rparr>) = zeroCliArgs"
  "Cli_OtherArgs (Unikraft_MonitorCli (newUnikraft\<lparr>Unikraft_Monitor := ''hyperlight-unikraft'', Unikraft_Command := ''--net''\<rparr>)) = [''--guest-exec=--net'']"
  "Unikraft_MonitorCli (newUnikraft\<lparr>Unikraft_Monitor := ''hyperlight-unikraft''\<rparr>) = zeroCliArgs"
  "Cli_OtherArgs (Unikraft_MonitorCli (newUnikraft\<lparr>Unikraft_Monitor := ''hyperlight-unikraft'', Unikraft_Command := ''/entrypoint.py'',
       Unikraft_Env := [''FOO=bar'', ''PATH=/usr/bin:/bin'', ''EMPTY='']\<rparr>)) =
     [''--guest-exec=/entrypoint.py'', ''--env=FOO=bar'', ''--env=PATH=/usr/bin:/bin'', ''--env=EMPTY='']"
  "Cli_OtherArgs (Unikraft_MonitorCli (newUnikraft\<lparr>Unikraft_Monitor := ''hyperlight-unikraft'', Unikraft_Env := [''FOO=bar'']\<rparr>)) = [''--env=FOO=bar'']"
  by (simp_all add: Unikraft_MonitorCli_def newUnikraft_def hyperlightMonitor_def zero_defs)

abbreviation idBlock :: "string \<Rightarrow> BlockDevParams" where "idBlock i \<equiv> zeroBlock\<lparr>Blk_ID := i\<rparr>"

definition urunitBSD :: FreeBSD where
  "urunitBSD = newFreeBSD\<lparr>FreeBSD_WithUrunit := True, FreeBSD_InitPath := ''/urunit'', FreeBSD_BlockFsType := ''ufs'', FreeBSD_Block := [idBlock ''rootfs'']\<rparr>"

lemma count_digits: "Itoa 0 = ''0''" "Itoa 1 = ''1''" "Itoa 2 = ''2''"
  by code_simp+

lemmas bsd_command_eval = FreeBSD_CommandString_def FreeBSD_params_def urunitBSD_def newFreeBSD_def freebsdRootBlock_def p9MountTag_def
  count_digits

lemma TestFreeBSDCommandString:
  "FreeBSD_CommandString urunitBSD = Inr ''vfs.root.mountfrom=ufs:/dev/vtbd0 init_path=/urunit URUNIT_CONFIG=/dev/vtbd1''"
  "FreeBSD_CommandString (urunitBSD\<lparr>FreeBSD_BlockFsType := ''ext2fs'', FreeBSD_Block := [idBlock ''rootfs'', idBlock ''vol0'']\<rparr>) =
     Inr ''vfs.root.mountfrom=ext2fs:/dev/vtbd0 init_path=/urunit URUNIT_CONFIG=/dev/vtbd2''"
  "FreeBSD_CommandString (urunitBSD\<lparr>FreeBSD_RootFsType := ''9pfs'', FreeBSD_Block := []\<rparr>) =
     Inr ''vfs.root.mountfrom=p9fs:fs0 init_path=/urunit URUNIT_CONFIG=/dev/vtbd0''"
  "FreeBSD_CommandString (urunitBSD\<lparr>FreeBSD_RootFsType := ''9pfs'', FreeBSD_Block := [idBlock ''vol0'']\<rparr>) =
     Inr ''vfs.root.mountfrom=p9fs:fs0 init_path=/urunit URUNIT_CONFIG=/dev/vtbd1''"
  "FreeBSD_CommandString (urunitBSD\<lparr>FreeBSD_WithUrunit := False, FreeBSD_InitPath := ''/sbin/init'', FreeBSD_Net := n\<rparr>) =
     Inr ''vfs.root.mountfrom=ufs:/dev/vtbd0 init_path=/sbin/init''"
  by (simp_all add: bsd_command_eval)

lemma TestFreeBSDMonitorBlockCli:
  defines "blocks \<equiv> [zeroBlock\<lparr>Blk_ID := ''rootfs'', Blk_Source := ''/rootfs.ufs'', Blk_MountPoint := ''/''\<rparr>,
      zeroBlock\<lparr>Blk_ID := ''vol0'', Blk_Source := ''/dev/loop3'', Blk_MountPoint := ''/data''\<rparr>]"
  shows "map Mb_ID (FreeBSD_MonitorBlockCli (urunitBSD\<lparr>FreeBSD_Monitor := ''firecracker'', FreeBSD_Block := blocks\<rparr>)) = [''FCrootfs'', ''FCvol0'', ''FC_URUNIT_CONFIG'']"
    and "map Mb_Path (FreeBSD_MonitorBlockCli (urunitBSD\<lparr>FreeBSD_Monitor := ''firecracker'', FreeBSD_Block := blocks\<rparr>)) = [''/rootfs.ufs'', ''/dev/loop3'', urunitConfPath]"
    and "map Mb_ID (FreeBSD_MonitorBlockCli (urunitBSD\<lparr>FreeBSD_Monitor := ''firecracker'', FreeBSD_WithUrunit := False, FreeBSD_Block := blocks\<rparr>)) = [''FCrootfs'', ''FCvol0'']"
    and "length (FreeBSD_MonitorBlockCli (urunitBSD\<lparr>FreeBSD_Monitor := ''firecracker'', FreeBSD_Block := []\<rparr>)) = 1"
    and "map Mb_ExactArgs (FreeBSD_MonitorBlockCli (urunitBSD\<lparr>FreeBSD_Monitor := ''qemu'', FreeBSD_Block := blocks\<rparr>)) =
      [[''-device'', ''virtio-blk-device,serial=rootfs,drive=rootfs'', ''-drive'', ''format=raw,if=none,id=rootfs,file=/rootfs.ufs''],
       [''-device'', ''virtio-blk-device,serial=vol0,drive=vol0'', ''-drive'', ''format=raw,if=none,id=vol0,file=/dev/loop3''],
       [''-device'', ''virtio-blk-device,serial=urunit,drive=urunit'', ''-drive'', ''format=raw,if=none,id=urunit,file=/urunit.conf'']]"
    and "FreeBSD_MonitorBlockCli (urunitBSD\<lparr>FreeBSD_Monitor := ''cloud-hypervisor'', FreeBSD_Block := blocks\<rparr>) = []"
  by (simp_all add: blocks_def FreeBSD_MonitorBlockCli_def urunitBSD_def newFreeBSD_def qemuMMIOBlock_def urunitConfPath_def zero_defs Let_def)

lemma TestFreeBSDMonitorSharedfsCli:
  "FreeBSD_MonitorSharedfsCli (newFreeBSD\<lparr>FreeBSD_Monitor := ''qemu''\<rparr>) ''9pfs'' ''/srv/share'' =
     [''-fsdev'', ''local,id=rootfs9p,security_model=none,multidevs=remap,path=/srv/share'', ''-device'', ''virtio-9p-device,fsdev=rootfs9p,mount_tag=fs0'']"
  "FreeBSD_MonitorSharedfsCli (newFreeBSD\<lparr>FreeBSD_Monitor := ''qemu''\<rparr>) ''virtiofs'' path = []"
  "FreeBSD_MonitorSharedfsCli (newFreeBSD\<lparr>FreeBSD_Monitor := ''firecracker''\<rparr>) ''9pfs'' path = []"
  by (simp_all add: FreeBSD_MonitorSharedfsCli_def p9MountTag_def)

lemma TestFreeBSDMonitorCli:
  "''microvm,acpi=on,pic=on,pit=on,rtc=on'' \<in> set (Cli_OtherArgs (FreeBSD_MonitorCli (newFreeBSD\<lparr>FreeBSD_Monitor := ''qemu''\<rparr>)))"
  "''virtio-net-device,netdev=net0,mac=aa:bb:cc:dd:ee:ff'' \<in> set (FreeBSD_MonitorNetCli (newFreeBSD\<lparr>FreeBSD_Monitor := ''qemu''\<rparr>) ''tap0_urunc'' ''aa:bb:cc:dd:ee:ff'')"
  "FreeBSD_MonitorCli (newFreeBSD\<lparr>FreeBSD_Monitor := ''firecracker''\<rparr>) = zeroCliArgs"
  "FreeBSD_MonitorNetCli (newFreeBSD\<lparr>FreeBSD_Monitor := ''firecracker''\<rparr>) ifName mac = []"
  by (simp_all add: FreeBSD_MonitorCli_def FreeBSD_MonitorNetCli_def)

text \<open>The head of the configuration; that the whole is padded to sectors with newlines is a lemma of \<open>Guest_Urunit\<close>.\<close>

lemma TestFreeBSDBuildUrunitConfig:
  "FreeBSD_configBody (newFreeBSD\<lparr>FreeBSD_Monitor := ''firecracker'', FreeBSD_Command := [''/rescue/sh'', ''-c'', ''echo hello world''],
      FreeBSD_Env := [''PATH=/bin:/sbin'', ''FOO=bar''],
      FreeBSD_Net := \<lparr>FreeBSDNet_Address = ''172.17.0.2'', FreeBSDNet_Gateway = ''172.17.0.1'', FreeBSDNet_Mask = ''255.255.0.0''\<rparr>,
      FreeBSD_Block := [zeroBlock\<lparr>Blk_ID := ''rootfs'', Blk_MountPoint := ''/''\<rparr>, zeroBlock\<lparr>Blk_ID := ''vol0'', Blk_MountPoint := ''/data''\<rparr>],
      FreeBSD_ProcConfig := \<lparr>Proc_UID = 1001, Proc_GID = 1001, Proc_WorkDir = ''/tmp''\<rparr>\<rparr>) =
   concat (map (\<lambda>l. l @ [NL])
     [''UES'', ''PATH=/bin:/sbin'', ''FOO=bar'', ''UEE'', ''UCS'', ''UID:1001'', ''GID:1001'', ''WD:/tmp'', ''ARC:3'', ''ARV:/rescue/sh'', ''ARV:-c'',
      ''ARV:echo hello world'', ''UCE'', ''UBS'', ''ID:FCvol0'', ''MP:/data'', ''UBE'', ''UNS'', ''IP:172.17.0.2'', ''GW:172.17.0.1'', ''MSK:255.255.0.0'',
      ''UNE'', ''PAD''])"
  by code_simp

lemma TestFreeBSDUsesUrunit: "usesUrunit [''/urunit'', ''/bin/sh'']" "usesUrunit [''urunit'']" "\<not> usesUrunit [''/sbin/init'']" "\<not> usesUrunit []"
  by code_simp+

lemma no_urunit: "\<not> usesUrunit [''/bin/sh'']"
  by code_simp

lemma TestFreeBSDInitRootfsType:
  "rootfs \<in> {''initrd'', ''virtiofs'', ''raw'', []} \<Longrightarrow>
     \<exists>e f t'. FreeBSD_Init (zeroParams\<lparr>Uk_CmdLine := [''/bin/sh''], Uk_Rootfs := zeroRootfs\<lparr>Rfs_Type := rootfs\<rparr>\<rparr>) newFreeBSD \<omega> t = (Inr (Some e, f), t')"
  "rootfs \<in> {''block'', ''9pfs''} \<Longrightarrow>
     \<exists>f. FreeBSD_Init (zeroParams\<lparr>Uk_CmdLine := [''/bin/sh''], Uk_Rootfs := zeroRootfs\<lparr>Rfs_Type := rootfs\<rparr>\<rparr>) newFreeBSD \<omega> t = (Inr (None, f), t)"
  by (elim insertE emptyE; simp add: FreeBSD_Init_def FreeBSD_fill_def newFreeBSD_def zero_defs no_urunit retM_def)+

end
