(* ===== verification/Test_Runtime.thy ===== *)
theory Test_Runtime
  imports Samples Annotations_Props Urunc_Config_Props Rootfs_Props Mounts_Props Logging Initrd_Props
begin

text \<open>
  The unit tests of the runtime, replayed on the model: those of the root file systems, mounts, block
  devices, sockets, capabilities, hooks, the life cycle and the configuration file under
  \<open>pkg/unikontainers\<close>, of \<open>pkg/network\<close> and of \<open>internal/metrics\<close>. A lemma is named after the test it
  stands for. Where a test prepares files, the lemma says how the host answers for them.
\<close>

section \<open>\<open>rootfs_test.go\<close>\<close>

lemma TestNewRootfsResult:
  "Rfs_Type (newRootfsResult t p m) = t" "Rfs_Path (newRootfsResult t p m) = p"
  "Rfs_MountedPath (newRootfsResult t p m) = m" "Rfs_MonRootfs (newRootfsResult t p m) = []"
  by (simp_all add: newRootfsResult_def zeroRootfs_def)

definition annotSelector :: "annotations \<Rightarrow> rootfsSelector" where
  "annotSelector annot = \<lparr>rs_bundle = [], rs_cntrRootfs = ''/container/rootfs'', rs_annot = annot,
     rs_unikernel = ULinux newLinux, rs_vmm = VHedge Hedge, rs_vfsdPath = []\<rparr>"

lemma TestRootfsSelector_TryInitrd:
  "\<exists>r. tryInitrd (annotSelector [annotInitrd \<mapsto> ''/path/to/initrd.img'']) = Some r
     \<and> Rfs_Type r = ''initrd'' \<and> Rfs_Path r = ''/path/to/initrd.img''"
  "tryInitrd (annotSelector Map.empty) = None" "tryInitrd (annotSelector [annotInitrd \<mapsto> []]) = None"
  by (simp_all add: tryInitrd_def annotSelector_def get_def newRootfsResult_def zeroRootfs_def)

lemma TestRootfsSelector_ShouldMountContainerRootfs:
  "v \<in> {''true'', ''1''} \<Longrightarrow> shouldMountContainerRootfs (annotSelector [annotMountRootfs \<mapsto> v])"
  "v \<in> {''false'', ''0'', [], ''invalid''} \<Longrightarrow> \<not> shouldMountContainerRootfs (annotSelector [annotMountRootfs \<mapsto> v])"
  "\<not> shouldMountContainerRootfs (annotSelector Map.empty)"
  by ((elim insertE emptyE)?; simp add: shouldMountContainerRootfs_def annotSelector_def get_def ParseBool_def)+

lemma TestMonitorDeviceMode:
  "monitorDeviceMode 432 = 438" "monitorDeviceMode 438 = 438" "monitorDeviceMode 416 = 422"
  "monitorDeviceMode (8192 + 432) = 438"
  by (simp_all add: monitorDeviceMode_def devPermBits_def)

lemma TestNoRootfsGetMounts:
  "map M_Destination (noRootfs_getMounts n) = [ContainerRootfsMountPath, ''/tmp'']"
  "M_Source (hd (noRootfs_getMounts n)) = nr_containerRootfsPath n"
  "''ro'' \<in> set (M_Options (hd (noRootfs_getMounts n))) \<longleftrightarrow> nr_annotBlockPath n = [] \<or> nr_annotBlockMountPoint n = []"
  by (simp_all add: noRootfs_getMounts_def Let_def imageMount_def bindMount_def tmpfsMount_def)

text \<open>A host with the devices of every monitor, whose other devices are decided by \<open>tun\<close>.\<close>

definition deviceHost :: "bool \<Rightarrow> host" where
  "deviceHost tun t c =
     (if c = Fs (Stat ''/dev/net/tun'') \<and> \<not> tun then RErr (Errno ENOENT)
      else RStat \<lparr>st_mode = 8630, st_uid = 0, st_gid = 0, st_major = 1, st_minor = 3, st_size = 0, st_mtime = (0, 0)\<rparr>)"

lemma TestGetMonitorDevicesTUN:
  "\<exists>d. fst (getMonitorDevices False False (deviceHost True) []) = Inr d \<and> map Dev_Path d = [''/dev/null'', ''/dev/urandom'']"
  "\<exists>d. fst (getMonitorDevices False True (deviceHost True) []) = Inr d \<and> map Dev_Path d = [''/dev/null'', ''/dev/urandom'', ''/dev/net/tun'']"
  "\<exists>d. fst (getMonitorDevices False True (deviceHost False) []) = Inr d \<and> map Dev_Path d = [''/dev/null'', ''/dev/urandom'']"
  by (simp_all add: getMonitorDevices_def tunDevice_def deviceFromHost_def deviceHost_def bindM_run tryM_run mapErrM_run
      callStat_run retM_def st_type_def failM_def)

section \<open>\<open>bind_mount_test.go\<close>\<close>

definition mountOf :: "string \<Rightarrow> string \<Rightarrow> string \<Rightarrow> string list \<Rightarrow> OciMount" where
  "mountOf typ source dest options = \<lparr>M_Destination = dest, M_Type = typ, M_Source = source, M_Options = options\<rparr>"

lemma TestIsBindMount:
  "isBindMount (mountOf ''bind'' s d [''rbind'', ''ro''])" "isBindMount (mountOf ''none'' s d [''rbind'', ''rprivate'', ''rw''])"
  "isBindMount (mountOf [] s d [''bind''])"
  "\<not> isBindMount (mountOf ''bind'' s d [])" "\<not> isBindMount (mountOf ''rbind'' s d [''rw''])"
  "\<not> isBindMount (mountOf ''tmpfs'' s d [''nosuid''])" "\<not> isBindMount (mountOf ''proc'' s d [])"
  by (simp_all add: isBindMount_def mountOf_def)

text \<open>A host whose \<open>/proc\<close> and \<open>/sys\<close> are kernel file systems and that does not have \<open>/vol/missing\<close>.\<close>

definition volumeHost :: host where
  "volumeHost t c =
     (case c of
        Fs (Statfs p) \<Rightarrow>
          (if p = ''/vol/missing'' then RErr (Errno ENOENT)
           else RStatfs 0 (if HasPrefix p ''/sys'' then 0x62656572 else if HasPrefix p ''/proc'' then 0x9fa0 else 0xef53))
      | Fs (SecureJoin a b) \<Rightarrow> RStr (a @ b)
      | _ \<Rightarrow> ROk)"

lemmas volume_eval = isHostKernelFS_def mapErrM_run callStatfs_run volumeHost_def bindM_run retM_def failM_def
  isBindMount_def mountOf_def kernelFSMagics_def HasPrefix_def

lemma TestOnlyBindMounts:
  "fst (onlyBindMounts [
     mountOf ''bind'' ''/vol'' ''/data'' [''rbind''], mountOf ''none'' ''/vol/file'' ''/etc/file'' [''bind'', ''ro''],
     mountOf ''tmpfs'' ''tmpfs'' ''/tmp'' [], mountOf ''sysfs'' ''sysfs'' ''/sys'' [],
     mountOf ''none'' ''/sys'' ''/sys'' [''rbind'', ''nosuid'', ''noexec'', ''nodev'', ''ro''],
     mountOf ''bind'' ''/proc'' ''/host/proc'' [''rbind''], mountOf ''bind'' ''/proc/cpuinfo'' ''/cpuinfo'' [''bind'']]
     volumeHost []) =
   Inr [mountOf ''bind'' ''/vol'' ''/data'' [''rbind''], mountOf ''none'' ''/vol/file'' ''/etc/file'' [''bind'', ''ro'']]"
  "\<exists>e. fst (onlyBindMounts [mountOf ''bind'' ''/vol/missing'' ''/missing'' [''rbind'']] volumeHost []) = Inl e"
  by (simp_all add: volume_eval)

lemma TestOnlyBindMounts_rejects:
  "typ \<in> {''bind'', ''rbind''} \<Longrightarrow> fst (onlyBindMounts [mountOf typ ''/vol'' ''/data'' [''rw'']] \<omega> t) =
     Inl (Errorf ''mount of %s to %s has type %q but no bind or rbind option'' [''/vol'', ''/data'', typ])"
  by (elim insertE emptyE; simp add: isBindMount_def mountOf_def failM_def)+

lemma TestNewRootfsBuilderSelectsBindMounts:
  "typ \<in> {''block'', ''initrd'', ''virtiofs'', ''9pfs''} \<Longrightarrow>
   \<exists>e. fst (newRootfsBuilder (sample_spec\<lparr>S_Mounts := [mountOf ''bind'' ''/vol'' ''/data'' []]\<rparr>) Map.empty defaultUruncConfig
        [] (zeroRootfs\<lparr>Rfs_Type := typ\<rparr>) g [] [] 0 \<omega> t) = Inl e"
  "fst (newRootfsBuilder (sample_spec\<lparr>S_Mounts := [mountOf ''bind'' ''/vol'' ''/data'' []]\<rparr>) Map.empty defaultUruncConfig
        [] zeroRootfs g [] [] 0 \<omega> t) =
     Inr (BNone \<lparr>nr_containerRootfsPath = [], nr_annotBlockPath = [], nr_annotBlockMountPoint = []\<rparr>)"
  by ((elim insertE emptyE)?; simp add: newRootfsBuilder_def zeroRootfs_def isBindMount_def mountOf_def failM_def bindM_run
      retM_def get_def)+

definition initrdMounts :: "OciMount list" where
  "initrdMounts = [mountOf ''bind'' ''/vol'' ''/data'' [''rbind''], mountOf ''tmpfs'' ''tmpfs'' ''/tmp'' [],
     mountOf ''none'' ''/sys'' ''/sys'' [''rbind'', ''ro'']]"

lemma TestNewRootfsBuilderPassesGuestTypeToInitrd:
  "\<exists>i. fst (newRootfsBuilder (sample_spec\<lparr>S_Mounts := initrdMounts\<rparr>) [annotType \<mapsto> UnikraftUnikernel] defaultUruncConfig
        [] (zeroRootfs\<lparr>Rfs_Type := ''initrd''\<rparr>) g [] [] 0 volumeHost []) = Inr (BInitrd i)
     \<and> ir_guestType i = UnikraftUnikernel \<and> ir_mounts i = [mountOf ''bind'' ''/vol'' ''/data'' [''rbind'']]"
  by (simp add: newRootfsBuilder_def zeroRootfs_def initrdMounts_def get_def volume_eval)

text \<open>A host with a regular file, a pipe, the null device and a directory.\<close>

definition kindOf :: "string \<Rightarrow> nat" where
  "kindOf p = (if p = ''/src/fifo'' then 4096 else if p = ''/dev/null'' then 8192 else if p = ''/src'' then 16384 else 32768)"

definition copyHost :: host where
  "copyHost t c =
     (case c of
        Fs (Stat p) \<Rightarrow> RStat \<lparr>st_mode = kindOf p + 384, st_uid = 0, st_gid = 0, st_major = 0, st_minor = 0, st_size = 4,
                          st_mtime = (0, 0)\<rparr>
      | Fs (SecureJoin a b) \<Rightarrow> RStr (a @ b)
      | _ \<Rightarrow> ROk)"

lemma TestCopyMountfilesSkipsSpecialFiles_fileFromHost:
  "p \<in> {''/src/fifo'', ''/dev/null'', ''/src''} \<Longrightarrow> fst (fileFromHost ''/target'' p d copyHost t) = Inl ErrNotRegularFile"
  by (elim insertE emptyE; simp add: fileFromHost_def bindM_run callStat_run copyHost_def kindOf_def st_type_def failM_def)+

section \<open>\<open>block_test.go\<close>\<close>

lemma TestGetBlockDevice:
  "findMountInfo [\<lparr>mi_Mountpoint = ''/proc'', mi_Source = ''proc'', mi_FSType = ''proc'', mi_Options = o'\<rparr>] ''/proc'' =
     Inr (zeroBlock\<lparr>Blk_Source := ''proc'', Blk_MountPoint := ''/proc'', Blk_FsType := ''proc'', Blk_MountOptions := o'\<rparr>)"
  by (simp add: findMountInfo_def mountInfoStep_def blockOf_def zeroBlock_def)

section \<open>\<open>ipc_test.go\<close>\<close>

lemma TestGetSockAddr:
  "getSockAddr ''/tmp'' ''test.sock'' = ''/tmp/test.sock''" "getUruncSockAddr ''/tmp/container'' = ''/tmp/container/urunc.sock''"
  by code_simp+

lemma TestEnsureValidSockAddr:
  "ensureValidSockAddr ''/tmp/valid.sock'' = Inr ()" "\<exists>e. ensureValidSockAddr [] = Inl e"
  "length s = 109 \<Longrightarrow> \<exists>e. ensureValidSockAddr s = Inl e"
  by (auto simp: ensureValidSockAddr_def)

lemma TestSockAddrExists:
  "\<omega> t (Fs (Stat a)) = RStat i \<Longrightarrow> fst (SockAddrExists a \<omega> t) = Inr True"
  "\<omega> t (Fs (Stat a)) = RErr (Errno ENOENT) \<Longrightarrow> fst (SockAddrExists a \<omega> t) = Inr False"
  by (simp_all add: SockAddrExists_def bindM_run tryM_run callStat_run retM_def)

section \<open>\<open>unikontainers_test.go\<close>\<close>

text \<open>
  The package behind \<open>SecureJoin\<close> is outside: the host gives what it documents, the path cleaned as if
  its root were the root of the image.
\<close>

definition imageHost :: host where
  "imageHost t c =
     (case c of
        Fs (SecureJoin root p) \<Rightarrow> RStr (let q = Clean (''/'' @ p) in if q = ''/'' then root else root @ q)
      | _ \<Rightarrow> ROk)"

lemma image_paths:
  "Clean ''//rootfs.ext2'' = ''/rootfs.ext2''" "Clean ''//data/vol.ext2'' = ''/data/vol.ext2''"
  "Clean ''/../../etc/shadow'' = ''/etc/shadow''" "Clean ''//unikernel/kernel'' = ''/unikernel/kernel''"
  "Clean ''/unikernel/kernel'' = ''/unikernel/kernel''" "Clean ''//../../etc/passwd'' = ''/etc/passwd''" "Clean ''//'' = ''/''"
  "Clean ''//img,readonly=on'' = ''/img,readonly=on''" "Clean ''//img=evil'' = ''/img=evil''" "Clean ''//foo bar'' = ''/foo bar''"
  by code_simp+

lemma image_chars:
  "allowedPathRe ''/cntrRootfs/rootfs.ext2''" "allowedPathRe ''/cntrRootfs/data/vol.ext2''" "allowedPathRe ''/cntrRootfs/etc/shadow''"
  "allowedPathRe ''/cntrRootfs/unikernel/kernel''" "allowedPathRe ''/cntrRootfs/etc/passwd''" "allowedPathRe ''/cntrRootfs''"
  "\<not> allowedPathRe ''/cntrRootfs/img,readonly=on''" "\<not> allowedPathRe ''/cntrRootfs/img=evil''" "\<not> allowedPathRe ''/cntrRootfs/foo bar''"
  by (simp_all add: path_eval)

lemmas confine_eval = confineToContainerRootfs_def bindM_run callS_run imageHost_def ContainerRootfsMountPath_def
  image_paths image_chars retM_def failM_def

definition sourced :: "bool \<Rightarrow> string \<Rightarrow> BlockDevParams" where
  "sourced explicit source = zeroBlock\<lparr>Blk_Source := source, Blk_IsExplicit := explicit\<rparr>"

lemma TestConfineBlockSources:
  "fst (confineBlockSources [sourced True ''/rootfs.ext2''] imageHost t) = Inr [sourced True ''/cntrRootfs/rootfs.ext2'']"
  "fst (confineBlockSources [sourced False ''/dev/mapper/snap''] \<omega> t) = Inr [sourced False ''/dev/mapper/snap'']"
  "fst (confineBlockSources [sourced False ''/dev/mapper/snap'', sourced False ''/dev/loop3''] \<omega> t) =
     Inr [sourced False ''/dev/mapper/snap'', sourced False ''/dev/loop3'']"
  "fst (confineBlockSources [sourced True ''/data/vol.ext2''] imageHost t) = Inr [sourced True ''/cntrRootfs/data/vol.ext2'']"
  "fst (confineBlockSources [sourced True ''../../etc/shadow''] imageHost t) = Inr [sourced True ''/cntrRootfs/etc/shadow'']"
  "fst (confineBlockSources [] \<omega> t) = Inr []"
  by (simp_all add: sourced_def zeroBlock_def confine_eval)

lemma TestConfineToContainerRootfs:
  "fst (confineToContainerRootfs [] imageHost t) = Inr []"
  "fst (confineToContainerRootfs ''/unikernel/kernel'' imageHost t) = Inr ''/cntrRootfs/unikernel/kernel''"
  "fst (confineToContainerRootfs ''unikernel/kernel'' imageHost t) = Inr ''/cntrRootfs/unikernel/kernel''"
  "fst (confineToContainerRootfs ''/../../etc/passwd'' imageHost t) = Inr ''/cntrRootfs/etc/passwd''"
  "fst (confineToContainerRootfs ''/'' imageHost t) = Inr ''/cntrRootfs''"
  "p \<in> {''/img,readonly=on'', ''/img=evil'', ''/foo bar''} \<Longrightarrow> \<exists>e. fst (confineToContainerRootfs p imageHost t) = Inl e"
  by ((elim insertE emptyE)?; simp add: confine_eval)+

lemma TestGuestMemory:
  "monitorMemoryBytes (guestDefaultMemoryMB vmm 256) (Some 1610612736) = 1610612736"
  "monitorMemoryBytes (guestDefaultMemoryMB QemuVmm 256) None = 268435456"
  "monitorMemoryBytes (guestDefaultMemoryMB HyperlightVmm 256) None = 0"
  by (simp_all add: monitorMemoryBytes_def guestDefaultMemoryMB_def vmm_names)

text \<open>Hooks in order up to the first that fails; here each is known by its path.\<close>

definition hookOf :: "string \<Rightarrow> OciHook" where
  "hookOf p = \<lparr>Hk_Path = p, Hk_Args = [], Hk_Env = [], Hk_Timeout = None\<rparr>"

definition hookHost :: host where
  "hookHost t c =
     (case c of Proc (RunHook p as env st timeout) \<Rightarrow> RRun [] [] (if p = ''exit'' then Some badReply else None) False | _ \<Rightarrow> ROk)"

definition hooksContainer :: Unikontainer where
  "hooksContainer = sample_container\<lparr>U_Spec := sample_spec\<lparr>S_Hooks :=
     Some \<lparr>Hs_CreateRuntime = map hookOf [''1'', ''2'', ''exit'', ''3''], Hs_CreateContainer = [], Hs_StartContainer = [],
       Hs_Poststart = [], Hs_Poststop = []\<rparr>\<rparr>\<rparr>"

lemma TestExecuteHooksSequential:
  "\<exists>e. ExecuteHooks sample_deps hooksContainer ''CreateRuntime'' hookHost [] =
     (Inl e, [Proc (RunHook ''1'' [] [] ''s'' None), Proc (RunHook ''2'' [] [] ''s'' None), Proc (RunHook ''exit'' [] [] ''s'' None)])"
  by (simp add: ExecuteHooks_def hooksContainer_def hookOf_def sample_container_def sample_deps_def getHooksByName_def
      executeHook_def bindM_run mapErrM_run callRun_run hookHost_def retM_def failM_def liftM_def)

lemma resolv_path: "Clean ''/etc/resolv.conf/'' = ''/etc/resolv.conf''"
  by code_simp

definition resolvMount :: OciMount where
  "resolvMount = mountOf ''bind'' ''/run/engine/resolv.conf'' ''/etc/resolv.conf/'' [''rbind'', ''rprivate'']"

lemma TestMonitorResolvConfMount:
  "\<not> vmm_UsesTUNTAP v \<Longrightarrow> monitorResolvConfMount v [resolvMount] =
     Some (mountOf ''bind'' ''/run/engine/resolv.conf'' ResolvConfPath [''rbind'', ''rprivate'', ''ro''])"
  "monitorResolvConfMount v [] = None"
  "monitorResolvConfMount (VQemu q) [resolvMount] = None"
  by (simp_all add: monitorResolvConfMount_def resolvConfMount_def resolvMount_def mountOf_def resolv_path ResolvConfPath_def
      Qemu_UsesTUNTAP_def)

section \<open>\<open>libcontainer_test.go\<close>\<close>

definition testCaps :: OciCaps where
  "testCaps = \<lparr>Cap_Bounding = [''CAP_CHOWN'', ''CAP_KILL''], Cap_Effective = [''CAP_CHOWN''],
     Cap_Permitted = [''CAP_CHOWN'', ''CAP_KILL''], Cap_Inheritable = [''CAP_CHOWN''], Cap_Ambient = [''CAP_CHOWN'']\<rparr>"

definition withCaps :: "OciCaps option \<Rightarrow> OciSpec" where
  "withCaps caps = sample_spec\<lparr>S_Process := (S_Process sample_spec)\<lparr>P_Capabilities := caps\<rparr>\<rparr>"

lemma TestMonitorCapabilities:
  "monitorCapabilities (withCaps (Some testCaps)) True =
     Some \<lparr>Cap_Bounding = [''CAP_CHOWN'', ''CAP_KILL'', ''CAP_NET_ADMIN''], Cap_Effective = [''CAP_CHOWN'', ''CAP_NET_ADMIN''],
       Cap_Permitted = [''CAP_CHOWN'', ''CAP_KILL'', ''CAP_NET_ADMIN''], Cap_Inheritable = [''CAP_CHOWN'', ''CAP_NET_ADMIN''],
       Cap_Ambient = [''CAP_CHOWN'', ''CAP_NET_ADMIN'']\<rparr>"
  "\<exists>c. monitorCapabilities (withCaps (Some (testCaps\<lparr>Cap_Bounding := monCaps\<rparr>))) True = Some c \<and> Cap_Bounding c = monCaps"
  "monitorCapabilities (withCaps None) True = None"
  "monitorCapabilities (withCaps (Some testCaps)) False = Some testCaps"
  by (simp_all add: monitorCapabilities_def specCapabilities_def withCaps_def addCap_def withCap_def monCaps_def testCaps_def)

text \<open>What the package makes of the specification is its own: here it keeps the root as the rest.\<close>

definition testConfig :: "OciSpec \<Rightarrow> lib_config" where
  "testConfig spec = \<lparr>lc_Seccomp = True, lc_DeviceRules = [],
     lc_Hooks = [''prestart'', ''createRuntime'', ''createContainer'', ''startContainer'', ''poststart'', ''poststop''],
     lc_Other = S_RootPath spec\<rparr>"

lemma TestBuildContainerConfig:
  "\<exists>c. fst (BuildContainerConfig (sample_deps\<lparr>dp_specconv := (\<lambda>_ _ spec. Inr (testConfig spec))\<rparr>) sample_spec i b False sample_host t) = Inr c
     \<and> lc_Other c = ''/b/m'' \<and> \<not> lc_Seccomp c \<and> lc_DeviceRules c = [(CHR ''a'', True)]
     \<and> lc_Hooks c = [''prestart'', ''createRuntime'', ''createContainer'', ''startContainer'']"
  by (simp add: BuildContainerConfig_def loadMonitorResources_def bindM_run tryM_run mapErrM_run callS_run sample_host_def
      sample_deps_def testConfig_def monitorOCISpec_def sample_res_def zeroResources_def retM_def liftM_def)

lemma TestBuildContainerConfig_mounts:
  "S_Mounts (monitorOCISpec spec (r\<lparr>Mr_Mounts := ms\<rparr>) p) = ms" "P_Cwd (S_Process (monitorOCISpec spec r p)) = ''/''"
  "\<not> S_RootReadonly (monitorOCISpec spec r p)"
  by (simp_all add: monitorOCISpec_def)

section \<open>\<open>monitor_spec_test.go\<close>\<close>

lemma TestMonitorSpecFile_missing:
  "\<omega> t (Fs (ReadFile (filepath_Join [dir, ''.monitor_spec.json'']))) = RErr (Errno ENOENT) \<Longrightarrow>
     \<exists>e. fst (LoadMonitorSpec D dir \<omega> t) = Inl e \<and> is_ErrNotExist e"
  by (simp add: LoadMonitorSpec_def monitorSpecFilename_def bindM_run callS_run is_ErrNotExist_def)

text \<open>A codec that keeps what it encodes shows what was written: here only the parts the test looks at.\<close>

definition shownSpec :: "monitorSpec \<Rightarrow> string" where
  "shownSpec ms = Ms_ContainerID ms @ '' '' @ Ms_UnikernelType ms @ '' '' @ Ms_MonitorType ms @ '' '' @ Ms_NetworkType ms @ '' ''
     @ Rfs_MonRootfs (Uk_Rootfs (Ms_GuestParams ms)) @ concat (Ex_Environment (Ms_ExecArgs ms))"

definition secretHost :: host where
  "secretHost t c = (case c of Proc Environ \<Rightarrow> RStrs [''URUNC_TEST_SECRET=do-not-write-me''] | _ \<Rightarrow> sample_host t c)"

lemma TestWriteMonitorSpec:
  "\<exists>r. writeMonitorSpec (sample_deps\<lparr>dp_encMon := (\<lambda>ms. Inr (shownSpec ms))\<rparr>) sample_container
       (zeroRootfs\<lparr>Rfs_MonRootfs := ''/m''\<rparr>) zeroResources secretHost [] =
     (Inr (), r @ [Fs (WriteFile ''/m/.monitor_spec.json'' ''c1 mirage spt dynamic /'' 384)])"
  by (simp add: writeMonitorSpec_def buildMonitorSpec_def os_Environ_def bindM_run tryM_run mapErrM_run callS_run callU_run
      callStrs_run secretHost_def sample_host_def sample_deps_def shownSpec_def sample_container_def sample_state_def
      annot_of_def get_def sample_annot_def annot_names monitorExecArgs_def Let_def resolvConfMount_def zeroResources_def
      getDNSServer_def sample_spec_def monitorGuestParams_def getNetworkType_def monitorSpecFilename_def retM_def liftM_def
      zeroExecArgs_def zeroParams_def criUserCntr_def)

section \<open>\<open>lifecycle_test.go\<close>\<close>

definition withoutMonitor :: "int \<Rightarrow> string option \<Rightarrow> Unikontainer" where
  "withoutMonitor pid ns = \<lparr>U_State = sample_state\<lparr>St_Pid := pid, St_Annotations := [annotHypervisor \<mapsto> ''qemu'']\<rparr>,
     U_Spec = sample_spec\<lparr>S_Linux := Some \<lparr>L_Namespaces = (case ns of None \<Rightarrow> [] | Some p \<Rightarrow> [\<lparr>Ns_Type = ''network'', Ns_Path = p\<rparr>]),
       L_RootfsPropagation = [], L_MemoryLimit = None, L_Seccomp = False, L_Devices = []\<rparr>\<rparr>,
     U_BaseDir = ''/r/c1'', U_RootDir = ''/r'', U_Cfg = defaultUruncConfig\<rparr>"

lemma TestSignalWithoutMonitorPid: "pid \<in> {-1, 0} \<Longrightarrow> Signal D (withoutMonitor pid ns) sig \<omega> t = (Inr (), t)"
  by (auto simp: Signal_def withoutMonitor_def retM_def)

lemma TestKillWithoutMonitorPid: "pid \<in> {-1, 0} \<Longrightarrow> Kill_container D (withoutMonitor pid ns) \<omega> t = (Inr (), t)"
  by (auto simp: Kill_container_def withoutMonitor_def retM_def)

lemma without_hypervisor: "annot_of (withoutMonitor pid ns) annotHypervisor = ''qemu''"
  by (simp add: annot_of_def withoutMonitor_def get_def)

lemma TestIsRunningWithoutMonitorPid: "pid \<in> {-1, 0} \<Longrightarrow> isRunning D (withoutMonitor pid ns) \<omega> t = (Inr False, t)"
  unfolding isRunning_def without_hypervisor by (auto simp: vmm_names withoutMonitor_def retM_def)

text \<open>A host on which the namespace is there or not, and which has no resources of the monitor.\<close>

definition deleteHost :: "bool \<Rightarrow> host" where
  "deleteHost there t c =
     (case c of
        Fs (Lstat p) \<Rightarrow> if there then RStat \<lparr>st_mode = 33152, st_uid = 0, st_gid = 0, st_major = 0, st_minor = 0, st_size = 0,
                          st_mtime = (0, 0)\<rparr> else RErr (Errno ENOENT)
      | Fs (ReadFile p) \<Rightarrow> RErr (Errno ENOENT)
      | _ \<Rightarrow> ROk)"

lemmas delete_eval = Delete_def bindM_run TestIsRunningWithoutMonitorPid isLibcontainer_def linux_of_def cleanupNetwork_def
  checkValidNsPath_def tryM_run callStat_run callS_run callU_run mapErrM_run loadMonitorResources_def deleteHost_def
  restoreBlockVolumes_def retM_def failM_def

lemma without_fields:
  "\<not> Rt_Libcontainer (Cfg_Runtime (U_Cfg (withoutMonitor pid ns)))" "U_BaseDir (withoutMonitor pid ns) = ''/r/c1''"
  "L_Namespaces (the (S_Linux (U_Spec (withoutMonitor pid ns)))) = (case ns of None \<Rightarrow> [] | Some p \<Rightarrow> [\<lparr>Ns_Type = ''network'', Ns_Path = p\<rparr>])"
  by (simp_all add: withoutMonitor_def defaultUruncConfig_def defaultRuntimeConfig_def)

lemma TestDeleteWithoutMonitorPid:
  "pid \<in> {-1, 0} \<Longrightarrow> \<exists>r. Delete D (withoutMonitor pid None) False (deleteHost there) t = (Inr (), r @ [Fs (RemoveAll ''/r/c1'')])"
  by (simp add: delete_eval without_fields zeroResources_def Let_def)

lemma TestDeleteWithoutSandboxNetNs:
  "\<exists>r. Delete D (withoutMonitor (-1) (Some ''/gone'')) False (deleteHost False) t = (Inr (), r @ [Fs (RemoveAll ''/r/c1'')])"
  by (simp add: delete_eval without_fields zeroResources_def Let_def)

lemma TestDeleteKeepsStateWhenNetworkCleanupFails:
  "\<exists>e r. Delete D (withoutMonitor (-1) (Some ''/net,ns'')) False (deleteHost True) [] = (Inl e, r) \<and> Fs (RemoveAll ''/r/c1'') \<notin> set r"
  "\<exists>r. Delete D (withoutMonitor (-1) (Some ''/net,ns'')) True (deleteHost True) [] = (Inr (), r @ [Fs (RemoveAll ''/r/c1'')])"
  by (simp_all add: delete_eval without_fields zeroResources_def Let_def)

section \<open>\<open>urunc_config_test.go\<close>\<close>

lemma TestDefaultConfigs:
  "defaultLogConfig = \<lparr>Log_Level = ''info'', Log_Syslog = False\<rparr>"
  "defaultTimestampsConfig = \<lparr>Ts_Enabled = False, Ts_Destination = ''/var/log/urunc/timestamps.log''\<rparr>"
  "dom defaultMonitorsConfig = {''qemu'', ''hvt'', ''spt'', ''firecracker'', ''cloud-hypervisor'', ''hyperlight-unikraft''}"
  "defaultMonitorsConfig hv = Some c \<Longrightarrow> Mon_DefaultMemoryMB c = 256 \<and> Mon_DefaultVCPUs c = 1 \<and> Mon_BinaryPath c = [] \<and> \<not> Mon_Vhost c"
  "dom defaultExtraBinConfig = {''virtiofsd''}"
  "Cfg_Runtime defaultUruncConfig = \<lparr>Rt_Libcontainer = False, Rt_VAccel = False\<rparr>"
  "defaultLogMetricsConfig = \<lparr>Lm_Log = defaultLogConfig, Lm_Timestamps = defaultTimestampsConfig\<rparr>"
proof -
  show "dom defaultMonitorsConfig = {''qemu'', ''hvt'', ''spt'', ''firecracker'', ''cloud-hypervisor'', ''hyperlight-unikraft''}"
    by (simp only: defaultMonitorsConfig_def dom_map_of_conv_image_fst) auto
  show "defaultMonitorsConfig hv = Some c \<Longrightarrow> Mon_DefaultMemoryMB c = 256 \<and> Mon_DefaultVCPUs c = 1 \<and> Mon_BinaryPath c = [] \<and> \<not> Mon_Vhost c"
    by (drule defaultMonitors_cases)
      (simp add: defaultMonitor_def zeroMonitorConfig_def defaultMonitorMemoryMB_def defaultMonitorVCPUs_def)
qed (simp_all add: defaultLogConfig_def defaultTimestampsConfig_def defaultExtraBinConfig_def defaultUruncConfig_def
    defaultRuntimeConfig_def defaultLogMetricsConfig_def)

lemma TestResolveUruncConfigPath:
  "getenv UruncConfigFileEnv = [] \<Longrightarrow> ResolveUruncConfigPath getenv = ''/etc/urunc/config.toml''"
  "getenv UruncConfigFileEnv = ''/var/etc/urunc/config.toml'' \<Longrightarrow> ResolveUruncConfigPath getenv = ''/var/etc/urunc/config.toml''"
  by (simp_all add: ResolveUruncConfigPath_def UruncConfigPath_def)

lemma test_numbers:
  "Atoi ''512'' = Some 512" "Atoi ''2'' = Some 2" "Atoi ''128'' = Some 128" "Atoi ''1024'' = Some 1024" "Atoi ''-5'' = Some (-5)"
  "Atoi ''2048'' = Some 2048" "Atoi ''4'' = Some 4" "Atoi ''invalid'' = None" "Atoi ''invalid_number'' = None"
  by code_simp+

text \<open>One key of the map after the other, in the order of the test.\<close>

definition testMonitors :: "(string \<times> string) list \<Rightarrow> monitors" where
  "testMonitors kvs = Cfg_Monitors (UruncConfigFromMap (map fst kvs) (map fst kvs) (map_of kvs))"

definition testBins :: "(string \<times> string) list \<Rightarrow> string \<Rightarrow> ExtraBinConfig option" where
  "testBins kvs = Cfg_ExtraBins (UruncConfigFromMap (map fst kvs) (map fst kvs) (map_of kvs))"

lemma TestUruncConfigFromMap_empty:
  "testMonitors [] = defaultMonitorsConfig" "testBins [] = defaultExtraBinConfig"
  by (simp_all add: testMonitors_def testBins_def UruncConfigFromMap_def)

definition qemuKeys :: "(string \<times> string) list" where
  "qemuKeys = [(''urunc_config.monitors.qemu.default_memory_mb'', ''512''), (''urunc_config.monitors.qemu.default_vcpus'', ''2''),
     (''urunc_config.monitors.qemu.binary_path'', ''/usr/bin/qemu''), (''urunc_config.monitors.qemu.data_path'', ''/usr/local/share/qemu''),
     (''urunc_config.monitors.qemu.vhost'', ''true'')]"

lemmas config_eval = testMonitors_def testBins_def UruncConfigFromMap_def monitorStep_def binStep_def keyParts_def monPrefix_def
  binPrefix_def HasPrefix_def setMonitorField_def setBinField_def get_def monitorOf_def binOf_def readUint_def test_numbers
  defaultMonitorsConfig_def defaultMonitor_def zeroMonitorConfig_def defaultMonitorMemoryMB_def defaultMonitorVCPUs_def
  defaultExtraBinConfig_def defaultVirtiofsd_def ParseBool_def

lemma TestUruncConfigFromMap_single:
  "testMonitors qemuKeys ''qemu'' = Some (defaultMonitor\<lparr>Mon_DefaultMemoryMB := 512, Mon_DefaultVCPUs := 2,
     Mon_BinaryPath := ''/usr/bin/qemu'', Mon_DataPath := ''/usr/local/share/qemu'', Mon_Vhost := True\<rparr>)"
  by (simp add: qemuKeys_def config_eval)

lemma TestUruncConfigFromMap_multiple:
  "\<exists>q f. testMonitors [(''urunc_config.monitors.qemu.default_memory_mb'', ''512''), (''urunc_config.monitors.qemu.default_vcpus'', ''2''),
       (''urunc_config.monitors.firecracker.default_memory_mb'', ''128''), (''urunc_config.monitors.firecracker.binary_path'', ''/usr/bin/fc'')]
     = defaultMonitorsConfig(''qemu'' \<mapsto> q, ''firecracker'' \<mapsto> f)
     \<and> q = defaultMonitor\<lparr>Mon_DefaultMemoryMB := 512, Mon_DefaultVCPUs := 2\<rparr>
     \<and> f = defaultMonitor\<lparr>Mon_DefaultMemoryMB := 128, Mon_BinaryPath := ''/usr/bin/fc''\<rparr>"
  by (simp add: config_eval fun_eq_iff)

lemma TestUruncConfigFromMap_partial:
  "testMonitors [(''urunc_config.monitors.hvt.default_memory_mb'', ''1024'')] =
     defaultMonitorsConfig(''hvt'' \<mapsto> defaultMonitor\<lparr>Mon_DefaultMemoryMB := 1024\<rparr>)"
  by (simp add: config_eval)

lemma TestUruncConfigFromMap_invalid:
  "testMonitors [(''urunc_config.monitors.qemu.default_memory_mb'', ''invalid''), (''urunc_config.monitors.qemu.default_vcpus'', ''-5''),
       (''urunc_config.monitors.qemu.field.extra.parts'', ''invalid'')] = defaultMonitorsConfig"
  "testMonitors [(''urunc_config.monitors.qemu.unknown_field'', ''value'')] = defaultMonitorsConfig"
  "testMonitors [(''invalid.key.format'', ''ignored''), (''urunc_config.monitors'', ''malformed''),
       (''urunc_config.monitors.hvt.default_vcpus'', ''invalid_number'')] = defaultMonitorsConfig"
  "testMonitors [(''urunc_config.monitors.qemu.vhost'', ''false'')] = defaultMonitorsConfig"
  "testMonitors [(''urunc_config.monitors.qemu.vhost'', ''invalid'')] = defaultMonitorsConfig"
  by (simp_all add: config_eval fun_eq_iff)

lemma TestUruncConfigFromMap_custom:
  "testMonitors [(''urunc_config.monitors.custom.default_memory_mb'', ''2048''), (''urunc_config.monitors.custom.default_vcpus'', ''4''),
       (''urunc_config.monitors.custom.binary_path'', ''/custom/hypervisor'')] =
     defaultMonitorsConfig(''custom'' \<mapsto> zeroMonitorConfig\<lparr>Mon_DefaultMemoryMB := 2048, Mon_DefaultVCPUs := 4,
       Mon_BinaryPath := ''/custom/hypervisor''\<rparr>)"
  by (simp add: config_eval)

lemma TestUruncConfigFromMap_extraBinaries:
  "testBins [(''urunc_config.extra_binaries.virtiofsd.path'', ''/usr/bin/qemu''), (''urunc_config.extra_binaries.virtiofsd.options'', ''opt1 opt2''),
       (''urunc_config.extra_binaries.binary.path'', ''/path/to/bin''), (''urunc_config.extra_binaries.binary.options'', ''some opts'')] =
     [''virtiofsd'' \<mapsto> \<lparr>Xb_Path = ''/usr/bin/qemu'', Xb_Options = ''opt1 opt2''\<rparr>, ''binary'' \<mapsto> \<lparr>Xb_Path = ''/path/to/bin'', Xb_Options = ''some opts''\<rparr>]"
  "testBins [(''urunc_config.extra_binaries.virtiofsd.path'', ''/usr/bin/qemu''), (''urunc_config.extra_binaries.virtiofsd.unknown_field'', ''value'')] =
     [''virtiofsd'' \<mapsto> \<lparr>Xb_Path = ''/usr/bin/qemu'', Xb_Options = ''--cache always --sandbox none''\<rparr>]"
  "testBins [(''urunc_config.extra_binaries.custom.path'', ''/custom/binary''), (''urunc_config.extra_binaries.custom.options'', ''opt1 opt2'')] =
     defaultExtraBinConfig(''custom'' \<mapsto> \<lparr>Xb_Path = ''/custom/binary'', Xb_Options = ''opt1 opt2''\<rparr>)"
  by (simp_all add: config_eval)

lemma TestUruncConfigMap:
  "UruncConfig_Map [] [] \<lparr>Cfg_Log = l, Cfg_Timestamps = ts, Cfg_Runtime = defaultRuntimeConfig, Cfg_Monitors = ms, Cfg_ExtraBins = bs\<rparr> =
     [libcontainerKey \<mapsto> ''false'', vaccelKey \<mapsto> ''false'']"
  "mapMonitor ''custom'' (zeroMonitorConfig\<lparr>Mon_DefaultMemoryMB := 2048, Mon_DefaultVCPUs := 4, Mon_BinaryPath := ''/custom/path''\<rparr>) Map.empty =
     [''urunc_config.monitors.custom.default_memory_mb'' \<mapsto> ''2048'', ''urunc_config.monitors.custom.default_vcpus'' \<mapsto> ''4'',
      ''urunc_config.monitors.custom.binary_path'' \<mapsto> ''/custom/path'', ''urunc_config.monitors.custom.data_path'' \<mapsto> [],
      ''urunc_config.monitors.custom.vhost'' \<mapsto> ''false'', ''urunc_config.monitors.custom.socket_path'' \<mapsto> []]"
  "mapBin ''custom'' \<lparr>Xb_Path = ''/custom/path'', Xb_Options = ''some opts''\<rparr> Map.empty =
     [''urunc_config.extra_binaries.custom.path'' \<mapsto> ''/custom/path'', ''urunc_config.extra_binaries.custom.options'' \<mapsto> ''some opts'']"
  by (simp_all add: UruncConfig_Map_def defaultRuntimeConfig_def FormatBool_def mapMonitor_def mapBin_def monPrefix_def binPrefix_def
      Let_def zeroMonitorConfig_def FormatUint.simps digit_char_def char_of_def bit_nat_def)

lemma TestRuntimeLibcontainer:
  "runtimeFromMap Map.empty = defaultRuntimeConfig"
  "runtimeFromMap [libcontainerKey \<mapsto> ''notBool''] = defaultRuntimeConfig"
  "Rt_Libcontainer (runtimeFromMap [libcontainerKey \<mapsto> ''true'', vaccelKey \<mapsto> ''false''])"
  by (simp_all add: runtimeFromMap_def defaultRuntimeConfig_def ParseBool_def libcontainerKey_def vaccelKey_def)

text \<open>The parser is outside: it decodes a file into a configuration that starts as the defaults.\<close>

definition loadMonitor :: "string \<Rightarrow> MonitorConfig \<Rightarrow> UruncConfig \<times> err option" where
  "loadMonitor hv c = LoadUruncConfig (\<lambda>path d. Inr (d\<lparr>Cfg_Monitors := (Cfg_Monitors d)(hv \<mapsto> c)\<rparr>))
     (\<lambda>_. hv # [''qemu'', ''hvt'', ''spt'', ''firecracker'', ''cloud-hypervisor'', ''hyperlight-unikraft'']) ''config.toml''"

lemmas load_eval = loadMonitor_def LoadUruncConfig_def defaultUruncConfig_def fixMonitors_def fixMonitor_def defaultExtraBinConfig_def
  defaultMonitorsConfig_def monitorOf_def defaultMonitor_def zeroMonitorConfig_def defaultMonitorMemoryMB_def defaultMonitorVCPUs_def

lemma TestLoadUruncConfig:
  "Cfg_Monitors (fst (loadMonitor ''qemu'' (zeroMonitorConfig\<lparr>Mon_BinaryPath := ''/opt/urunc/bin/qemu'', Mon_DataPath := ''/opt/urunc''\<rparr>))) ''qemu''
     = Some (defaultMonitor\<lparr>Mon_BinaryPath := ''/opt/urunc/bin/qemu'', Mon_DataPath := ''/opt/urunc''\<rparr>)"
  "Cfg_Monitors (fst (loadMonitor ''qemu'' (zeroMonitorConfig\<lparr>Mon_DefaultMemoryMB := 512, Mon_DefaultVCPUs := 4\<rparr>))) ''qemu''
     = Some (zeroMonitorConfig\<lparr>Mon_DefaultMemoryMB := 512, Mon_DefaultVCPUs := 4\<rparr>)"
  "Cfg_Monitors (fst (loadMonitor ''qemu'' (zeroMonitorConfig\<lparr>Mon_DefaultMemoryMB := 512\<rparr>))) ''hvt'' = Some defaultMonitor"
  "Cfg_Monitors (fst (loadMonitor ''mon'' (zeroMonitorConfig\<lparr>Mon_BinaryPath := ''/usr/bin/mon''\<rparr>))) ''mon''
     = Some (defaultMonitor\<lparr>Mon_BinaryPath := ''/usr/bin/mon''\<rparr>)"
  by (simp_all add: load_eval)

lemma TestLoadUruncConfig_missing:
  "LoadUruncConfig (\<lambda>path d. Inl (Errno ENOENT)) keys path = (defaultUruncConfig, Some (Errno ENOENT))"
  by (simp add: LoadUruncConfig_def)

lemma TestLoadUruncConfig_virtiofsd:
  "Cfg_ExtraBins (fst (LoadUruncConfig (\<lambda>path d. Inr (d\<lparr>Cfg_ExtraBins := [''virtiofsd'' \<mapsto> \<lparr>Xb_Path = ''/opt/v'', Xb_Options = []\<rparr>]\<rparr>)) keys path)) ''virtiofsd''
     = Some (defaultVirtiofsd\<lparr>Xb_Path := ''/opt/v''\<rparr>)"
  by (simp add: LoadUruncConfig_def fixVirtiofsd_def defaultVirtiofsd_def)

section \<open>\<open>initrd_test.go\<close>\<close>

text \<open>The parents of a file that are missing are added from the top down, in the namespace of the archive.\<close>

lemma initrd_paths:
  "Split sep (filepath_Dir ''etc/app/config'') = [''etc'', ''app'']" "Split sep (filepath_Dir ''/etc/app/config'') = [[], ''etc'', ''app'']"
  "filepath_Join [[], ''etc''] = ''etc''" "filepath_Join [''etc'', ''app''] = ''etc/app''"
  by code_simp+

lemma first_inodes:
  "allocate newInodeAllocator = (Inr 1, \<lparr>ia_used = {1}, ia_next = 2\<rparr>)"
  "allocate \<lparr>ia_used = {1}, ia_next = 2\<rparr> = (Inr 2, \<lparr>ia_used = {1, 2}, ia_next = 3\<rparr>)"
  by (subst allocate.simps, auto simp: newInodeAllocator_def maxNewcInode_def)+

lemma TestAddMissingParentsWalksTopDownAndTerminatesAtRoot:
  "p \<in> {''etc/app/config'', ''/etc/app/config''} \<Longrightarrow>
     snd (addMissingParents p ({}, newInodeAllocator) (\<lambda>t c. ROk) []) =
       [Ird (CpioHeader (dirHeader ''./etc'' 1)), Ird (CpioHeader (dirHeader ''./etc/app'' 2))]"
  by (elim insertE emptyE; simp add: addMissingParents_def initrd_paths first_inodes Let_def bindM_run mapErrM_run callU_run retM_def)+

lemma TestMergeFileMountsIntoInitrdWithoutRegularBindMounts:
  assumes "\<omega> t (Fs (Stat ''/dir'')) = RStat i" "st_type i = Directory"
  shows "MergeFileMountsIntoInitrd fuel p [mountOf ''bind'' ''/dir'' ''/directory'' []] \<omega> t = (Inr (), t @ [Fs (Stat ''/dir'')])"
  using assms by (simp add: MergeFileMountsIntoInitrd_def regularFileBindMounts_def mountOf_def bindM_run mapErrM_run callStat_run retM_def)

section \<open>\<open>pkg/network\<close> and \<open>internal/metrics\<close>\<close>

lemma TestNewNetworkManager:
  "NewNetworkManager ''static'' = Inr StaticNetwork" "NewNetworkManager ''dynamic'' = Inr DynamicNetwork"
  "\<exists>e. NewNetworkManager ''invalid'' = Inl e"
  by (simp_all add: NewNetworkManager_def)

lemma TestTimestampSchemaConsistency:
  "map Tm_Order Timestamps = map int [0..<19]" "distinct (map Tm_LegacyID Timestamps)" "length Timestamps = 19"
  by (simp_all add: Timestamps_def TimestampCount_def timestampIDs_def upt_rec)

lemma TestZerologMetricsMetadata:
  "Capture (ZerologMetrics ''container00'') 0 = Some [(''containerID'', FStr ''container00''), (''timestampID'', FStr ''TS00''),
     (''timestampName'', FStr ''CR.invoked''), (''timestampOrder'', FInt 0)]"
  by (simp add: Timestamps_def TimestampCount_def timestampIDs_def timestampNames_def upt_rec)

lemma TestZerologMetricsInvalidFileDoesNotPanic:
  "\<exists>e. NewZerologMetrics (\<lambda>_. Inl (Errno ENOENT)) True ''/does/not/exist/timestamps.log'' ''container-test'' = (MockWriter, Some e)"
  by (simp add: NewZerologMetrics_def)

end
