(* ===== verification/Spec2Isabelle.thy ===== *)
theory Spec2Isabelle
  imports Annotations_Props Urunc_Config_Props Initrd_Props Guests_Props Guest_Urunit Vmm_Props Mounts_Props
    Exec_Props Container_Props Lifecycle_Props Rootfs_Props Nsenter_Props Cli_Props Shim_Props Logging
    Handshake Create_Props Network_Props Volumes_Props Cli_Flags Guest_Devices
    Test_Config Test_Monitors Test_Runtime
begin

text \<open>
  A model of urunc, the OCI runtime that runs a container as a unikernel or small guest behind a
  monitor (QEMU, Firecracker, Cloud Hypervisor, the two Solo5 tenders, Hyperlight), and the theorems
  that make it correct.

  \<^bold>\<open>How the program works.\<close> The shim (\<open>pkg/containerd-shim\<close>) adds the annotations of the image to the
  specification of the bundle and forwards the request to the runtime. \<open>urunc create\<close> (\<open>cmd/urunc\<close>)
  makes a container (\<open>New\<close> of \<open>pkg/unikontainers/unikontainers.go\<close>): it reads the specification, reads
  and validates the unikernel configuration from the annotations or from \<open>urunc.json\<close>
  (\<open>annotations.go\<close>), and stores it with its own configuration (\<open>urunc_config.go\<close>) as annotations of the
  state. \<open>InitialSetup\<close> chooses the guest's root file system (\<open>rootfs.go\<close>), collects the mounts, devices
  and block volumes of the monitor (\<open>block.go\<close>, \<open>shared_fs.go\<close>, \<open>initrd_rootfs.go\<close>, rewriting the initrd
  where file mounts have to go into it) and saves all of it. Then a second process is put into the
  namespaces (\<open>ipc_message.go\<close>, nsenter) and waits; \<open>urunc start\<close> tells it over a socket (\<open>ipc.go\<close>)
  to become the monitor: \<open>Exec\<close> sets up the network (\<open>pkg/network\<close>), the root of the monitor
  (\<open>mount.go\<close>), confines the files to the image, drops to the user, builds the command line of the
  guest (\<open>unikernels\<close>) and of the monitor (\<open>hypervisors\<close>), reports success and executes it. In the
  libcontainer mode runc's library does the confinement, and the process reads what it needs from a
  file (\<open>monitor.go\<close>, \<open>monitor_spec.go\<close>). \<open>kill\<close> and \<open>delete\<close> signal the monitor, take down the network,
  give volumes back and remove what was made.

  \<^bold>\<open>How it is modelled.\<close> A Go string is a list of bytes, an unsigned integer a word of its width, an
  \<open>int\<close> an \<open>int\<close>, a map a partial function, a struct a record, an interface the datatype of its
  implementations, an error a value of \<open>err\<close> in a sum. Everything the program asks of the kernel, the
  file system, the clock or a library that reads them is a \<open>call\<close> (\<open>Host\<close>), and the world is a
  function from the calls made so far and the next call to its reply (\<open>Go_Env\<close>): a program takes a
  world and a history and gives its result and the history behind it. A theorem for every world holds
  for every failure of every call and every change of the world in between. Log lines and time stamps
  are left out of the operations.

  \<^item> \<open>Go_Prelude\<close>, \<open>Go_Strconv\<close>, \<open>Go_Path\<close>, \<open>Go_Net\<close>, \<open>Go_Json\<close>, \<open>Go_Base64\<close>: what the code uses of
    Go's library; \<open>Go_Env\<close>, \<open>Host\<close>: effects, with the predicates \<open>only\<close> (which calls a program can
    make) and \<open>acts\<close> (calls and results in one world); \<open>Call_Order\<close>: steps performed in order
    (\<open>sure\<close>, \<open>guarded\<close>); \<open>Footprint\<close>: the calls of the steps in front of the monitor; \<open>Samples\<close>:
    values for witnesses.
  \<^item> \<open>Urunc_Types\<close>, \<open>Oci_Spec\<close>: \<open>types.go\<close>, the constants, and what is read of the specification.
  \<^item> \<open>Annotations\<close>, \<open>Vaccel_Address\<close>, \<open>Urunc_Config\<close>: the two configurations. Their \<open>Props\<close> show that
    accepted paths are harmless, accepted pairs of guest and monitor exist, ports are ports, and that
    both configurations survive being stored as annotations, in whatever order a map is visited.
  \<^item> \<open>Guest_Utils\<close> to \<open>Guests\<close>: every guest of \<open>unikernels\<close> behind one interface. Round trips of the
    urunit configuration, prefix lengths, arguments by version, the command line of Rumprun as JSON.
  \<^item> \<open>Vmm_Utils\<close> to \<open>Vmms\<close>: every monitor of \<open>hypervisors\<close>. Signals go to the monitor only, a stop that
    succeeds means it is gone, a stop ends; the guest's text stays behind the separator; what a monitor
    makes of the memory limit.
  \<^item> \<open>Initrd\<close>: the rewriting of a cpio archive with its inode allocator. Nothing is truncated that was
    not validated; merged records are fresh.
  \<^item> \<open>Mounts\<close>, \<open>Blocks\<close>, \<open>Rootfs\<close>: mounts of the monitor's root, loop devices and volumes, the choice
    of the guest's root and its builders. Mounts stay below the root; the choice refines a list of
    priorities, the least of a linear order; a device is one that is mounted nowhere else; an unmount is tried ten times. \<open>Volumes_Props\<close>: what is
    taken from the host for a guest is what is put back.
  \<^item> \<open>Runtime_Utils\<close>, \<open>Monitor_Env\<close>, \<open>Network\<close>, \<open>Ipc\<close>, \<open>Nsenter\<close>: the helpers of \<open>utils.go\<close>, the
    environment of the monitor, \<open>pkg/network\<close>, sockets and the ready pipe, and the message for nsenter,
    which reads back to what the specification asks for. \<open>Network_Props\<close>: the cleanup stays in the
    namespace of the container and comes back.
  \<^item> \<open>Monitor_Process\<close>, \<open>Lifecycle\<close>: the process that becomes the monitor, in both modes, and the
    container with \<open>New\<close>, \<open>Get\<close>, \<open>InitialSetup\<close>, \<open>Create\<close>, \<open>Exec\<close>, \<open>Signal\<close>, \<open>Kill\<close>, \<open>Delete\<close>. \<open>Exec_Props\<close>:
    the monitor is executed only behind the change of root and user, and a start is always answered.
    \<open>Container_Props\<close>: a step relation on containers and what holds of all that are reachable.
    \<open>Lifecycle_Props\<close>: delete takes away only what is the container's own, the state last.
  \<^item> \<open>Cli\<close>, \<open>Cli_Flags\<close>: the root directory, the checks of arguments, the commands and their flags, with \<open>Cli_Props\<close> on the state
    directory, the files of the image and the command \<open>run\<close>. \<open>Handshake\<close> puts the three processes together,
    each in a world of its own, tied only by what is delivered on the sockets and the pipe: start records
    a container as running only when its monitor is confined, and the process that becomes the monitor
    waits for both of the others. \<open>Create_Props\<close>: what a failed create takes back. \<open>Guest_Devices\<close>: from
    what files the command line of the monitor is built, for every guest and in both modes.
  \<^item> \<open>Shim\<close>, \<open>Logging\<close>: the task service of the shim, the plugin that makes it, the older interface it is
    served under as well, and its start for old daemons, in a world of their own; time stamps, the set-up of the logger and forwarded log lines.
  \<^item> \<open>Test_Config\<close>, \<open>Test_Monitors\<close>, \<open>Test_Runtime\<close>: the tables of the repository's unit tests replayed on the
    definitions, one lemma for a test and under its name; where a test prepares files, a small host
    answers for them. They show that the definitions compute what the code is tested to compute.

  \<^bold>\<open>Interfaces.\<close> \<open>signaller\<close> (\<open>Vmm_Props\<close>) is the contract of what ends a process, and
  \<open>monitor\<close> extends it to that of a monitor, interpreted on all of them;
  \<open>inode_supply\<close> (\<open>Initrd_Props\<close>) that of an allocator, interpreted on the code's; \<open>machine\<close>
  (\<open>Container_Props\<close>) that of an invariant of the steps, interpreted on the identity of a container and
  on its settings; \<open>watched\<close> (\<open>Exec_Props\<close>) that of a kind of call that the steps in front of the monitor do
  not make, interpreted on the execve, on the report of success and on messages off the script; \<open>channel\<close>
  (\<open>Handshake\<close>) that of a channel between two processes, interpreted on the sockets and on the ready
  pipe; \<open>block_guest\<close> (\<open>Guest_Devices\<close>) that of a guest as far as its block devices go, interpreted on
  each guest and on the interface they are behind.

  \<^bold>\<open>What comes from outside.\<close> One record, \<open>deps\<close> of \<open>Monitor_Process\<close>, holds what is neither a call nor
  under \<open>src/\<close>: the architecture and byte order, the go-version library, the header of a netlink
  message, the machines that the hedge package lists, the JSON and TOML codecs of the structs, the
  enumerations of Go maps, runc's translation of a specification and the table of signals. Where a
  theorem needs them to behave it says so: that a decoder undoes its encoder, that ranging over a map
  visits each key once (\<open>readable\<close>), that \<open>SecureJoin\<close> stays below its root (\<open>confines\<close>).

  \<^bold>\<open>Bounds.\<close> Loops that the code bounds run with its bound (10 unmounts, 50 dials). The walk to a
  parent mount has as much fuel as the path has bytes and one more, which is enough for every absolute
  clean path; waiting for a monitor to die needs 22 polls under a clock that keeps up with the sleeps;
  both are theorems. The walk through the records of an initrd and the chunks of a blob end with the
  input, so their fuel is a parameter, and \<open>OutOfFuel\<close> is no error of the code.

  \<^bold>\<open>Assumptions on the data.\<close> A specification has a root and a process, which the code dereferences; an
  \<open>int\<close> does not overflow where it is parsed within bounds.

  \<^bold>\<open>Not modelled.\<close> How the cli package parses a command line and what it prints; the methods of
  the shim's task service that it leaves to the service of containerd, and the entry points, which only
  hand functions to the containerd libraries; the C code of nsenter, the end-to-end tests, and of the unit tests those that only
  drive the fuzzer, real sockets or an archive on disk. The goroutine that forwards log lines runs
  beside create and shares nothing with it; its result is modelled where create waits for it.
\<close>

end
